(* ===== verification/Prelude.thy ===== *)
theory Prelude
  imports Complex_Main "HOL-Library.Stream" "HOL-Library.Monad_Syntax"
begin

text \<open>
  Shared vocabulary of the Cosmic Miner development: the lemma collections the
  component theories fill, the type of an external source of numbers (the
  outcomes of \<^verbatim>\<open>Math.random()\<close> and the readings of
  \<^verbatim>\<open>performance.now()\<close> arrive as streams that the model consumes from
  the head), and the generic facts on streams, lists, options and real
  arithmetic that several components use.
\<close>

section \<open>Lemma collections\<close>

named_theorems frame
  \<open>an operation leaves a part of the state unchanged\<close>
named_theorems draws
  \<open>how many random draws an operation consumes\<close>
named_theorems total
  \<open>an operation returns a value (no TypeError, no undefined coordinate)\<close>
named_theorems keeps
  \<open>an operation preserves a well-formedness predicate\<close>
named_theorems device
  \<open>an operation leaves the pointer and the canvas as they are\<close>

section \<open>Streams of external readings\<close>

type_synonym rng = "real stream"
type_synonym clock = "real stream"

text \<open>ECMAScript promises that every draw lies in the half-open unit interval.\<close>

definition unit_draws :: "rng \<Rightarrow> bool" where
  "unit_draws g \<longleftrightarrow> (\<forall>n. 0 \<le> g !! n \<and> g !! n < 1)"

lemma unit_draws_shd: "unit_draws g \<Longrightarrow> 0 \<le> shd g \<and> shd g < 1"
  unfolding unit_draws_def by (metis snth.simps(1))

lemma unit_draws_stl [keeps]: "unit_draws g \<Longrightarrow> unit_draws (stl g)"
  unfolding unit_draws_def by (metis snth.simps(2))

lemma unit_draws_sdrop [keeps]: "unit_draws g \<Longrightarrow> unit_draws (sdrop k g)"
  by (simp add: unit_draws_def sdrop_snth)

lemma unit_draws_snth: "unit_draws g \<Longrightarrow> 0 \<le> g !! n \<and> g !! n < 1"
  by (simp add: unit_draws_def)

lemma unit_draws_sconst: "0 \<le> u \<Longrightarrow> u < 1 \<Longrightarrow> unit_draws (sconst u)"
  by (simp add: unit_draws_def)

lemma unit_draws_shift:
  "list_all (\<lambda>u. 0 \<le> u \<and> u < 1) us \<Longrightarrow> unit_draws g \<Longrightarrow> unit_draws (us @- g)"
  by (auto simp: unit_draws_def shift_snth list_all_length)

lemma funpow_ident [simp]: "((\<lambda>a. a) ^^ k) u = u" "(id ^^ k) u = u"
  by (induction k) simp_all

lemma sdrop_sconst [simp]: "sdrop k (sconst u) = sconst u"
  by simp

lemma sdrop_stl_Suc: "sdrop k (stl g) = sdrop (Suc k) g"
  by simp

section \<open>Scaling a unit draw\<close>

lemma scale_unit_lower: "0 \<le> u \<Longrightarrow> a \<le> b \<Longrightarrow> a \<le> u * (b - a) + (a::real)"
  by simp

lemma scale_unit_upper: "u < 1 \<Longrightarrow> a < b \<Longrightarrow> u * (b - a) + a < (b::real)"
proof -
  assume u: "u < 1" and ab: "a < b"
  then have "u * (b - a) < 1 * (b - a)"
    by (intro mult_strict_right_mono) simp_all
  then show ?thesis by simp
qed

lemma floor_scale_unit_range:
  assumes "0 \<le> u" "u < 1"
  shows "0 \<le> \<lfloor>u * real n\<rfloor> \<and> (0 < n \<longrightarrow> \<lfloor>u * real n\<rfloor> < int n)"
proof
  from assms show "0 \<le> \<lfloor>u * real n\<rfloor>" by simp
  show "0 < n \<longrightarrow> \<lfloor>u * real n\<rfloor> < int n"
  proof
    assume "0 < n"
    with assms have "u * real n < 1 * real n"
      by (intro mult_strict_right_mono) simp_all
    then show "\<lfloor>u * real n\<rfloor> < int n"
      by (simp add: floor_less_iff)
  qed
qed

lemma int_below_four: "0 \<le> i \<Longrightarrow> i < 4 \<Longrightarrow> i \<in> {0, 1, 2, 3::int}"
  by auto

lemma floor_scale_four:
  assumes "unit_draws g"
  shows "\<lfloor>shd g * 4\<rfloor> \<in> {0, 1, 2, 3}"
proof -
  from assms have "0 \<le> shd g" "shd g < 1"
    by (simp_all add: unit_draws_shd)
  then show ?thesis
    by (intro int_below_four) (simp_all add: floor_less_iff)
qed

section \<open>Lists\<close>

lemma nth_nat_mem: "0 \<le> i \<Longrightarrow> i < int (length xs) \<Longrightarrow> xs ! nat i \<in> set xs"
  by (simp add: nat_less_iff)

lemma list_all_filter_weaken: "list_all P xs \<Longrightarrow> list_all P (filter Q xs)"
  by (induction xs) auto

lemma list_all_map_iff: "list_all P (map f xs) = list_all (\<lambda>v. P (f v)) xs"
  by (induction xs) auto

lemma list_all_mono_strong:
  "list_all P xs \<Longrightarrow> (\<And>v. v \<in> set xs \<Longrightarrow> P v \<Longrightarrow> Q v) \<Longrightarrow> list_all Q xs"
  by (induction xs) auto

lemma list_all_map_keeps:
  "list_all P xs \<Longrightarrow> (\<And>v. P v \<Longrightarrow> P (f v)) \<Longrightarrow> list_all P (map f xs)"
  by (induction xs) auto

lemma list_all_filter_map_keeps:
  "list_all P xs \<Longrightarrow> (\<And>v. P v \<Longrightarrow> Q (f v) \<Longrightarrow> P (f v)) \<Longrightarrow>
   list_all P (filter Q (map f xs))"
  by (induction xs) auto

lemma sum_list_filter_split:
  "sum_list (map f xs) = sum_list (map f (filter P xs)) + (sum_list (map f (filter (\<lambda>v. \<not> P v) xs)) :: int)"
  by (induction xs) auto

section \<open>Options\<close>

lemma bind_Some_iff: "(m \<bind> f = Some v) = (\<exists>w. m = Some w \<and> f w = Some v)"
  by (rule bind_eq_Some_conv)

lemma bind_is_Some: "m = Some w \<Longrightarrow> f w = Some v \<Longrightarrow> m \<bind> f = Some v"
  by simp

lemma bind_Some_map: "m \<bind> (\<lambda>x. Some (f x)) = map_option f m"
  by (cases m) simp_all

lemma sdrop_2: "sdrop 2 g = stl (stl g)"
  by (simp add: numeral_2_eq_2)

lemma snth_1: "g !! 1 = shd (stl g)"
  by simp

end
