(* ===== verification/Utility.thy ===== *)
theory Utility
  imports Prelude
begin

text \<open>
  The three helpers of \<^verbatim>\<open>src/game.js\<close> lines 74 to 77 (\<^verbatim>\<open>clamp\<close>,
  \<^verbatim>\<open>rand\<close>, \<^verbatim>\<open>choice\<close>) and the built-ins of \<^verbatim>\<open>Math\<close> they and
  the entities call. A function that draws random numbers takes the stream of
  draws and returns the rest of it. \<^verbatim>\<open>choice\<close> returns \<open>None\<close> where
  the JavaScript array access yields \<^verbatim>\<open>undefined\<close>. The last sections
  give the cosine and sine of the angle \<^verbatim>\<open>Math.atan2\<close> returns, for the
  direction of a new asteroid, and polynomial bounds on the cosine and the
  sine, for the bob of a crystal.
\<close>

section \<open>Built-ins\<close>

definition Math_random :: "rng \<Rightarrow> real \<times> rng" where
  "Math_random g = (shd g, stl g)"

definition Math_hypot :: "real \<Rightarrow> real \<Rightarrow> real" where
  "Math_hypot a b = sqrt (a * a + b * b)"

definition Math_atan2 :: "real \<Rightarrow> real \<Rightarrow> real" where
  "Math_atan2 b a =
    (if 0 < a then arctan (b / a)
     else if a < 0 then (if 0 \<le> b then arctan (b / a) + pi else arctan (b / a) - pi)
     else if 0 < b then pi / 2
     else if b < 0 then - pi / 2
     else 0)"

text \<open>The remainder operator \<^verbatim>\<open>%\<close> on integer-valued numbers: the result
  takes the sign of the dividend.\<close>

definition js_rem :: "int \<Rightarrow> int \<Rightarrow> int" where
  "js_rem a b = sgn a * (\<bar>a\<bar> mod \<bar>b\<bar>)"

section \<open>clamp, rand, choice\<close>

definition clamp :: "real \<Rightarrow> real \<Rightarrow> real \<Rightarrow> real" where
  "clamp v a b = max a (min b v)"

definition rand :: "real \<Rightarrow> real \<Rightarrow> rng \<Rightarrow> real \<times> rng" where
  "rand a b g = (case Math_random g of (u, g') \<Rightarrow> (u * (b - a) + a, g'))"

definition choice :: "'a list \<Rightarrow> rng \<Rightarrow> 'a option \<times> rng" where
  "choice arr g =
    (case Math_random g of (u, g') \<Rightarrow>
      (let i = \<lfloor>u * real (length arr)\<rfloor>
       in (if 0 \<le> i \<and> i < int (length arr) then Some (arr ! nat i) else None, g')))"

section \<open>Consumption of draws\<close>

lemma snd_Math_random [simp, draws]: "snd (Math_random g) = stl g"
  by (simp add: Math_random_def)

lemma fst_Math_random [simp]: "fst (Math_random g) = shd g"
  by (simp add: Math_random_def)

lemma snd_rand [simp, draws]: "snd (rand a b g) = stl g"
  by (simp add: rand_def Math_random_def)

lemma fst_rand [simp]: "fst (rand a b g) = shd g * (b - a) + a"
  by (simp add: rand_def Math_random_def)

lemma snd_choice [simp, draws]: "snd (choice arr g) = stl g"
  by (simp add: choice_def Math_random_def Let_def)

section \<open>clamp\<close>

lemma clamp_lower: "a \<le> b \<Longrightarrow> a \<le> clamp v a b"
  by (simp add: clamp_def)

lemma clamp_upper: "a \<le> b \<Longrightarrow> clamp v a b \<le> b"
  by (simp add: clamp_def)

lemma clamp_id: "a \<le> v \<Longrightarrow> v \<le> b \<Longrightarrow> clamp v a b = v"
  by (simp add: clamp_def)

lemma clamp_idem: "a \<le> b \<Longrightarrow> clamp (clamp v a b) a b = clamp v a b"
  by (simp add: clamp_def)

lemma clamp_cases:
  "clamp v a b = (if v < a \<or> b < a then a else if b < v then b else v)"
  by (auto simp: clamp_def)

lemma clamp_dist_le: "a \<le> w \<Longrightarrow> w \<le> b \<Longrightarrow> \<bar>clamp v a b - w\<bar> \<le> \<bar>v - w\<bar>"
  by (auto simp: clamp_def max_def min_def)

section \<open>rand\<close>

lemma rand_range:
  assumes "unit_draws g" "a \<le> b"
  shows "a \<le> fst (rand a b g) \<and> fst (rand a b g) \<le> b"
proof -
  from assms(1) have u: "0 \<le> shd g" "shd g < 1"
    by (simp_all add: unit_draws_shd)
  from u(1) assms(2) have "a \<le> shd g * (b - a) + a"
    by (rule scale_unit_lower)
  moreover have "shd g * (b - a) \<le> 1 * (b - a)"
    using u assms(2) by (intro mult_right_mono) simp_all
  ultimately show ?thesis by simp
qed

lemma rand_less: "unit_draws g \<Longrightarrow> a < b \<Longrightarrow> fst (rand a b g) < b"
  by (simp add: scale_unit_upper unit_draws_shd)

lemma rand_sym_abs:
  assumes "unit_draws g" "0 \<le> b"
  shows "\<bar>fst (rand (- b) b g)\<bar> \<le> b"
proof -
  from assms have "- b \<le> fst (rand (- b) b g) \<and> fst (rand (- b) b g) \<le> b"
    by (intro rand_range) simp_all
  then show ?thesis
    unfolding abs_le_iff by linarith
qed

section \<open>choice\<close>

lemma choice_index:
  "fst (choice arr g) =
    (let i = \<lfloor>shd g * real (length arr)\<rfloor>
     in if 0 \<le> i \<and> i < int (length arr) then Some (arr ! nat i) else None)"
  by (simp add: choice_def Math_random_def Let_def)

lemma choice_Some_mem: "fst (choice arr g) = Some v \<Longrightarrow> v \<in> set arr"
  by (auto simp: choice_index Let_def nth_nat_mem split: if_splits)

lemma choice_defined [total]:
  assumes "unit_draws g" "arr \<noteq> []"
  shows "\<exists>v. fst (choice arr g) = Some v \<and> v \<in> set arr"
proof -
  from assms(1) have "0 \<le> shd g" "shd g < 1"
    by (simp_all add: unit_draws_shd)
  then have "0 \<le> \<lfloor>shd g * real (length arr)\<rfloor>"
    and "\<lfloor>shd g * real (length arr)\<rfloor> < int (length arr)"
    using floor_scale_unit_range [of "shd g" "length arr"] assms(2) by simp_all
  then show ?thesis
    by (simp add: choice_index Let_def nth_nat_mem)
qed

lemma choice_empty: "fst (choice [] g) = None"
  by (simp add: choice_index)

lemma choice_out_of_range:
  "1 \<le> shd g \<Longrightarrow> arr \<noteq> [] \<Longrightarrow> fst (choice arr g) = None"
proof -
  assume u: "1 \<le> shd g" and ne: "arr \<noteq> []"
  then have "1 * real (length arr) \<le> shd g * real (length arr)"
    by (intro mult_right_mono) simp_all
  then have "int (length arr) \<le> \<lfloor>shd g * real (length arr)\<rfloor>"
    by (simp add: le_floor_iff)
  then show ?thesis
    by (simp add: choice_index Let_def)
qed

section \<open>Remainder\<close>

lemma js_rem_nonneg: "0 \<le> a \<Longrightarrow> 0 < b \<Longrightarrow> js_rem a b = a mod b"
  by (cases "a = 0") (simp_all add: js_rem_def)

lemma js_rem_range: "0 \<le> a \<Longrightarrow> 0 < b \<Longrightarrow> 0 \<le> js_rem a b \<and> js_rem a b < b"
  by (simp add: js_rem_nonneg)

section \<open>hypot and atan2\<close>

lemma Math_hypot_nonneg [simp]: "0 \<le> Math_hypot a b"
  by (simp add: Math_hypot_def)

lemma Math_hypot_square: "Math_hypot a b * Math_hypot a b = a * a + b * b"
  by (simp add: Math_hypot_def)

lemma Math_hypot_pos: "a \<noteq> 0 \<or> b \<noteq> 0 \<Longrightarrow> 0 < Math_hypot a b"
proof -
  assume "a \<noteq> 0 \<or> b \<noteq> 0"
  then have "0 < a * a + b * b"
    by (simp add: sum_squares_gt_zero_iff)
  then show ?thesis by (simp add: Math_hypot_def)
qed

lemma Math_atan2_range: "- pi \<le> Math_atan2 b a \<and> Math_atan2 b a \<le> pi"
proof -
  have "- (pi / 2) < arctan (b / a)" "arctan (b / a) < pi / 2"
    by (rule arctan_lbound, rule arctan_ubound)
  moreover have "0 \<le> b \<Longrightarrow> a < 0 \<Longrightarrow> arctan (b / a) \<le> 0"
    by (simp add: divide_nonneg_neg)
  moreover have "b < 0 \<Longrightarrow> a < 0 \<Longrightarrow> 0 \<le> arctan (b / a)"
    by (simp add: divide_neg_neg less_imp_le)
  ultimately show ?thesis
    using pi_gt_zero by (auto simp: Math_atan2_def)
qed

section \<open>Polar form\<close>

lemma sqrt_one_plus_ratio:
  assumes "a \<noteq> 0"
  shows "sqrt (1 + (b / a)\<^sup>2) = Math_hypot a b / \<bar>a\<bar>"
proof -
  have "1 + (b / a)\<^sup>2 = (a * a + b * b) / (a * a)"
    using assms by (simp add: field_simps power2_eq_square)
  then show ?thesis
    by (simp add: Math_hypot_def real_sqrt_divide)
qed

lemma cos_arctan_ratio:
  assumes "a \<noteq> 0"
  shows "cos (arctan (b / a)) = \<bar>a\<bar> / Math_hypot a b"
  using assms by (simp add: cos_arctan sqrt_one_plus_ratio)

lemma sin_arctan_ratio:
  assumes "a \<noteq> 0"
  shows "sin (arctan (b / a)) = (b / a) * \<bar>a\<bar> / Math_hypot a b"
  using assms by (simp add: sin_arctan sqrt_one_plus_ratio)

text \<open>\<^verbatim>\<open>Math.atan2(b, a)\<close> is the angle of the vector \<open>(a, b)\<close>.\<close>

lemma Math_atan2_polar:
  assumes "a \<noteq> 0 \<or> b \<noteq> 0"
  shows "cos (Math_atan2 b a) = a / Math_hypot a b" "sin (Math_atan2 b a) = b / Math_hypot a b"
proof -
  consider "0 < a" | "a < 0" "0 \<le> b" | "a < 0" "b < 0" | "a = 0" "0 < b" | "a = 0" "b < 0"
    using assms by linarith
  then have "cos (Math_atan2 b a) = a / Math_hypot a b \<and> sin (Math_atan2 b a) = b / Math_hypot a b"
  proof cases
    case 1
    then show ?thesis
      by (simp add: Math_atan2_def cos_arctan_ratio sin_arctan_ratio)
  next
    case 2
    then show ?thesis
      by (simp add: Math_atan2_def cos_arctan_ratio sin_arctan_ratio)
  next
    case 3
    then show ?thesis
      by (simp add: Math_atan2_def cos_arctan_ratio sin_arctan_ratio cos_diff sin_diff)
  next
    case 4
    then show ?thesis
      by (simp add: Math_atan2_def Math_hypot_def)
  next
    case 5
    then show ?thesis
      by (simp add: Math_atan2_def Math_hypot_def)
  qed
  then show "cos (Math_atan2 b a) = a / Math_hypot a b" "sin (Math_atan2 b a) = b / Math_hypot a b"
    by simp_all
qed

text \<open>A vector at an angle \<open>d\<close> from the direction of \<open>(a, b)\<close> has the
  component \<open>cos d\<close> along it.\<close>

lemma towards_component:
  assumes "a \<noteq> 0 \<or> b \<noteq> 0"
  shows "a * cos (Math_atan2 b a + d) + b * sin (Math_atan2 b a + d) = Math_hypot a b * cos d"
proof -
  let ?h = "Math_hypot a b"
  have h: "?h \<noteq> 0" "?h * ?h = a * a + b * b"
    using Math_hypot_pos [OF assms] by (simp_all add: Math_hypot_square)
  have "a * cos (Math_atan2 b a + d) + b * sin (Math_atan2 b a + d) =
      (a * a + b * b) / ?h * cos d"
    by (simp add: cos_add sin_add Math_atan2_polar [OF assms] algebra_simps add_divide_distrib)
  also have "(a * a + b * b) / ?h = ?h"
    using h by (simp add: field_simps)
  finally show ?thesis .
qed

lemma cos_small_pos: "\<bar>d\<bar> \<le> 0.7 \<Longrightarrow> 0 < cos (d::real)"
  using pi_ge_two by (intro cos_gt_zero_pi) (simp_all add: abs_le_iff)

section \<open>Polynomial bounds on the cosine and the sine\<close>

lemma cos_ge_parabola:
  fixes x :: real
  shows "1 - x\<^sup>2 / 2 \<le> cos x"
proof -
  have "(sin (x / 2))\<^sup>2 \<le> (x / 2)\<^sup>2"
    by (rule iffD1 [OF abs_le_square_iff abs_sin_x_le_abs_x])
  moreover have "cos x = 1 - 2 * (sin (x / 2))\<^sup>2"
    using cos_double_sin [of "x / 2"] by simp
  ultimately show ?thesis
    by (simp add: power2_eq_square)
qed

lemma sin_ge_cubic:
  fixes x :: real
  assumes "0 \<le> x"
  shows "x - x ^ 3 / 6 \<le> sin x"
proof -
  let ?f = "\<lambda>u. sin u - u + u ^ 3 / 6"
  have "\<exists>y. (?f has_real_derivative y) (at u) \<and> 0 \<le> y" for u :: real
  proof (intro exI conjI)
    show "(?f has_real_derivative (cos u - 1 + u\<^sup>2 / 2)) (at u)"
      by (auto intro!: derivative_eq_intros simp: field_simps)
    show "0 \<le> cos u - 1 + u\<^sup>2 / 2"
      using cos_ge_parabola [of u] by simp
  qed
  then have "?f 0 \<le> ?f x"
    by (intro DERIV_nonneg_imp_nondecreasing [OF assms]) blast
  then show ?thesis by simp
qed

end
