(* ===== verification/Config.thy ===== *)
theory Config
  imports Prelude
begin

text \<open>
  The constant table \<^verbatim>\<open>CONFIG\<close> of \<^verbatim>\<open>src/game.js\<close> (lines 5 to 24):
  playfield size, lives, timer intervals, the ship's parameters, the three
  asteroid tiers and the three crystal types. Lengths and times are reals
  (JavaScript numbers, read without rounding), counters are integers.
\<close>

record asteroid_type =
  at_size :: real
  at_speed :: real

record crystal_type =
  ct_color :: string
  ct_points :: int
  ct_size :: real

record ship_config =
  cfg_speed :: real
  cfg_size :: real
  invFrames :: int

record config =
  width :: real
  height :: real
  initialLives :: int
  crystalSpawnMs :: real
  initialAsteroids :: int
  difficultyIntervalMs :: real
  ship_cfg :: ship_config
  asteroidTypes :: "asteroid_type list"
  crystalTypes :: "crystal_type list"

definition CONFIG :: config where
  "CONFIG =
    \<lparr> width = 800,
      height = 600,
      initialLives = 3,
      crystalSpawnMs = 2000,
      initialAsteroids = 3,
      difficultyIntervalMs = 30000,
      ship_cfg = \<lparr> cfg_speed = 5, cfg_size = 20, invFrames = 120 \<rparr>,
      asteroidTypes =
        [ \<lparr> at_size = 30, at_speed = 2 \<rparr>,
          \<lparr> at_size = 45, at_speed = 3 / 2 \<rparr>,
          \<lparr> at_size = 60, at_speed = 1 \<rparr> ],
      crystalTypes =
        [ \<lparr> ct_color = ''blue'', ct_points = 10, ct_size = 15 \<rparr>,
          \<lparr> ct_color = ''purple'', ct_points = 20, ct_size = 18 \<rparr>,
          \<lparr> ct_color = ''green'', ct_points = 15, ct_size = 16 \<rparr> ] \<rparr>"

text \<open>What the rest of the development needs to know of a tier or a type.\<close>

definition tier_ok :: "asteroid_type \<Rightarrow> bool" where
  "tier_ok t \<longleftrightarrow> 30 \<le> at_size t \<and> at_size t \<le> 60 \<and> 1 \<le> at_speed t \<and> at_speed t \<le> 2"

definition gem_ok :: "crystal_type \<Rightarrow> bool" where
  "gem_ok c \<longleftrightarrow> 10 \<le> ct_points c \<and> ct_points c \<le> 20 \<and> 15 \<le> ct_size c \<and> ct_size c \<le> 18"

text \<open>The fields of the table, as rewrite rules: component proofs never unfold
  \<open>CONFIG\<close> itself.\<close>

lemma CONFIG_fields [simp]:
  "width CONFIG = 800"
  "height CONFIG = 600"
  "initialLives CONFIG = 3"
  "crystalSpawnMs CONFIG = 2000"
  "initialAsteroids CONFIG = 3"
  "difficultyIntervalMs CONFIG = 30000"
  "cfg_speed (ship_cfg CONFIG) = 5"
  "cfg_size (ship_cfg CONFIG) = 20"
  "invFrames (ship_cfg CONFIG) = 120"
  by (simp_all add: CONFIG_def)

lemma asteroidTypes_CONFIG:
  "asteroidTypes CONFIG =
    [\<lparr>at_size = 30, at_speed = 2\<rparr>, \<lparr>at_size = 45, at_speed = 3 / 2\<rparr>, \<lparr>at_size = 60, at_speed = 1\<rparr>]"
  by (simp add: CONFIG_def)

lemma crystalTypes_CONFIG:
  "crystalTypes CONFIG =
    [\<lparr>ct_color = ''blue'', ct_points = 10, ct_size = 15\<rparr>,
     \<lparr>ct_color = ''purple'', ct_points = 20, ct_size = 18\<rparr>,
     \<lparr>ct_color = ''green'', ct_points = 15, ct_size = 16\<rparr>]"
  by (simp add: CONFIG_def)

lemma length_asteroidTypes [simp]: "length (asteroidTypes CONFIG) = 3"
  by (simp add: asteroidTypes_CONFIG)

lemma length_crystalTypes [simp]: "length (crystalTypes CONFIG) = 3"
  by (simp add: crystalTypes_CONFIG)

lemma asteroidTypes_ok: "t \<in> set (asteroidTypes CONFIG) \<Longrightarrow> tier_ok t"
  by (auto simp: asteroidTypes_CONFIG tier_ok_def)

lemma crystalTypes_ok: "c \<in> set (crystalTypes CONFIG) \<Longrightarrow> gem_ok c"
  by (auto simp: crystalTypes_CONFIG gem_ok_def)

lemma asteroidTypes_sizes:
  "t \<in> set (asteroidTypes CONFIG) \<Longrightarrow> at_size t \<in> {30, 45, 60}"
  by (auto simp: asteroidTypes_CONFIG)

lemma crystalTypes_points:
  "c \<in> set (crystalTypes CONFIG) \<Longrightarrow> ct_points c \<in> {10, 15, 20}"
  by (auto simp: crystalTypes_CONFIG)

end
