(* ===== verification/Collision.thy ===== *)
theory Collision
  imports Prelude
begin

text \<open>
  The circle overlap test \<^verbatim>\<open>hit(a, b)\<close> of \<^verbatim>\<open>src/game.js\<close> lines 366
  to 372, on the \<^verbatim>\<open>{x, y, r}\<close> objects the entities' \<^verbatim>\<open>bounds()\<close>
  methods return. The test compares squares, so it needs no square root; the
  lemmas relate it to the Euclidean distance of the centres and give the
  cheap necessary conditions the collision loop's properties use.
\<close>

record circle =
  cx :: real
  cy :: real
  cr :: real

definition hit :: "circle \<Rightarrow> circle \<Rightarrow> bool" where
  "hit a b =
    (let dx = cx a - cx b;
         dy = cy a - cy b;
         rr = cr a + cr b
     in dx * dx + dy * dy \<le> rr * rr)"

text \<open>The reference notion: the centres are no further apart than the radii reach.\<close>

definition centre_distance :: "circle \<Rightarrow> circle \<Rightarrow> real" where
  "centre_distance a b = sqrt ((cx a - cx b)\<^sup>2 + (cy a - cy b)\<^sup>2)"

definition overlaps :: "circle \<Rightarrow> circle \<Rightarrow> bool" where
  "overlaps a b \<longleftrightarrow> centre_distance a b \<le> cr a + cr b"

lemma hit_unfold:
  "hit a b \<longleftrightarrow> (cx a - cx b)\<^sup>2 + (cy a - cy b)\<^sup>2 \<le> (cr a + cr b)\<^sup>2"
  by (simp add: hit_def Let_def power2_eq_square)

lemma hit_sym: "hit a b = hit b a"
  by (simp add: hit_unfold power2_commute add.commute)

lemma hit_self: "hit a a"
  by (simp add: hit_unfold)

lemma hit_overlaps:
  assumes "0 \<le> cr a + cr b"
  shows "hit a b = overlaps a b"
proof -
  have "centre_distance a b \<le> cr a + cr b \<longleftrightarrow>
      (cx a - cx b)\<^sup>2 + (cy a - cy b)\<^sup>2 \<le> (cr a + cr b)\<^sup>2"
    unfolding centre_distance_def using assms
    by (metis real_sqrt_le_iff real_sqrt_abs abs_of_nonneg)
  then show ?thesis by (simp add: hit_unfold overlaps_def)
qed

lemma hit_translate:
  "hit (a\<lparr>cx := cx a + u, cy := cy a + v\<rparr>) (b\<lparr>cx := cx b + u, cy := cy b + v\<rparr>) = hit a b"
  by (simp add: hit_unfold)

lemma hit_grow:
  assumes "hit a b" "0 \<le> cr a + cr b" "cr b \<le> rho"
  shows "hit a (b\<lparr>cr := rho\<rparr>)"
proof -
  from assms(2,3) have "(cr a + cr b)\<^sup>2 \<le> (cr a + rho)\<^sup>2"
    by (intro power_mono) simp_all
  with assms(1) show ?thesis by (simp add: hit_unfold)
qed

lemma hit_imp_close_x:
  assumes "hit a b" "0 \<le> cr a + cr b"
  shows "\<bar>cx a - cx b\<bar> \<le> cr a + cr b"
proof -
  from assms(1) have "(cx a - cx b)\<^sup>2 + (cy a - cy b)\<^sup>2 \<le> (cr a + cr b)\<^sup>2"
    by (simp add: hit_unfold)
  moreover have "0 \<le> (cy a - cy b)\<^sup>2"
    by simp
  ultimately have "(cx a - cx b)\<^sup>2 \<le> (cr a + cr b)\<^sup>2"
    by linarith
  then show ?thesis using assms(2)
    by (simp add: abs_le_square_iff [symmetric])
qed

lemma hit_imp_close_y:
  assumes "hit a b" "0 \<le> cr a + cr b"
  shows "\<bar>cy a - cy b\<bar> \<le> cr a + cr b"
proof -
  from assms(1) have "(cx a - cx b)\<^sup>2 + (cy a - cy b)\<^sup>2 \<le> (cr a + cr b)\<^sup>2"
    by (simp add: hit_unfold)
  moreover have "0 \<le> (cx a - cx b)\<^sup>2"
    by simp
  ultimately have "(cy a - cy b)\<^sup>2 \<le> (cr a + cr b)\<^sup>2"
    by linarith
  then show ?thesis using assms(2)
    by (simp add: abs_le_square_iff [symmetric])
qed

lemma far_apart_no_hit:
  "0 \<le> cr a + cr b \<Longrightarrow> cr a + cr b < \<bar>cx a - cx b\<bar> \<or> cr a + cr b < \<bar>cy a - cy b\<bar> \<Longrightarrow> \<not> hit a b"
  using hit_imp_close_x hit_imp_close_y by fastforce

lemma same_centre_hit: "cx a = cx b \<Longrightarrow> cy a = cy b \<Longrightarrow> hit a b"
  by (simp add: hit_unfold)

end
