(* ===== verification/Entities.thy ===== *)
theory Entities
  imports Utility Config Collision
begin

text \<open>
  The four entity classes of \<^verbatim>\<open>src/game.js\<close> (lines 99 to 314) without
  their \<^verbatim>\<open>draw\<close> methods: a record per class with the fields its
  constructor sets, the constructor, \<^verbatim>\<open>update\<close>, \<^verbatim>\<open>bounds\<close> and
  \<^verbatim>\<open>dead\<close>. A method that reads the global key set or tick counter takes
  it as an argument; a constructor that draws random numbers threads the
  stream of draws. The default values of the constructors' parameters
  (\<^verbatim>\<open>wave=false\<close> of an asteroid, \<^verbatim>\<open>life=40\<close> and
  \<^verbatim>\<open>speed=rand(1,3)\<close> of a particle) are not modelled: every call in the
  script passes these arguments. \<^verbatim>\<open>Ship.hit\<close> changes the global state
  and is found in theory \<open>Flow\<close>. The last sections give the bob of a
  crystal in closed form and the track it keeps a crystal on.
\<close>

section \<open>Ship\<close>

record Ship =
  ship_x :: real
  ship_y :: real
  ship_size :: real
  ship_speed :: real
  ship_inv :: int
  blink :: int

definition new_Ship :: "real \<Rightarrow> real \<Rightarrow> Ship" where
  "new_Ship px py =
    \<lparr> ship_x = px, ship_y = py,
      ship_size = cfg_size (ship_cfg CONFIG),
      ship_speed = cfg_speed (ship_cfg CONFIG),
      ship_inv = 0, blink = 0 \<rparr>"

definition key_direction :: "string set \<Rightarrow> real \<times> real" where
  "key_direction ks =
    (let dx = 0; dy = 0;
         dy = (if ''KeyW'' \<in> ks \<or> ''ArrowUp'' \<in> ks then dy - 1 else dy);
         dy = (if ''KeyS'' \<in> ks \<or> ''ArrowDown'' \<in> ks then dy + 1 else dy);
         dx = (if ''KeyA'' \<in> ks \<or> ''ArrowLeft'' \<in> ks then dx - 1 else dx);
         dx = (if ''KeyD'' \<in> ks \<or> ''ArrowRight'' \<in> ks then dx + 1 else dx)
     in (dx, dy))"

definition Ship_update :: "string set \<Rightarrow> Ship \<Rightarrow> Ship" where
  "Ship_update ks sh =
    (case key_direction ks of (dx, dy) \<Rightarrow>
      let sh = (if dx \<noteq> 0 \<or> dy \<noteq> 0 then
                  let mag = Math_hypot dx dy; dx = dx / mag; dy = dy / mag
                  in sh\<lparr> ship_x := ship_x sh + dx * ship_speed sh,
                         ship_y := ship_y sh + dy * ship_speed sh \<rparr>
                else sh);
          sh = sh\<lparr> ship_x := clamp (ship_x sh) (ship_size sh) (width CONFIG - ship_size sh) \<rparr>;
          sh = sh\<lparr> ship_y := clamp (ship_y sh) (ship_size sh) (height CONFIG - ship_size sh) \<rparr>
      in if 0 < ship_inv sh then sh\<lparr> ship_inv := ship_inv sh - 1, blink := js_rem (blink sh + 1) 10 \<rparr> else sh)"

definition Ship_bounds :: "Ship \<Rightarrow> circle" where
  "Ship_bounds sh = (let rad = ship_size sh * 0.8 in \<lparr> cx = ship_x sh, cy = ship_y sh, cr = rad \<rparr>)"

section \<open>Asteroid\<close>

record Asteroid =
  ast_x :: real
  ast_y :: real
  ast_vx :: real
  ast_vy :: real
  ast_size :: real
  wave :: bool
  phase :: real
  hp :: int
  ast_rot :: real
  ast_spin :: real
  hue :: "int option"
  light :: "int option"

definition new_Asteroid ::
  "real \<Rightarrow> real \<Rightarrow> real \<Rightarrow> real \<Rightarrow> real \<Rightarrow> bool \<Rightarrow> rng \<Rightarrow> Asteroid \<times> rng" where
  "new_Asteroid px py pvx pvy psize pwave g =
    (case rand 0 (pi * 2) g of (ph, g) \<Rightarrow>
     case rand 0 (pi * 2) g of (ro, g) \<Rightarrow>
     case rand (- 0.02) 0.02 g of (sp, g) \<Rightarrow>
     case choice [20, 30, 40, 0] g of (hu, g) \<Rightarrow>
     case choice [30, 35, 40] g of (li, g) \<Rightarrow>
      (\<lparr> ast_x = px, ast_y = py, ast_vx = pvx, ast_vy = pvy, ast_size = psize,
         wave = pwave, phase = ph, hp = \<lceil>psize / 30\<rceil>, ast_rot = ro, ast_spin = sp,
         hue = hu, light = li \<rparr>, g))"

definition Asteroid_update :: "int \<Rightarrow> Asteroid \<Rightarrow> Asteroid" where
  "Asteroid_update tk a =
    (let a = a\<lparr> ast_rot := ast_rot a + ast_spin a \<rparr>;
         a = (if wave a then
                a\<lparr> ast_x := ast_x a + (ast_vx a + sin (real_of_int tk / 30 + phase a) * 0.9),
                   ast_y := ast_y a + (ast_vy a + cos (real_of_int tk / 45 + phase a) * 0.6) \<rparr>
              else a\<lparr> ast_x := ast_x a + ast_vx a, ast_y := ast_y a + ast_vy a \<rparr>);
         a = (if ast_x a < - ast_size a - 20 then a\<lparr> ast_x := width CONFIG + ast_size a + 20 \<rparr> else a);
         a = (if ast_x a > width CONFIG + ast_size a + 20 then a\<lparr> ast_x := - ast_size a - 20 \<rparr> else a);
         a = (if ast_y a < - ast_size a - 20 then a\<lparr> ast_y := height CONFIG + ast_size a + 20 \<rparr> else a);
         a = (if ast_y a > height CONFIG + ast_size a + 20 then a\<lparr> ast_y := - ast_size a - 20 \<rparr> else a)
     in a)"

definition Asteroid_bounds :: "Asteroid \<Rightarrow> circle" where
  "Asteroid_bounds a = \<lparr> cx = ast_x a, cy = ast_y a, cr = ast_size a * 0.8 \<rparr>"

section \<open>Crystal\<close>

record Crystal =
  cry_x :: real
  cry_y :: real
  cry_type :: "crystal_type option"
  cry_t :: int
  cry_spin :: real
  cry_rot :: real

definition new_Crystal :: "real \<Rightarrow> real \<Rightarrow> crystal_type option \<Rightarrow> rng \<Rightarrow> Crystal \<times> rng" where
  "new_Crystal px py ty g =
    (case rand (- 0.03) 0.03 g of (sp, g) \<Rightarrow>
     case rand 0 (pi * 2) g of (ro, g) \<Rightarrow>
      (\<lparr> cry_x = px, cry_y = py, cry_type = ty, cry_t = 0, cry_spin = sp, cry_rot = ro \<rparr>, g))"

definition Crystal_update :: "Crystal \<Rightarrow> Crystal" where
  "Crystal_update c =
    (let c = c\<lparr> cry_t := cry_t c + 1 \<rparr>;
         c = c\<lparr> cry_rot := cry_rot c + cry_spin c \<rparr>;
         c = c\<lparr> cry_y := cry_y c + sin (real_of_int (cry_t c) / 40) * 0.2 \<rparr>
     in c)"

text \<open>\<^verbatim>\<open>bounds()\<close> reads \<^verbatim>\<open>this.type.size\<close>: a TypeError when the type
  is \<^verbatim>\<open>undefined\<close>.\<close>

definition Crystal_bounds :: "Crystal \<Rightarrow> circle option" where
  "Crystal_bounds c =
    (case cry_type c of
       None \<Rightarrow> None
     | Some ty \<Rightarrow> Some \<lparr> cx = cry_x c, cy = cry_y c, cr = ct_size ty * 0.65 \<rparr>)"

section \<open>Particle\<close>

record Particle =
  par_x :: real
  par_y :: real
  par_life :: real
  par_t :: int
  par_color :: string
  par_vx :: real
  par_vy :: real
  par_size :: real

definition new_Particle ::
  "real \<Rightarrow> real \<Rightarrow> string \<Rightarrow> real \<Rightarrow> real \<Rightarrow> rng \<Rightarrow> Particle \<times> rng" where
  "new_Particle px py col plife pspeed g =
    (case rand 0 (pi * 2) g of (ang, g) \<Rightarrow>
     case rand 1 3 g of (sz, g) \<Rightarrow>
      (\<lparr> par_x = px, par_y = py, par_life = plife, par_t = 0, par_color = col,
         par_vx = cos ang * pspeed, par_vy = sin ang * pspeed, par_size = sz \<rparr>, g))"

definition Particle_update :: "Particle \<Rightarrow> Particle" where
  "Particle_update p =
    (let p = p\<lparr> par_t := par_t p + 1 \<rparr>
     in p\<lparr> par_x := par_x p + par_vx p, par_y := par_y p + par_vy p \<rparr>)"

definition Particle_dead :: "Particle \<Rightarrow> bool" where
  "Particle_dead p \<longleftrightarrow> par_life p \<le> real_of_int (par_t p)"


text \<open>Derived notions the lemmas are stated with: the unit vector of the held
  keys (the normalisation of lines 113 to 115) and the region the clamp of lines
  119 and 120 keeps the ship in.\<close>

definition unit_direction :: "string set \<Rightarrow> real \<times> real" where
  "unit_direction ks =
    (case key_direction ks of (dx, dy) \<Rightarrow>
      if dx \<noteq> 0 \<or> dy \<noteq> 0 then (dx / Math_hypot dx dy, dy / Math_hypot dx dy) else (0, 0))"

definition ship_in_field :: "Ship \<Rightarrow> bool" where
  "ship_in_field sh \<longleftrightarrow>
    ship_size sh \<le> ship_x sh \<and> ship_x sh \<le> width CONFIG - ship_size sh \<and>
    ship_size sh \<le> ship_y sh \<and> ship_y sh \<le> height CONFIG - ship_size sh"

text \<open>What every ship of a running game satisfies: the configured size and
  speed, a position inside the playfield, the two frame counters in range.\<close>

definition ship_ok :: "Ship \<Rightarrow> bool" where
  "ship_ok sh \<longleftrightarrow>
    ship_in_field sh \<and> ship_size sh = 20 \<and> ship_speed sh = 5 \<and>
    0 \<le> ship_inv sh \<and> ship_inv sh \<le> 120 \<and> 0 \<le> blink sh \<and> blink sh < 10"

text \<open>A crystal whose type is one of the table's.\<close>

definition crystal_ok :: "Crystal \<Rightarrow> bool" where
  "crystal_ok c \<longleftrightarrow>
    (case cry_type c of None \<Rightarrow> False | Some ty \<Rightarrow> ty \<in> set (crystalTypes CONFIG)) \<and> 0 \<le> cry_t c"

text \<open>The band an asteroid's coordinate wraps in: the playfield widened by the
  margin \<open>size + 20\<close> of lines 213 to 216.\<close>

definition asteroid_in_band :: "Asteroid \<Rightarrow> bool" where
  "asteroid_in_band a \<longleftrightarrow>
    - ast_size a - 20 \<le> ast_x a \<and> ast_x a \<le> width CONFIG + ast_size a + 20 \<and>
    - ast_size a - 20 \<le> ast_y a \<and> ast_y a \<le> height CONFIG + ast_size a + 20"

definition asteroid_ok :: "Asteroid \<Rightarrow> bool" where
  "asteroid_ok a \<longleftrightarrow> ast_size a \<in> {30, 45, 60} \<and> asteroid_in_band a"

definition asteroid_step :: "int \<Rightarrow> Asteroid \<Rightarrow> real \<times> real" where
  "asteroid_step tk a =
    (if wave a then
       (ast_vx a + sin (real_of_int tk / 30 + phase a) * 0.9,
        ast_vy a + cos (real_of_int tk / 45 + phase a) * 0.6)
     else (ast_vx a, ast_vy a))"

definition wrap_axis :: "real \<Rightarrow> real \<Rightarrow> real \<Rightarrow> real" where
  "wrap_axis lo hi v = (let v = (if v < lo then hi else v) in if hi < v then lo else v)"

text \<open>A particle the cleaning step of the tick keeps: not yet dead, and with a
  life no longer than the longest a burst gives.\<close>

definition particle_fresh :: "Particle \<Rightarrow> bool" where
  "particle_fresh p \<longleftrightarrow> real_of_int (par_t p) < par_life p \<and> 0 \<le> par_t p \<and> par_life p \<le> 48"

text \<open>The bob of a crystal in closed form: the sum of the steps
  \<open>sin (k / 40) * 0.2\<close> for \<open>k\<close> from 1 to \<open>t\<close>. A crystal is on its
  track when it is that far below a point of the region crystals are made
  in (lines 349 to 351).\<close>

definition bob_offset :: "int \<Rightarrow> real" where
  "bob_offset t = (cos (1 / 80) - cos ((2 * real_of_int t + 1) / 80)) / (10 * sin (1 / 80))"

definition crystal_on_track :: "Crystal \<Rightarrow> bool" where
  "crystal_on_track c \<longleftrightarrow>
    40 \<le> cry_x c \<and> cry_x c \<le> 760 \<and>
    40 \<le> cry_y c - bob_offset (cry_t c) \<and> cry_y c - bob_offset (cry_t c) \<le> 520"

section \<open>Ship: lemmas\<close>

lemma key_direction_range:
  "fst (key_direction ks) \<in> {- 1, 0, 1} \<and> snd (key_direction ks) \<in> {- 1, 0, 1}"
  by (simp add: key_direction_def Let_def)

lemma key_direction_empty [simp]: "key_direction {} = (0, 0)"
  by (simp add: key_direction_def)

lemma key_direction_opposite_vertical:
  "''KeyW'' \<in> ks \<Longrightarrow> ''KeyS'' \<in> ks \<Longrightarrow> snd (key_direction ks) = 0"
  by (simp add: key_direction_def Let_def)

lemma key_direction_opposite_horizontal:
  "''KeyA'' \<in> ks \<Longrightarrow> ''KeyD'' \<in> ks \<Longrightarrow> fst (key_direction ks) = 0"
  by (simp add: key_direction_def Let_def)

lemma unit_direction_empty [simp]: "unit_direction {} = (0, 0)"
  by (simp add: unit_direction_def)

lemma unit_direction_norm:
  "(fst (unit_direction ks))\<^sup>2 + (snd (unit_direction ks))\<^sup>2 =
     (if key_direction ks = (0, 0) then 0 else 1)"
proof (cases "key_direction ks")
  case (Pair dx dy)
  show ?thesis
  proof (cases "dx \<noteq> 0 \<or> dy \<noteq> 0")
    case True
    have "(dx / Math_hypot dx dy)\<^sup>2 + (dy / Math_hypot dx dy)\<^sup>2 =
        (dx * dx + dy * dy) / (Math_hypot dx dy * Math_hypot dx dy)"
      by (simp add: power2_eq_square add_divide_distrib)
    also have "\<dots> = 1"
      using True by (auto simp: Math_hypot_square)
    finally show ?thesis using Pair True by (auto simp: unit_direction_def)
  next
    case False
    with Pair show ?thesis by (simp add: unit_direction_def)
  qed
qed

lemma unit_direction_le_1:
  "(fst (unit_direction ks))\<^sup>2 + (snd (unit_direction ks))\<^sup>2 \<le> 1"
  by (simp add: unit_direction_norm)

lemma Ship_update_x:
  "ship_x (Ship_update ks sh) =
     clamp (ship_x sh + fst (unit_direction ks) * ship_speed sh) (ship_size sh)
       (width CONFIG - ship_size sh)"
  by (simp add: Ship_update_def unit_direction_def Let_def split: prod.splits)

lemma Ship_update_y:
  "ship_y (Ship_update ks sh) =
     clamp (ship_y sh + snd (unit_direction ks) * ship_speed sh) (ship_size sh)
       (height CONFIG - ship_size sh)"
  by (simp add: Ship_update_def unit_direction_def Let_def split: prod.splits)

lemma Ship_update_size [simp, frame]: "ship_size (Ship_update ks sh) = ship_size sh"
  by (simp add: Ship_update_def Let_def split: prod.splits)

lemma Ship_update_speed [simp, frame]: "ship_speed (Ship_update ks sh) = ship_speed sh"
  by (simp add: Ship_update_def Let_def split: prod.splits)

lemma Ship_update_inv:
  "ship_inv (Ship_update ks sh) = (if 0 < ship_inv sh then ship_inv sh - 1 else ship_inv sh)"
  by (simp add: Ship_update_def Let_def split: prod.splits)

lemma Ship_update_blink:
  "blink (Ship_update ks sh) = (if 0 < ship_inv sh then js_rem (blink sh + 1) 10 else blink sh)"
  by (simp add: Ship_update_def Let_def split: prod.splits)

lemma Ship_update_in_field [keeps]:
  assumes "ship_size sh \<le> width CONFIG - ship_size sh"
    and "ship_size sh \<le> height CONFIG - ship_size sh"
  shows "ship_in_field (Ship_update ks sh)"
  using assms
  by (simp add: ship_in_field_def Ship_update_x Ship_update_y clamp_lower clamp_upper del: CONFIG_fields)

lemma Ship_update_idle:
  assumes "ship_in_field sh" "ship_inv sh \<le> 0"
  shows "Ship_update {} sh = sh"
  using assms by (simp add: Ship_update_def ship_in_field_def clamp_id)

lemma Ship_update_step_length:
  assumes "ship_in_field sh"
  shows "(ship_x (Ship_update ks sh) - ship_x sh)\<^sup>2 + (ship_y (Ship_update ks sh) - ship_y sh)\<^sup>2
           \<le> (ship_speed sh)\<^sup>2"
proof -
  let ?ux = "fst (unit_direction ks)" and ?uy = "snd (unit_direction ks)"
  from assms have "\<bar>ship_x (Ship_update ks sh) - ship_x sh\<bar> \<le> \<bar>ship_x sh + ?ux * ship_speed sh - ship_x sh\<bar>"
    unfolding Ship_update_x ship_in_field_def by (intro clamp_dist_le) simp_all
  then have "(ship_x (Ship_update ks sh) - ship_x sh)\<^sup>2 \<le> (?ux * ship_speed sh)\<^sup>2"
    by (simp add: abs_le_square_iff)
  moreover from assms have "\<bar>ship_y (Ship_update ks sh) - ship_y sh\<bar> \<le> \<bar>ship_y sh + ?uy * ship_speed sh - ship_y sh\<bar>"
    unfolding Ship_update_y ship_in_field_def by (intro clamp_dist_le) simp_all
  then have "(ship_y (Ship_update ks sh) - ship_y sh)\<^sup>2 \<le> (?uy * ship_speed sh)\<^sup>2"
    by (simp add: abs_le_square_iff)
  moreover have "(?ux * ship_speed sh)\<^sup>2 + (?uy * ship_speed sh)\<^sup>2 = (?ux\<^sup>2 + ?uy\<^sup>2) * (ship_speed sh)\<^sup>2"
    by (simp add: power_mult_distrib distrib_right)
  moreover have "(?ux\<^sup>2 + ?uy\<^sup>2) * (ship_speed sh)\<^sup>2 \<le> 1 * (ship_speed sh)\<^sup>2"
    by (intro mult_right_mono unit_direction_le_1) simp
  ultimately show ?thesis by simp
qed

lemma Ship_update_free_move:
  assumes "key_direction ks \<noteq> (0, 0)"
    and "ship_in_field (sh\<lparr> ship_x := ship_x sh + fst (unit_direction ks) * ship_speed sh,
                            ship_y := ship_y sh + snd (unit_direction ks) * ship_speed sh \<rparr>)"
  shows "(ship_x (Ship_update ks sh) - ship_x sh)\<^sup>2 + (ship_y (Ship_update ks sh) - ship_y sh)\<^sup>2
           = (ship_speed sh)\<^sup>2"
proof -
  let ?ux = "fst (unit_direction ks)" and ?uy = "snd (unit_direction ks)"
  from assms(2) have "ship_x (Ship_update ks sh) = ship_x sh + ?ux * ship_speed sh"
    and "ship_y (Ship_update ks sh) = ship_y sh + ?uy * ship_speed sh"
    by (simp_all add: Ship_update_x Ship_update_y ship_in_field_def clamp_id del: CONFIG_fields)
  then have "(ship_x (Ship_update ks sh) - ship_x sh)\<^sup>2 + (ship_y (Ship_update ks sh) - ship_y sh)\<^sup>2
      = (?ux\<^sup>2 + ?uy\<^sup>2) * (ship_speed sh)\<^sup>2"
    by (simp add: power_mult_distrib distrib_right)
  with assms(1) show ?thesis by (simp add: unit_direction_norm)
qed

lemma Ship_update_ok [keeps]:
  assumes "ship_ok sh"
  shows "ship_ok (Ship_update ks sh)"
proof -
  from assms have "ship_in_field (Ship_update ks sh)"
    by (intro Ship_update_in_field) (simp_all add: ship_ok_def)
  moreover from assms have "0 \<le> js_rem (blink sh + 1) 10 \<and> js_rem (blink sh + 1) 10 < 10"
    by (intro js_rem_range) (simp_all add: ship_ok_def)
  ultimately show ?thesis
    using assms by (simp add: ship_ok_def Ship_update_inv Ship_update_blink)
qed

lemma new_Ship_ok: "ship_ok (new_Ship 400 450)"
  by (simp add: ship_ok_def ship_in_field_def new_Ship_def)

lemma ship_ok_respawn: "ship_ok sh \<Longrightarrow> ship_ok (sh\<lparr> ship_inv := 120, ship_x := 400, ship_y := 450 \<rparr>)"
  by (simp add: ship_ok_def ship_in_field_def)

lemma new_Ship_in_field:
  "20 \<le> px \<Longrightarrow> px \<le> 780 \<Longrightarrow> 20 \<le> py \<Longrightarrow> py \<le> 580 \<Longrightarrow> ship_in_field (new_Ship px py)"
  by (simp add: ship_in_field_def new_Ship_def)

lemma new_Ship_fields [simp]:
  "ship_x (new_Ship px py) = px" "ship_y (new_Ship px py) = py"
  "ship_size (new_Ship px py) = 20" "ship_speed (new_Ship px py) = 5"
  "ship_inv (new_Ship px py) = 0" "blink (new_Ship px py) = 0"
  by (simp_all add: new_Ship_def)

lemma Ship_bounds_fields [simp]:
  "cx (Ship_bounds sh) = ship_x sh" "cy (Ship_bounds sh) = ship_y sh"
  "cr (Ship_bounds sh) = ship_size sh * 0.8"
  by (simp_all add: Ship_bounds_def)


section \<open>Asteroid: lemmas\<close>

lemma wrap_axis_range: "lo \<le> hi \<Longrightarrow> lo \<le> wrap_axis lo hi v \<and> wrap_axis lo hi v \<le> hi"
  by (simp add: wrap_axis_def Let_def)

lemma wrap_axis_inside: "lo \<le> v \<Longrightarrow> v \<le> hi \<Longrightarrow> wrap_axis lo hi v = v"
  by (simp add: wrap_axis_def)

lemma wrap_axis_above: "lo \<le> hi \<Longrightarrow> hi < v \<Longrightarrow> wrap_axis lo hi v = lo"
  by (simp add: wrap_axis_def)

lemma wrap_axis_below: "v < lo \<Longrightarrow> wrap_axis lo hi v = hi"
  by (simp add: wrap_axis_def)

lemma Asteroid_update_x:
  "ast_x (Asteroid_update tk a) =
     wrap_axis (- ast_size a - 20) (width CONFIG + ast_size a + 20) (ast_x a + fst (asteroid_step tk a))"
  by (simp add: Asteroid_update_def asteroid_step_def wrap_axis_def Let_def del: CONFIG_fields)

lemma Asteroid_update_y:
  "ast_y (Asteroid_update tk a) =
     wrap_axis (- ast_size a - 20) (height CONFIG + ast_size a + 20) (ast_y a + snd (asteroid_step tk a))"
  by (simp add: Asteroid_update_def asteroid_step_def wrap_axis_def Let_def del: CONFIG_fields)

lemma Asteroid_update_frame [simp, frame]:
  "ast_size (Asteroid_update tk a) = ast_size a"
  "ast_vx (Asteroid_update tk a) = ast_vx a"
  "ast_vy (Asteroid_update tk a) = ast_vy a"
  "wave (Asteroid_update tk a) = wave a"
  "phase (Asteroid_update tk a) = phase a"
  "hp (Asteroid_update tk a) = hp a"
  "ast_spin (Asteroid_update tk a) = ast_spin a"
  "hue (Asteroid_update tk a) = hue a"
  "light (Asteroid_update tk a) = light a"
  by (simp_all add: Asteroid_update_def Let_def)

lemma Asteroid_update_rot: "ast_rot (Asteroid_update tk a) = ast_rot a + ast_spin a"
  by (simp add: Asteroid_update_def Let_def)

lemma Asteroid_update_in_band [keeps]:
  assumes "0 \<le> ast_size a"
  shows "asteroid_in_band (Asteroid_update tk a)"
  using assms
  by (simp add: asteroid_in_band_def Asteroid_update_x Asteroid_update_y wrap_axis_range)

lemma Asteroid_update_ok [keeps]: "asteroid_ok a \<Longrightarrow> asteroid_ok (Asteroid_update tk a)"
  by (auto simp: asteroid_ok_def intro: Asteroid_update_in_band)

lemma asteroid_step_straight: "\<not> wave a \<Longrightarrow> asteroid_step tk a = (ast_vx a, ast_vy a)"
  by (simp add: asteroid_step_def)

lemma asteroid_step_wave_bound:
  "\<bar>fst (asteroid_step tk a) - ast_vx a\<bar> \<le> 0.9 \<and> \<bar>snd (asteroid_step tk a) - ast_vy a\<bar> \<le> 0.6"
proof -
  have "\<bar>sin (real_of_int tk / 30 + phase a) * 0.9\<bar> \<le> 1 * 0.9"
    unfolding abs_mult by (intro mult_mono) simp_all
  moreover have "\<bar>cos (real_of_int tk / 45 + phase a) * 0.6\<bar> \<le> 1 * 0.6"
    unfolding abs_mult by (intro mult_mono) simp_all
  ultimately show ?thesis by (simp add: asteroid_step_def)
qed

lemma new_Asteroid_fields [simp]:
  "ast_x (fst (new_Asteroid px py pvx pvy psize pwave g)) = px"
  "ast_y (fst (new_Asteroid px py pvx pvy psize pwave g)) = py"
  "ast_vx (fst (new_Asteroid px py pvx pvy psize pwave g)) = pvx"
  "ast_vy (fst (new_Asteroid px py pvx pvy psize pwave g)) = pvy"
  "ast_size (fst (new_Asteroid px py pvx pvy psize pwave g)) = psize"
  "wave (fst (new_Asteroid px py pvx pvy psize pwave g)) = pwave"
  "hp (fst (new_Asteroid px py pvx pvy psize pwave g)) = \<lceil>psize / 30\<rceil>"
  by (simp_all add: new_Asteroid_def split: prod.splits)

lemma new_Asteroid_draws [simp, draws]:
  "snd (new_Asteroid px py pvx pvy psize pwave g) = sdrop 5 g"
  by (simp add: new_Asteroid_def split_def numeral_eq_Suc)

lemma new_Asteroid_spin:
  assumes "unit_draws g"
  shows "\<bar>ast_spin (fst (new_Asteroid px py pvx pvy psize pwave g))\<bar> \<le> 0.02"
proof -
  have spin: "ast_spin (fst (new_Asteroid px py pvx pvy psize pwave g)) = g !! 2 * 0.04 - 0.02"
    by (simp add: new_Asteroid_def split_def numeral_eq_Suc)
  from assms have "0 \<le> g !! 2" "g !! 2 < 1"
    by (simp_all add: unit_draws_snth)
  then show ?thesis unfolding spin abs_le_iff by simp
qed

lemma hp_of_tier:
  "t \<in> set (asteroidTypes CONFIG) \<Longrightarrow>
     hp (fst (new_Asteroid px py pvx pvy (at_size t) pwave g)) = (if at_size t = 30 then 1 else 2)"
  by (auto simp: asteroidTypes_CONFIG ceiling_eq_iff)

section \<open>Crystal: lemmas\<close>

lemma Crystal_update_fields [simp]:
  "cry_x (Crystal_update c) = cry_x c"
  "cry_type (Crystal_update c) = cry_type c"
  "cry_t (Crystal_update c) = cry_t c + 1"
  "cry_spin (Crystal_update c) = cry_spin c"
  "cry_rot (Crystal_update c) = cry_rot c + cry_spin c"
  "cry_y (Crystal_update c) = cry_y c + sin (real_of_int (cry_t c + 1) / 40) * 0.2"
  by (simp_all add: Crystal_update_def Let_def)

lemma Crystal_update_bob: "\<bar>cry_y (Crystal_update c) - cry_y c\<bar> \<le> 0.2"
proof -
  have "\<bar>sin (real_of_int (cry_t c + 1) / 40) * 0.2\<bar> \<le> 1 * 0.2"
    unfolding abs_mult by (intro mult_mono) simp_all
  then show ?thesis by simp
qed

lemma Crystal_update_ok [keeps]: "crystal_ok c \<Longrightarrow> crystal_ok (Crystal_update c)"
  by (simp add: crystal_ok_def)

lemma crystal_ok_typed: "crystal_ok c \<Longrightarrow> \<exists>ty. cry_type c = Some ty \<and> ty \<in> set (crystalTypes CONFIG)"
  by (auto simp: crystal_ok_def split: option.splits)

lemma crystal_ok_bounds:
  "crystal_ok c \<Longrightarrow> \<exists>b. Crystal_bounds c = Some b"
  by (auto simp: Crystal_bounds_def dest: crystal_ok_typed)

lemma Crystal_bounds_Some_iff: "(\<exists>b. Crystal_bounds c = Some b) \<longleftrightarrow> cry_type c \<noteq> None"
  by (auto simp: Crystal_bounds_def split: option.splits)

lemma Crystal_bounds_typed:
  "cry_type c = Some ty \<Longrightarrow>
     Crystal_bounds c = Some \<lparr>cx = cry_x c, cy = cry_y c, cr = ct_size ty * 0.65\<rparr>"
  by (simp add: Crystal_bounds_def)

lemma new_Crystal_fields [simp]:
  "cry_x (fst (new_Crystal px py ty g)) = px"
  "cry_y (fst (new_Crystal px py ty g)) = py"
  "cry_type (fst (new_Crystal px py ty g)) = ty"
  "cry_t (fst (new_Crystal px py ty g)) = 0"
  by (simp_all add: new_Crystal_def split: prod.splits)

lemma new_Crystal_draws [simp, draws]: "snd (new_Crystal px py ty g) = sdrop 2 g"
  by (simp add: new_Crystal_def split_def numeral_eq_Suc)

section \<open>Particle: lemmas\<close>

lemma Particle_update_fields [simp]:
  "par_t (Particle_update p) = par_t p + 1"
  "par_x (Particle_update p) = par_x p + par_vx p"
  "par_y (Particle_update p) = par_y p + par_vy p"
  "par_life (Particle_update p) = par_life p"
  "par_vx (Particle_update p) = par_vx p"
  "par_vy (Particle_update p) = par_vy p"
  "par_color (Particle_update p) = par_color p"
  "par_size (Particle_update p) = par_size p"
  by (simp_all add: Particle_update_def Let_def)

lemma Particle_updates_t: "par_t ((Particle_update ^^ k) p) = par_t p + int k"
  by (induction k) simp_all

lemma Particle_updates_life: "par_life ((Particle_update ^^ k) p) = par_life p"
  by (induction k) simp_all

lemma Particle_updates_vx: "par_vx ((Particle_update ^^ k) p) = par_vx p"
  by (induction k) simp_all

lemma Particle_updates_x: "par_x ((Particle_update ^^ k) p) = par_x p + real k * par_vx p"
  by (induction k) (simp_all add: Particle_updates_vx algebra_simps)

lemma Particle_dead_mono: "Particle_dead p \<Longrightarrow> Particle_dead (Particle_update p)"
  by (simp add: Particle_dead_def)

lemma Particle_dead_after:
  "Particle_dead ((Particle_update ^^ k) p) \<longleftrightarrow> par_life p \<le> real_of_int (par_t p) + real k"
  by (simp add: Particle_dead_def Particle_updates_t Particle_updates_life)

lemma Particle_dies:
  "Particle_dead ((Particle_update ^^ nat \<lceil>par_life p - real_of_int (par_t p)\<rceil>) p)"
proof -
  have "par_life p - real_of_int (par_t p) \<le> real (nat \<lceil>par_life p - real_of_int (par_t p)\<rceil>)"
    by (rule real_nat_ceiling_ge)
  then show ?thesis by (simp add: Particle_dead_after)
qed

lemma new_Particle_fields [simp]:
  "par_x (fst (new_Particle px py col plife pspeed g)) = px"
  "par_y (fst (new_Particle px py col plife pspeed g)) = py"
  "par_life (fst (new_Particle px py col plife pspeed g)) = plife"
  "par_t (fst (new_Particle px py col plife pspeed g)) = 0"
  "par_color (fst (new_Particle px py col plife pspeed g)) = col"
  by (simp_all add: new_Particle_def split: prod.splits)

lemma new_Particle_draws [simp, draws]: "snd (new_Particle px py col plife pspeed g) = sdrop 2 g"
  by (simp add: new_Particle_def split_def numeral_eq_Suc)

lemma new_Particle_speed:
  "(par_vx (fst (new_Particle px py col plife pspeed g)))\<^sup>2 +
   (par_vy (fst (new_Particle px py col plife pspeed g)))\<^sup>2 = pspeed\<^sup>2"
proof -
  have "(cos u * pspeed)\<^sup>2 + (sin u * pspeed)\<^sup>2 = pspeed\<^sup>2" for u :: real
    by (simp add: power_mult_distrib distrib_right [symmetric])
  then show ?thesis
    by (simp add: new_Particle_def split_def del: power_mult_distrib)
qed

lemma particle_fresh_alive: "particle_fresh p \<Longrightarrow> \<not> Particle_dead p"
  by (simp add: particle_fresh_def Particle_dead_def)

lemma particle_fresh_update:
  "particle_fresh p \<Longrightarrow> \<not> Particle_dead (Particle_update p) \<Longrightarrow> particle_fresh (Particle_update p)"
  by (simp add: particle_fresh_def Particle_dead_def)

lemma particle_fresh_age: "particle_fresh p \<Longrightarrow> par_t p < 48"
  by (simp add: particle_fresh_def)

lemma new_Particle_alive:
  "0 < plife \<Longrightarrow> \<not> Particle_dead (fst (new_Particle px py col plife pspeed g))"
  by (simp add: Particle_dead_def)

lemma Ship_updates_inv:
  "0 \<le> ship_inv sh \<Longrightarrow> ship_inv ((Ship_update ks ^^ k) sh) = max 0 (ship_inv sh - int k)"
  by (induction k) (auto simp: Ship_update_inv)

lemma Ship_updates_vulnerable:
  "0 \<le> ship_inv sh \<Longrightarrow> 0 < ship_inv ((Ship_update ks ^^ k) sh) \<longleftrightarrow> int k < ship_inv sh"
  by (auto simp: Ship_updates_inv)

section \<open>The bob of a crystal\<close>

text \<open>The sum of the steps of the bob in closed form: after \<open>t\<close> updates a
  crystal is \<open>bob_offset t\<close> below the height it was made at. The offset
  stays between 0 and 16, up to a thousandth.\<close>

lemma sin_80: "38399 / 3072000 \<le> sin (1 / 80 :: real)" "0 < sin (1 / 80 :: real)"
proof -
  show "38399 / 3072000 \<le> sin (1 / 80 :: real)"
    using sin_ge_cubic [of "1 / 80"] by (simp add: power3_eq_cube)
  then show "0 < sin (1 / 80 :: real)"
    by simp
qed

lemma bob_offset_0 [simp]: "bob_offset 0 = 0"
  by (simp add: bob_offset_def)

lemma bob_offset_step: "bob_offset (t + 1) = bob_offset t + sin (real_of_int (t + 1) / 40) * 0.2"
proof -
  let ?a = "(2 * real_of_int t + 1) / 80" and ?b = "(2 * real_of_int (t + 1) + 1) / 80"
  have "(?a + ?b) / 2 = real_of_int (t + 1) / 40" "(?b - ?a) / 2 = 1 / 80"
    by (simp_all add: field_simps)
  then have "cos ?a - cos ?b = 2 * sin (real_of_int (t + 1) / 40) * sin (1 / 80)"
    by (simp only: cos_diff_cos)
  then have "bob_offset (t + 1) - bob_offset t =
      2 * sin (real_of_int (t + 1) / 40) * sin (1 / 80) / (10 * sin (1 / 80))"
    by (simp add: bob_offset_def diff_divide_distrib [symmetric])
  with sin_80(2) show ?thesis
    by simp
qed

lemma bob_offset_range: "- (1 / 1000) \<le> bob_offset t" "bob_offset t \<le> 16001 / 1000"
proof -
  let ?s = "sin (1 / 80 :: real)" and ?c = "cos ((2 * real_of_int t + 1) / 80)"
  note s = sin_80
  have c0: "1 - 1 / 12800 \<le> cos (1 / 80 :: real)"
    using cos_ge_parabola [of "1 / 80"] by (simp add: power2_eq_square)
  have "- (1 / 12800) \<le> cos (1 / 80) - ?c"
    using c0 cos_le_one [of "(2 * real_of_int t + 1) / 80"] by linarith
  with s(2) have "- (1 / 12800) / (10 * ?s) \<le> (cos (1 / 80) - ?c) / (10 * ?s)"
    by (intro divide_right_mono) simp_all
  moreover have "- (1 / 1000) \<le> - (1 / 12800) / (10 * ?s)"
    using s by (simp add: field_simps)
  ultimately show "- (1 / 1000) \<le> bob_offset t"
    unfolding bob_offset_def by (rule order_trans [rotated])
  have "cos (1 / 80) - ?c \<le> 2"
    using cos_le_one [of "1 / 80 :: real"] cos_ge_minus_one [of "(2 * real_of_int t + 1) / 80"]
    by linarith
  with s(2) have "(cos (1 / 80) - ?c) / (10 * ?s) \<le> 2 / (10 * ?s)"
    by (intro divide_right_mono) simp_all
  moreover have "2 / (10 * ?s) \<le> 16001 / 1000"
    using s by (simp add: field_simps)
  ultimately show "bob_offset t \<le> 16001 / 1000"
    unfolding bob_offset_def by (rule order_trans)
qed

lemma Crystal_update_anchor [simp]:
  "cry_y (Crystal_update c) - bob_offset (cry_t (Crystal_update c)) = cry_y c - bob_offset (cry_t c)"
  by (simp add: bob_offset_step)

lemma Crystal_updates:
  "cry_t ((Crystal_update ^^ n) c) = cry_t c + int n"
  "cry_x ((Crystal_update ^^ n) c) = cry_x c"
  "cry_y ((Crystal_update ^^ n) c) = cry_y c + bob_offset (cry_t c + int n) - bob_offset (cry_t c)"
proof -
  show t: "cry_t ((Crystal_update ^^ n) c) = cry_t c + int n" for n
    by (induction n) simp_all
  show "cry_x ((Crystal_update ^^ n) c) = cry_x c"
    by (induction n) simp_all
  show "cry_y ((Crystal_update ^^ n) c) = cry_y c + bob_offset (cry_t c + int n) - bob_offset (cry_t c)"
  proof (induction n)
    case 0
    show ?case by simp
  next
    case (Suc n)
    let ?k = "cry_t c + int n"
    have k: "cry_t c + int (Suc n) = ?k + 1"
      by simp
    have "cry_y ((Crystal_update ^^ Suc n) c) =
        cry_y ((Crystal_update ^^ n) c) + sin (real_of_int (?k + 1) / 40) * 0.2"
      by (simp add: t)
    also have "\<dots> = cry_y c + bob_offset (?k + 1) - bob_offset (cry_t c)"
      unfolding Suc bob_offset_step by simp
    finally show ?case
      unfolding k .
  qed
qed

section \<open>Crystals on their track\<close>

lemma crystal_on_track_update [simp]: "crystal_on_track (Crystal_update c) = crystal_on_track c"
  unfolding crystal_on_track_def Crystal_update_anchor by simp

lemma crystal_on_track_fresh:
  "cry_t c = 0 \<Longrightarrow> crystal_on_track c \<longleftrightarrow> 40 \<le> cry_x c \<and> cry_x c \<le> 760 \<and> 40 \<le> cry_y c \<and> cry_y c \<le> 520"
  by (simp add: crystal_on_track_def)

lemma crystal_on_track_field:
  assumes "crystal_on_track c"
  shows "40 \<le> cry_x c" "cry_x c \<le> 760" "39 \<le> cry_y c" "cry_y c \<le> 537"
  using assms bob_offset_range [of "cry_t c"] by (simp_all add: crystal_on_track_def)

end
