(* ===== verification/Canvas.thy ===== *)
theory Canvas
  imports Prelude
begin

text \<open>
  The drawing surface \<^verbatim>\<open>src/game.js\<close> writes to (lines 26 to 28): the
  canvas element and its 2D context. A call of a context method or an
  assignment to a context attribute is a value of \<open>ctx_call\<close>; what the
  script draws in a frame is the list of its calls, in order. The second half
  is the part of the context's behaviour the properties of the drawing code
  rest on: the drawing state with its stack (\<^verbatim>\<open>save\<close>, \<^verbatim>\<open>restore\<close>),
  the current transformation, and the device points of the vertices that
  \<^verbatim>\<open>moveTo\<close> and \<^verbatim>\<open>lineTo\<close> add to a path.
\<close>

section \<open>Calls on the context\<close>

text \<open>What \<^verbatim>\<open>fillStyle\<close> is set to: a colour string, the template string
  \<^verbatim>\<open>hsl(h s% l%)\<close> of an asteroid with its numbers, or a gradient with its
  colour stops (the calls of \<^verbatim>\<open>addColorStop\<close>, in order).\<close>

datatype paint =
    Colour string
  | Hsl "int option" int "int option"
  | LinearGradient real real real real "(real \<times> string) list"
  | RadialGradient real real real real real real "(real \<times> string) list"

datatype ctx_call =
    Save
  | Restore
  | Translate real real
  | Rotate real
  | SetTransform real real real real real real
  | GlobalAlpha real
  | ShadowColor string
  | ShadowBlur real
  | FillStyle paint
  | StrokeStyle string
  | LineWidth real
  | BeginPath
  | MoveTo real real
  | LineTo real real
  | ClosePath
  | Ellipse real real real real real real real
  | Fill
  | Stroke
  | FillRect real real real real
  | ClearRect real real real real
  | Font string
  | TextAlign string
  | FillText string real real

text \<open>The canvas element: its bitmap size (\<^verbatim>\<open>canvas.width\<close>,
  \<^verbatim>\<open>canvas.height\<close>), its size on the page in CSS pixels
  (\<^verbatim>\<open>canvas.style.width\<close>, \<^verbatim>\<open>canvas.style.height\<close>), the transformation
  \<^verbatim>\<open>resizeCanvas\<close> sets on its context, and the calls the last
  \<^verbatim>\<open>render\<close> made.\<close>

type_synonym matrix = "real \<times> real \<times> real \<times> real \<times> real \<times> real"

record game_canvas =
  cv_width :: int
  cv_height :: int
  css_width :: real
  css_height :: real
  cv_transform :: matrix
  ctx_calls :: "ctx_call list"

text \<open>The rectangle \<^verbatim>\<open>getBoundingClientRect\<close> returns, and the pointer
  position the script keeps.\<close>

record client_rect =
  rect_left :: real
  rect_top :: real
  rect_width :: real
  rect_height :: real

record pointer =
  ptr_x :: real
  ptr_y :: real

section \<open>The drawing state\<close>

text \<open>The attributes of the context that the script sets. \<^verbatim>\<open>save\<close> pushes
  a copy of them, \<^verbatim>\<open>restore\<close> pops it and does nothing on an empty stack;
  an assignment to \<^verbatim>\<open>globalAlpha\<close> outside \<open>[0, 1]\<close> is ignored. A
  transformation \<open>(a, b, c, d, e, f)\<close> maps the point \<open>(x, y)\<close> to
  \<open>(a x + c y + e, b x + d y + f)\<close>.\<close>

record ctx_state =
  st_transform :: matrix
  st_alpha :: real
  st_fill :: paint
  st_stroke :: string
  st_line_width :: real
  st_shadow_color :: string
  st_shadow_blur :: real
  st_font :: string
  st_align :: string

definition device_point :: "matrix \<Rightarrow> real \<times> real \<Rightarrow> real \<times> real" where
  "device_point m p =
    (case m of (a, b, c, d, e, f) \<Rightarrow> (a * fst p + c * snd p + e, b * fst p + d * snd p + f))"

definition translate_by :: "real \<Rightarrow> real \<Rightarrow> matrix \<Rightarrow> matrix" where
  "translate_by x y m =
    (case m of (a, b, c, d, e, f) \<Rightarrow> (a, b, c, d, a * x + c * y + e, b * x + d * y + f))"

definition rotate_by :: "real \<Rightarrow> matrix \<Rightarrow> matrix" where
  "rotate_by t m =
    (case m of (a, b, c, d, e, f) \<Rightarrow>
      (a * cos t + c * sin t, b * cos t + d * sin t,
       c * cos t - a * sin t, d * cos t - b * sin t, e, f))"

fun changes_state :: "ctx_call \<Rightarrow> bool" where
  "changes_state (Translate x y) = True"
| "changes_state (Rotate t) = True"
| "changes_state (SetTransform a b c d e f) = True"
| "changes_state (GlobalAlpha v) = True"
| "changes_state (ShadowColor col) = True"
| "changes_state (ShadowBlur v) = True"
| "changes_state (FillStyle p) = True"
| "changes_state (StrokeStyle col) = True"
| "changes_state (LineWidth v) = True"
| "changes_state (Font fnt) = True"
| "changes_state (TextAlign al) = True"
| "changes_state _ = False"

fun set_state :: "ctx_call \<Rightarrow> ctx_state \<Rightarrow> ctx_state" where
  "set_state (Translate x y) st = st\<lparr> st_transform := translate_by x y (st_transform st) \<rparr>"
| "set_state (Rotate t) st = st\<lparr> st_transform := rotate_by t (st_transform st) \<rparr>"
| "set_state (SetTransform a b c d e f) st = st\<lparr> st_transform := (a, b, c, d, e, f) \<rparr>"
| "set_state (GlobalAlpha v) st = (if 0 \<le> v \<and> v \<le> 1 then st\<lparr> st_alpha := v \<rparr> else st)"
| "set_state (ShadowColor col) st = st\<lparr> st_shadow_color := col \<rparr>"
| "set_state (ShadowBlur v) st = st\<lparr> st_shadow_blur := v \<rparr>"
| "set_state (FillStyle p) st = st\<lparr> st_fill := p \<rparr>"
| "set_state (StrokeStyle col) st = st\<lparr> st_stroke := col \<rparr>"
| "set_state (LineWidth v) st = st\<lparr> st_line_width := v \<rparr>"
| "set_state (Font fnt) st = st\<lparr> st_font := fnt \<rparr>"
| "set_state (TextAlign al) st = st\<lparr> st_align := al \<rparr>"
| "set_state _ st = st"

type_synonym ctx = "ctx_state \<times> ctx_state list"

fun apply_call :: "ctx_call \<Rightarrow> ctx \<Rightarrow> ctx" where
  "apply_call Save (st, stk) = (st, st # stk)"
| "apply_call Restore (st, stk) = (case stk of [] \<Rightarrow> (st, []) | t # ts \<Rightarrow> (t, ts))"
| "apply_call c (st, stk) = (set_state c st, stk)"

definition run_calls :: "ctx_call list \<Rightarrow> ctx \<Rightarrow> ctx" where
  "run_calls cs cfg = fold apply_call cs cfg"

text \<open>A list of calls is scoped when every \<^verbatim>\<open>restore\<close> has its
  \<^verbatim>\<open>save\<close>, every \<^verbatim>\<open>save\<close> its \<^verbatim>\<open>restore\<close>, and no call outside
  such a pair changes the drawing state; \<open>scoped_from d\<close> is the same for a
  list that starts inside \<open>d\<close> pairs.\<close>

fun scoped_from :: "nat \<Rightarrow> ctx_call list \<Rightarrow> bool" where
  "scoped_from d [] = (d = 0)"
| "scoped_from d (Save # cs) = scoped_from (Suc d) cs"
| "scoped_from d (Restore # cs) = (0 < d \<and> scoped_from (d - 1) cs)"
| "scoped_from d (c # cs) = ((0 < d \<or> \<not> changes_state c) \<and> scoped_from d cs)"

abbreviation scoped :: "ctx_call list \<Rightarrow> bool" where
  "scoped cs \<equiv> scoped_from 0 cs"

text \<open>A list without \<^verbatim>\<open>save\<close> and \<^verbatim>\<open>restore\<close>: the body of a draw
  method.\<close>

definition flat :: "ctx_call list \<Rightarrow> bool" where
  "flat cs \<longleftrightarrow> list_all (\<lambda>c. c \<noteq> Save \<and> c \<noteq> Restore) cs"

text \<open>The values \<^verbatim>\<open>globalAlpha\<close> is set to.\<close>

fun alphas :: "ctx_call list \<Rightarrow> real list" where
  "alphas [] = []"
| "alphas (GlobalAlpha v # cs) = v # alphas cs"
| "alphas (c # cs) = alphas cs"

text \<open>The points that the calls add to the paths, in device coordinates:
  \<^verbatim>\<open>moveTo\<close> and \<^verbatim>\<open>lineTo\<close> take the transformation that is current
  when they are called.\<close>

fun path_point :: "ctx_call \<Rightarrow> (real \<times> real) option" where
  "path_point (MoveTo x y) = Some (x, y)"
| "path_point (LineTo x y) = Some (x, y)"
| "path_point _ = None"

fun path_points :: "ctx_call list \<Rightarrow> ctx \<Rightarrow> (real \<times> real) list" where
  "path_points [] cfg = []"
| "path_points (c # cs) cfg =
    (case path_point c of
       None \<Rightarrow> []
     | Some p \<Rightarrow> [device_point (st_transform (fst cfg)) p]) @ path_points cs (apply_call c cfg)"

section \<open>Lemmas\<close>

lemma run_calls_Nil [simp]: "run_calls [] cfg = cfg"
  by (simp add: run_calls_def)

lemma run_calls_Cons [simp]: "run_calls (c # cs) cfg = run_calls cs (apply_call c cfg)"
  by (simp add: run_calls_def)

lemma run_calls_append [simp]: "run_calls (cs @ ds) cfg = run_calls ds (run_calls cs cfg)"
  by (simp add: run_calls_def)

lemma apply_call_plain:
  "c \<noteq> Save \<Longrightarrow> c \<noteq> Restore \<Longrightarrow> apply_call c (st, stk) = (set_state c st, stk)"
  by (cases c) simp_all

lemma set_state_idle: "\<not> changes_state c \<Longrightarrow> set_state c st = st"
  by (cases c) simp_all

lemma flat_Nil [simp]: "flat []"
  by (simp add: flat_def)

lemma flat_Cons [simp]: "flat (c # cs) \<longleftrightarrow> c \<noteq> Save \<and> c \<noteq> Restore \<and> flat cs"
  by (simp add: flat_def)

lemma flat_append [simp]: "flat (cs @ ds) \<longleftrightarrow> flat cs \<and> flat ds"
  by (simp add: flat_def)

lemma flat_keeps_stack: "flat cs \<Longrightarrow> snd (run_calls cs (st, stk)) = stk"
  by (induction cs arbitrary: st) (simp_all add: apply_call_plain)

lemma scoped_from_flat:
  "flat cs \<Longrightarrow> 0 < d \<Longrightarrow> scoped_from d (cs @ ds) = scoped_from d ds"
proof (induction cs)
  case (Cons c cs)
  then show ?case by (cases c) simp_all
qed simp

lemma scoped_from_append:
  "scoped_from d cs \<Longrightarrow> scoped_from e ds \<Longrightarrow> scoped_from (d + e) (cs @ ds)"
proof (induction d cs rule: scoped_from.induct)
  case (1 d)
  then show ?case by simp
next
  case (2 d cs)
  then show ?case by simp
next
  case (3 d cs)
  then show ?case by (cases d) simp_all
qed simp_all

lemma scoped_append [simp]: "scoped cs \<Longrightarrow> scoped ds \<Longrightarrow> scoped (cs @ ds)"
  using scoped_from_append [of 0 cs 0 ds] by simp

lemma scoped_concat: "list_all scoped css \<Longrightarrow> scoped (concat css)"
  by (induction css) simp_all

lemma scoped_block: "flat cs \<Longrightarrow> scoped (Save # cs @ [Restore])"
  by (simp add: scoped_from_flat)

text \<open>Inside \<open>d\<close> pairs, with the state to return to at the bottom of the
  \<open>d\<close> saved ones, a scoped list runs to that state and leaves the stack
  below untouched.\<close>

lemma scoped_from_restores:
  assumes "scoped_from d cs" "length pre = d"
    and "d = 0 \<longrightarrow> st = st0" "0 < d \<longrightarrow> last pre = st0"
  shows "run_calls cs (st, pre @ stk) = (st0, stk)"
  using assms
proof (induction d cs arbitrary: st pre rule: scoped_from.induct)
  case (1 d)
  then show ?case by simp
next
  case (2 d cs)
  from 2 have "run_calls cs (st, (st # pre) @ stk) = (st0, stk)"
    by (intro "2.IH") auto
  then show ?case by simp
next
  case (3 d cs)
  from "3.prems" obtain t ts where pre: "pre = t # ts"
    by (cases pre) auto
  with "3.prems" have "run_calls cs (t, ts @ stk) = (st0, stk)"
    by (intro "3.IH") (auto split: if_splits)
  with pre show ?case by simp
qed (auto simp: set_state_idle)

lemma scoped_restores: "scoped cs \<Longrightarrow> run_calls cs (st, stk) = (st, stk)"
  using scoped_from_restores [of 0 cs "[]" st st stk] by simp

lemma alphas_append [simp]: "alphas (cs @ ds) = alphas cs @ alphas ds"
  by (induction cs rule: alphas.induct) simp_all

lemma alphas_concat: "alphas (concat css) = concat (map alphas css)"
  by (induction css) simp_all

lemma device_point_origin:
  "device_point (translate_by x y (k, 0, 0, k, 0, 0)) (0, 0) = (k * x, k * y)"
  by (simp add: device_point_def translate_by_def)

lemma device_point_rotate_origin:
  "device_point (rotate_by t m) (0, 0) = device_point m (0, 0)"
  by (cases m) (simp add: device_point_def rotate_by_def)

section \<open>The points of the paths\<close>

lemma path_points_append [simp]:
  "path_points (cs @ ds) cfg = path_points cs cfg @ path_points ds (run_calls cs cfg)"
  by (induction cs arbitrary: cfg) simp_all

lemma device_point_translate:
  "device_point (translate_by x y m) p = device_point m (fst p + x, snd p + y)"
  by (cases m) (simp add: device_point_def translate_by_def algebra_simps)

lemma device_point_rotate:
  "device_point (rotate_by t m) p =
     device_point m (fst p * cos t - snd p * sin t, fst p * sin t + snd p * cos t)"
  by (cases m) (simp add: device_point_def rotate_by_def algebra_simps)

lemma device_point_scale [simp]:
  "device_point (k, 0, 0, k, 0, 0) p = (k * fst p, k * snd p)"
  by (simp add: device_point_def)

text \<open>A translation and a rotation under a uniform scale keep distances up
  to the scale.\<close>

lemma rotation_norm:
  fixes a b :: real
  shows "(a * cos w - b * sin w)\<^sup>2 + (a * sin w + b * cos w)\<^sup>2 = a\<^sup>2 + b\<^sup>2"
proof -
  have "(a * cos w - b * sin w)\<^sup>2 + (a * sin w + b * cos w)\<^sup>2 =
      (a\<^sup>2 + b\<^sup>2) * ((sin w)\<^sup>2 + (cos w)\<^sup>2)"
    by (simp only: power2_eq_square algebra_simps)
  then show ?thesis by simp
qed

lemma device_point_placed:
  "device_point (rotate_by w (translate_by x y (k, 0, 0, k, 0, 0))) p =
     (k * (x + (fst p * cos w - snd p * sin w)), k * (y + (fst p * sin w + snd p * cos w)))"
  by (simp add: device_point_rotate device_point_translate add.commute)

lemma device_point_distance:
  "(fst (device_point (rotate_by w (translate_by x y (k, 0, 0, k, 0, 0))) p) - k * x)\<^sup>2 +
   (snd (device_point (rotate_by w (translate_by x y (k, 0, 0, k, 0, 0))) p) - k * y)\<^sup>2 =
   k\<^sup>2 * ((fst p)\<^sup>2 + (snd p)\<^sup>2)"
proof -
  have "(k * (x + (fst p * cos w - snd p * sin w)) - k * x)\<^sup>2 +
        (k * (y + (fst p * sin w + snd p * cos w)) - k * y)\<^sup>2 =
        k\<^sup>2 * ((fst p * cos w - snd p * sin w)\<^sup>2 + (fst p * sin w + snd p * cos w)\<^sup>2)"
    by (simp add: power2_eq_square algebra_simps)
  then show ?thesis
    by (simp add: device_point_placed rotation_norm)
qed

end
