(* ===== verification/World.thy ===== *)
theory World
  imports Entities Canvas
begin

text \<open>
  The global state of \<^verbatim>\<open>src/game.js\<close>: the object \<^verbatim>\<open>STATE\<close> (lines
  43 to 54), the object \<^verbatim>\<open>entities\<close> (lines 66 to 72), the set of held
  keys (line 57), the pointer position (line 317), the time of the last
  frame (line 417), and what the script has written to the page: the three
  HUD elements, the three overlays, the final-score line and the canvas. The sources of external values, the random draws and the
  clock readings still to come, are part of the state as well, so that every
  handler is a function from states to states. \<^verbatim>\<open>updateHUD\<close> (lines 374 to
  385) and the clock access are defined here because every later theory uses
  them.
\<close>

record game_state =
  running :: bool
  paused :: bool
  over :: bool
  score :: int
  lives :: int
  level :: int
  tick :: int
  lastCrystalMs :: real
  lastDifficultyMs :: real

definition STATE_init :: game_state where
  "STATE_init =
    \<lparr> running = False, paused = False, over = False, score = 0,
      lives = initialLives CONFIG, level = 1, tick = 0,
      lastCrystalMs = 0, lastDifficultyMs = 0 \<rparr>"

record game_entities =
  ship :: "Ship option"
  asteroids :: "Asteroid list"
  crystals :: "Crystal list"
  particles :: "Particle list"

definition entities_init :: game_entities where
  "entities_init = \<lparr> ship = None, asteroids = [], crystals = [], particles = [] \<rparr>"

text \<open>The page. \<open>hudScore\<close>, \<open>hudLevel\<close> and \<open>finalScore\<close> hold the number
  their element shows, \<open>hudLives\<close> one flag per heart (true for a full one),
  the overlays whether their class list has \<^verbatim>\<open>visible\<close>.\<close>

record game_ui =
  hudScore :: int
  hudLevel :: int
  hudLives :: "bool list"
  menu_visible :: bool
  pause_visible :: bool
  gameover_visible :: bool
  finalScore :: int

record game =
  STATE :: game_state
  entities :: game_entities
  ui :: game_ui
  keys :: "string set"
  mouse :: pointer
  canvas :: game_canvas
  lastTime :: real
  rnd :: rng
  clock :: clock

definition performance_now :: "game \<Rightarrow> real \<times> game" where
  "performance_now s = (shd (clock s), s\<lparr> clock := stl (clock s) \<rparr>)"

definition updateHUD :: "game \<Rightarrow> game" where
  "updateHUD s =
    s\<lparr> ui := (ui s)
      \<lparr> hudScore := score (STATE s),
        hudLevel := level (STATE s),
        hudLives := map (\<lambda>i. int i < lives (STATE s)) [0 ..< nat (initialLives CONFIG)] \<rparr> \<rparr>"

text \<open>The HUD shows the state: what \<^verbatim>\<open>updateHUD\<close> establishes and every
  handler is meant to keep.\<close>

definition hud_synced :: "game \<Rightarrow> bool" where
  "hud_synced s \<longleftrightarrow>
    hudScore (ui s) = score (STATE s) \<and>
    hudLevel (ui s) = level (STATE s) \<and>
    hudLives (ui s) = map (\<lambda>i. int i < lives (STATE s)) [0 ..< nat (initialLives CONFIG)]"

text \<open>Well-formed states. The flags exclude each other as the phases of the
  game do, the lives are between none and the initial three and are
  exhausted exactly when the game is over; the ship exists and every entity
  satisfies its class's predicate; the HUD shows the state; the draws still
  to come are unit draws.\<close>

definition state_ok :: "game_state \<Rightarrow> bool" where
  "state_ok st \<longleftrightarrow>
    \<not> (running st \<and> over st) \<and> \<not> (paused st \<and> \<not> running st) \<and>
    0 \<le> lives st \<and> lives st \<le> initialLives CONFIG \<and> (over st \<longleftrightarrow> lives st = 0) \<and>
    1 \<le> level st \<and> 0 \<le> score st \<and> 0 \<le> tick st"

definition entities_ok :: "game_entities \<Rightarrow> bool" where
  "entities_ok e \<longleftrightarrow>
    (case ship e of None \<Rightarrow> False | Some sh \<Rightarrow> ship_ok sh) \<and>
    list_all asteroid_ok (asteroids e) \<and>
    list_all crystal_ok (crystals e) \<and>
    list_all particle_fresh (particles e)"

definition game_ok :: "game \<Rightarrow> bool" where
  "game_ok s \<longleftrightarrow> state_ok (STATE s) \<and> entities_ok (entities s) \<and> hud_synced s \<and> unit_draws (rnd s)"

section \<open>Lemmas\<close>

lemma game_okI:
  "state_ok (STATE s) \<Longrightarrow> entities_ok (entities s) \<Longrightarrow> hud_synced s \<Longrightarrow> unit_draws (rnd s) \<Longrightarrow> game_ok s"
  by (simp add: game_ok_def)

lemma game_okD:
  assumes "game_ok s"
  shows "state_ok (STATE s)" "entities_ok (entities s)" "hud_synced s" "unit_draws (rnd s)"
  using assms by (simp_all add: game_ok_def)

lemma entities_okI:
  "ship e = Some sh \<Longrightarrow> ship_ok sh \<Longrightarrow> list_all asteroid_ok (asteroids e) \<Longrightarrow>
   list_all crystal_ok (crystals e) \<Longrightarrow> list_all particle_fresh (particles e) \<Longrightarrow> entities_ok e"
  by (simp add: entities_ok_def)

lemma entities_ok_ship:
  "entities_ok e \<Longrightarrow> \<exists>sh. ship e = Some sh \<and> ship_ok sh"
  by (auto simp: entities_ok_def split: option.splits)

lemma entities_okD:
  assumes "entities_ok e"
  shows "list_all asteroid_ok (asteroids e)" "list_all crystal_ok (crystals e)"
    "list_all particle_fresh (particles e)"
  using assms by (simp_all add: entities_ok_def)

lemma entities_ok_cong:
  "ship e' = ship e \<Longrightarrow> asteroids e' = asteroids e \<Longrightarrow> crystals e' = crystals e \<Longrightarrow>
   particles e' = particles e \<Longrightarrow> entities_ok e' = entities_ok e"
  by (simp add: entities_ok_def)

lemma game_ok_cong:
  "STATE s' = STATE s \<Longrightarrow> entities s' = entities s \<Longrightarrow> ui s' = ui s \<Longrightarrow> rnd s' = rnd s \<Longrightarrow>
   game_ok s' = game_ok s"
  by (simp add: game_ok_def hud_synced_def)

lemma game_ok_frame [simp]:
  "game_ok (s\<lparr> clock := c \<rparr>) = game_ok s" "game_ok (s\<lparr> lastTime := t \<rparr>) = game_ok s"
  "game_ok (s\<lparr> keys := ks \<rparr>) = game_ok s" "game_ok (s\<lparr> mouse := m \<rparr>) = game_ok s"
  "game_ok (s\<lparr> canvas := cv \<rparr>) = game_ok s"
  by (simp_all add: game_ok_def hud_synced_def)

lemma state_ok_running: "state_ok st \<Longrightarrow> running st \<Longrightarrow> \<not> over st \<and> 1 \<le> lives st"
  by (auto simp: state_ok_def)

lemma state_ok_STATE_init: "state_ok STATE_init"
  by (simp add: state_ok_def STATE_init_def)


lemma performance_now_fst [simp]: "fst (performance_now s) = shd (clock s)"
  by (simp add: performance_now_def)

lemma performance_now_snd [simp]: "snd (performance_now s) = s\<lparr> clock := stl (clock s) \<rparr>"
  by (simp add: performance_now_def)

lemma updateHUD_frame [simp, frame]:
  "STATE (updateHUD s) = STATE s"
  "entities (updateHUD s) = entities s"
  "keys (updateHUD s) = keys s"
  "mouse (updateHUD s) = mouse s"
  "canvas (updateHUD s) = canvas s"
  "lastTime (updateHUD s) = lastTime s"
  "rnd (updateHUD s) = rnd s"
  "clock (updateHUD s) = clock s"
  by (simp_all add: updateHUD_def)

lemma updateHUD_overlays [simp, frame]:
  "menu_visible (ui (updateHUD s)) = menu_visible (ui s)"
  "pause_visible (ui (updateHUD s)) = pause_visible (ui s)"
  "gameover_visible (ui (updateHUD s)) = gameover_visible (ui s)"
  "finalScore (ui (updateHUD s)) = finalScore (ui s)"
  by (simp_all add: updateHUD_def)

lemma updateHUD_synced [simp]: "hud_synced (updateHUD s)"
  by (simp add: hud_synced_def updateHUD_def)

lemma updateHUD_idem: "updateHUD (updateHUD s) = updateHUD s"
  by (simp add: updateHUD_def)

lemma hud_synced_updateHUD: "hud_synced s \<Longrightarrow> updateHUD s = s"
  by (simp add: hud_synced_def updateHUD_def)

lemma hud_synced_cong:
  "STATE s' = STATE s \<Longrightarrow> ui s' = ui s \<Longrightarrow> hud_synced s' = hud_synced s"
  by (simp add: hud_synced_def)

lemma hudLives_length: "hud_synced s \<Longrightarrow> length (hudLives (ui s)) = 3"
  by (simp add: hud_synced_def)

lemma hudLives_full_count:
  assumes "hud_synced s" "0 \<le> lives (STATE s)" "lives (STATE s) \<le> 3"
  shows "length (filter id (hudLives (ui s))) = nat (lives (STATE s))"
proof -
  have "[0 ..< nat (initialLives CONFIG)] = [0, 1, 2]"
    by (simp add: upt_rec)
  with assms(1) have hearts:
    "hudLives (ui s) = [0 < lives (STATE s), 1 < lives (STATE s), 2 < lives (STATE s)]"
    by (simp add: hud_synced_def)
  from assms(2,3) consider "lives (STATE s) = 0" | "lives (STATE s) = 1"
    | "lives (STATE s) = 2" | "lives (STATE s) = 3"
    by linarith
  then show ?thesis by cases (simp_all add: hearts)
qed

section \<open>The pointer and the canvas\<close>

text \<open>The collection \<open>device\<close> holds, for every function of the
  simulation, that it leaves the pointer and the canvas as they are: only
  the mouse listener writes the pointer, only \<^verbatim>\<open>resizeCanvas\<close> and
  \<^verbatim>\<open>render\<close> write the canvas.\<close>

lemma updateHUD_device [simp, device]:
  "mouse (updateHUD s) = mouse s" "canvas (updateHUD s) = canvas s"
  by (simp_all add: updateHUD_def)

end
