(* ===== verification/Spawner.thy ===== *)
theory Spawner
  imports World
begin

text \<open>
  The spawners of \<^verbatim>\<open>src/game.js\<close> lines 326 to 364. Each is split into
  the part that computes the new entity from the level and the random draws
  (\<open>make_asteroid\<close>, \<open>make_crystal\<close>, \<open>burst\<close>) and the part that pushes
  it onto its list and stores the rest of the draws. \<open>make_asteroid\<close> returns
  \<open>None\<close> where the JavaScript would read a field of \<^verbatim>\<open>undefined\<close>
  (no tier chosen) or leave the coordinates \<^verbatim>\<open>undefined\<close> (no edge
  matched); the lemmas show that neither happens for draws in the unit
  interval.
\<close>

section \<open>Asteroids\<close>

definition offscreen_position :: "asteroid_type \<Rightarrow> rng \<Rightarrow> (real \<times> real) option \<times> rng" where
  "offscreen_position t g =
    (case rand 0 4 g of (e, g) \<Rightarrow>
      let edge = \<lfloor>e\<rfloor>;
          p = None;
          (p, g) = (if edge = 0 then
                      (case rand 0 (height CONFIG) g of (v, g) \<Rightarrow> (Some (- at_size t - 20, v), g))
                    else (p, g));
          (p, g) = (if edge = 1 then
                      (case rand 0 (height CONFIG) g of (v, g) \<Rightarrow> (Some (width CONFIG + at_size t + 20, v), g))
                    else (p, g));
          (p, g) = (if edge = 2 then
                      (case rand 0 (width CONFIG) g of (v, g) \<Rightarrow> (Some (v, - at_size t - 20), g))
                    else (p, g));
          (p, g) = (if edge = 3 then
                      (case rand 0 (width CONFIG) g of (v, g) \<Rightarrow> (Some (v, height CONFIG + at_size t + 20), g))
                    else (p, g))
      in (p, g))"

definition onscreen_position :: "rng \<Rightarrow> (real \<times> real) option \<times> rng" where
  "onscreen_position g =
    (case rand 0 (width CONFIG) g of (px, g) \<Rightarrow>
     case rand 0 (height CONFIG * 0.5) g of (py, g) \<Rightarrow> (Some (px, py), g))"

definition make_asteroid :: "bool \<Rightarrow> int \<Rightarrow> rng \<Rightarrow> Asteroid option \<times> rng" where
  "make_asteroid offscreen lvl g =
    (case choice (asteroidTypes CONFIG) g of
       (None, g) \<Rightarrow> (None, g)
     | (Some t, g) \<Rightarrow>
        (case (if offscreen then offscreen_position t g else onscreen_position g) of
           (None, g) \<Rightarrow> (None, g)
         | (Some (px, py), g) \<Rightarrow>
            (case rand (- 0.7) 0.7 g of (da, g) \<Rightarrow>
             case rand (- 0.3) 0.3 g of (ds, g) \<Rightarrow>
             case Math_random g of (w, g) \<Rightarrow>
              let angle = Math_atan2 (height CONFIG / 2 - py) (width CONFIG / 2 - px) + da;
                  speed = at_speed t + ds + real_of_int lvl * 0.1;
                  vx = cos angle * speed;
                  vy = sin angle * speed;
                  wv = (w < min 0.4 (0.15 + real_of_int lvl * 0.03))
              in (case new_Asteroid px py vx vy (at_size t) wv g of (a, g) \<Rightarrow> (Some a, g)))))"

definition spawnAsteroid :: "bool \<Rightarrow> game \<Rightarrow> game option" where
  "spawnAsteroid offscreen s =
    (case make_asteroid offscreen (level (STATE s)) (rnd s) of
       (None, g) \<Rightarrow> None
     | (Some a, g) \<Rightarrow>
         Some (s\<lparr> entities := (entities s)\<lparr> asteroids := asteroids (entities s) @ [a] \<rparr>, rnd := g \<rparr>))"

text \<open>The loops \<^verbatim>\<open>for (...) spawnAsteroid(true)\<close> of \<^verbatim>\<open>reset\<close> and of the
  difficulty ramp.\<close>

primrec spawnAsteroids :: "nat \<Rightarrow> game \<Rightarrow> game option" where
  "spawnAsteroids 0 s = Some s"
| "spawnAsteroids (Suc n) s = spawnAsteroid True s \<bind> spawnAsteroids n"

section \<open>Crystals\<close>

definition make_crystal :: "rng \<Rightarrow> Crystal \<times> rng" where
  "make_crystal g =
    (case choice (crystalTypes CONFIG) g of (ty, g) \<Rightarrow>
      let margin = 40 in
      case rand margin (width CONFIG - margin) g of (px, g) \<Rightarrow>
      case rand margin (height CONFIG - margin * 2) g of (py, g) \<Rightarrow>
        new_Crystal px py ty g)"

definition spawnCrystal :: "game \<Rightarrow> game" where
  "spawnCrystal s =
    (case make_crystal (rnd s) of (c, g) \<Rightarrow>
      s\<lparr> entities := (entities s)\<lparr> crystals := crystals (entities s) @ [c] \<rparr>, rnd := g \<rparr>)"

section \<open>Particle bursts\<close>

definition burst_particle ::
  "real \<Rightarrow> real \<Rightarrow> string \<Rightarrow> real \<times> real \<Rightarrow> real \<times> real \<Rightarrow> rng \<Rightarrow> Particle \<times> rng" where
  "burst_particle px py col lifeR speedR g =
    (case rand (fst lifeR) (snd lifeR) g of (plife, g) \<Rightarrow>
     case rand (fst speedR) (snd speedR) g of (pspeed, g) \<Rightarrow>
       new_Particle px py col plife pspeed g)"

primrec burst ::
  "nat \<Rightarrow> real \<Rightarrow> real \<Rightarrow> string \<Rightarrow> real \<times> real \<Rightarrow> real \<times> real \<Rightarrow> rng \<Rightarrow> Particle list \<times> rng" where
  "burst 0 px py col lifeR speedR g = ([], g)"
| "burst (Suc n) px py col lifeR speedR g =
    (case burst_particle px py col lifeR speedR g of (p, g) \<Rightarrow>
     case burst n px py col lifeR speedR g of (ps, g) \<Rightarrow> (p # ps, g))"

definition spawnExplosion :: "real \<Rightarrow> real \<Rightarrow> string \<Rightarrow> game \<Rightarrow> game" where
  "spawnExplosion px py col s =
    (case burst 30 px py col (28, 48) (1, 4) (rnd s) of (ps, g) \<Rightarrow>
      s\<lparr> entities := (entities s)\<lparr> particles := particles (entities s) @ ps \<rparr>, rnd := g \<rparr>)"

definition spawnSparkle :: "real \<Rightarrow> real \<Rightarrow> string \<Rightarrow> game \<Rightarrow> game" where
  "spawnSparkle px py col s =
    (case burst 18 px py col (18, 30) (0.8, 2.5) (rnd s) of (ps, g) \<Rightarrow>
      s\<lparr> entities := (entities s)\<lparr> particles := particles (entities s) @ ps \<rparr>, rnd := g \<rparr>)"


section \<open>Derived notions\<close>

text \<open>Where an asteroid enters: on one of the four lines that bound the band
  its coordinates wrap in, at a coordinate along the playfield's side.\<close>

definition spawned_at_edge :: "asteroid_type \<Rightarrow> real \<times> real \<Rightarrow> bool" where
  "spawned_at_edge t p \<longleftrightarrow>
    (fst p = - at_size t - 20 \<and> 0 \<le> snd p \<and> snd p \<le> height CONFIG) \<or>
    (fst p = width CONFIG + at_size t + 20 \<and> 0 \<le> snd p \<and> snd p \<le> height CONFIG) \<or>
    (snd p = - at_size t - 20 \<and> 0 \<le> fst p \<and> fst p \<le> width CONFIG) \<or>
    (snd p = height CONFIG + at_size t + 20 \<and> 0 \<le> fst p \<and> fst p \<le> width CONFIG)"

text \<open>The velocity of lines 339 to 342, from the tier, the level, the position
  and the two perturbations.\<close>

definition asteroid_velocity ::
  "asteroid_type \<Rightarrow> int \<Rightarrow> real \<times> real \<Rightarrow> real \<Rightarrow> real \<Rightarrow> real \<times> real" where
  "asteroid_velocity t lvl p da ds =
    (let angle = Math_atan2 (height CONFIG / 2 - snd p) (width CONFIG / 2 - fst p) + da;
         speed = at_speed t + ds + real_of_int lvl * 0.1
     in (cos angle * speed, sin angle * speed))"

text \<open>What a burst promises of each particle: the position and colour asked
  for, age 0, a life and a speed within the ranges.\<close>

definition spark :: "real \<Rightarrow> real \<Rightarrow> string \<Rightarrow> real \<times> real \<Rightarrow> real \<times> real \<Rightarrow> Particle \<Rightarrow> bool" where
  "spark px py col lifeR speedR p \<longleftrightarrow>
    par_x p = px \<and> par_y p = py \<and> par_color p = col \<and> par_t p = 0 \<and>
    fst lifeR \<le> par_life p \<and> par_life p \<le> snd lifeR \<and>
    (fst speedR)\<^sup>2 \<le> (par_vx p)\<^sup>2 + (par_vy p)\<^sup>2 \<and>
    (par_vx p)\<^sup>2 + (par_vy p)\<^sup>2 \<le> (snd speedR)\<^sup>2"

section \<open>Asteroids: position\<close>

lemma offscreen_position_edge:
  "offscreen_position t g =
    (let edge = \<lfloor>shd g * 4\<rfloor>;
         v = fst (rand 0 (if edge < 2 then height CONFIG else width CONFIG) (stl g))
     in if edge = 0 then (Some (- at_size t - 20, v), sdrop 2 g)
        else if edge = 1 then (Some (width CONFIG + at_size t + 20, v), sdrop 2 g)
        else if edge = 2 then (Some (v, - at_size t - 20), sdrop 2 g)
        else if edge = 3 then (Some (v, height CONFIG + at_size t + 20), sdrop 2 g)
        else (None, stl g))"
  by (simp add: offscreen_position_def split_def Let_def numeral_eq_Suc)

lemma offscreen_position_draws:
  "offscreen_position t g = (Some p, g') \<Longrightarrow> g' = sdrop 2 g"
  by (auto simp: offscreen_position_edge Let_def split: if_splits)

lemma offscreen_position_unit [total]:
  assumes "unit_draws g"
  shows "\<exists>p. offscreen_position t g = (Some p, sdrop 2 g) \<and> spawned_at_edge t p"
proof -
  have "unit_draws (stl g)"
    using assms by (rule unit_draws_stl)
  then have v: "0 \<le> fst (rand 0 b (stl g)) \<and> fst (rand 0 b (stl g)) \<le> b" if "0 \<le> b" for b
    using that by (rule rand_range)
  from v [of "height CONFIG"] v [of "width CONFIG"] floor_scale_four [OF assms]
  show ?thesis
    unfolding offscreen_position_edge spawned_at_edge_def Let_def
    by (auto simp del: fst_rand)
qed

lemma offscreen_position_undefined:
  "\<lfloor>shd g * 4\<rfloor> \<notin> {0, 1, 2, 3} \<Longrightarrow> fst (offscreen_position t g) = None"
  by (simp add: offscreen_position_edge Let_def)

lemma onscreen_position_eq:
  "onscreen_position g =
     (Some (fst (rand 0 (width CONFIG) g), fst (rand 0 (height CONFIG * 0.5) (stl g))), sdrop 2 g)"
  by (simp add: onscreen_position_def split_def numeral_eq_Suc)

lemma onscreen_position_range:
  assumes "unit_draws g" "onscreen_position g = (Some p, g')"
  shows "0 \<le> fst p \<and> fst p \<le> width CONFIG \<and> 0 \<le> snd p \<and> snd p \<le> height CONFIG / 2"
proof -
  have "0 \<le> fst (rand 0 (width CONFIG) g) \<and> fst (rand 0 (width CONFIG) g) \<le> width CONFIG"
    using assms(1) by (intro rand_range) simp_all
  moreover have "0 \<le> fst (rand 0 (height CONFIG * 0.5) (stl g)) \<and>
      fst (rand 0 (height CONFIG * 0.5) (stl g)) \<le> height CONFIG * 0.5"
    using assms(1) by (intro rand_range unit_draws_stl) simp_all
  ultimately show ?thesis
    using assms(2) unfolding onscreen_position_eq by (auto simp del: fst_rand)
qed

section \<open>Asteroids: the new asteroid\<close>

lemma make_asteroid_Some:
  assumes "fst (choice (asteroidTypes CONFIG) g) = Some t"
    and "(if off then offscreen_position t (stl g) else onscreen_position (stl g)) = (Some p, g1)"
  shows "make_asteroid off lvl g =
    (let da = fst (rand (- 0.7) 0.7 g1);
         ds = fst (rand (- 0.3) 0.3 (stl g1));
         v = asteroid_velocity t lvl p da ds;
         wv = (shd (sdrop 2 g1) < min 0.4 (0.15 + real_of_int lvl * 0.03))
     in (Some (fst (new_Asteroid (fst p) (snd p) (fst v) (snd v) (at_size t) wv (sdrop 3 g1))),
         sdrop 8 g1))"
proof -
  obtain px py where p: "p = (px, py)" by (cases p)
  have c: "choice (asteroidTypes CONFIG) g = (Some t, stl g)"
    using assms(1) by (simp add: prod_eq_iff)
  show ?thesis
  proof (cases off)
    case True
    with assms(2) have "offscreen_position t (stl g) = (Some (px, py), g1)"
      by (simp add: p)
    with True show ?thesis unfolding make_asteroid_def c p
      by (simp add: split_def Let_def asteroid_velocity_def numeral_eq_Suc del: fst_rand)
  next
    case False
    with assms(2) have "onscreen_position (stl g) = (Some (px, py), g1)"
      by (simp add: p)
    with False show ?thesis unfolding make_asteroid_def c p
      by (simp add: split_def Let_def asteroid_velocity_def numeral_eq_Suc del: fst_rand)
  qed
qed

lemma make_asteroid_None_tier:
  "fst (choice (asteroidTypes CONFIG) g) = None \<Longrightarrow> fst (make_asteroid off lvl g) = None"
  by (simp add: make_asteroid_def split_def split: option.splits)

lemma make_asteroid_cases [consumes 1, case_names made]:
  assumes "make_asteroid off lvl g = (Some a, g')"
  obtains t p where
    "t \<in> set (asteroidTypes CONFIG)"
    "(if off then offscreen_position t (stl g) else onscreen_position (stl g)) = (Some p, sdrop 3 g)"
    "g' = sdrop 11 g"
    "a = fst (new_Asteroid (fst p) (snd p)
          (fst (asteroid_velocity t lvl p (fst (rand (- 0.7) 0.7 (sdrop 3 g))) (fst (rand (- 0.3) 0.3 (sdrop 4 g)))))
          (snd (asteroid_velocity t lvl p (fst (rand (- 0.7) 0.7 (sdrop 3 g))) (fst (rand (- 0.3) 0.3 (sdrop 4 g)))))
          (at_size t) (g !! 5 < min 0.4 (0.15 + real_of_int lvl * 0.03)) (sdrop 6 g))"
proof -
  from assms obtain t where t: "fst (choice (asteroidTypes CONFIG) g) = Some t"
    by (cases "fst (choice (asteroidTypes CONFIG) g)") (auto simp: make_asteroid_None_tier dest: arg_cong [where f = fst])
  let ?pos = "if off then offscreen_position t (stl g) else onscreen_position (stl g)"
  have c: "choice (asteroidTypes CONFIG) g = (Some t, stl g)"
    using t by (simp add: prod_eq_iff)
  from assms obtain p g1 where pos: "?pos = (Some p, g1)"
    unfolding make_asteroid_def c
    by (cases ?pos; cases "fst ?pos") (auto split: if_splits)
  then have g1: "g1 = sdrop 3 g"
    by (auto simp: onscreen_position_eq numeral_eq_Suc dest: offscreen_position_draws split: if_splits)
  from make_asteroid_Some [OF t pos, of lvl] assms
  have rest: "g' = sdrop 11 g" and made: "a = fst (new_Asteroid (fst p) (snd p)
          (fst (asteroid_velocity t lvl p (fst (rand (- 0.7) 0.7 (sdrop 3 g))) (fst (rand (- 0.3) 0.3 (sdrop 4 g)))))
          (snd (asteroid_velocity t lvl p (fst (rand (- 0.7) 0.7 (sdrop 3 g))) (fst (rand (- 0.3) 0.3 (sdrop 4 g)))))
          (at_size t) (g !! 5 < min 0.4 (0.15 + real_of_int lvl * 0.03)) (sdrop 6 g))"
    by (simp_all add: Let_def g1 del: fst_rand)
  show thesis
  proof (rule that [of t p])
    show "t \<in> set (asteroidTypes CONFIG)"
      using t by (rule choice_Some_mem)
    show "(if off then offscreen_position t (stl g) else onscreen_position (stl g)) = (Some p, sdrop 3 g)"
      using pos g1 by simp
  qed (fact rest, fact made)
qed

lemma make_asteroid_total [total]:
  assumes "unit_draws g"
  shows "\<exists>a. make_asteroid off lvl g = (Some a, sdrop 11 g)"
proof -
  from assms obtain t where t: "fst (choice (asteroidTypes CONFIG) g) = Some t"
    using choice_defined [of g "asteroidTypes CONFIG"] by (auto simp: asteroidTypes_CONFIG)
  have "unit_draws (stl g)"
    using assms by (rule unit_draws_stl)
  then have "\<exists>p. (if off then offscreen_position t (stl g) else onscreen_position (stl g)) = (Some p, sdrop 3 g)"
    using offscreen_position_unit [of "stl g" t]
    by (cases off) (auto simp: onscreen_position_eq numeral_eq_Suc)
  then obtain p where
    "(if off then offscreen_position t (stl g) else onscreen_position (stl g)) = (Some p, sdrop 3 g)" ..
  from make_asteroid_Some [OF t this] show ?thesis
    by (simp add: Let_def)
qed

section \<open>Asteroids: what is known of a new asteroid\<close>

lemma make_asteroid_size:
  assumes "make_asteroid off lvl g = (Some a, g')"
  shows "ast_size a \<in> {30, 45, 60}"
  using assms by (cases rule: make_asteroid_cases) (auto dest: asteroidTypes_sizes)

lemma make_asteroid_draws [draws]:
  "make_asteroid off lvl g = (Some a, g') \<Longrightarrow> g' = sdrop 11 g"
  by (erule make_asteroid_cases)

lemma spawned_at_edge_in_band:
  assumes "spawned_at_edge t p" "0 \<le> at_size t"
  shows "- at_size t - 20 \<le> fst p \<and> fst p \<le> width CONFIG + at_size t + 20 \<and>
         - at_size t - 20 \<le> snd p \<and> snd p \<le> height CONFIG + at_size t + 20"
  using assms by (auto simp: spawned_at_edge_def)

lemma make_asteroid_position:
  assumes "unit_draws g" "make_asteroid off lvl g = (Some a, g')"
  shows "if off then (\<exists>t \<in> set (asteroidTypes CONFIG). ast_size a = at_size t \<and> spawned_at_edge t (ast_x a, ast_y a))
         else 0 \<le> ast_x a \<and> ast_x a \<le> width CONFIG \<and> 0 \<le> ast_y a \<and> ast_y a \<le> height CONFIG / 2"
  using assms(2)
proof (cases rule: make_asteroid_cases)
  case (made t p)
  have u: "unit_draws (stl g)"
    using assms(1) by (rule unit_draws_stl)
  show ?thesis
  proof (cases off)
    case True
    with made(2) offscreen_position_unit [OF u, of t] have "spawned_at_edge t p"
      by auto
    with True made(1,4) show ?thesis by auto
  next
    case False
    with made(2) have "onscreen_position (stl g) = (Some p, sdrop 3 g)"
      by simp
    from onscreen_position_range [OF u this] False made(4) show ?thesis
      by simp
  qed
qed

lemma make_asteroid_in_band:
  assumes "unit_draws g" "make_asteroid off lvl g = (Some a, g')"
  shows "asteroid_in_band a"
proof -
  from assms(2) have sz: "ast_size a \<in> {30, 45, 60}"
    by (rule make_asteroid_size)
  show ?thesis
  proof (cases off)
    case True
    with make_asteroid_position [OF assms] obtain t where
      "ast_size a = at_size t" "spawned_at_edge t (ast_x a, ast_y a)"
      by auto
    with sz spawned_at_edge_in_band [of t "(ast_x a, ast_y a)"] show ?thesis
      by (auto simp: asteroid_in_band_def)
  next
    case False
    with make_asteroid_position [OF assms] sz show ?thesis
      by (auto simp: asteroid_in_band_def)
  qed
qed

lemma make_asteroid_ok [keeps]:
  assumes "unit_draws g" "make_asteroid off lvl g = (Some a, g')"
  shows "asteroid_ok a"
  unfolding asteroid_ok_def
  using make_asteroid_size [OF assms(2)] make_asteroid_in_band [OF assms] by (rule conjI)

lemma asteroid_velocity_norm:
  "(fst (asteroid_velocity t lvl p da ds))\<^sup>2 + (snd (asteroid_velocity t lvl p da ds))\<^sup>2
     = (at_speed t + ds + real_of_int lvl * 0.1)\<^sup>2"
proof -
  have "(cos u * w)\<^sup>2 + (sin u * w)\<^sup>2 = w\<^sup>2" for u w :: real
    by (simp add: power_mult_distrib distrib_right [symmetric])
  then show ?thesis
    by (simp add: asteroid_velocity_def Let_def)
qed

lemma make_asteroid_speed:
  assumes "unit_draws g" "make_asteroid off lvl g = (Some a, g')"
  shows "\<exists>t \<in> set (asteroidTypes CONFIG). \<exists>ds. \<bar>ds\<bar> \<le> 0.3 \<and>
           (ast_vx a)\<^sup>2 + (ast_vy a)\<^sup>2 = (at_speed t + ds + real_of_int lvl * 0.1)\<^sup>2"
  using assms(2)
proof (cases rule: make_asteroid_cases)
  case (made t p)
  let ?ds = "fst (rand (- 0.3) 0.3 (sdrop 4 g))"
  have "unit_draws (sdrop 4 g)"
    using assms(1) by (rule unit_draws_sdrop)
  then have "\<bar>?ds\<bar> \<le> 0.3"
    by (intro rand_sym_abs) simp_all
  moreover have "(ast_vx a)\<^sup>2 + (ast_vy a)\<^sup>2 = (at_speed t + ?ds + real_of_int lvl * 0.1)\<^sup>2"
    unfolding made(4) by (simp add: asteroid_velocity_norm del: fst_rand)
  ultimately show ?thesis using made(1) by blast
qed


section \<open>Asteroids: the state\<close>

lemma spawnAsteroid_cases [consumes 1, case_names spawned]:
  assumes "spawnAsteroid off s = Some s'"
  obtains a where
    "make_asteroid off (level (STATE s)) (rnd s) = (Some a, sdrop 11 (rnd s))"
    "s' = s\<lparr> entities := (entities s)\<lparr> asteroids := asteroids (entities s) @ [a] \<rparr>,
             rnd := sdrop 11 (rnd s) \<rparr>"
proof -
  from assms obtain a g where m: "make_asteroid off (level (STATE s)) (rnd s) = (Some a, g)"
    and s': "s' = s\<lparr> entities := (entities s)\<lparr> asteroids := asteroids (entities s) @ [a] \<rparr>, rnd := g \<rparr>"
    by (auto simp: spawnAsteroid_def split: prod.splits option.splits)
  from m have "g = sdrop 11 (rnd s)"
    by (rule make_asteroid_draws)
  with m s' that show thesis by simp
qed

lemma spawnAsteroid_total [total]:
  assumes "unit_draws (rnd s)"
  shows "\<exists>s'. spawnAsteroid off s = Some s'"
  using make_asteroid_total [OF assms, of off "level (STATE s)"]
  by (auto simp: spawnAsteroid_def)

lemma spawnAsteroid_frame [frame]:
  assumes "spawnAsteroid off s = Some s'"
  shows "STATE s' = STATE s" "ui s' = ui s" "keys s' = keys s" "lastTime s' = lastTime s"
    "clock s' = clock s" "ship (entities s') = ship (entities s)"
    "crystals (entities s') = crystals (entities s)"
    "particles (entities s') = particles (entities s)"
  using assms by (cases rule: spawnAsteroid_cases; simp)+

lemma spawnAsteroid_rnd [draws]: "spawnAsteroid off s = Some s' \<Longrightarrow> rnd s' = sdrop 11 (rnd s)"
  by (erule spawnAsteroid_cases) simp

lemma spawnAsteroid_asteroids:
  assumes "spawnAsteroid off s = Some s'"
  shows "\<exists>a. asteroids (entities s') = asteroids (entities s) @ [a] \<and> ast_size a \<in> {30, 45, 60}"
  using assms by (cases rule: spawnAsteroid_cases) (auto dest: make_asteroid_size)

lemma spawnAsteroid_length:
  "spawnAsteroid off s = Some s' \<Longrightarrow> length (asteroids (entities s')) = Suc (length (asteroids (entities s)))"
  by (erule spawnAsteroid_cases) simp

text \<open>A property of the asteroid list that holds before a spawn and of every
  asteroid the generator can return holds after it.\<close>

lemma spawnAsteroid_list_all:
  assumes "spawnAsteroid off s = Some s'" "list_all P (asteroids (entities s))"
    and "\<And>a g'. make_asteroid off (level (STATE s)) (rnd s) = (Some a, g') \<Longrightarrow> P a"
  shows "list_all P (asteroids (entities s'))"
  using assms by (cases rule: spawnAsteroid_cases) simp

lemma spawnAsteroid_ok [keeps]:
  assumes "spawnAsteroid off s = Some s'" "unit_draws (rnd s)"
    and "list_all asteroid_ok (asteroids (entities s))"
  shows "list_all asteroid_ok (asteroids (entities s'))"
  using assms(1,3) by (rule spawnAsteroid_list_all) (rule make_asteroid_ok [OF assms(2)])

section \<open>The spawn loop\<close>

lemma spawnAsteroids_invariant:
  assumes "spawnAsteroids n s = Some s'" "P s"
    and "\<And>u u'. P u \<Longrightarrow> spawnAsteroid True u = Some u' \<Longrightarrow> P u'"
  shows "P s'"
  using assms(1,2)
proof (induction n arbitrary: s)
  case 0
  then show ?case by simp
next
  case (Suc n)
  from Suc.prems(1) obtain u where u: "spawnAsteroid True s = Some u" and rest: "spawnAsteroids n u = Some s'"
    by (auto simp: bind_eq_Some_conv)
  from Suc.prems(2) u have "P u" by (rule assms(3))
  with rest show ?case by (rule Suc.IH)
qed

lemma spawnAsteroids_total [total]:
  "unit_draws (rnd s) \<Longrightarrow> \<exists>s'. spawnAsteroids n s = Some s'"
proof (induction n arbitrary: s)
  case 0
  then show ?case by simp
next
  case (Suc n)
  from Suc.prems obtain u where u: "spawnAsteroid True s = Some u"
    using spawnAsteroid_total by blast
  then have "unit_draws (rnd u)"
    using Suc.prems by (simp add: spawnAsteroid_rnd unit_draws_sdrop)
  then obtain s' where "spawnAsteroids n u = Some s'"
    using Suc.IH by blast
  with u show ?case by simp
qed

lemma spawnAsteroids_ok [keeps]:
  assumes "spawnAsteroids n s = Some s'" "unit_draws (rnd s)"
    and "list_all asteroid_ok (asteroids (entities s))"
  shows "list_all asteroid_ok (asteroids (entities s'))"
proof -
  have "unit_draws (rnd s') \<and> list_all asteroid_ok (asteroids (entities s'))"
    by (rule spawnAsteroids_invariant [OF assms(1)])
      (auto simp: assms(2,3) spawnAsteroid_rnd unit_draws_sdrop intro: spawnAsteroid_ok)
  then show ?thesis ..
qed

lemma spawnAsteroids_frame [frame]:
  assumes "spawnAsteroids n s = Some s'"
  shows "STATE s' = STATE s" "ui s' = ui s" "keys s' = keys s" "lastTime s' = lastTime s"
    "clock s' = clock s" "ship (entities s') = ship (entities s)"
    "crystals (entities s') = crystals (entities s)"
    "particles (entities s') = particles (entities s)"
  by (rule spawnAsteroids_invariant [OF assms]; simp add: spawnAsteroid_frame)+

lemma spawnAsteroids_length:
  "spawnAsteroids n s = Some s' \<Longrightarrow> length (asteroids (entities s')) = length (asteroids (entities s)) + n"
proof (induction n arbitrary: s)
  case 0
  then show ?case by simp
next
  case (Suc n)
  then obtain u where u: "spawnAsteroid True s = Some u" and rest: "spawnAsteroids n u = Some s'"
    by (auto simp: bind_eq_Some_conv)
  from Suc.IH [OF rest] spawnAsteroid_length [OF u] show ?case by simp
qed

lemma spawnAsteroids_rnd [draws]:
  "spawnAsteroids n s = Some s' \<Longrightarrow> rnd s' = sdrop (11 * n) (rnd s)"
proof (induction n arbitrary: s)
  case 0
  then show ?case by simp
next
  case (Suc n)
  then obtain u where u: "spawnAsteroid True s = Some u" and rest: "spawnAsteroids n u = Some s'"
    by (auto simp: bind_eq_Some_conv)
  from Suc.IH [OF rest] spawnAsteroid_rnd [OF u] show ?case
    by (simp add: add.commute)
qed

lemma spawnAsteroids_prefix:
  "spawnAsteroids n s = Some s' \<Longrightarrow> take (length (asteroids (entities s))) (asteroids (entities s')) = asteroids (entities s)"
proof (induction n arbitrary: s)
  case 0
  then show ?case by simp
next
  case (Suc n)
  then obtain u where u: "spawnAsteroid True s = Some u" and rest: "spawnAsteroids n u = Some s'"
    by (auto simp: bind_eq_Some_conv)
  from u obtain a where a: "asteroids (entities u) = asteroids (entities s) @ [a]"
    using spawnAsteroid_asteroids by blast
  from Suc.IH [OF rest] have "take (Suc (length (asteroids (entities s)))) (asteroids (entities s')) = asteroids (entities s) @ [a]"
    by (simp add: a)
  then have "take (length (asteroids (entities s))) (take (Suc (length (asteroids (entities s)))) (asteroids (entities s'))) = asteroids (entities s)"
    by simp
  then show ?case by (simp add: min_def)
qed

section \<open>Crystals\<close>

lemma make_crystal_eq:
  "make_crystal g =
     new_Crystal (fst (rand 40 (width CONFIG - 40) (stl g)))
       (fst (rand 40 (height CONFIG - 40 * 2) (sdrop 2 g)))
       (fst (choice (crystalTypes CONFIG) g)) (sdrop 3 g)"
  by (simp add: make_crystal_def split_def Let_def numeral_eq_Suc del: fst_rand)

lemma make_crystal_draws [simp, draws]: "snd (make_crystal g) = sdrop 5 g"
  by (simp add: make_crystal_eq)

lemma make_crystal_typed:
  assumes "unit_draws g"
  shows "\<exists>ty \<in> set (crystalTypes CONFIG). cry_type (fst (make_crystal g)) = Some ty"
  using choice_defined [OF assms, of "crystalTypes CONFIG"]
  by (auto simp: make_crystal_eq crystalTypes_CONFIG)

lemma make_crystal_position:
  assumes "unit_draws g"
  shows "40 \<le> cry_x (fst (make_crystal g)) \<and> cry_x (fst (make_crystal g)) \<le> 760 \<and>
         40 \<le> cry_y (fst (make_crystal g)) \<and> cry_y (fst (make_crystal g)) \<le> 520"
proof -
  have "40 \<le> fst (rand 40 760 (stl g)) \<and> fst (rand 40 760 (stl g)) \<le> 760"
    using assms by (intro rand_range unit_draws_stl) simp_all
  moreover have "40 \<le> fst (rand 40 520 (sdrop 2 g)) \<and> fst (rand 40 520 (sdrop 2 g)) \<le> 520"
    using assms by (intro rand_range unit_draws_sdrop) simp_all
  ultimately show ?thesis
    by (simp add: make_crystal_eq del: fst_rand)
qed

lemma make_crystal_fresh: "cry_t (fst (make_crystal g)) = 0"
  by (simp add: make_crystal_eq)

lemma spawnCrystal_eq:
  "spawnCrystal s =
     s\<lparr> entities := (entities s)\<lparr> crystals := crystals (entities s) @ [fst (make_crystal (rnd s))] \<rparr>,
        rnd := sdrop 5 (rnd s) \<rparr>"
  by (simp add: spawnCrystal_def split_def)

lemma spawnCrystal_frame [simp, frame]:
  "STATE (spawnCrystal s) = STATE s" "ui (spawnCrystal s) = ui s" "keys (spawnCrystal s) = keys s"
  "lastTime (spawnCrystal s) = lastTime s" "clock (spawnCrystal s) = clock s"
  "ship (entities (spawnCrystal s)) = ship (entities s)"
  "asteroids (entities (spawnCrystal s)) = asteroids (entities s)"
  "particles (entities (spawnCrystal s)) = particles (entities s)"
  by (simp_all add: spawnCrystal_eq)

lemma spawnCrystal_rnd [simp, draws]: "rnd (spawnCrystal s) = sdrop 5 (rnd s)"
  by (simp add: spawnCrystal_eq)

lemma spawnCrystal_crystals [simp]:
  "crystals (entities (spawnCrystal s)) = crystals (entities s) @ [fst (make_crystal (rnd s))]"
  by (simp add: spawnCrystal_eq)

section \<open>Particle bursts\<close>

lemma burst_particle_eq:
  "burst_particle px py col lifeR speedR g =
     new_Particle px py col (fst (rand (fst lifeR) (snd lifeR) g))
       (fst (rand (fst speedR) (snd speedR) (stl g))) (sdrop 2 g)"
  by (simp add: burst_particle_def split_def numeral_eq_Suc del: fst_rand)

lemma burst_particle_draws [simp, draws]: "snd (burst_particle px py col lifeR speedR g) = sdrop 4 g"
  by (simp add: burst_particle_eq)

lemma burst_draws [simp, draws]: "snd (burst n px py col lifeR speedR g) = sdrop (4 * n) g"
  by (induction n arbitrary: g) (simp_all add: split_def)

lemma burst_length [simp]: "length (fst (burst n px py col lifeR speedR g)) = n"
  by (induction n arbitrary: g) (simp_all add: split_def)

text \<open>What holds of every particle one call of the constructor can return holds
  of a whole burst.\<close>

lemma burst_list_all:
  assumes "\<And>g. P (fst (burst_particle px py col lifeR speedR g))"
  shows "list_all P (fst (burst n px py col lifeR speedR g))"
  by (induction n arbitrary: g) (simp_all add: split_def assms)

lemma burst_list_all_unit:
  assumes "unit_draws g"
    and "\<And>g. unit_draws g \<Longrightarrow> P (fst (burst_particle px py col lifeR speedR g))"
  shows "list_all P (fst (burst n px py col lifeR speedR g))"
  using assms(1)
proof (induction n arbitrary: g)
  case 0
  then show ?case by simp
next
  case (Suc n)
  from Suc.prems have "unit_draws (sdrop 4 g)"
    by (rule unit_draws_sdrop)
  then have "list_all P (fst (burst n px py col lifeR speedR (sdrop 4 g)))"
    by (rule Suc.IH)
  with Suc.prems show ?case
    by (simp add: split_def assms(2))
qed

lemma burst_particle_fields [simp]:
  "par_x (fst (burst_particle px py col lifeR speedR g)) = px"
  "par_y (fst (burst_particle px py col lifeR speedR g)) = py"
  "par_t (fst (burst_particle px py col lifeR speedR g)) = 0"
  "par_color (fst (burst_particle px py col lifeR speedR g)) = col"
  by (simp_all add: burst_particle_eq)

lemma burst_particle_life:
  assumes "unit_draws g" "fst lifeR \<le> snd lifeR"
  shows "fst lifeR \<le> par_life (fst (burst_particle px py col lifeR speedR g)) \<and>
         par_life (fst (burst_particle px py col lifeR speedR g)) \<le> snd lifeR"
  using rand_range [OF assms] by (simp add: burst_particle_eq del: fst_rand)

lemma burst_particle_speed:
  assumes "unit_draws g" "0 \<le> fst speedR" "fst speedR \<le> snd speedR"
  shows "(fst speedR)\<^sup>2 \<le> (par_vx (fst (burst_particle px py col lifeR speedR g)))\<^sup>2 +
                          (par_vy (fst (burst_particle px py col lifeR speedR g)))\<^sup>2 \<and>
         (par_vx (fst (burst_particle px py col lifeR speedR g)))\<^sup>2 +
         (par_vy (fst (burst_particle px py col lifeR speedR g)))\<^sup>2 \<le> (snd speedR)\<^sup>2"
proof -
  let ?v = "fst (rand (fst speedR) (snd speedR) (stl g))"
  have v: "fst speedR \<le> ?v \<and> ?v \<le> snd speedR"
    using assms by (intro rand_range unit_draws_stl)
  with assms(2) have "(fst speedR)\<^sup>2 \<le> ?v\<^sup>2" "?v\<^sup>2 \<le> (snd speedR)\<^sup>2"
    by (auto intro!: power_mono simp del: fst_rand)
  then show ?thesis
    by (simp add: burst_particle_eq new_Particle_speed del: fst_rand)
qed

lemma spawnExplosion_eq:
  "spawnExplosion px py col s =
     s\<lparr> entities := (entities s)
          \<lparr> particles := particles (entities s) @ fst (burst 30 px py col (28, 48) (1, 4) (rnd s)) \<rparr>,
        rnd := sdrop 120 (rnd s) \<rparr>"
  by (simp add: spawnExplosion_def split_def)

lemma spawnSparkle_eq:
  "spawnSparkle px py col s =
     s\<lparr> entities := (entities s)
          \<lparr> particles := particles (entities s) @ fst (burst 18 px py col (18, 30) (0.8, 2.5) (rnd s)) \<rparr>,
        rnd := sdrop 72 (rnd s) \<rparr>"
  by (simp add: spawnSparkle_def split_def)

lemma spawnExplosion_frame [simp, frame]:
  "STATE (spawnExplosion px py col s) = STATE s" "ui (spawnExplosion px py col s) = ui s"
  "keys (spawnExplosion px py col s) = keys s" "lastTime (spawnExplosion px py col s) = lastTime s"
  "clock (spawnExplosion px py col s) = clock s"
  "ship (entities (spawnExplosion px py col s)) = ship (entities s)"
  "asteroids (entities (spawnExplosion px py col s)) = asteroids (entities s)"
  "crystals (entities (spawnExplosion px py col s)) = crystals (entities s)"
  by (simp_all add: spawnExplosion_eq)

lemma spawnSparkle_frame [simp, frame]:
  "STATE (spawnSparkle px py col s) = STATE s" "ui (spawnSparkle px py col s) = ui s"
  "keys (spawnSparkle px py col s) = keys s" "lastTime (spawnSparkle px py col s) = lastTime s"
  "clock (spawnSparkle px py col s) = clock s"
  "ship (entities (spawnSparkle px py col s)) = ship (entities s)"
  "asteroids (entities (spawnSparkle px py col s)) = asteroids (entities s)"
  "crystals (entities (spawnSparkle px py col s)) = crystals (entities s)"
  by (simp_all add: spawnSparkle_eq)

lemma spawnExplosion_rnd [simp, draws]: "rnd (spawnExplosion px py col s) = sdrop 120 (rnd s)"
  by (simp add: spawnExplosion_eq)

lemma spawnSparkle_rnd [simp, draws]: "rnd (spawnSparkle px py col s) = sdrop 72 (rnd s)"
  by (simp add: spawnSparkle_eq)

lemma spawnExplosion_count [simp]:
  "length (particles (entities (spawnExplosion px py col s))) = length (particles (entities s)) + 30"
  by (simp add: spawnExplosion_eq)

lemma spawnSparkle_count [simp]:
  "length (particles (entities (spawnSparkle px py col s))) = length (particles (entities s)) + 18"
  by (simp add: spawnSparkle_eq)

lemma spawnExplosion_fresh:
  assumes "unit_draws (rnd s)" "list_all particle_fresh (particles (entities s))"
  shows "list_all particle_fresh (particles (entities (spawnExplosion px py col s)))"
proof -
  have "particle_fresh (fst (burst_particle px py col (28, 48) (1, 4) g))" if "unit_draws g" for g
    using burst_particle_life [OF that, of "(28, 48)" px py col "(1, 4)"]
    by (simp add: particle_fresh_def)
  with assms show ?thesis
    by (simp add: spawnExplosion_eq burst_list_all_unit)
qed

lemma spawnSparkle_fresh:
  assumes "unit_draws (rnd s)" "list_all particle_fresh (particles (entities s))"
  shows "list_all particle_fresh (particles (entities (spawnSparkle px py col s)))"
proof -
  have "particle_fresh (fst (burst_particle px py col (18, 30) (0.8, 2.5) g))" if "unit_draws g" for g
    using burst_particle_life [OF that, of "(18, 30)" px py col "(0.8, 2.5)"]
    by (simp add: particle_fresh_def)
  with assms show ?thesis
    by (simp add: spawnSparkle_eq burst_list_all_unit)
qed

section \<open>Well-formed entities are kept\<close>

lemma make_crystal_ok [keeps]: "unit_draws g \<Longrightarrow> crystal_ok (fst (make_crystal g))"
  using make_crystal_typed [of g] by (auto simp: crystal_ok_def make_crystal_fresh)

lemma spawnAsteroid_entities_ok [keeps]:
  assumes "spawnAsteroid off s = Some s'" "unit_draws (rnd s)" "entities_ok (entities s)"
  shows "entities_ok (entities s')" "unit_draws (rnd s')"
proof -
  from assms show "entities_ok (entities s')"
    by (simp add: entities_ok_def spawnAsteroid_frame spawnAsteroid_ok)
  from assms(1,2) show "unit_draws (rnd s')"
    by (simp add: spawnAsteroid_rnd unit_draws_sdrop)
qed

lemma spawnAsteroids_entities_ok [keeps]:
  assumes "spawnAsteroids n s = Some s'" "unit_draws (rnd s)" "entities_ok (entities s)"
  shows "entities_ok (entities s')" "unit_draws (rnd s')"
proof -
  from assms show "entities_ok (entities s')"
    by (simp add: entities_ok_def spawnAsteroids_frame spawnAsteroids_ok)
  from assms(1,2) show "unit_draws (rnd s')"
    by (simp add: spawnAsteroids_rnd unit_draws_sdrop)
qed

lemma spawnCrystal_entities_ok [keeps]:
  assumes "unit_draws (rnd s)" "entities_ok (entities s)"
  shows "entities_ok (entities (spawnCrystal s))" "unit_draws (rnd (spawnCrystal s))"
  using assms by (simp_all add: entities_ok_def make_crystal_ok unit_draws_sdrop)

lemma spawnExplosion_entities_ok [keeps]:
  assumes "unit_draws (rnd s)" "entities_ok (entities s)"
  shows "entities_ok (entities (spawnExplosion px py col s))"
    "unit_draws (rnd (spawnExplosion px py col s))"
  using assms by (simp_all add: entities_ok_def spawnExplosion_fresh unit_draws_sdrop)

lemma spawnSparkle_entities_ok [keeps]:
  assumes "unit_draws (rnd s)" "entities_ok (entities s)"
  shows "entities_ok (entities (spawnSparkle px py col s))"
    "unit_draws (rnd (spawnSparkle px py col s))"
  using assms by (simp_all add: entities_ok_def spawnSparkle_fresh unit_draws_sdrop)

section \<open>A draw outside the unit interval\<close>

lemma spawnAsteroid_None:
  "fst (make_asteroid off (level (STATE s)) (rnd s)) = None \<Longrightarrow> spawnAsteroid off s = None"
  by (cases "make_asteroid off (level (STATE s)) (rnd s)") (simp add: spawnAsteroid_def)

lemma spawnAsteroid_bad_draw: "1 \<le> shd (rnd s) \<Longrightarrow> spawnAsteroid off s = None"
  by (intro spawnAsteroid_None make_asteroid_None_tier choice_out_of_range)
     (simp_all add: asteroidTypes_CONFIG)

section \<open>Asteroids: the direction\<close>

lemma spawned_at_edge_off_centre:
  assumes "spawned_at_edge t p" "0 \<le> at_size t"
  shows "width CONFIG / 2 - fst p \<noteq> 0 \<or> height CONFIG / 2 - snd p \<noteq> 0"
  using assms by (auto simp: spawned_at_edge_def)

text \<open>The velocity of a new asteroid makes an angle of at most 0.7 with the
  direction from its position to the centre of the playfield: its component
  along that direction is positive.\<close>

lemma asteroid_velocity_inward:
  assumes "width CONFIG / 2 - fst p \<noteq> 0 \<or> height CONFIG / 2 - snd p \<noteq> 0"
    and "\<bar>da\<bar> \<le> 0.7" "0 < at_speed t + ds + real_of_int lvl * 0.1"
  shows "0 < (width CONFIG / 2 - fst p) * fst (asteroid_velocity t lvl p da ds) +
             (height CONFIG / 2 - snd p) * snd (asteroid_velocity t lvl p da ds)"
proof -
  let ?a = "width CONFIG / 2 - fst p" and ?b = "height CONFIG / 2 - snd p"
  let ?sp = "at_speed t + ds + real_of_int lvl * 0.1"
  have v: "fst (asteroid_velocity t lvl p da ds) = cos (Math_atan2 ?b ?a + da) * ?sp"
    "snd (asteroid_velocity t lvl p da ds) = sin (Math_atan2 ?b ?a + da) * ?sp"
    by (simp_all add: asteroid_velocity_def Let_def del: CONFIG_fields)
  have "?a * fst (asteroid_velocity t lvl p da ds) + ?b * snd (asteroid_velocity t lvl p da ds) =
      (?a * cos (Math_atan2 ?b ?a + da) + ?b * sin (Math_atan2 ?b ?a + da)) * ?sp"
    unfolding v by (simp only: distrib_right mult.assoc)
  also have "\<dots> = Math_hypot ?a ?b * cos da * ?sp"
    by (simp only: towards_component [OF assms(1)])
  also have "0 < \<dots>"
    using Math_hypot_pos [OF assms(1)] cos_small_pos [OF assms(2)] assms(3)
    by (intro mult_pos_pos)
  finally show ?thesis .
qed

lemma make_asteroid_inward:
  assumes "unit_draws g" "make_asteroid True lvl g = (Some a, g')" "0 \<le> lvl"
  shows "0 < (width CONFIG / 2 - ast_x a) * ast_vx a + (height CONFIG / 2 - ast_y a) * ast_vy a"
  using assms(2)
proof (cases rule: make_asteroid_cases)
  case (made t p)
  let ?da = "fst (rand (- 0.7) 0.7 (sdrop 3 g))" and ?ds = "fst (rand (- 0.3) 0.3 (sdrop 4 g))"
  have edge: "spawned_at_edge t p"
    using made(2) offscreen_position_unit [OF unit_draws_stl [OF assms(1)], of t] by auto
  have t: "0 \<le> at_size t" "1 \<le> at_speed t"
    using asteroidTypes_ok [OF made(1)] by (simp_all add: tier_ok_def)
  have "\<bar>?da\<bar> \<le> 0.7" "\<bar>?ds\<bar> \<le> 0.3"
    using assms(1) by (intro rand_sym_abs unit_draws_sdrop; simp)+
  moreover from this(2) t(2) assms(3) have "0 < at_speed t + ?ds + real_of_int lvl * 0.1"
    unfolding abs_le_iff by linarith
  ultimately have "0 < (width CONFIG / 2 - fst p) * fst (asteroid_velocity t lvl p ?da ?ds) +
             (height CONFIG / 2 - snd p) * snd (asteroid_velocity t lvl p ?da ?ds)"
    using spawned_at_edge_off_centre [OF edge t(1)] by (intro asteroid_velocity_inward)
  then show ?thesis
    unfolding made(4) by (simp del: fst_rand CONFIG_fields)
qed

section \<open>Particles: the promise of a burst\<close>

lemma burst_particle_spark:
  assumes "unit_draws g" "fst lifeR \<le> snd lifeR" "0 \<le> fst speedR" "fst speedR \<le> snd speedR"
  shows "spark px py col lifeR speedR (fst (burst_particle px py col lifeR speedR g))"
  using burst_particle_life [OF assms(1,2)] burst_particle_speed [OF assms(1,3,4)]
  by (simp add: spark_def)

lemma burst_sparks:
  assumes "unit_draws g" "fst lifeR \<le> snd lifeR" "0 \<le> fst speedR" "fst speedR \<le> snd speedR"
  shows "list_all (spark px py col lifeR speedR) (fst (burst n px py col lifeR speedR g))"
  using assms(1) by (rule burst_list_all_unit) (rule burst_particle_spark [OF _ assms(2-4)])

lemma spark_fresh: "spark px py col lifeR speedR p \<Longrightarrow> 0 < fst lifeR \<Longrightarrow> snd lifeR \<le> 48 \<Longrightarrow> particle_fresh p"
  by (simp add: spark_def particle_fresh_def)

lemma make_crystal_spawned:
  assumes "unit_draws g"
  shows "crystal_ok (fst (make_crystal g))" "cry_t (fst (make_crystal g)) = 0"
    "40 \<le> cry_x (fst (make_crystal g))" "cry_x (fst (make_crystal g)) \<le> 760"
    "40 \<le> cry_y (fst (make_crystal g))" "cry_y (fst (make_crystal g)) \<le> 520"
  using make_crystal_ok [OF assms] make_crystal_position [OF assms]
  by (simp_all add: make_crystal_fresh)

section \<open>The pointer and the canvas\<close>

lemma spawnAsteroid_device [device]:
  assumes "spawnAsteroid off s = Some s'"
  shows "mouse s' = mouse s" "canvas s' = canvas s"
  using assms by (cases rule: spawnAsteroid_cases; simp)+

lemma spawnAsteroids_device [device]:
  assumes "spawnAsteroids n s = Some s'"
  shows "mouse s' = mouse s" "canvas s' = canvas s"
  by (rule spawnAsteroids_invariant [OF assms]; simp add: spawnAsteroid_device)+

lemma spawnCrystal_device [simp, device]:
  "mouse (spawnCrystal s) = mouse s" "canvas (spawnCrystal s) = canvas s"
  by (simp_all add: spawnCrystal_def Let_def split: prod.splits)

lemma spawnExplosion_device [simp, device]:
  "mouse (spawnExplosion px py col s) = mouse s" "canvas (spawnExplosion px py col s) = canvas s"
  by (simp_all add: spawnExplosion_def Let_def split: prod.splits)

lemma spawnSparkle_device [simp, device]:
  "mouse (spawnSparkle px py col s) = mouse s" "canvas (spawnSparkle px py col s) = canvas s"
  by (simp_all add: spawnSparkle_def Let_def split: prod.splits)

section \<open>A new crystal is on its track\<close>

lemma make_crystal_on_track: "unit_draws g \<Longrightarrow> crystal_on_track (fst (make_crystal g))"
  using make_crystal_position [of g] by (simp add: crystal_on_track_fresh make_crystal_fresh)

end
