(* ===== verification/Flow.thy ===== *)
theory Flow
  imports Spawner
begin

text \<open>
  The functions of \<^verbatim>\<open>src/game.js\<close> that move the game between its phases:
  \<^verbatim>\<open>reset\<close> (lines 79 to 97), \<^verbatim>\<open>start\<close>, \<^verbatim>\<open>togglePause\<close>,
  \<^verbatim>\<open>gameOver\<close>, \<^verbatim>\<open>restart\<close> (lines 387 to 409) and the method
  \<^verbatim>\<open>Ship.hit\<close> (lines 172 to 185), which takes a life, respawns the ship
  or ends the game. Each takes the whole state and returns the new one;
  \<^verbatim>\<open>reset\<close> and \<^verbatim>\<open>restart\<close> can fail where \<^verbatim>\<open>spawnAsteroid\<close>
  can, \<^verbatim>\<open>Ship.hit\<close> where the ship is \<^verbatim>\<open>null\<close>.
\<close>

definition reset :: "game \<Rightarrow> game option" where
  "reset s =
    (let s = s\<lparr> STATE := (STATE s)
                 \<lparr> running := False, paused := False, over := False, score := 0,
                   lives := initialLives CONFIG, level := 1, tick := 0,
                   lastCrystalMs := 0, lastDifficultyMs := 0 \<rparr> \<rparr>;
         s = s\<lparr> entities := (entities s)\<lparr> asteroids := [], crystals := [], particles := [] \<rparr> \<rparr>;
         s = s\<lparr> entities := (entities s)
                 \<lparr> ship := Some (new_Ship (width CONFIG / 2) (height CONFIG * 0.75)) \<rparr> \<rparr>
     in do {
       s \<leftarrow> spawnAsteroids (nat (initialAsteroids CONFIG)) s;
       Some (updateHUD s)
     })"

definition start :: "game \<Rightarrow> game" where
  "start s =
    (let s = s\<lparr> ui := (ui s)\<lparr> menu_visible := False \<rparr> \<rparr>
     in s\<lparr> STATE := (STATE s)\<lparr> running := True, paused := False, over := False \<rparr> \<rparr>)"

definition togglePause :: "game \<Rightarrow> game" where
  "togglePause s =
    (if \<not> running (STATE s) \<or> over (STATE s) then s
     else
       let s = s\<lparr> STATE := (STATE s)\<lparr> paused := \<not> paused (STATE s) \<rparr> \<rparr>
       in s\<lparr> ui := (ui s)\<lparr> pause_visible := paused (STATE s) \<rparr> \<rparr>)"

definition gameOver :: "game \<Rightarrow> game" where
  "gameOver s =
    (let s = s\<lparr> STATE := (STATE s)\<lparr> over := True \<rparr> \<rparr>;
         s = s\<lparr> STATE := (STATE s)\<lparr> running := False \<rparr> \<rparr>;
         s = s\<lparr> ui := (ui s)\<lparr> finalScore := score (STATE s) \<rparr> \<rparr>
     in s\<lparr> ui := (ui s)\<lparr> gameover_visible := True \<rparr> \<rparr>)"

definition restart :: "game \<Rightarrow> game option" where
  "restart s =
    (let s = s\<lparr> ui := (ui s)\<lparr> gameover_visible := False \<rparr> \<rparr>
     in do {
       s \<leftarrow> reset s;
       Some (start s)
     })"

definition Ship_hit :: "game \<Rightarrow> game option" where
  "Ship_hit s =
    (case ship (entities s) of
       None \<Rightarrow> None
     | Some sh \<Rightarrow>
        if 0 < ship_inv sh then Some s
        else
          let s = s\<lparr> STATE := (STATE s)\<lparr> lives := lives (STATE s) - 1 \<rparr> \<rparr>;
              s = spawnExplosion (ship_x sh) (ship_y sh) ''#ff5f7a'' s;
              s = (if lives (STATE s) \<le> 0 then gameOver s
                   else s\<lparr> entities := (entities s)
                          \<lparr> ship := Some (sh\<lparr> ship_inv := invFrames (ship_cfg CONFIG),
                                               ship_x := width CONFIG / 2,
                                               ship_y := height CONFIG * 0.75 \<rparr>) \<rparr> \<rparr>)
          in Some (updateHUD s))"

text \<open>The state \<^verbatim>\<open>reset\<close> hands to the spawn loop.\<close>

definition cleared :: "game \<Rightarrow> game" where
  "cleared s =
    s\<lparr> STATE := (STATE s)
           \<lparr> running := False, paused := False, over := False, score := 0,
             lives := initialLives CONFIG, level := 1, tick := 0,
             lastCrystalMs := 0, lastDifficultyMs := 0 \<rparr>,
       entities := (entities s)
           \<lparr> asteroids := [], crystals := [], particles := [],
             ship := Some (new_Ship (width CONFIG / 2) (height CONFIG * 0.75)) \<rparr> \<rparr>"

section \<open>start, togglePause, gameOver\<close>

lemma start_STATE [simp]:
  "STATE (start s) = (STATE s)\<lparr> running := True, paused := False, over := False \<rparr>"
  by (simp add: start_def)

lemma start_ui [simp]: "ui (start s) = (ui s)\<lparr> menu_visible := False \<rparr>"
  by (simp add: start_def)

lemma start_frame [simp, frame]:
  "entities (start s) = entities s" "keys (start s) = keys s" "lastTime (start s) = lastTime s"
  "rnd (start s) = rnd s" "clock (start s) = clock s"
  by (simp_all add: start_def)

lemma togglePause_noop: "\<not> running (STATE s) \<or> over (STATE s) \<Longrightarrow> togglePause s = s"
  by (simp add: togglePause_def)

lemma togglePause_flip:
  "running (STATE s) \<Longrightarrow> \<not> over (STATE s) \<Longrightarrow>
     togglePause s = s\<lparr> STATE := (STATE s)\<lparr> paused := \<not> paused (STATE s) \<rparr>,
                        ui := (ui s)\<lparr> pause_visible := \<not> paused (STATE s) \<rparr> \<rparr>"
  by (simp add: togglePause_def)

lemma togglePause_frame [simp, frame]:
  "entities (togglePause s) = entities s" "keys (togglePause s) = keys s"
  "lastTime (togglePause s) = lastTime s" "rnd (togglePause s) = rnd s"
  "clock (togglePause s) = clock s"
  "running (STATE (togglePause s)) = running (STATE s)"
  "over (STATE (togglePause s)) = over (STATE s)"
  "score (STATE (togglePause s)) = score (STATE s)"
  "lives (STATE (togglePause s)) = lives (STATE s)"
  "level (STATE (togglePause s)) = level (STATE s)"
  "tick (STATE (togglePause s)) = tick (STATE s)"
  "lastCrystalMs (STATE (togglePause s)) = lastCrystalMs (STATE s)"
  "lastDifficultyMs (STATE (togglePause s)) = lastDifficultyMs (STATE s)"
  by (simp_all add: togglePause_def Let_def)

lemma togglePause_paused:
  "paused (STATE (togglePause s)) =
     (if running (STATE s) \<and> \<not> over (STATE s) then \<not> paused (STATE s) else paused (STATE s))"
  by (simp add: togglePause_def Let_def)

lemma togglePause_twice_STATE: "STATE (togglePause (togglePause s)) = STATE s"
  by (simp add: togglePause_def Let_def)

lemma togglePause_twice:
  "pause_visible (ui s) = paused (STATE s) \<Longrightarrow> togglePause (togglePause s) = s"
  by (simp add: togglePause_def Let_def)

lemma togglePause_hud [simp]: "hud_synced (togglePause s) = hud_synced s"
  by (simp add: togglePause_def hud_synced_def Let_def)

lemma gameOver_STATE [simp]:
  "STATE (gameOver s) = (STATE s)\<lparr> over := True, running := False \<rparr>"
  by (simp add: gameOver_def)

lemma gameOver_ui [simp]:
  "ui (gameOver s) = (ui s)\<lparr> finalScore := score (STATE s), gameover_visible := True \<rparr>"
  by (simp add: gameOver_def)

lemma gameOver_frame [simp, frame]:
  "entities (gameOver s) = entities s" "keys (gameOver s) = keys s"
  "lastTime (gameOver s) = lastTime s" "rnd (gameOver s) = rnd s" "clock (gameOver s) = clock s"
  by (simp_all add: gameOver_def)

section \<open>reset and restart\<close>

lemma cleared_STATE [simp]: "STATE (cleared s) = STATE_init"
  by (simp add: cleared_def STATE_init_def)

lemma cleared_entities [simp]:
  "entities (cleared s) =
     \<lparr> ship = Some (new_Ship 400 450), asteroids = [], crystals = [], particles = [] \<rparr>"
  by (simp add: cleared_def)

lemma cleared_frame [simp, frame]:
  "ui (cleared s) = ui s" "keys (cleared s) = keys s" "lastTime (cleared s) = lastTime s"
  "rnd (cleared s) = rnd s" "clock (cleared s) = clock s"
  by (simp_all add: cleared_def)

lemma reset_eq: "reset s = map_option updateHUD (spawnAsteroids 3 (cleared s))"
  by (simp add: reset_def cleared_def map_option_case split: option.splits)

lemma reset_total [total]:
  assumes "unit_draws (rnd s)"
  shows "\<exists>s'. reset s = Some s'"
proof -
  have "unit_draws (rnd (cleared s))"
    using assms by simp
  then obtain u where "spawnAsteroids 3 (cleared s) = Some u"
    using spawnAsteroids_total by blast
  then show ?thesis by (simp add: reset_eq)
qed

lemma reset_cases [consumes 1, case_names reset]:
  assumes "reset s = Some s'"
  obtains u where "spawnAsteroids 3 (cleared s) = Some u" "s' = updateHUD u"
  using assms by (auto simp: reset_eq)

lemma reset_STATE: "reset s = Some s' \<Longrightarrow> STATE s' = STATE_init"
  by (erule reset_cases) (simp add: spawnAsteroids_frame)

lemma reset_entities:
  assumes "reset s = Some s'"
  shows "ship (entities s') = Some (new_Ship 400 450)" "crystals (entities s') = []"
    "particles (entities s') = []" "length (asteroids (entities s')) = 3"
  using assms
  by (erule_tac reset_cases; simp add: spawnAsteroids_frame spawnAsteroids_length)+

lemma reset_frame [frame]:
  assumes "reset s = Some s'"
  shows "keys s' = keys s" "lastTime s' = lastTime s" "clock s' = clock s"
    "menu_visible (ui s') = menu_visible (ui s)" "pause_visible (ui s') = pause_visible (ui s)"
    "gameover_visible (ui s') = gameover_visible (ui s)" "finalScore (ui s') = finalScore (ui s)"
  using assms by (erule_tac reset_cases; simp add: spawnAsteroids_frame)+

lemma reset_rnd [draws]: "reset s = Some s' \<Longrightarrow> rnd s' = sdrop 33 (rnd s)"
  by (erule reset_cases) (simp add: spawnAsteroids_rnd)

lemma reset_hud: "reset s = Some s' \<Longrightarrow> hud_synced s'"
  by (erule reset_cases) simp


lemma restart_eq:
  "restart s = map_option start (reset (s\<lparr> ui := (ui s)\<lparr> gameover_visible := False \<rparr> \<rparr>))"
  by (simp add: restart_def map_option_case split: option.splits)

lemma restart_total [total]: "unit_draws (rnd s) \<Longrightarrow> \<exists>s'. restart s = Some s'"
  using reset_total [of "s\<lparr> ui := (ui s)\<lparr> gameover_visible := False \<rparr> \<rparr>"]
  by (auto simp: restart_eq)

lemma restart_cases [consumes 1, case_names restart]:
  assumes "restart s = Some s'"
  obtains u where "reset (s\<lparr> ui := (ui s)\<lparr> gameover_visible := False \<rparr> \<rparr>) = Some u" "s' = start u"
  using assms by (auto simp: restart_eq)

lemma restart_STATE:
  "restart s = Some s' \<Longrightarrow> STATE s' = STATE_init\<lparr> running := True \<rparr>"
  by (erule restart_cases) (simp add: reset_STATE STATE_init_def)

lemma restart_overlays:
  assumes "restart s = Some s'"
  shows "\<not> gameover_visible (ui s')" "\<not> menu_visible (ui s')"
    "pause_visible (ui s') = pause_visible (ui s)"
  using assms by (erule_tac restart_cases; simp add: reset_frame)+

section \<open>Ship.hit\<close>

lemma Ship_hit_null: "ship (entities s) = None \<Longrightarrow> Ship_hit s = None"
  by (simp add: Ship_hit_def)

lemma Ship_hit_invulnerable:
  "ship (entities s) = Some sh \<Longrightarrow> 0 < ship_inv sh \<Longrightarrow> Ship_hit s = Some s"
  by (simp add: Ship_hit_def)

lemma Ship_hit_last_life:
  assumes "ship (entities s) = Some sh" "ship_inv sh \<le> 0" "lives (STATE s) \<le> 1"
  shows "Ship_hit s =
    Some (updateHUD (gameOver (spawnExplosion (ship_x sh) (ship_y sh) ''#ff5f7a''
      (s\<lparr> STATE := (STATE s)\<lparr> lives := lives (STATE s) - 1 \<rparr> \<rparr>))))"
  using assms by (simp add: Ship_hit_def Let_def)

lemma Ship_hit_respawn:
  assumes "ship (entities s) = Some sh" "ship_inv sh \<le> 0" "1 < lives (STATE s)"
  shows "Ship_hit s =
    Some (updateHUD
      ((spawnExplosion (ship_x sh) (ship_y sh) ''#ff5f7a''
          (s\<lparr> STATE := (STATE s)\<lparr> lives := lives (STATE s) - 1 \<rparr> \<rparr>))
        \<lparr> entities := (entities (spawnExplosion (ship_x sh) (ship_y sh) ''#ff5f7a''
              (s\<lparr> STATE := (STATE s)\<lparr> lives := lives (STATE s) - 1 \<rparr> \<rparr>)))
            \<lparr> ship := Some (sh\<lparr> ship_inv := 120, ship_x := 400, ship_y := 450 \<rparr>) \<rparr> \<rparr>))"
  using assms by (simp add: Ship_hit_def Let_def)

lemma Ship_hit_total [total]: "ship (entities s) \<noteq> None \<Longrightarrow> \<exists>s'. Ship_hit s = Some s'"
  by (auto simp: Ship_hit_def Let_def)

text \<open>The three outcomes, as a case rule over the result.\<close>

lemma Ship_hit_cases [consumes 1, case_names invulnerable last_life respawn]:
  assumes "Ship_hit s = Some s'"
  obtains
    sh where "ship (entities s) = Some sh" "0 < ship_inv sh" "s' = s"
  | sh where "ship (entities s) = Some sh" "ship_inv sh \<le> 0" "lives (STATE s) \<le> 1"
      "STATE s' = (STATE s)\<lparr> lives := lives (STATE s) - 1, over := True, running := False \<rparr>"
      "ship (entities s') = Some sh"
      "particles (entities s') = particles (entities s) @ fst (burst 30 (ship_x sh) (ship_y sh) ''#ff5f7a'' (28, 48) (1, 4) (rnd s))"
  | sh where "ship (entities s) = Some sh" "ship_inv sh \<le> 0" "1 < lives (STATE s)"
      "STATE s' = (STATE s)\<lparr> lives := lives (STATE s) - 1 \<rparr>"
      "ship (entities s') = Some (sh\<lparr> ship_inv := 120, ship_x := 400, ship_y := 450 \<rparr>)"
      "particles (entities s') = particles (entities s) @ fst (burst 30 (ship_x sh) (ship_y sh) ''#ff5f7a'' (28, 48) (1, 4) (rnd s))"
proof -
  from assms obtain sh where sh: "ship (entities s) = Some sh"
    by (cases "ship (entities s)") (simp_all add: Ship_hit_null)
  consider "0 < ship_inv sh" | "ship_inv sh \<le> 0" "lives (STATE s) \<le> 1" | "ship_inv sh \<le> 0" "1 < lives (STATE s)"
    by linarith
  then show thesis
  proof cases
    case 1
    with assms sh have "s' = s"
      by (simp add: Ship_hit_invulnerable)
    with sh 1 show ?thesis by (intro that(1))
  next
    case 2
    from Ship_hit_last_life [OF sh 2] assms
    have s': "s' = updateHUD (gameOver (spawnExplosion (ship_x sh) (ship_y sh) ''#ff5f7a''
        (s\<lparr> STATE := (STATE s)\<lparr> lives := lives (STATE s) - 1 \<rparr> \<rparr>)))"
      by simp
    show ?thesis
      by (rule that(2) [OF sh 2]) (simp_all add: s' spawnExplosion_eq sh)
  next
    case 3
    from Ship_hit_respawn [OF sh 3] assms
    have s': "s' = updateHUD
      ((spawnExplosion (ship_x sh) (ship_y sh) ''#ff5f7a''
          (s\<lparr> STATE := (STATE s)\<lparr> lives := lives (STATE s) - 1 \<rparr> \<rparr>))
        \<lparr> entities := (entities (spawnExplosion (ship_x sh) (ship_y sh) ''#ff5f7a''
              (s\<lparr> STATE := (STATE s)\<lparr> lives := lives (STATE s) - 1 \<rparr> \<rparr>)))
            \<lparr> ship := Some (sh\<lparr> ship_inv := 120, ship_x := 400, ship_y := 450 \<rparr>) \<rparr> \<rparr>)"
      by simp
    show ?thesis
      by (rule that(3) [OF sh 3]) (simp_all add: s' spawnExplosion_eq)
  qed
qed

lemma Ship_hit_frame [frame]:
  assumes "Ship_hit s = Some s'"
  shows "keys s' = keys s" "lastTime s' = lastTime s" "clock s' = clock s"
    "asteroids (entities s') = asteroids (entities s)"
    "crystals (entities s') = crystals (entities s)"
    "score (STATE s') = score (STATE s)" "level (STATE s') = level (STATE s)"
    "tick (STATE s') = tick (STATE s)" "paused (STATE s') = paused (STATE s)"
    "lastCrystalMs (STATE s') = lastCrystalMs (STATE s)"
    "lastDifficultyMs (STATE s') = lastDifficultyMs (STATE s)"
    "menu_visible (ui s') = menu_visible (ui s)" "pause_visible (ui s') = pause_visible (ui s)"
  using assms
  by (auto simp: Ship_hit_def Let_def split: option.splits if_splits)

lemma Ship_hit_rnd [draws]:
  "Ship_hit s = Some s' \<Longrightarrow> rnd s' = rnd s \<or> rnd s' = sdrop 120 (rnd s)"
  by (auto simp: Ship_hit_def Let_def split: option.splits if_splits)

lemma Ship_hit_hud: "Ship_hit s = Some s' \<Longrightarrow> hud_synced s \<Longrightarrow> hud_synced s'"
  by (auto simp: Ship_hit_def Let_def split: option.splits if_splits)

lemma Ship_hit_lives:
  "Ship_hit s = Some s' \<Longrightarrow> lives (STATE s') = lives (STATE s) \<or> lives (STATE s') = lives (STATE s) - 1"
  by (erule Ship_hit_cases) simp_all

section \<open>Well-formed states are kept\<close>

text \<open>\<^verbatim>\<open>reset\<close> and \<^verbatim>\<open>restart\<close> establish a well-formed state from any
  state; \<^verbatim>\<open>Ship.hit\<close> keeps one when the game is not paused and a life is
  left, which is how the tick calls it.\<close>

lemma cleared_entities_ok: "entities_ok (entities (cleared s))"
  by (simp add: entities_ok_def new_Ship_ok)

lemma reset_ok [keeps]:
  assumes "reset s = Some s'" "unit_draws (rnd s)"
  shows "game_ok s'"
using assms(1) proof (cases rule: reset_cases)
  case (reset u)
  have "unit_draws (rnd (cleared s))"
    using assms(2) by simp
  from spawnAsteroids_entities_ok [OF reset(1) this cleared_entities_ok]
  show ?thesis
    by (intro game_okI) (simp_all add: reset(2) spawnAsteroids_frame(1) [OF reset(1)] state_ok_STATE_init)
qed

lemma start_ok [keeps]:
  assumes "game_ok s" "0 < lives (STATE s)"
  shows "game_ok (start s)"
  using assms by (simp add: game_ok_def state_ok_def hud_synced_def)

lemma restart_ok [keeps]:
  assumes "restart s = Some s'" "unit_draws (rnd s)"
  shows "game_ok s'"
using assms(1) proof (cases rule: restart_cases)
  case (restart u)
  from reset_ok [OF restart(1)] assms(2) have "game_ok u"
    by simp
  moreover have "0 < lives (STATE u)"
    by (simp add: reset_STATE [OF restart(1)] STATE_init_def)
  ultimately show ?thesis
    unfolding restart(2) by (rule start_ok)
qed

lemma togglePause_ok [keeps]:
  assumes "game_ok s"
  shows "game_ok (togglePause s)"
proof (cases "running (STATE s) \<and> \<not> over (STATE s)")
  case True
  with assms show ?thesis
    by (simp add: togglePause_flip game_ok_def state_ok_def hud_synced_def)
next
  case False
  with assms show ?thesis
    by (simp add: togglePause_noop)
qed

lemma Ship_hit_ok [keeps]:
  assumes "Ship_hit s = Some s'" "game_ok s" "\<not> paused (STATE s)" "1 \<le> lives (STATE s)"
  shows "game_ok s'"
proof -
  note ok = game_okD [OF assms(2)]
  from ok(2) obtain sh where sh: "ship (entities s) = Some sh" "ship_ok sh"
    using entities_ok_ship by blast
  let ?s1 = "s\<lparr> STATE := (STATE s)\<lparr> lives := lives (STATE s) - 1 \<rparr> \<rparr>"
  let ?s2 = "spawnExplosion (ship_x sh) (ship_y sh) ''#ff5f7a'' ?s1"
  have e2: "entities_ok (entities ?s2)" "unit_draws (rnd ?s2)"
    using ok(2,4) by (simp_all add: spawnExplosion_entities_ok unit_draws_sdrop)
  consider "0 < ship_inv sh" | "ship_inv sh \<le> 0" "lives (STATE s) = 1"
    | "ship_inv sh \<le> 0" "1 < lives (STATE s)"
    using assms(4) by linarith
  then show ?thesis
  proof cases
    case 1
    with assms(1,2) sh show ?thesis
      by (simp add: Ship_hit_invulnerable)
  next
    case 2
    with assms(1) sh have s': "s' = updateHUD (gameOver ?s2)"
      by (simp add: Ship_hit_last_life)
    show ?thesis
      using e2 ok(1) assms(3) 2 by (intro game_okI) (simp_all add: s' state_ok_def)
  next
    case 3
    with assms(1) sh have s': "s' = updateHUD (?s2\<lparr> entities := (entities ?s2)
        \<lparr> ship := Some (sh\<lparr> ship_inv := 120, ship_x := 400, ship_y := 450 \<rparr>) \<rparr> \<rparr>)"
      by (simp add: Ship_hit_respawn)
    have "entities_ok ((entities ?s2)\<lparr> ship := Some (sh\<lparr> ship_inv := 120, ship_x := 400, ship_y := 450 \<rparr>) \<rparr>)"
      using e2(1) sh(2) by (simp add: entities_ok_def ship_ok_respawn)
    then show ?thesis
      using e2(2) ok(1) 3 by (intro game_okI) (simp_all add: s' state_ok_def)
  qed
qed

text \<open>What a hit does to the flags and to the game-over overlay: nothing, or
  the end of the game, with the score of that moment as the final score.\<close>

lemma Ship_hit_flags:
  assumes "Ship_hit s = Some s'"
  shows "(running (STATE s') = running (STATE s) \<and> over (STATE s') = over (STATE s) \<and>
          gameover_visible (ui s') = gameover_visible (ui s) \<and> finalScore (ui s') = finalScore (ui s) \<and>
          (0 < lives (STATE s') \<or> lives (STATE s') = lives (STATE s))) \<or>
         (\<not> running (STATE s') \<and> over (STATE s') \<and> gameover_visible (ui s') \<and>
          finalScore (ui s') = score (STATE s) \<and> lives (STATE s') \<le> 0)"
  using assms by (auto simp: Ship_hit_def Let_def split: option.splits if_splits)

section \<open>The pointer and the canvas\<close>

lemma start_device [simp, device]: "mouse (start s) = mouse s" "canvas (start s) = canvas s"
  by (simp_all add: start_def)

lemma togglePause_device [simp, device]:
  "mouse (togglePause s) = mouse s" "canvas (togglePause s) = canvas s"
  by (simp_all add: togglePause_def Let_def)

lemma gameOver_device [simp, device]:
  "mouse (gameOver s) = mouse s" "canvas (gameOver s) = canvas s"
  by (simp_all add: gameOver_def Let_def)

lemma reset_device [device]:
  assumes "reset s = Some s'"
  shows "mouse s' = mouse s" "canvas s' = canvas s"
  using assms by (erule_tac reset_cases; simp add: spawnAsteroids_device cleared_def)+

lemma restart_device [device]:
  assumes "restart s = Some s'"
  shows "mouse s' = mouse s" "canvas s' = canvas s"
  using assms by (erule_tac restart_cases; simp add: reset_device)+

lemma Ship_hit_device [device]:
  assumes "Ship_hit s = Some s'"
  shows "mouse s' = mouse s" "canvas s' = canvas s"
  using assms by (auto simp: Ship_hit_def Let_def split: option.splits if_splits)

section \<open>The crystals after a reset\<close>

lemma restart_crystals: "restart s = Some s' \<Longrightarrow> crystals (entities s') = []"
  by (erule restart_cases) (simp add: reset_entities)

end
