(* ===== verification/Render.thy ===== *)
theory Render
  imports World
begin

text \<open>
  The drawing code of \<^verbatim>\<open>src/game.js\<close>: the \<^verbatim>\<open>draw\<close> methods of the four
  classes (lines 127 to 171, 218 to 240, 258 to 288 and 304 to 312),
  \<^verbatim>\<open>render\<close> (lines 476 to 505), \<^verbatim>\<open>resizeCanvas\<close> (lines 508 to 515)
  and the mouse listener (lines 317 to 324). A draw method returns the calls
  it makes on the context, in order. \<^verbatim>\<open>Asteroid.draw\<close> calls
  \<^verbatim>\<open>Math.random\<close> for every vertex of its outline, so it takes the stream
  of draws and returns the rest: drawing is not read-only. \<^verbatim>\<open>Crystal.draw\<close>
  returns \<open>None\<close> where the script would read \<^verbatim>\<open>size\<close> of an undefined
  type, \<^verbatim>\<open>render\<close> where the ship is \<^verbatim>\<open>null\<close>, and the mouse listener
  where the rectangle of the canvas has no width or no height, so that the
  pointer position would not be a finite number.
\<close>

section \<open>Ship\<close>

text \<open>\<^verbatim>\<open>Ship.draw\<close> reads the globals \<^verbatim>\<open>mouse\<close> and \<^verbatim>\<open>STATE.tick\<close>:
  the ship points at the pointer and its flame flickers with the tick.\<close>

definition heading :: "pointer \<Rightarrow> Ship \<Rightarrow> real" where
  "heading m sh = Math_atan2 (ptr_y m - ship_y sh) (ptr_x m - ship_x sh) + pi / 2"

definition thruster_flame :: "int \<Rightarrow> real" where
  "thruster_flame tk = sin (real_of_int tk / 5) * 4 + 8"

definition Ship_draw :: "game \<Rightarrow> Ship \<Rightarrow> ctx_call list" where
  "Ship_draw g sh =
    (let s = ship_size sh;
         flame = thruster_flame (tick (STATE g))
     in [Save,
         Translate (ship_x sh) (ship_y sh),
         Rotate (heading (mouse g) sh)] @
        (if 0 < ship_inv sh \<and> blink sh < 5 then [GlobalAlpha 0.4] else []) @
        [ShadowColor ''#7af0ff'', ShadowBlur 12,
         FillStyle (Colour ''#1a234a''), StrokeStyle ''#7af0ff'', LineWidth 2,
         BeginPath, MoveTo 0 (- s), LineTo (s * 0.7) s, LineTo 0 (s * 0.6), LineTo (- s * 0.7) s,
         ClosePath, Fill, Stroke,
         ShadowBlur 0,
         FillStyle (LinearGradient 0 (- s) 0 s [(0, ''#9be7ff''), (1, ''#3b6bb8'')]),
         BeginPath, Ellipse 0 (- s * 0.3) (s * 0.25) (s * 0.35) 0 0 (pi * 2), Fill,
         FillStyle (LinearGradient 0 (s * 0.6) 0 (s * 0.6 + flame)
                      [(0, ''#7af0ff''), (1, ''#00ffc6'')]),
         BeginPath, MoveTo (- s * 0.2) (s * 0.6), LineTo 0 (s * 0.6 + flame),
         LineTo (s * 0.2) (s * 0.6), ClosePath, Fill,
         Restore])"

section \<open>Asteroid\<close>

text \<open>One vertex of the outline (the body of the loop of lines 229 to 235) for
  the index \<open>i\<close> and the draw \<open>u\<close>, and the loop from \<open>i\<close> to 9.\<close>

definition asteroid_radius :: "Asteroid \<Rightarrow> nat \<Rightarrow> real \<Rightarrow> real" where
  "asteroid_radius a i u = ast_size a * (0.7 + sin (real i * 1.7 + phase a) * 0.18 + u * 0.06)"

definition asteroid_vertex :: "Asteroid \<Rightarrow> nat \<Rightarrow> real \<Rightarrow> ctx_call" where
  "asteroid_vertex a i u =
    (let ang = (real i / 10) * pi * 2;
         rad = asteroid_radius a i u;
         px = cos ang * rad;
         py = sin ang * rad
     in if i = 0 then MoveTo px py else LineTo px py)"

function asteroid_outline :: "Asteroid \<Rightarrow> nat \<Rightarrow> rng \<Rightarrow> ctx_call list \<times> rng" where
  "asteroid_outline a i g =
    (if i < 10 then
       case Math_random g of (u, g) \<Rightarrow>
       case asteroid_outline a (Suc i) g of (cs, g) \<Rightarrow> (asteroid_vertex a i u # cs, g)
     else ([], g))"
  by pat_completeness auto

termination asteroid_outline
  by (relation "measure (\<lambda>(a, i, g). 10 - i)") auto

declare asteroid_outline.simps [simp del]

definition Asteroid_draw :: "Asteroid \<Rightarrow> rng \<Rightarrow> ctx_call list \<times> rng" where
  "Asteroid_draw a g =
    (case asteroid_outline a 0 g of (path, g) \<Rightarrow>
      ([Save, Translate (ast_x a) (ast_y a), Rotate (ast_rot a),
        FillStyle (Hsl (hue a) 30 (light a)), StrokeStyle ''rgba(255,255,255,0.12)'',
        LineWidth 1, BeginPath] @ path @ [ClosePath, Fill, Stroke, Restore], g))"

section \<open>Crystal\<close>

definition colorMap :: "string \<Rightarrow> string option" where
  "colorMap = map_of [(''blue'', ''#6ecbff''), (''purple'', ''#b08cff''), (''green'', ''#6bffc6'')]"

definition glowMap :: "string \<Rightarrow> string option" where
  "glowMap = map_of [(''blue'', ''#82e6ff''), (''purple'', ''#d3b6ff''), (''green'', ''#9effe0'')]"

definition Crystal_draw :: "Crystal \<Rightarrow> ctx_call list option" where
  "Crystal_draw c =
    (case cry_type c of
       None \<Rightarrow> None
     | Some ty \<Rightarrow>
        let s = ct_size ty
        in Some
          [Save, Translate (cry_x c) (cry_y c), Rotate (cry_rot c),
           ShadowColor (case glowMap (ct_color ty) of None \<Rightarrow> ''#9ff'' | Some col \<Rightarrow> col),
           ShadowBlur 12,
           FillStyle (Colour (case colorMap (ct_color ty) of None \<Rightarrow> ''#9ff'' | Some col \<Rightarrow> col)),
           StrokeStyle ''rgba(255,255,255,.25)'', LineWidth 1,
           BeginPath, MoveTo 0 (- s), LineTo (s * 0.7) (- s * 0.2), LineTo 0 s,
           LineTo (- s * 0.7) (- s * 0.2), ClosePath, Fill, Stroke,
           ShadowBlur 0, GlobalAlpha 0.6, FillStyle (Colour ''#fff''),
           BeginPath, Ellipse 0 (- s * 0.5) (s * 0.25) (s * 0.12) 0 0 (pi * 2), Fill,
           GlobalAlpha 1, Restore])"

section \<open>Particle\<close>

text \<open>The opacity \<open>1 - t / life\<close>. For a life of 0 the quotient is not a
  finite number in JavaScript: the comparison \<^verbatim>\<open>a <= 0\<close> holds when
  \<open>t\<close> is positive (the opacity is \<open>-\<infinity>\<close>) and fails otherwise, and
  the context ignores the assignment of the opacity.\<close>

definition Particle_draw :: "Particle \<Rightarrow> ctx_call list" where
  "Particle_draw p =
    (if par_life p = 0 then
       (if 0 < par_t p then []
        else [Save, FillStyle (Colour (par_color p)),
              FillRect (par_x p) (par_y p) (par_size p) (par_size p), Restore])
     else
       let a = 1 - real_of_int (par_t p) / par_life p
       in if a \<le> 0 then []
          else [Save, GlobalAlpha a, FillStyle (Colour (par_color p)),
                FillRect (par_x p) (par_y p) (par_size p) (par_size p), Restore])"

section \<open>render\<close>

definition vignette :: paint where
  "vignette =
    RadialGradient (width CONFIG / 2) (height CONFIG * 0.6) 50
      (width CONFIG / 2) (height CONFIG / 2) (max (width CONFIG) (height CONFIG) * 0.8)
      [(0, ''rgba(10,14,40,0)''), (1, ''rgba(7,7,18,0.45)'')]"

text \<open>The three \<^verbatim>\<open>forEach\<close> loops of lines 491, 492 and 494.\<close>

fun draw_crystals :: "Crystal list \<Rightarrow> ctx_call list option" where
  "draw_crystals [] = Some []"
| "draw_crystals (c # cs) = do { a \<leftarrow> Crystal_draw c; b \<leftarrow> draw_crystals cs; Some (a @ b) }"

fun draw_asteroids :: "Asteroid list \<Rightarrow> rng \<Rightarrow> ctx_call list \<times> rng" where
  "draw_asteroids [] g = ([], g)"
| "draw_asteroids (a # rest) g =
    (case Asteroid_draw a g of (cs, g) \<Rightarrow>
     case draw_asteroids rest g of (ds, g) \<Rightarrow> (cs @ ds, g))"

definition draw_particles :: "Particle list \<Rightarrow> ctx_call list" where
  "draw_particles ps = concat (map Particle_draw ps)"

definition pause_hint :: "game \<Rightarrow> ctx_call list" where
  "pause_hint s =
    (if paused (STATE s) \<and> \<not> over (STATE s) then
       [Save, FillStyle (Colour ''rgba(200,230,255,.85)''), Font ''700 28px Inter, sans-serif'',
        TextAlign ''center'', FillText ''Paused'' (width CONFIG / 2) (height CONFIG / 2), Restore]
     else [])"

definition backdrop :: "game \<Rightarrow> ctx_call list" where
  "backdrop s =
    [ClearRect 0 0 (real_of_int (cv_width (canvas s))) (real_of_int (cv_height (canvas s))),
     FillStyle vignette,
     FillRect 0 0 (real_of_int (cv_width (canvas s))) (real_of_int (cv_height (canvas s)))]"

text \<open>What a frame draws over the backdrop: the crystals (their calls are
  \<open>cs\<close>), the asteroids, the ship, the particles and the hint, in this
  order.\<close>

definition scene :: "game \<Rightarrow> ctx_call list \<Rightarrow> Ship \<Rightarrow> ctx_call list" where
  "scene s cs sh =
    cs @ fst (draw_asteroids (asteroids (entities s)) (rnd s)) @ Ship_draw s sh @
    draw_particles (particles (entities s)) @ pause_hint s"

definition render :: "game \<Rightarrow> game option" where
  "render s =
    do {
      let bg = backdrop s;
      cs \<leftarrow> draw_crystals (crystals (entities s));
      let (rocks, g) = draw_asteroids (asteroids (entities s)) (rnd s);
      sh \<leftarrow> ship (entities s);
      let sd = Ship_draw s sh;
      let ps = draw_particles (particles (entities s));
      let hint = pause_hint s;
      Some (s\<lparr> rnd := g,
               canvas := (canvas s)\<lparr> ctx_calls := bg @ cs @ rocks @ sd @ ps @ hint \<rparr> \<rparr>)
    }"

text \<open>The state after the drawing of a frame, for the states in which
  \<^verbatim>\<open>render\<close> returns.\<close>

definition painted :: "game \<Rightarrow> game" where
  "painted s = (case render s of None \<Rightarrow> s | Some s' \<Rightarrow> s')"

section \<open>resizeCanvas and the mouse\<close>

text \<open>An assignment to \<^verbatim>\<open>canvas.width\<close> or \<^verbatim>\<open>canvas.height\<close> converts the
  number to an unsigned 32-bit integer (truncation, then modulo \<open>2\<^sup>3\<^sup>2\<close>)
  and stores the attribute's default when the result is above
  \<open>2\<^sup>3\<^sup>1 - 1\<close>.\<close>

definition canvas_dimension :: "int \<Rightarrow> real \<Rightarrow> int" where
  "canvas_dimension dflt v =
    (let n = (if v < 0 then - \<lfloor>- v\<rfloor> else \<lfloor>v\<rfloor>) mod 2 ^ 32
     in if n \<le> 2147483647 then n else dflt)"

text \<open>\<^verbatim>\<open>resizeCanvas\<close> reads \<^verbatim>\<open>window.devicePixelRatio\<close>: the argument is
  the reading, \<open>None\<close> when it is undefined.\<close>

definition pixel_ratio :: "real option \<Rightarrow> real" where
  "pixel_ratio reading = min (case reading of None \<Rightarrow> 1 | Some r \<Rightarrow> if r = 0 then 1 else r) 2"

definition resizeCanvas :: "real option \<Rightarrow> game \<Rightarrow> game" where
  "resizeCanvas reading s =
    (let dpr = pixel_ratio reading
     in s\<lparr> canvas := (canvas s)
           \<lparr> cv_width := canvas_dimension 300 (width CONFIG * dpr),
             cv_height := canvas_dimension 150 (height CONFIG * dpr),
             css_width := width CONFIG,
             css_height := height CONFIG,
             cv_transform := (dpr, 0, 0, dpr, 0, 0) \<rparr> \<rparr>)"

definition mousemove :: "real \<Rightarrow> real \<Rightarrow> client_rect \<Rightarrow> game \<Rightarrow> game option" where
  "mousemove clientX clientY rect s =
    (if rect_width rect = 0 \<or> rect_height rect = 0 then None
     else
       let scaleX = real_of_int (cv_width (canvas s)) / rect_width rect;
           scaleY = real_of_int (cv_height (canvas s)) / rect_height rect
       in Some (s\<lparr> mouse := \<lparr> ptr_x = (clientX - rect_left rect) * scaleX,
                               ptr_y = (clientY - rect_top rect) * scaleY \<rparr> \<rparr>))"

text \<open>The canvas as \<^verbatim>\<open>resizeCanvas\<close> leaves it for a pixel ratio, the
  canvas as it leaves it for a reading of the window's ratio, whatever the
  reading is, and the predicate that the drawing code relies on: the bitmap
  covers the playfield in the coordinates the script draws in.\<close>

definition canvas_for :: "real \<Rightarrow> game_canvas \<Rightarrow> bool" where
  "canvas_for dpr cv \<longleftrightarrow>
    cv_width cv = \<lfloor>width CONFIG * dpr\<rfloor> \<and> cv_height cv = \<lfloor>height CONFIG * dpr\<rfloor> \<and>
    css_width cv = width CONFIG \<and> css_height cv = height CONFIG \<and>
    cv_transform cv = (dpr, 0, 0, dpr, 0, 0)"

definition resized :: "real option \<Rightarrow> game_canvas \<Rightarrow> bool" where
  "resized reading cv \<longleftrightarrow>
    cv_width cv = canvas_dimension 300 (width CONFIG * pixel_ratio reading) \<and>
    cv_height cv = canvas_dimension 150 (height CONFIG * pixel_ratio reading) \<and>
    css_width cv = width CONFIG \<and> css_height cv = height CONFIG \<and>
    cv_transform cv = (pixel_ratio reading, 0, 0, pixel_ratio reading, 0, 0)"

definition clears_playfield :: "game \<Rightarrow> bool" where
  "clears_playfield s \<longleftrightarrow>
    (case backdrop s of
       ClearRect x y w h # rest \<Rightarrow>
         x \<le> 0 \<and> y \<le> 0 \<and> width CONFIG \<le> x + w \<and> height CONFIG \<le> y + h
     | _ \<Rightarrow> False)"

text \<open>A well-formed frame: the backdrop first, then calls that leave the
  drawing state as they found it, and every opacity in \<open>(0, 1]\<close>.\<close>

definition frame_ok :: "game \<Rightarrow> ctx_call list \<Rightarrow> bool" where
  "frame_ok s calls \<longleftrightarrow>
    take 3 calls = backdrop s \<and> scoped (drop 3 calls) \<and>
    list_all (\<lambda>v. 0 < v \<and> v \<le> 1) (alphas calls)"

section \<open>Ship: lemmas\<close>

lemma thruster_flame_range: "4 \<le> thruster_flame tk \<and> thruster_flame tk \<le> 12"
  using sin_ge_minus_one [of "real_of_int tk / 5"] sin_le_one [of "real_of_int tk / 5"]
  unfolding thruster_flame_def by linarith

lemma Ship_draw_scoped [simp]: "scoped (Ship_draw g sh)"
  by (simp add: Ship_draw_def Let_def)

lemma Ship_draw_alphas:
  "alphas (Ship_draw g sh) = (if 0 < ship_inv sh \<and> blink sh < 5 then [0.4] else [])"
  by (simp add: Ship_draw_def Let_def)

lemma Ship_draw_placed:
  "\<exists>rest. Ship_draw g sh = Save # Translate (ship_x sh) (ship_y sh) # Rotate (heading (mouse g) sh) # rest"
  by (simp add: Ship_draw_def Let_def)

lemma heading_at_pointer: "ptr_x m = ship_x sh \<Longrightarrow> ptr_y m = ship_y sh \<Longrightarrow> heading m sh = pi / 2"
  by (simp add: heading_def Math_atan2_def)

lemma heading_above: "ptr_x m = ship_x sh \<Longrightarrow> ptr_y m < ship_y sh \<Longrightarrow> heading m sh = 0"
  by (simp add: heading_def Math_atan2_def)

section \<open>Asteroid: lemmas\<close>

lemma outline_factor_range:
  fixes w u :: real
  assumes "- 1 \<le> w" "w \<le> 1" "0 \<le> u" "u < 1"
  shows "0.52 \<le> 0.7 + w * 0.18 + u * 0.06" "0.7 + w * 0.18 + u * 0.06 < 0.94"
  using assms by simp_all

lemma asteroid_radius_range:
  assumes "0 \<le> u" "u < 1" "0 < ast_size a"
  shows "ast_size a * 0.52 \<le> asteroid_radius a i u" "asteroid_radius a i u < ast_size a * 0.94"
proof -
  note f = outline_factor_range [OF sin_ge_minus_one sin_le_one assms(1,2), of "real i * 1.7 + phase a"]
  from f(1) assms(3) show "ast_size a * 0.52 \<le> asteroid_radius a i u"
    unfolding asteroid_radius_def by (intro mult_left_mono) simp_all
  from f(2) assms(3) show "asteroid_radius a i u < ast_size a * 0.94"
    unfolding asteroid_radius_def by (intro mult_strict_left_mono) simp_all
qed

lemma asteroid_outline_eq:
  "asteroid_outline a i g =
    (map (\<lambda>k. asteroid_vertex a k (g !! (k - i))) [i ..< 10], sdrop (10 - i) g)"
proof (induction a i g rule: asteroid_outline.induct)
  case (1 a i g)
  show ?case
  proof (cases "i < 10")
    case True
    then have up: "[i ..< 10] = i # [Suc i ..< 10]"
      by (simp add: upt_rec)
    have sh: "10 - i = Suc (10 - Suc i)"
      using True by simp
    from True "1.IH" [OF True, of "shd g" "stl g"]
    have "asteroid_outline a (Suc i) (stl g) =
        (map (\<lambda>k. asteroid_vertex a k (stl g !! (k - Suc i))) [Suc i ..< 10], sdrop (10 - Suc i) (stl g))"
      by (simp add: Math_random_def)
    moreover have "map (\<lambda>k. asteroid_vertex a k (stl g !! (k - Suc i))) [Suc i ..< 10] =
        map (\<lambda>k. asteroid_vertex a k (g !! (k - i))) [Suc i ..< 10]"
      by (rule map_cong) (auto simp: Suc_diff_Suc simp flip: snth.simps(2))
    ultimately show ?thesis
      using True by (subst asteroid_outline.simps) (simp add: Math_random_def up sh del: upt_Suc)
  next
    case False
    then show ?thesis
      by (subst asteroid_outline.simps) simp
  qed
qed

lemma asteroid_outline_0:
  "asteroid_outline a 0 g = (map (\<lambda>k. asteroid_vertex a k (g !! k)) [0 ..< 10], sdrop 10 g)"
  by (simp add: asteroid_outline_eq)

lemma asteroid_vertex_flat [simp]:
  "asteroid_vertex a i u \<noteq> Save" "asteroid_vertex a i u \<noteq> Restore"
  by (simp_all add: asteroid_vertex_def Let_def)

lemma flat_map_vertices [simp]: "flat (map (\<lambda>k. asteroid_vertex a k (f k)) ks)"
  by (induction ks) simp_all

lemma alphas_map_vertices [simp]: "alphas (map (\<lambda>k. asteroid_vertex a k (f k)) ks) = []"
  by (induction ks) (simp_all add: asteroid_vertex_def Let_def)

lemma Asteroid_draw_eq:
  "Asteroid_draw a g =
    ([Save, Translate (ast_x a) (ast_y a), Rotate (ast_rot a),
      FillStyle (Hsl (hue a) 30 (light a)), StrokeStyle ''rgba(255,255,255,0.12)'',
      LineWidth 1, BeginPath] @ map (\<lambda>k. asteroid_vertex a k (g !! k)) [0 ..< 10] @
     [ClosePath, Fill, Stroke, Restore], sdrop 10 g)"
  by (simp add: Asteroid_draw_def asteroid_outline_0 del: upt_Suc)

lemma Asteroid_draw_rnd [simp, draws]: "snd (Asteroid_draw a g) = sdrop 10 g"
  by (simp add: Asteroid_draw_eq del: upt_Suc)

lemma Asteroid_draw_scoped [simp]: "scoped (fst (Asteroid_draw a g))"
  by (simp add: Asteroid_draw_eq scoped_from_flat del: upt_Suc)

lemma Asteroid_draw_alphas [simp]: "alphas (fst (Asteroid_draw a g)) = []"
  by (simp add: Asteroid_draw_eq del: upt_Suc)

section \<open>Crystal: lemmas\<close>

lemma Crystal_draw_None: "Crystal_draw c = None \<longleftrightarrow> cry_type c = None"
  by (simp add: Crystal_draw_def Let_def split: option.splits)

lemma Crystal_draw_total [total]: "crystal_ok c \<Longrightarrow> \<exists>cs. Crystal_draw c = Some cs"
  by (cases "Crystal_draw c") (auto simp: Crystal_draw_None crystal_ok_def)

lemma Crystal_draw_scoped: "Crystal_draw c = Some cs \<Longrightarrow> scoped cs"
  by (auto simp: Crystal_draw_def Let_def split: option.splits)

lemma Crystal_draw_alphas: "Crystal_draw c = Some cs \<Longrightarrow> alphas cs = [0.6, 1]"
  by (auto simp: Crystal_draw_def Let_def split: option.splits)

lemma colorMap_table:
  "ty \<in> set (crystalTypes CONFIG) \<Longrightarrow> colorMap (ct_color ty) \<noteq> None \<and> glowMap (ct_color ty) \<noteq> None"
  by (auto simp: colorMap_def glowMap_def crystalTypes_CONFIG)

section \<open>Particle: lemmas\<close>

lemma Particle_draw_scoped [simp]: "scoped (Particle_draw p)"
  by (simp add: Particle_draw_def Let_def)

lemma Particle_draw_fresh:
  assumes "particle_fresh p"
  shows "Particle_draw p =
    [Save, GlobalAlpha (1 - real_of_int (par_t p) / par_life p), FillStyle (Colour (par_color p)),
     FillRect (par_x p) (par_y p) (par_size p) (par_size p), Restore]"
    and "0 < 1 - real_of_int (par_t p) / par_life p" "1 - real_of_int (par_t p) / par_life p \<le> 1"
proof -
  from assms have l: "0 < par_life p" "real_of_int (par_t p) < par_life p" "0 \<le> par_t p"
    by (auto simp: particle_fresh_def)
  then show a: "0 < 1 - real_of_int (par_t p) / par_life p"
    by simp
  from l show "1 - real_of_int (par_t p) / par_life p \<le> 1"
    by simp
  from a l(1) show "Particle_draw p =
    [Save, GlobalAlpha (1 - real_of_int (par_t p) / par_life p), FillStyle (Colour (par_color p)),
     FillRect (par_x p) (par_y p) (par_size p) (par_size p), Restore]"
    by (simp add: Particle_draw_def Let_def)
qed

lemma Particle_draw_dead: "Particle_dead p \<Longrightarrow> 0 < par_life p \<Longrightarrow> Particle_draw p = []"
  by (simp add: Particle_draw_def Particle_dead_def Let_def)

lemma Particle_draw_alphas:
  "particle_fresh p \<Longrightarrow> list_all (\<lambda>v. 0 < v \<and> v \<le> 1) (alphas (Particle_draw p))"
  using Particle_draw_fresh [of p] by simp

section \<open>render: lemmas\<close>

lemma draw_crystals_Cons_None:
  "draw_crystals (c # cs) = None \<longleftrightarrow> Crystal_draw c = None \<or> draw_crystals cs = None"
  by (cases "Crystal_draw c"; cases "draw_crystals cs"; simp)

lemma draw_crystals_None:
  "draw_crystals cs = None \<longleftrightarrow> (\<exists>c \<in> set cs. cry_type c = None)"
  by (induction cs) (simp_all add: draw_crystals_Cons_None Crystal_draw_None del: draw_crystals.simps(2))

lemma draw_crystals_total [total]:
  "list_all crystal_ok cs \<Longrightarrow> \<exists>calls. draw_crystals cs = Some calls"
  by (cases "draw_crystals cs") (auto simp: draw_crystals_None list_all_iff crystal_ok_def)

lemma draw_crystals_scoped: "draw_crystals cs = Some calls \<Longrightarrow> scoped calls"
  by (induction cs arbitrary: calls) (auto simp: Crystal_draw_scoped split: bind_splits)

lemma draw_crystals_alphas:
  "draw_crystals cs = Some calls \<Longrightarrow> list_all (\<lambda>v. 0 < v \<and> v \<le> 1) (alphas calls)"
  by (induction cs arbitrary: calls) (auto simp: Crystal_draw_alphas split: bind_splits)

lemma draw_asteroids_rnd [simp, draws]:
  "snd (draw_asteroids rocks g) = sdrop (10 * length rocks) g"
proof (induction rocks arbitrary: g)
  case (Cons a rocks)
  have "sdrop (10 * length rocks) (sdrop 10 g) = sdrop (10 + 10 * length rocks) g"
    by (simp add: sdrop_add add.commute)
  with Cons [of "sdrop 10 g"] show ?case
    by (simp add: split_beta)
qed simp

lemma draw_asteroids_scoped [simp]: "scoped (fst (draw_asteroids rocks g))"
  by (induction rocks arbitrary: g) (simp_all add: split_beta)

lemma draw_asteroids_alphas [simp]: "alphas (fst (draw_asteroids rocks g)) = []"
  by (induction rocks arbitrary: g) (simp_all add: split_beta)

lemma draw_particles_scoped [simp]: "scoped (draw_particles ps)"
  unfolding draw_particles_def by (rule scoped_concat) (simp add: list_all_iff)

lemma draw_particles_alphas:
  "list_all particle_fresh ps \<Longrightarrow> list_all (\<lambda>v. 0 < v \<and> v \<le> 1) (alphas (draw_particles ps))"
  by (induction ps) (simp_all add: draw_particles_def Particle_draw_alphas)

lemma pause_hint_scoped [simp]: "scoped (pause_hint s)"
  by (simp add: pause_hint_def)

lemma pause_hint_alphas [simp]: "alphas (pause_hint s) = []"
  by (simp add: pause_hint_def)

lemma pause_hint_shown: "pause_hint s \<noteq> [] \<longleftrightarrow> paused (STATE s) \<and> \<not> over (STATE s)"
  by (simp add: pause_hint_def)

lemma backdrop_alphas [simp]: "alphas (backdrop s) = []"
  by (simp add: backdrop_def)

lemma render_cases [consumes 1, case_names drawn]:
  assumes "render s = Some s'"
  obtains cs sh where "draw_crystals (crystals (entities s)) = Some cs" "ship (entities s) = Some sh"
    "s' = s\<lparr> rnd := sdrop (10 * length (asteroids (entities s))) (rnd s),
             canvas := (canvas s)\<lparr> ctx_calls := backdrop s @ scene s cs sh \<rparr> \<rparr>"
proof -
  from assms obtain cs sh where c: "draw_crystals (crystals (entities s)) = Some cs"
    and sh: "ship (entities s) = Some sh"
    by (auto simp: render_def Let_def split_beta split: bind_splits)
  have "snd (draw_asteroids (asteroids (entities s)) (rnd s)) =
      sdrop (10 * length (asteroids (entities s))) (rnd s)"
    by simp
  with assms c sh
  have "s' = s\<lparr> rnd := sdrop (10 * length (asteroids (entities s))) (rnd s),
             canvas := (canvas s)\<lparr> ctx_calls := backdrop s @ scene s cs sh \<rparr> \<rparr>"
    by (auto simp: render_def Let_def split_beta scene_def)
  with c sh show thesis by (rule that)
qed

lemma render_None:
  "render s = None \<longleftrightarrow> ship (entities s) = None \<or> (\<exists>c \<in> set (crystals (entities s)). cry_type c = None)"
proof -
  have "render s = None \<longleftrightarrow> draw_crystals (crystals (entities s)) = None \<or> ship (entities s) = None"
    by (cases "draw_crystals (crystals (entities s))"; cases "ship (entities s)";
        simp add: render_def Let_def split_beta)
  then show ?thesis
    by (auto simp: draw_crystals_None)
qed

lemma render_total [total]:
  assumes "entities_ok (entities s)"
  shows "\<exists>s'. render s = Some s'"
proof (cases "render s")
  case None
  with entities_ok_ship [OF assms] entities_okD(2) [OF assms] show ?thesis
    by (auto simp: render_None list_all_iff crystal_ok_def)
qed simp

lemma render_frame [frame]:
  assumes "render s = Some s'"
  shows "STATE s' = STATE s" "entities s' = entities s" "ui s' = ui s" "keys s' = keys s"
    "mouse s' = mouse s" "lastTime s' = lastTime s" "clock s' = clock s"
    "rnd s' = sdrop (10 * length (asteroids (entities s))) (rnd s)"
    "cv_width (canvas s') = cv_width (canvas s)" "cv_height (canvas s') = cv_height (canvas s)"
    "css_width (canvas s') = css_width (canvas s)" "css_height (canvas s') = css_height (canvas s)"
    "cv_transform (canvas s') = cv_transform (canvas s)"
  using assms by (cases rule: render_cases; simp)+

lemma render_ok [keeps]:
  assumes "render s = Some s'" "game_ok s"
  shows "game_ok s'"
  using assms(2) render_frame [OF assms(1)]
  by (simp add: game_ok_def hud_synced_def unit_draws_sdrop)

lemma scene_scoped: "draw_crystals (crystals (entities s)) = Some cs \<Longrightarrow> scoped (scene s cs sh)"
  by (simp add: scene_def draw_crystals_scoped)

lemma render_calls:
  assumes "render s = Some s'"
  shows "\<exists>rest. ctx_calls (canvas s') = backdrop s @ rest \<and> scoped rest"
  using assms by (cases rule: render_cases) (auto simp: scene_scoped)

lemma run_backdrop:
  "run_calls (backdrop s) (st, stk) = (st\<lparr> st_fill := vignette \<rparr>, stk)"
  by (simp add: backdrop_def)

lemma render_restores:
  assumes "render s = Some s'"
  shows "run_calls (ctx_calls (canvas s')) (st, stk) = (st\<lparr> st_fill := vignette \<rparr>, stk)"
proof -
  from render_calls [OF assms] obtain rest
    where "ctx_calls (canvas s') = backdrop s @ rest" "scoped rest"
    by blast
  then show ?thesis
    by (simp add: run_backdrop scoped_restores)
qed

lemma render_alphas:
  assumes "render s = Some s'" "entities_ok (entities s)"
  shows "list_all (\<lambda>v. 0 < v \<and> v \<le> 1) (alphas (ctx_calls (canvas s')))"
  using assms(1)
proof (cases rule: render_cases)
  case (drawn cs sh)
  from drawn(1) have "list_all (\<lambda>v. 0 < v \<and> v \<le> 1) (alphas cs)"
    by (rule draw_crystals_alphas)
  moreover have "list_all (\<lambda>v. 0 < v \<and> v \<le> 1) (alphas (Ship_draw s sh))"
    by (simp add: Ship_draw_alphas)
  moreover from entities_okD(3) [OF assms(2)]
  have "list_all (\<lambda>v. 0 < v \<and> v \<le> 1) (alphas (draw_particles (particles (entities s))))"
    by (rule draw_particles_alphas)
  ultimately show ?thesis
    using drawn(3) by (simp add: scene_def)
qed

section \<open>resizeCanvas and the mouse: lemmas\<close>

lemma pixel_ratio_le_2: "pixel_ratio reading \<le> 2"
  by (simp add: pixel_ratio_def)

lemma pixel_ratio_simps [simp]:
  "pixel_ratio None = 1" "pixel_ratio (Some 0) = 1" "r \<noteq> 0 \<Longrightarrow> pixel_ratio (Some r) = min r 2"
  by (simp_all add: pixel_ratio_def)

lemma canvas_dimension_floor:
  assumes "0 \<le> v" "v < 2147483648"
  shows "canvas_dimension dflt v = \<lfloor>v\<rfloor>"
proof -
  from assms have "0 \<le> \<lfloor>v\<rfloor>" "\<lfloor>v\<rfloor> < 2147483648"
    by (simp_all add: floor_less_iff)
  then show ?thesis
    using assms(1) by (simp add: canvas_dimension_def Let_def)
qed

lemma canvas_dimension_negative:
  assumes "v \<le> - 1" "- 2147483648 \<le> v"
  shows "canvas_dimension dflt v = dflt"
proof -
  define n where "n = - \<lfloor>- v\<rfloor>"
  from assms have "1 \<le> \<lfloor>- v\<rfloor>" "\<lfloor>- v\<rfloor> \<le> 2147483648"
    by (simp_all add: le_floor_iff floor_le_iff)
  then have n: "- 2147483648 \<le> n" "n \<le> - 1"
    by (simp_all add: n_def)
  then have "(n + 2 ^ 32) mod 2 ^ 32 = n + 2 ^ 32"
    by (intro mod_pos_pos_trivial) simp_all
  then have "n mod 2 ^ 32 = n + 2 ^ 32"
    by simp
  with n assms(1) show ?thesis
    by (simp add: canvas_dimension_def Let_def n_def)
qed

lemma resizeCanvas_frame [simp, frame]:
  "STATE (resizeCanvas reading s) = STATE s" "entities (resizeCanvas reading s) = entities s"
  "ui (resizeCanvas reading s) = ui s" "keys (resizeCanvas reading s) = keys s"
  "mouse (resizeCanvas reading s) = mouse s" "lastTime (resizeCanvas reading s) = lastTime s"
  "rnd (resizeCanvas reading s) = rnd s" "clock (resizeCanvas reading s) = clock s"
  "ctx_calls (canvas (resizeCanvas reading s)) = ctx_calls (canvas s)"
  by (simp_all add: resizeCanvas_def Let_def)

lemma resizeCanvas_ok [simp, keeps]: "game_ok (resizeCanvas reading s) = game_ok s"
  by (simp add: resizeCanvas_def Let_def)

lemma resizeCanvas_resized [simp]: "resized reading (canvas (resizeCanvas reading s))"
  by (simp add: resized_def resizeCanvas_def Let_def)

lemma resized_for:
  assumes "resized reading cv" "0 \<le> pixel_ratio reading"
  shows "canvas_for (pixel_ratio reading) cv"
proof -
  from assms(2) pixel_ratio_le_2 [of reading]
  have "0 \<le> 800 * pixel_ratio reading" "800 * pixel_ratio reading < 2147483648"
    "0 \<le> 600 * pixel_ratio reading" "600 * pixel_ratio reading < 2147483648"
    by simp_all
  with assms(1) show ?thesis
    by (simp add: canvas_for_def resized_def canvas_dimension_floor)
qed

lemma resizeCanvas_for:
  assumes "0 \<le> pixel_ratio reading"
  shows "canvas_for (pixel_ratio reading) (canvas (resizeCanvas reading s))"
  using resizeCanvas_resized assms by (rule resized_for)

text \<open>\<^verbatim>\<open>render\<close> clears the rectangle \<open>(0, 0, canvas.width, canvas.height)\<close>
  in the coordinates of the playfield: it covers the playfield exactly when
  the pixel ratio is at least 1.\<close>

lemma canvas_for_clears:
  assumes "canvas_for dpr (canvas s)"
  shows "clears_playfield s \<longleftrightarrow> 1 \<le> dpr"
proof
  assume "1 \<le> dpr"
  then have "800 \<le> 800 * dpr" "600 \<le> 600 * dpr" by simp_all
  then have "800 \<le> \<lfloor>800 * dpr\<rfloor>" "600 \<le> \<lfloor>600 * dpr\<rfloor>"
    by (simp_all add: le_floor_iff)
  with assms show "clears_playfield s"
    by (simp add: clears_playfield_def backdrop_def canvas_for_def)
next
  assume "clears_playfield s"
  with assms have "800 \<le> \<lfloor>800 * dpr\<rfloor>"
    by (simp add: clears_playfield_def backdrop_def canvas_for_def)
  then have "800 \<le> 800 * dpr"
    by (simp add: le_floor_iff)
  then show "1 \<le> dpr" by simp
qed

lemma resizeCanvas_clears:
  "0 \<le> pixel_ratio reading \<Longrightarrow> clears_playfield (resizeCanvas reading s) \<longleftrightarrow> 1 \<le> pixel_ratio reading"
  by (rule canvas_for_clears) (rule resizeCanvas_for)

lemma render_canvas_for: "render s = Some s' \<Longrightarrow> canvas_for dpr (canvas s') = canvas_for dpr (canvas s)"
  by (simp add: canvas_for_def render_frame)

lemma mousemove_None: "mousemove mx my rect s = None \<longleftrightarrow> rect_width rect = 0 \<or> rect_height rect = 0"
  by (simp add: mousemove_def Let_def)

lemma mousemove_total [total]:
  "rect_width rect \<noteq> 0 \<Longrightarrow> rect_height rect \<noteq> 0 \<Longrightarrow> \<exists>s'. mousemove mx my rect s = Some s'"
  by (simp add: mousemove_def Let_def)

lemma mousemove_frame [frame]:
  assumes "mousemove mx my rect s = Some s'"
  shows "STATE s' = STATE s" "entities s' = entities s" "ui s' = ui s" "keys s' = keys s"
    "canvas s' = canvas s" "lastTime s' = lastTime s" "rnd s' = rnd s" "clock s' = clock s"
  using assms by (auto simp: mousemove_def Let_def split: if_splits)

lemma mousemove_ok [keeps]: "mousemove mx my rect s = Some s' \<Longrightarrow> game_ok s' = game_ok s"
  by (auto simp: mousemove_def Let_def split: if_splits)

text \<open>On a canvas shown at its CSS size the listener scales the pointer's
  offset by the ratio of the bitmap to the playfield: the pointer position is
  in bitmap pixels, while the ship's position is in playfield coordinates.\<close>

lemma mousemove_scaled:
  assumes "mousemove mx my rect s = Some s'" "canvas_for dpr (canvas s)"
    "rect_width rect = css_width (canvas s)" "rect_height rect = css_height (canvas s)"
  shows "ptr_x (mouse s') = (mx - rect_left rect) * (real_of_int \<lfloor>800 * dpr\<rfloor> / 800)"
    "ptr_y (mouse s') = (my - rect_top rect) * (real_of_int \<lfloor>600 * dpr\<rfloor> / 600)"
  using assms by (auto simp: mousemove_def Let_def canvas_for_def split: if_splits)

lemma resized_calls [simp]: "resized reading (cv\<lparr> ctx_calls := cs \<rparr>) = resized reading cv"
  by (simp add: resized_def)

lemma render_resized: "render s = Some s' \<Longrightarrow> resized reading (canvas s') = resized reading (canvas s)"
  by (simp add: resized_def render_frame)

lemma mousemove_pointer:
  assumes "mousemove mx my rect s = Some s'" "resized reading (canvas s)" "0 \<le> pixel_ratio reading"
    "rect_width rect = css_width (canvas s)" "rect_height rect = css_height (canvas s)"
  shows "ptr_x (mouse s') = (mx - rect_left rect) * (real_of_int \<lfloor>800 * pixel_ratio reading\<rfloor> / 800)"
    "ptr_y (mouse s') = (my - rect_top rect) * (real_of_int \<lfloor>600 * pixel_ratio reading\<rfloor> / 600)"
  using mousemove_scaled [OF assms(1) resized_for [OF assms(2,3)] assms(4,5)] by simp_all

section \<open>painted: lemmas\<close>

lemma render_painted: "entities_ok (entities s) \<Longrightarrow> render s = Some (painted s)"
  using render_total [of s] by (auto simp: painted_def)

lemma painted_frame [simp, frame]:
  "STATE (painted s) = STATE s" "entities (painted s) = entities s" "ui (painted s) = ui s"
  "keys (painted s) = keys s" "mouse (painted s) = mouse s" "lastTime (painted s) = lastTime s"
  "clock (painted s) = clock s"
  by (auto simp: painted_def render_frame split: option.splits)

lemma painted_rnd [draws]:
  "entities_ok (entities s) \<Longrightarrow> rnd (painted s) = sdrop (10 * length (asteroids (entities s))) (rnd s)"
  using render_frame(8) [OF render_painted] by simp

lemma painted_ok [keeps]: "game_ok s \<Longrightarrow> game_ok (painted s)"
  using render_ok [OF render_painted [OF game_okD(2)]] by simp

lemma painted_calls:
  assumes "draw_crystals (crystals (entities s)) = Some cs" "ship (entities s) = Some sh"
  shows "ctx_calls (canvas (painted s)) = backdrop s @ scene s cs sh"
proof -
  from assms have "render s \<noteq> None"
    by (auto simp: render_None simp flip: draw_crystals_None)
  then obtain s' where r: "render s = Some s'" by blast
  then have "painted s = s'" by (simp add: painted_def)
  with r assms show ?thesis
    by (cases rule: render_cases) simp
qed

section \<open>Well-formed frames\<close>

lemma length_backdrop [simp]: "length (backdrop s) = 3"
  by (simp add: backdrop_def)

lemma render_frame_ok:
  assumes "render s = Some s'" "entities_ok (entities s)"
  shows "frame_ok s (ctx_calls (canvas s'))"
proof -
  from render_calls [OF assms(1)] obtain rest
    where c: "ctx_calls (canvas s') = backdrop s @ rest" "scoped rest"
    by blast
  with render_alphas [OF assms] show ?thesis
    by (simp add: frame_ok_def)
qed

lemma frame_ok_restores:
  assumes "frame_ok s calls"
  shows "run_calls calls (st, stk) = (st\<lparr> st_fill := vignette \<rparr>, stk)"
proof -
  from assms have "take 3 calls = backdrop s" "scoped (drop 3 calls)"
    by (simp_all add: frame_ok_def)
  with append_take_drop_id [of 3 calls]
  have "calls = backdrop s @ drop 3 calls" "scoped (drop 3 calls)"
    by simp_all
  then have "run_calls calls (st, stk) = run_calls (drop 3 calls) (run_calls (backdrop s) (st, stk))"
    by (metis run_calls_append)
  with \<open>scoped (drop 3 calls)\<close> show ?thesis
    by (simp add: run_backdrop scoped_restores)
qed

lemma frame_ok_transform:
  "frame_ok s calls \<Longrightarrow> st_transform (fst (run_calls calls (st, stk))) = st_transform st"
  by (simp add: frame_ok_restores)

section \<open>The pointer and the ship\<close>

lemma heading_example:
  "heading \<lparr> ptr_x = 800, ptr_y = 700 \<rparr> (new_Ship 400 450) = arctan (5 / 8) + pi / 2"
  "heading \<lparr> ptr_x = 400, ptr_y = 350 \<rparr> (new_Ship 400 450) = 0"
  by (simp_all add: heading_def Math_atan2_def new_Ship_def)

section \<open>Where the ship is drawn\<close>

text \<open>The vertices of the ship's body and of its flame, in the coordinates of
  the context after the \<^verbatim>\<open>translate\<close> and the \<^verbatim>\<open>rotate\<close> of the
  method.\<close>

lemma Ship_draw_points:
  "path_points (Ship_draw g sh) (st, stk) =
    map (device_point (rotate_by (heading (mouse g) sh)
          (translate_by (ship_x sh) (ship_y sh) (st_transform st))))
      [(0, - ship_size sh), (ship_size sh * 0.7, ship_size sh), (0, ship_size sh * 0.6),
       (- ship_size sh * 0.7, ship_size sh), (- ship_size sh * 0.2, ship_size sh * 0.6),
       (0, ship_size sh * 0.6 + thruster_flame (tick (STATE g))),
       (ship_size sh * 0.2, ship_size sh * 0.6)]"
  by (simp add: Ship_draw_def Let_def)

lemma heading_polar:
  assumes "ptr_x m \<noteq> ship_x sh \<or> ptr_y m \<noteq> ship_y sh"
  shows "sin (heading m sh) = (ptr_x m - ship_x sh) / Math_hypot (ptr_x m - ship_x sh) (ptr_y m - ship_y sh)"
    "cos (heading m sh) = - ((ptr_y m - ship_y sh) / Math_hypot (ptr_x m - ship_x sh) (ptr_y m - ship_y sh))"
proof -
  from assms have "ptr_x m - ship_x sh \<noteq> 0 \<or> ptr_y m - ship_y sh \<noteq> 0"
    by simp
  note p = Math_atan2_polar [OF this]
  show "sin (heading m sh) = (ptr_x m - ship_x sh) / Math_hypot (ptr_x m - ship_x sh) (ptr_y m - ship_y sh)"
    "cos (heading m sh) = - ((ptr_y m - ship_y sh) / Math_hypot (ptr_x m - ship_x sh) (ptr_y m - ship_y sh))"
    unfolding heading_def sin_add cos_add p by simp_all
qed

text \<open>The tip of the ship is drawn on the ray from the ship to the pointer,
  at the distance of the ship's size, in the scale of the context.\<close>

lemma ship_tip:
  assumes "st_transform st = (dpr, 0, 0, dpr, 0, 0)"
    and "ptr_x (mouse g) \<noteq> ship_x sh \<or> ptr_y (mouse g) \<noteq> ship_y sh"
  shows "hd (path_points (Ship_draw g sh) (st, stk)) =
    (dpr * (ship_x sh + ship_size sh * ((ptr_x (mouse g) - ship_x sh) /
        Math_hypot (ptr_x (mouse g) - ship_x sh) (ptr_y (mouse g) - ship_y sh))),
     dpr * (ship_y sh + ship_size sh * ((ptr_y (mouse g) - ship_y sh) /
        Math_hypot (ptr_x (mouse g) - ship_x sh) (ptr_y (mouse g) - ship_y sh))))"
  by (simp add: Ship_draw_points assms(1) device_point_placed heading_polar [OF assms(2)])

section \<open>Where an asteroid is drawn\<close>

lemma asteroid_vertex_point:
  "path_point (asteroid_vertex a k u) =
     Some (cos (real k / 10 * pi * 2) * asteroid_radius a k u,
           sin (real k / 10 * pi * 2) * asteroid_radius a k u)"
  "apply_call (asteroid_vertex a k u) cfg = cfg"
  by (cases cfg; simp add: asteroid_vertex_def Let_def)+

lemma asteroid_vertices_points:
  "path_points (map (\<lambda>k. asteroid_vertex a k (h k)) ks) cfg =
     map (\<lambda>k. device_point (st_transform (fst cfg))
            (cos (real k / 10 * pi * 2) * asteroid_radius a k (h k),
             sin (real k / 10 * pi * 2) * asteroid_radius a k (h k))) ks"
  by (induction ks) (simp_all add: asteroid_vertex_point)

lemma Asteroid_draw_points:
  "path_points (fst (Asteroid_draw a g)) (st, stk) =
     map (\<lambda>k. device_point (rotate_by (ast_rot a) (translate_by (ast_x a) (ast_y a) (st_transform st)))
            (cos (real k / 10 * pi * 2) * asteroid_radius a k (g !! k),
             sin (real k / 10 * pi * 2) * asteroid_radius a k (g !! k))) [0 ..< 10]"
  by (simp add: Asteroid_draw_eq asteroid_vertices_points del: upt_Suc)

text \<open>Every vertex is drawn at its radius from the centre of the asteroid,
  in the scale of the context: the outline lies inside the circle the
  collision test uses.\<close>

lemma asteroid_vertex_distance:
  assumes "st_transform st = (dpr, 0, 0, dpr, 0, 0)" "k < 10"
  shows "(fst (path_points (fst (Asteroid_draw a g)) (st, stk) ! k) - dpr * ast_x a)\<^sup>2 +
         (snd (path_points (fst (Asteroid_draw a g)) (st, stk) ! k) - dpr * ast_y a)\<^sup>2 =
         (dpr * asteroid_radius a k (g !! k))\<^sup>2"
proof -
  let ?r = "asteroid_radius a k (g !! k)" and ?t = "real k / 10 * pi * 2"
  have "(cos ?t * ?r)\<^sup>2 + (sin ?t * ?r)\<^sup>2 = ?r\<^sup>2"
    using rotation_norm [of ?r ?t 0] by (simp add: mult.commute add.commute)
  with assms(2) device_point_distance [of "ast_rot a" "ast_x a" "ast_y a" dpr "(cos ?t * ?r, sin ?t * ?r)"]
  show ?thesis
    by (simp add: Asteroid_draw_points assms(1) power_mult_distrib del: upt_Suc)
qed

end
