(* ===== verification/Tick.thy ===== *)
theory Tick
  imports Flow Render
begin

text \<open>
  The simulation step \<^verbatim>\<open>update(dt)\<close> of \<^verbatim>\<open>src/game.js\<close> (lines 426 to
  474) and the frame callback \<^verbatim>\<open>loop\<close> (lines 418 to 424). The step is
  the composition of six phases, each a definition here, in the order of the
  source: the difficulty ramp, the crystal timer, the entity updates with
  the cleaning of dead particles, the ship against the asteroids (at most one
  hit), the ship against the crystals (by index, from the last to the first,
  removing what is collected), and the top-up of the asteroid population.
  Both collision phases test against the bounds the ship had after its own
  update: a respawn in the first phase does not move them. The frame callback
  runs the step when the game is running and not paused, and calls
  \<^verbatim>\<open>render\<close> in every frame.
\<close>

definition ramp_difficulty :: "game \<Rightarrow> game option" where
  "ramp_difficulty s =
    (case performance_now s of (now, s) \<Rightarrow>
      if difficultyIntervalMs CONFIG \<le> now - lastDifficultyMs (STATE s) then
        (case performance_now s of (now, s) \<Rightarrow>
          let s = s\<lparr> STATE := (STATE s)\<lparr> lastDifficultyMs := now \<rparr> \<rparr>;
              s = s\<lparr> STATE := (STATE s)\<lparr> level := level (STATE s) + 1 \<rparr> \<rparr>
          in do {
            s \<leftarrow> spawnAsteroids (nat (1 + min (level (STATE s)) 3)) s;
            Some (updateHUD s)
          })
      else Some s)"

definition crystal_timer :: "game \<Rightarrow> game" where
  "crystal_timer s =
    (case performance_now s of (now, s) \<Rightarrow>
      if crystalSpawnMs CONFIG \<le> now - lastCrystalMs (STATE s) then
        (case performance_now s of (now, s) \<Rightarrow>
          let s = s\<lparr> STATE := (STATE s)\<lparr> lastCrystalMs := now \<rparr> \<rparr>
          in spawnCrystal s)
      else s)"

definition update_entities :: "game \<Rightarrow> game option" where
  "update_entities s =
    (case ship (entities s) of
       None \<Rightarrow> None
     | Some sh \<Rightarrow>
        let s = s\<lparr> entities := (entities s)\<lparr> ship := Some (Ship_update (keys s) sh) \<rparr> \<rparr>;
            s = s\<lparr> entities := (entities s)
                   \<lparr> asteroids := map (Asteroid_update (tick (STATE s))) (asteroids (entities s)) \<rparr> \<rparr>;
            s = s\<lparr> entities := (entities s)\<lparr> crystals := map Crystal_update (crystals (entities s)) \<rparr> \<rparr>;
            s = s\<lparr> entities := (entities s)\<lparr> particles := map Particle_update (particles (entities s)) \<rparr> \<rparr>;
            s = s\<lparr> entities := (entities s)
                   \<lparr> particles := filter (\<lambda>p. \<not> Particle_dead p) (particles (entities s)) \<rparr> \<rparr>
        in Some s)"

fun collide_asteroids :: "circle \<Rightarrow> Asteroid list \<Rightarrow> game \<Rightarrow> game option" where
  "collide_asteroids sb [] s = Some s"
| "collide_asteroids sb (a # rest) s =
    (let ab = Asteroid_bounds a
     in if hit sb ab then Ship_hit s else collide_asteroids sb rest s)"

text \<open>The body of the crystal loop for a crystal the ship touches (lines 463
  to 466): the points, the HUD, the sparkle, the removal at index \<open>i\<close>.\<close>

definition collect_crystal :: "nat \<Rightarrow> Crystal \<Rightarrow> game \<Rightarrow> game option" where
  "collect_crystal i c s =
    (case cry_type c of
       None \<Rightarrow> None
     | Some ty \<Rightarrow>
        let s = s\<lparr> STATE := (STATE s)\<lparr> score := score (STATE s) + ct_points ty \<rparr> \<rparr>;
            s = updateHUD s;
            s = spawnSparkle (cry_x c) (cry_y c) ''#aaf8ff'' s;
            s = s\<lparr> entities := (entities s)
                   \<lparr> crystals := take i (crystals (entities s)) @
                                  drop (Suc i) (crystals (entities s)) \<rparr> \<rparr>
        in Some s)"

text \<open>\<open>collect_crystals sb n s\<close> runs the loop from index \<open>n - 1\<close> down to
  \<open>0\<close>. An index outside the array reads \<^verbatim>\<open>undefined\<close>, whose
  \<^verbatim>\<open>bounds\<close> is a TypeError.\<close>

fun collect_crystals :: "circle \<Rightarrow> nat \<Rightarrow> game \<Rightarrow> game option" where
  "collect_crystals sb 0 s = Some s"
| "collect_crystals sb (Suc i) s =
    (if i < length (crystals (entities s)) then
       let c = crystals (entities s) ! i in
       (case Crystal_bounds c of
          None \<Rightarrow> None
        | Some cb \<Rightarrow>
           if hit sb cb then collect_crystal i c s \<bind> collect_crystals sb i
           else collect_crystals sb i s)
     else None)"

definition maintain_asteroids :: "game \<Rightarrow> game option" where
  "maintain_asteroids s =
    (let target = initialAsteroids CONFIG + \<lfloor>real_of_int (level (STATE s)) * 0.8\<rfloor>
     in if int (length (asteroids (entities s))) < target then spawnAsteroid True s else Some s)"

definition update :: "real \<Rightarrow> game \<Rightarrow> game option" where
  "update dt s =
    do {
      let s = s\<lparr> STATE := (STATE s)\<lparr> tick := tick (STATE s) + 1 \<rparr> \<rparr>;
      s \<leftarrow> ramp_difficulty s;
      let s = crystal_timer s;
      s \<leftarrow> update_entities s;
      sh \<leftarrow> ship (entities s);
      let sb = Ship_bounds sh;
      s \<leftarrow> collide_asteroids sb (asteroids (entities s)) s;
      s \<leftarrow> collect_crystals sb (length (crystals (entities s))) s;
      maintain_asteroids s
    }"

definition loop :: "real \<Rightarrow> game \<Rightarrow> game option" where
  "loop now s =
    (let dt = now - lastTime s;
         s = s\<lparr> lastTime := now \<rparr>
     in do {
       s \<leftarrow> (if \<not> paused (STATE s) \<and> running (STATE s) then update dt s else Some s);
       render s
     })"

text \<open>Reference notions for the crystal loop: whether the ship's circle
  touches a crystal, and what the crystal is worth.\<close>

definition touching :: "circle \<Rightarrow> Crystal \<Rightarrow> bool" where
  "touching sb c = (case Crystal_bounds c of None \<Rightarrow> False | Some cb \<Rightarrow> hit sb cb)"

definition crystal_points :: "Crystal \<Rightarrow> int" where
  "crystal_points c = (case cry_type c of None \<Rightarrow> 0 | Some ty \<Rightarrow> ct_points ty)"

text \<open>The state the difficulty ramp hands to its spawn loop: two clock
  readings taken, the timer set to the second, the level raised.\<close>

definition ramped :: "game \<Rightarrow> game" where
  "ramped s =
    s\<lparr> clock := sdrop 2 (clock s),
       STATE := (STATE s)\<lparr> lastDifficultyMs := clock s !! 1, level := level (STATE s) + 1 \<rparr> \<rparr>"

text \<open>The loop against its reference: on a list of typed crystals it returns,
  keeps exactly the crystals the ship does not touch, in their order, and adds
  the points of the others. \<open>collected sb n s s'\<close> states this for the
  indices below \<open>n\<close>.\<close>

definition collected :: "circle \<Rightarrow> nat \<Rightarrow> game \<Rightarrow> game \<Rightarrow> bool" where
  "collected sb n s s' \<longleftrightarrow>
    crystals (entities s') =
      filter (\<lambda>c. \<not> touching sb c) (take n (crystals (entities s))) @ drop n (crystals (entities s)) \<and>
    score (STATE s') =
      score (STATE s) + sum_list (map crystal_points (filter (touching sb) (take n (crystals (entities s))))) \<and>
    length (particles (entities s')) =
      length (particles (entities s)) + 18 * length (filter (touching sb) (take n (crystals (entities s)))) \<and>
    rnd s' = sdrop (72 * length (filter (touching sb) (take n (crystals (entities s))))) (rnd s)"

text \<open>The states between the phases of one tick: after the ramp, after the
  entity updates (with the ship \<open>sh\<close> whose bounds both collision phases
  use), after the asteroid collisions, after the crystal loop, at the end.\<close>

definition tick_phases :: "game \<Rightarrow> game \<Rightarrow> game \<Rightarrow> Ship \<Rightarrow> game \<Rightarrow> game \<Rightarrow> game \<Rightarrow> bool" where
  "tick_phases s s1 s3 sh s4 s5 s' \<longleftrightarrow>
    ramp_difficulty (s\<lparr> STATE := (STATE s)\<lparr> tick := tick (STATE s) + 1 \<rparr> \<rparr>) = Some s1 \<and>
    update_entities (crystal_timer s1) = Some s3 \<and>
    ship (entities s3) = Some sh \<and>
    collide_asteroids (Ship_bounds sh) (asteroids (entities s3)) s3 = Some s4 \<and>
    collect_crystals (Ship_bounds sh) (length (crystals (entities s4))) s4 = Some s5 \<and>
    maintain_asteroids s5 = Some s'"

section \<open>The difficulty ramp\<close>

lemma ramp_difficulty_idle:
  "shd (clock s) - lastDifficultyMs (STATE s) < 30000 \<Longrightarrow>
     ramp_difficulty s = Some (s\<lparr> clock := stl (clock s) \<rparr>)"
  by (simp add: ramp_difficulty_def performance_now_def)

lemma ramp_difficulty_due:
  "30000 \<le> shd (clock s) - lastDifficultyMs (STATE s) \<Longrightarrow>
     ramp_difficulty s =
       map_option updateHUD (spawnAsteroids (nat (1 + min (level (STATE s) + 1) 3)) (ramped s))"
  by (simp add: ramp_difficulty_def performance_now_def ramped_def bind_Some_map sdrop_2)

lemma ramped_frame [simp, frame]:
  "entities (ramped s) = entities s" "ui (ramped s) = ui s" "keys (ramped s) = keys s"
  "lastTime (ramped s) = lastTime s" "rnd (ramped s) = rnd s"
  "clock (ramped s) = sdrop 2 (clock s)"
  "STATE (ramped s) = (STATE s)\<lparr> lastDifficultyMs := clock s !! 1, level := level (STATE s) + 1 \<rparr>"
  by (simp_all add: ramped_def)

lemma ramp_difficulty_cases [consumes 1, case_names idle ramp]:
  assumes "ramp_difficulty s = Some s'"
  obtains "shd (clock s) - lastDifficultyMs (STATE s) < 30000" "s' = s\<lparr> clock := stl (clock s) \<rparr>"
  | u where "30000 \<le> shd (clock s) - lastDifficultyMs (STATE s)"
      "spawnAsteroids (nat (1 + min (level (STATE s) + 1) 3)) (ramped s) = Some u"
      "s' = updateHUD u"
proof (cases "shd (clock s) - lastDifficultyMs (STATE s) < 30000")
  case True
  with assms that(1) show ?thesis by (simp add: ramp_difficulty_idle)
next
  case False
  with assms that(2) show ?thesis by (auto simp: ramp_difficulty_due)
qed

lemma ramp_difficulty_total [total]:
  "unit_draws (rnd s) \<Longrightarrow> \<exists>s'. ramp_difficulty s = Some s'"
  using spawnAsteroids_total [of "ramped s" "nat (1 + min (level (STATE s) + 1) 3)"]
  by (cases "shd (clock s) - lastDifficultyMs (STATE s) < 30000")
     (auto simp: ramp_difficulty_idle ramp_difficulty_due)

lemma ramp_difficulty_frame [frame]:
  assumes "ramp_difficulty s = Some s'"
  shows "keys s' = keys s" "lastTime s' = lastTime s"
    "running (STATE s') = running (STATE s)" "paused (STATE s') = paused (STATE s)"
    "over (STATE s') = over (STATE s)" "score (STATE s') = score (STATE s)"
    "lives (STATE s') = lives (STATE s)" "tick (STATE s') = tick (STATE s)"
    "lastCrystalMs (STATE s') = lastCrystalMs (STATE s)"
    "ship (entities s') = ship (entities s)" "crystals (entities s') = crystals (entities s)"
    "particles (entities s') = particles (entities s)"
    "menu_visible (ui s') = menu_visible (ui s)" "pause_visible (ui s') = pause_visible (ui s)"
    "gameover_visible (ui s') = gameover_visible (ui s)" "finalScore (ui s') = finalScore (ui s)"
  using assms by (erule_tac ramp_difficulty_cases; simp add: spawnAsteroids_frame)+

lemma ramp_difficulty_level:
  assumes "ramp_difficulty s = Some s'"
  shows "level (STATE s') =
    (if 30000 \<le> shd (clock s) - lastDifficultyMs (STATE s) then level (STATE s) + 1 else level (STATE s))"
  using assms by (cases rule: ramp_difficulty_cases) (simp_all add: spawnAsteroids_frame)

lemma ramp_difficulty_length:
  assumes "ramp_difficulty s = Some s'"
  shows "length (asteroids (entities s')) =
    (if 30000 \<le> shd (clock s) - lastDifficultyMs (STATE s)
     then length (asteroids (entities s)) + nat (1 + min (level (STATE s) + 1) 3)
     else length (asteroids (entities s)))"
  using assms by (cases rule: ramp_difficulty_cases) (simp_all add: spawnAsteroids_length)

lemma ramp_difficulty_rnd [draws]:
  assumes "ramp_difficulty s = Some s'"
  shows "rnd s' =
    (if 30000 \<le> shd (clock s) - lastDifficultyMs (STATE s)
     then sdrop (11 * nat (1 + min (level (STATE s) + 1) 3)) (rnd s) else rnd s)"
  using assms by (cases rule: ramp_difficulty_cases) (simp_all add: spawnAsteroids_rnd)

lemma ramp_difficulty_clock:
  assumes "ramp_difficulty s = Some s'"
  shows "clock s' =
    (if 30000 \<le> shd (clock s) - lastDifficultyMs (STATE s) then sdrop 2 (clock s) else stl (clock s))"
  using assms by (cases rule: ramp_difficulty_cases) (simp_all add: spawnAsteroids_frame)

lemma ramp_difficulty_ok [keeps]:
  assumes "ramp_difficulty s = Some s'" "game_ok s"
  shows "game_ok s'"
using assms(1) proof (cases rule: ramp_difficulty_cases)
  case idle
  with assms(2) show ?thesis
    by simp
next
  case (ramp u)
  note ok = game_okD [OF assms(2)]
  have "entities_ok (entities u)" "unit_draws (rnd u)"
    using spawnAsteroids_entities_ok [OF ramp(2)] ok(2,4) by simp_all
  moreover have "state_ok (STATE u)"
    using ok(1) by (auto simp: spawnAsteroids_frame(1) [OF ramp(2)] state_ok_def)
  ultimately show ?thesis
    by (intro game_okI) (simp_all add: ramp(3))
qed

section \<open>The crystal timer\<close>

lemma crystal_timer_idle:
  "shd (clock s) - lastCrystalMs (STATE s) < 2000 \<Longrightarrow>
     crystal_timer s = s\<lparr> clock := stl (clock s) \<rparr>"
  by (simp add: crystal_timer_def performance_now_def)

lemma crystal_timer_due:
  "2000 \<le> shd (clock s) - lastCrystalMs (STATE s) \<Longrightarrow>
     crystal_timer s =
       spawnCrystal (s\<lparr> clock := stl (stl (clock s)),
                        STATE := (STATE s)\<lparr> lastCrystalMs := clock s !! 1 \<rparr> \<rparr>)"
  by (simp add: crystal_timer_def performance_now_def)

lemma crystal_timer_frame [simp, frame]:
  "keys (crystal_timer s) = keys s" "lastTime (crystal_timer s) = lastTime s"
  "ui (crystal_timer s) = ui s"
  "running (STATE (crystal_timer s)) = running (STATE s)"
  "paused (STATE (crystal_timer s)) = paused (STATE s)"
  "over (STATE (crystal_timer s)) = over (STATE s)"
  "score (STATE (crystal_timer s)) = score (STATE s)"
  "lives (STATE (crystal_timer s)) = lives (STATE s)"
  "level (STATE (crystal_timer s)) = level (STATE s)"
  "tick (STATE (crystal_timer s)) = tick (STATE s)"
  "lastDifficultyMs (STATE (crystal_timer s)) = lastDifficultyMs (STATE s)"
  "ship (entities (crystal_timer s)) = ship (entities s)"
  "asteroids (entities (crystal_timer s)) = asteroids (entities s)"
  "particles (entities (crystal_timer s)) = particles (entities s)"
  by (simp_all add: crystal_timer_def performance_now_def Let_def)

lemma crystal_timer_crystals:
  "crystals (entities (crystal_timer s)) =
    (if 2000 \<le> shd (clock s) - lastCrystalMs (STATE s)
     then crystals (entities s) @ [fst (make_crystal (rnd s))] else crystals (entities s))"
  by (simp add: crystal_timer_def performance_now_def Let_def)

lemma crystal_timer_rnd [draws]:
  "rnd (crystal_timer s) =
    (if 2000 \<le> shd (clock s) - lastCrystalMs (STATE s) then sdrop 5 (rnd s) else rnd s)"
  by (simp add: crystal_timer_def performance_now_def Let_def)

lemma crystal_timer_clock:
  "clock (crystal_timer s) =
    (if 2000 \<le> shd (clock s) - lastCrystalMs (STATE s) then sdrop 2 (clock s) else stl (clock s))"
  by (simp add: crystal_timer_def performance_now_def Let_def sdrop_2)

lemma crystal_timer_ok [keeps]:
  assumes "game_ok s"
  shows "game_ok (crystal_timer s)"
proof (cases "shd (clock s) - lastCrystalMs (STATE s) < 2000")
  case True
  with assms show ?thesis
    by (simp add: crystal_timer_idle)
next
  case False
  note ok = game_okD [OF assms]
  let ?u = "s\<lparr> clock := stl (stl (clock s)), STATE := (STATE s)\<lparr> lastCrystalMs := clock s !! 1 \<rparr> \<rparr>"
  have "entities_ok (entities (spawnCrystal ?u))" "unit_draws (rnd (spawnCrystal ?u))"
    using ok(2,4) by (simp_all add: spawnCrystal_entities_ok unit_draws_sdrop)
  moreover have "state_ok (STATE (spawnCrystal ?u))"
    using ok(1) by (auto simp: state_ok_def)
  moreover have "hud_synced (spawnCrystal ?u)"
    using ok(3) by (simp add: hud_synced_def)
  ultimately show ?thesis
    using False by (simp add: crystal_timer_due game_okI)
qed

section \<open>The entity updates\<close>

lemma update_entities_eq:
  "update_entities s =
    map_option (\<lambda>sh. s\<lparr> entities :=
        \<lparr> ship = Some (Ship_update (keys s) sh),
          asteroids = map (Asteroid_update (tick (STATE s))) (asteroids (entities s)),
          crystals = map Crystal_update (crystals (entities s)),
          particles = filter (\<lambda>p. \<not> Particle_dead p) (map Particle_update (particles (entities s))) \<rparr> \<rparr>)
      (ship (entities s))"
  by (cases "ship (entities s)") (simp_all add: update_entities_def)

lemma update_entities_total [total]:
  "ship (entities s) \<noteq> None \<Longrightarrow> \<exists>s'. update_entities s = Some s'"
  by (auto simp: update_entities_eq)

lemma update_entities_cases [consumes 1, case_names updated]:
  assumes "update_entities s = Some s'"
  obtains sh where "ship (entities s) = Some sh"
    "STATE s' = STATE s" "ui s' = ui s" "keys s' = keys s" "lastTime s' = lastTime s"
    "rnd s' = rnd s" "clock s' = clock s"
    "ship (entities s') = Some (Ship_update (keys s) sh)"
    "asteroids (entities s') = map (Asteroid_update (tick (STATE s))) (asteroids (entities s))"
    "crystals (entities s') = map Crystal_update (crystals (entities s))"
    "particles (entities s') = filter (\<lambda>p. \<not> Particle_dead p) (map Particle_update (particles (entities s)))"
  using assms by (auto simp: update_entities_eq)

lemma update_entities_frame [frame]:
  assumes "update_entities s = Some s'"
  shows "STATE s' = STATE s" "ui s' = ui s" "keys s' = keys s" "lastTime s' = lastTime s"
    "rnd s' = rnd s" "clock s' = clock s"
    "length (asteroids (entities s')) = length (asteroids (entities s))"
    "length (crystals (entities s')) = length (crystals (entities s))"
  using assms by (auto simp: update_entities_eq)

lemma update_entities_ok [keeps]:
  assumes "update_entities s = Some s'" "game_ok s"
  shows "game_ok s'"
using assms(1) proof (cases rule: update_entities_cases)
  case (updated sh)
  note ok = game_okD [OF assms(2)]
  from ok(2) updated(1) have "ship_ok sh"
    by (simp add: entities_ok_def)
  then have "ship_ok (Ship_update (keys s) sh)"
    by (rule Ship_update_ok)
  moreover have "list_all asteroid_ok (asteroids (entities s'))"
    using entities_okD(1) [OF ok(2)]
    by (simp add: updated list_all_map_keeps Asteroid_update_ok)
  moreover have "list_all crystal_ok (crystals (entities s'))"
    using entities_okD(2) [OF ok(2)]
    by (simp add: updated list_all_map_keeps Crystal_update_ok)
  moreover have "list_all particle_fresh (particles (entities s'))"
    using entities_okD(3) [OF ok(2)]
    by (simp add: updated list_all_filter_map_keeps particle_fresh_update)
  ultimately have "entities_ok (entities s')"
    by (simp add: entities_okI updated)
  with ok show ?thesis
    by (intro game_okI) (simp_all add: updated hud_synced_cong [of s' s])
qed

section \<open>The ship against the asteroids\<close>

lemma collide_asteroids_eq:
  "collide_asteroids sb as s =
    (if list_ex (\<lambda>a. hit sb (Asteroid_bounds a)) as then Ship_hit s else Some s)"
  by (induction as) (simp_all add: Let_def)

lemma collide_asteroids_miss:
  "list_all (\<lambda>a. \<not> hit sb (Asteroid_bounds a)) as \<Longrightarrow> collide_asteroids sb as s = Some s"
  by (simp add: collide_asteroids_eq list_ex_iff list_all_iff)

lemma collide_asteroids_hit:
  "a \<in> set as \<Longrightarrow> hit sb (Asteroid_bounds a) \<Longrightarrow> collide_asteroids sb as s = Ship_hit s"
  by (auto simp: collide_asteroids_eq list_ex_iff)

lemma collide_asteroids_total [total]:
  "ship (entities s) \<noteq> None \<Longrightarrow> \<exists>s'. collide_asteroids sb as s = Some s'"
  using Ship_hit_total [of s] by (simp add: collide_asteroids_eq)

lemma collide_asteroids_cases [consumes 1, case_names miss hit]:
  assumes "collide_asteroids sb as s = Some s'"
  obtains "list_all (\<lambda>a. \<not> hit sb (Asteroid_bounds a)) as" "s' = s"
  | a where "a \<in> set as" "hit sb (Asteroid_bounds a)" "Ship_hit s = Some s'"
  using assms
  by (auto simp: collide_asteroids_eq list_ex_iff list_all_iff split: if_splits)

lemma collide_asteroids_frame [frame]:
  assumes "collide_asteroids sb as s = Some s'"
  shows "keys s' = keys s" "lastTime s' = lastTime s" "clock s' = clock s"
    "asteroids (entities s') = asteroids (entities s)"
    "crystals (entities s') = crystals (entities s)"
    "score (STATE s') = score (STATE s)" "level (STATE s') = level (STATE s)"
    "tick (STATE s') = tick (STATE s)" "paused (STATE s') = paused (STATE s)"
    "lastCrystalMs (STATE s') = lastCrystalMs (STATE s)"
    "lastDifficultyMs (STATE s') = lastDifficultyMs (STATE s)"
    "menu_visible (ui s') = menu_visible (ui s)" "pause_visible (ui s') = pause_visible (ui s)"
  using assms by (erule_tac collide_asteroids_cases; simp add: Ship_hit_frame)+

lemma collide_asteroids_lives:
  "collide_asteroids sb as s = Some s' \<Longrightarrow>
     lives (STATE s') = lives (STATE s) \<or> lives (STATE s') = lives (STATE s) - 1"
  by (erule collide_asteroids_cases) (simp_all add: Ship_hit_lives)

lemma collide_asteroids_ok [keeps]:
  assumes "collide_asteroids sb as s = Some s'" "game_ok s" "\<not> paused (STATE s)"
    "1 \<le> lives (STATE s)"
  shows "game_ok s'"
  using assms by (cases rule: collide_asteroids_cases) (simp_all add: Ship_hit_ok)

section \<open>The top-up of the asteroids\<close>

lemma maintain_asteroids_cases [consumes 1, case_names full spawn]:
  assumes "maintain_asteroids s = Some s'"
  obtains "3 + \<lfloor>real_of_int (level (STATE s)) * 0.8\<rfloor> \<le> int (length (asteroids (entities s)))" "s' = s"
  | "int (length (asteroids (entities s))) < 3 + \<lfloor>real_of_int (level (STATE s)) * 0.8\<rfloor>"
    "spawnAsteroid True s = Some s'"
  using assms by (auto simp: maintain_asteroids_def Let_def split: if_splits)

lemma maintain_asteroids_total [total]:
  "unit_draws (rnd s) \<Longrightarrow> \<exists>s'. maintain_asteroids s = Some s'"
  using spawnAsteroid_total [of s True] by (simp add: maintain_asteroids_def Let_def)

lemma maintain_asteroids_frame [frame]:
  assumes "maintain_asteroids s = Some s'"
  shows "STATE s' = STATE s" "ui s' = ui s" "keys s' = keys s" "lastTime s' = lastTime s"
    "clock s' = clock s" "ship (entities s') = ship (entities s)"
    "crystals (entities s') = crystals (entities s)"
    "particles (entities s') = particles (entities s)"
  using assms by (erule_tac maintain_asteroids_cases; simp add: spawnAsteroid_frame)+

lemma maintain_asteroids_length:
  assumes "maintain_asteroids s = Some s'"
  shows "length (asteroids (entities s')) =
    (if int (length (asteroids (entities s))) < 3 + \<lfloor>real_of_int (level (STATE s)) * 0.8\<rfloor>
     then Suc (length (asteroids (entities s))) else length (asteroids (entities s)))"
  using assms by (cases rule: maintain_asteroids_cases) (simp_all add: spawnAsteroid_length)

lemma maintain_asteroids_ok [keeps]:
  assumes "maintain_asteroids s = Some s'" "game_ok s"
  shows "game_ok s'"
using assms(1) proof (cases rule: maintain_asteroids_cases)
  case full
  with assms(2) show ?thesis by simp
next
  case spawn
  note ok = game_okD [OF assms(2)]
  from spawnAsteroid_entities_ok [OF spawn(2) ok(4,2)] ok(1,3) show ?thesis
    by (intro game_okI)
       (simp_all add: spawnAsteroid_frame(1,2) [OF spawn(2)] hud_synced_cong [of s' s])
qed

section \<open>The ship against the crystals\<close>

lemma touching_bounds: "Crystal_bounds c = Some cb \<Longrightarrow> touching sb c = hit sb cb"
  by (simp add: touching_def)

lemma touching_typed:
  "cry_type c = Some ty \<Longrightarrow>
     touching sb c = hit sb \<lparr> cx = cry_x c, cy = cry_y c, cr = ct_size ty * 0.65 \<rparr>"
  by (simp add: touching_def Crystal_bounds_typed)

lemma crystal_points_typed [simp]: "cry_type c = Some ty \<Longrightarrow> crystal_points c = ct_points ty"
  by (simp add: crystal_points_def)

lemma crystal_ok_points: "crystal_ok c \<Longrightarrow> crystal_points c \<in> {10, 15, 20}"
  by (auto dest!: crystal_ok_typed crystalTypes_points)

lemma collect_crystal_total [total]: "cry_type c \<noteq> None \<Longrightarrow> \<exists>s'. collect_crystal i c s = Some s'"
  by (auto simp: collect_crystal_def Let_def)

lemma collect_crystal_cases [consumes 1, case_names collected]:
  assumes "collect_crystal i c s = Some s'"
  obtains ty where "cry_type c = Some ty"
    "STATE s' = (STATE s)\<lparr> score := score (STATE s) + ct_points ty \<rparr>"
    "ui s' = ui (updateHUD (s\<lparr> STATE := (STATE s)\<lparr> score := score (STATE s) + ct_points ty \<rparr> \<rparr>))"
    "crystals (entities s') = take i (crystals (entities s)) @ drop (Suc i) (crystals (entities s))"
    "particles (entities s') = particles (entities s) @
       fst (burst 18 (cry_x c) (cry_y c) ''#aaf8ff'' (18, 30) (0.8, 2.5) (rnd s))"
    "ship (entities s') = ship (entities s)" "asteroids (entities s') = asteroids (entities s)"
    "rnd s' = sdrop 72 (rnd s)" "keys s' = keys s" "lastTime s' = lastTime s" "clock s' = clock s"
proof -
  from assms obtain ty where ty: "cry_type c = Some ty"
    by (cases "cry_type c") (simp_all add: collect_crystal_def)
  with assms have "s' = (spawnSparkle (cry_x c) (cry_y c) ''#aaf8ff''
      (updateHUD (s\<lparr> STATE := (STATE s)\<lparr> score := score (STATE s) + ct_points ty \<rparr> \<rparr>)))
      \<lparr> entities := (entities (spawnSparkle (cry_x c) (cry_y c) ''#aaf8ff''
            (updateHUD (s\<lparr> STATE := (STATE s)\<lparr> score := score (STATE s) + ct_points ty \<rparr> \<rparr>))))
          \<lparr> crystals := take i (crystals (entities s)) @ drop (Suc i) (crystals (entities s)) \<rparr> \<rparr>"
    by (simp add: collect_crystal_def Let_def)
  then show thesis
    by (intro that [OF ty]) (simp_all add: spawnSparkle_eq)
qed

lemma collect_crystal_hud: "collect_crystal i c s = Some s' \<Longrightarrow> hud_synced s'"
  by (erule collect_crystal_cases) (simp add: hud_synced_def updateHUD_def)

lemma collect_crystal_ok [keeps]:
  assumes "collect_crystal i c s = Some s'" "game_ok s" "crystal_ok c"
  shows "game_ok s'"
using assms(1) proof (cases rule: collect_crystal_cases)
  case (collected ty)
  note ok = game_okD [OF assms(2)]
  from assms(3) collected(1) have "0 \<le> ct_points ty"
    using crystal_ok_points [of c] by auto
  with ok(1) have "state_ok (STATE s')"
    by (auto simp: collected(2) state_ok_def)
  moreover from ok(2) obtain sh where "ship (entities s) = Some sh" "ship_ok sh"
    using entities_ok_ship by blast
  then have "entities_ok (entities s')"
    using entities_okD [OF ok(2)] ok(4)
      spawnSparkle_fresh [of s "cry_x c" "cry_y c" "''#aaf8ff''"]
    by (intro entities_okI [of _ sh])
       (auto simp: collected spawnSparkle_eq list_all_iff dest: in_set_takeD in_set_dropD)
  moreover have "unit_draws (rnd s')"
    using ok(4) by (simp add: collected unit_draws_sdrop)
  ultimately show ?thesis
    using collect_crystal_hud [OF assms(1)] by (intro game_okI)
qed

text \<open>An induction principle for the loop: what every pick-up keeps, the loop
  keeps.\<close>

lemma collect_crystals_invariant:
  assumes "collect_crystals sb n s = Some s'" "P s"
    and "\<And>i u u'. P u \<Longrightarrow> i < length (crystals (entities u)) \<Longrightarrow>
           touching sb (crystals (entities u) ! i) \<Longrightarrow>
           collect_crystal i (crystals (entities u) ! i) u = Some u' \<Longrightarrow> P u'"
  shows "P s'"
  using assms(1,2)
proof (induction n arbitrary: s)
  case 0
  then show ?case by simp
next
  case (Suc n)
  from Suc.prems(1) have n: "n < length (crystals (entities s))"
    by (simp split: if_splits)
  let ?c = "crystals (entities s) ! n"
  from Suc.prems(1) n obtain cb where cb: "Crystal_bounds ?c = Some cb"
    by (cases "Crystal_bounds ?c") (simp_all add: Let_def)
  show ?case
  proof (cases "hit sb cb")
    case True
    with Suc.prems(1) n cb obtain u where u: "collect_crystal n ?c s = Some u"
      "collect_crystals sb n u = Some s'"
      by (auto simp: Let_def bind_Some_iff)
    from True cb have "touching sb ?c"
      by (simp add: touching_bounds)
    from assms(3) [OF Suc.prems(2) n this u(1)] u(2) show ?thesis
      by (rule Suc.IH [rotated])
  next
    case False
    with Suc.prems n cb show ?thesis
      by (auto simp: Let_def intro: Suc.IH)
  qed
qed

lemma collected_0: "collected sb 0 s s"
  by (simp add: collected_def)

lemma collected_skip:
  assumes "n < length (crystals (entities s))" "\<not> touching sb (crystals (entities s) ! n)"
    "collected sb n s s'"
  shows "collected sb (Suc n) s s'"
  using assms by (simp add: collected_def take_Suc_conv_app_nth Cons_nth_drop_Suc)

lemma collected_take:
  assumes "n < length (crystals (entities s))" "touching sb (crystals (entities s) ! n)"
    "collect_crystal n (crystals (entities s) ! n) s = Some u" "collected sb n u s'"
  shows "collected sb (Suc n) s s'"
using assms(3) proof (cases rule: collect_crystal_cases)
  case (collected ty)
  from assms(1) have "take n (crystals (entities u)) = take n (crystals (entities s))"
    "drop n (crystals (entities u)) = drop (Suc n) (crystals (entities s))"
    by (simp_all add: collected(4))
  with assms(1,2,4) show ?thesis
    by (simp add: collected_def take_Suc_conv_app_nth collected(1,2,5,8))
qed

lemma collect_crystals_run:
  assumes "list_all crystal_ok (crystals (entities s))" "n \<le> length (crystals (entities s))"
  shows "\<exists>s'. collect_crystals sb n s = Some s' \<and> collected sb n s s'"
  using assms
proof (induction n arbitrary: s)
  case 0
  then show ?case by (simp add: collected_0)
next
  case (Suc n)
  let ?c = "crystals (entities s) ! n"
  from Suc.prems have n: "n < length (crystals (entities s))" and c: "crystal_ok ?c"
    by (simp_all add: list_all_length)
  from c obtain ty where ty: "cry_type ?c = Some ty"
    using crystal_ok_typed by blast
  show ?case
  proof (cases "touching sb ?c")
    case True
    from ty obtain u where u: "collect_crystal n ?c s = Some u"
      using collect_crystal_total [of ?c n s] by auto
    then have cs: "crystals (entities u) = take n (crystals (entities s)) @ drop (Suc n) (crystals (entities s))"
      by (cases rule: collect_crystal_cases)
    with Suc.prems n have "list_all crystal_ok (crystals (entities u))" "n \<le> length (crystals (entities u))"
      by (auto simp: list_all_iff dest: in_set_takeD in_set_dropD)
    from Suc.IH [OF this] obtain s' where "collect_crystals sb n u = Some s'" "collected sb n u s'"
      by blast
    with True n ty u show ?thesis
      by (auto simp: touching_typed Crystal_bounds_typed intro: collected_take)
  next
    case False
    from Suc.IH [of s] Suc.prems n obtain s' where "collect_crystals sb n s = Some s'" "collected sb n s s'"
      by auto
    with False n ty show ?thesis
      by (auto simp: touching_typed Crystal_bounds_typed intro: collected_skip)
  qed
qed

lemma collect_crystals_total [total]:
  "list_all crystal_ok (crystals (entities s)) \<Longrightarrow>
     \<exists>s'. collect_crystals sb (length (crystals (entities s))) s = Some s'"
  using collect_crystals_run [of s "length (crystals (entities s))" sb] by auto

lemma collect_crystals_all:
  assumes "collect_crystals sb (length (crystals (entities s))) s = Some s'"
    "list_all crystal_ok (crystals (entities s))"
  shows "crystals (entities s') = filter (\<lambda>c. \<not> touching sb c) (crystals (entities s))"
    "score (STATE s') = score (STATE s) + sum_list (map crystal_points (filter (touching sb) (crystals (entities s))))"
    "length (particles (entities s')) = length (particles (entities s)) + 18 * length (filter (touching sb) (crystals (entities s)))"
    "rnd s' = sdrop (72 * length (filter (touching sb) (crystals (entities s)))) (rnd s)"
  using collect_crystals_run [OF assms(2), of "length (crystals (entities s))" sb] assms(1)
  by (simp_all add: collected_def)

lemma collect_crystals_ok [keeps]:
  assumes "collect_crystals sb n s = Some s'" "game_ok s"
  shows "game_ok s'"
proof (rule collect_crystals_invariant [where P = game_ok, OF assms])
  fix i u u'
  assume "game_ok u" "i < length (crystals (entities u))"
    "collect_crystal i (crystals (entities u) ! i) u = Some u'"
  then show "game_ok u'"
    by (auto simp: game_ok_def [of u] entities_ok_def list_all_length intro: collect_crystal_ok)
qed

lemma collect_crystals_frame [frame]:
  assumes "collect_crystals sb n s = Some s'"
  shows "keys s' = keys s" "lastTime s' = lastTime s" "clock s' = clock s"
    "ship (entities s') = ship (entities s)" "asteroids (entities s') = asteroids (entities s)"
    "running (STATE s') = running (STATE s)" "paused (STATE s') = paused (STATE s)"
    "over (STATE s') = over (STATE s)" "lives (STATE s') = lives (STATE s)"
    "level (STATE s') = level (STATE s)" "tick (STATE s') = tick (STATE s)"
    "lastCrystalMs (STATE s') = lastCrystalMs (STATE s)"
    "lastDifficultyMs (STATE s') = lastDifficultyMs (STATE s)"
    "menu_visible (ui s') = menu_visible (ui s)" "pause_visible (ui s') = pause_visible (ui s)"
    "gameover_visible (ui s') = gameover_visible (ui s)" "finalScore (ui s') = finalScore (ui s)"
proof -
  let ?same = "\<lambda>u. keys u = keys s \<and> lastTime u = lastTime s \<and> clock u = clock s \<and>
    ship (entities u) = ship (entities s) \<and> asteroids (entities u) = asteroids (entities s) \<and>
    running (STATE u) = running (STATE s) \<and> paused (STATE u) = paused (STATE s) \<and>
    over (STATE u) = over (STATE s) \<and> lives (STATE u) = lives (STATE s) \<and>
    level (STATE u) = level (STATE s) \<and> tick (STATE u) = tick (STATE s) \<and>
    lastCrystalMs (STATE u) = lastCrystalMs (STATE s) \<and>
    lastDifficultyMs (STATE u) = lastDifficultyMs (STATE s) \<and>
    menu_visible (ui u) = menu_visible (ui s) \<and> pause_visible (ui u) = pause_visible (ui s) \<and>
    gameover_visible (ui u) = gameover_visible (ui s) \<and> finalScore (ui u) = finalScore (ui s)"
  have "?same s'"
    by (rule collect_crystals_invariant [where P = ?same, OF assms])
       (simp, erule collect_crystal_cases, simp)
  then show "keys s' = keys s" "lastTime s' = lastTime s" "clock s' = clock s"
    "ship (entities s') = ship (entities s)" "asteroids (entities s') = asteroids (entities s)"
    "running (STATE s') = running (STATE s)" "paused (STATE s') = paused (STATE s)"
    "over (STATE s') = over (STATE s)" "lives (STATE s') = lives (STATE s)"
    "level (STATE s') = level (STATE s)" "tick (STATE s') = tick (STATE s)"
    "lastCrystalMs (STATE s') = lastCrystalMs (STATE s)"
    "lastDifficultyMs (STATE s') = lastDifficultyMs (STATE s)"
    "menu_visible (ui s') = menu_visible (ui s)" "pause_visible (ui s') = pause_visible (ui s)"
    "gameover_visible (ui s') = gameover_visible (ui s)" "finalScore (ui s') = finalScore (ui s)"
    by simp_all
qed

section \<open>The tick\<close>

lemma tick_phasesD:
  assumes "tick_phases s s1 s3 sh s4 s5 s'"
  shows "ramp_difficulty (s\<lparr> STATE := (STATE s)\<lparr> tick := tick (STATE s) + 1 \<rparr> \<rparr>) = Some s1"
    "update_entities (crystal_timer s1) = Some s3"
    "ship (entities s3) = Some sh"
    "collide_asteroids (Ship_bounds sh) (asteroids (entities s3)) s3 = Some s4"
    "collect_crystals (Ship_bounds sh) (length (crystals (entities s4))) s4 = Some s5"
    "maintain_asteroids s5 = Some s'"
  using assms by (simp_all add: tick_phases_def)

lemma update_iff: "update dt s = Some s' \<longleftrightarrow> (\<exists>s1 s3 sh s4 s5. tick_phases s s1 s3 sh s4 s5 s')"
  by (auto simp: update_def tick_phases_def bind_Some_iff Let_def)

lemma update_cases [consumes 1, case_names ticked]:
  assumes "update dt s = Some s'"
  obtains s1 s3 sh s4 s5 where "tick_phases s s1 s3 sh s4 s5 s'"
  using assms by (auto simp: update_iff)

lemma game_ok_tick: "game_ok s \<Longrightarrow> game_ok (s\<lparr> STATE := (STATE s)\<lparr> tick := tick (STATE s) + 1 \<rparr> \<rparr>)"
  by (auto simp: game_ok_def state_ok_def hud_synced_def)

text \<open>What a tick leaves as it was, and what it counts.\<close>

lemma tick_phases_frame [frame]:
  assumes "tick_phases s s1 s3 sh s4 s5 s'"
  shows "keys s' = keys s" "lastTime s' = lastTime s" "paused (STATE s') = paused (STATE s)"
    "tick (STATE s') = tick (STATE s) + 1"
    "menu_visible (ui s') = menu_visible (ui s)" "pause_visible (ui s') = pause_visible (ui s)"
    "lives (STATE s') = lives (STATE s4)" "lives (STATE s3) = lives (STATE s)"
    "score (STATE s') = score (STATE s5)" "score (STATE s4) = score (STATE s)"
    "level (STATE s') = level (STATE s1)" "ship (entities s') = ship (entities s4)"
    "crystals (entities s') = crystals (entities s5)" "crystals (entities s4) = crystals (entities s3)"
    "running (STATE s3) = running (STATE s)" "paused (STATE s3) = paused (STATE s)"
proof -
  note t = tick_phasesD [OF assms]
  note f = maintain_asteroids_frame [OF t(6)] collect_crystals_frame [OF t(5)]
    collide_asteroids_frame [OF t(4)] update_entities_frame [OF t(2)] ramp_difficulty_frame [OF t(1)]
  show "keys s' = keys s" "lastTime s' = lastTime s" "paused (STATE s') = paused (STATE s)"
    "tick (STATE s') = tick (STATE s) + 1"
    "menu_visible (ui s') = menu_visible (ui s)" "pause_visible (ui s') = pause_visible (ui s)"
    "lives (STATE s') = lives (STATE s4)" "lives (STATE s3) = lives (STATE s)"
    "score (STATE s') = score (STATE s5)" "score (STATE s4) = score (STATE s)"
    "level (STATE s') = level (STATE s1)" "ship (entities s') = ship (entities s4)"
    "crystals (entities s') = crystals (entities s5)" "crystals (entities s4) = crystals (entities s3)"
    "running (STATE s3) = running (STATE s)" "paused (STATE s3) = paused (STATE s)"
    by (simp_all add: f)
qed

text \<open>The run of a tick on a well-formed state of a running game: every phase
  returns, and every state on the way is well-formed.\<close>

lemma update_trace:
  assumes "game_ok s" "running (STATE s)" "\<not> paused (STATE s)"
  obtains s1 s3 sh s4 s5 s' where "tick_phases s s1 s3 sh s4 s5 s'"
    "game_ok s1" "game_ok s3" "game_ok s4" "game_ok s5" "game_ok s'"
proof -
  let ?s0 = "s\<lparr> STATE := (STATE s)\<lparr> tick := tick (STATE s) + 1 \<rparr> \<rparr>"
  note ok0 = game_ok_tick [OF assms(1)]
  from assms have live: "\<not> paused (STATE s)" "1 \<le> lives (STATE s)"
    using state_ok_running [OF game_okD(1)] by simp_all
  obtain s1 where s1: "ramp_difficulty ?s0 = Some s1"
    using ramp_difficulty_total [OF game_okD(4) [OF ok0]] by blast
  note ok1 = ramp_difficulty_ok [OF s1 ok0]
  note ok2 = crystal_timer_ok [OF ok1]
  obtain s3 where s3: "update_entities (crystal_timer s1) = Some s3"
    using update_entities_total [of "crystal_timer s1"] entities_ok_ship [OF game_okD(2) [OF ok2]]
    by auto
  note ok3 = update_entities_ok [OF s3 ok2]
  obtain sh where sh: "ship (entities s3) = Some sh"
    using entities_ok_ship [OF game_okD(2) [OF ok3]] by blast
  then obtain s4 where s4: "collide_asteroids (Ship_bounds sh) (asteroids (entities s3)) s3 = Some s4"
    using collide_asteroids_total [of s3] by auto
  have "\<not> paused (STATE s3)" "1 \<le> lives (STATE s3)"
    using live by (simp_all add: update_entities_frame(1) [OF s3] ramp_difficulty_frame [OF s1])
  note ok4 = collide_asteroids_ok [OF s4 ok3 this]
  obtain s5 where s5: "collect_crystals (Ship_bounds sh) (length (crystals (entities s4))) s4 = Some s5"
    using collect_crystals_total [OF entities_okD(2) [OF game_okD(2) [OF ok4]]] by blast
  note ok5 = collect_crystals_ok [OF s5 ok4]
  obtain s' where s': "maintain_asteroids s5 = Some s'"
    using maintain_asteroids_total [OF game_okD(4) [OF ok5]] by blast
  from s1 s3 sh s4 s5 s' have "tick_phases s s1 s3 sh s4 s5 s'"
    by (simp add: tick_phases_def)
  from this ok1 ok3 ok4 ok5 maintain_asteroids_ok [OF s' ok5] show thesis
    by (rule that)
qed

lemma update_runs:
  assumes "game_ok s" "running (STATE s)" "\<not> paused (STATE s)"
  shows "\<exists>s'. update dt s = Some s' \<and> game_ok s'"
  using assms by (rule update_trace) (unfold update_iff, blast)

lemma update_ok [keeps]:
  assumes "update dt s = Some s'" "game_ok s" "running (STATE s)" "\<not> paused (STATE s)"
  shows "game_ok s'"
  using update_runs [OF assms(2-4), of dt] assms(1) by auto

lemma update_frame [frame]:
  assumes "update dt s = Some s'"
  shows "keys s' = keys s" "lastTime s' = lastTime s" "paused (STATE s') = paused (STATE s)"
    "tick (STATE s') = tick (STATE s) + 1"
    "menu_visible (ui s') = menu_visible (ui s)" "pause_visible (ui s') = pause_visible (ui s)"
  using assms by (auto elim!: update_cases dest: tick_phases_frame)

lemma update_of_phases: "tick_phases s s1 s3 sh s4 s5 s' \<Longrightarrow> update dt s = Some s'"
  unfolding update_iff by blast

lemma tick_phases_counts:
  assumes "tick_phases s s1 s3 sh s4 s5 s'"
  shows "lives (STATE s') = lives (STATE s) \<or> lives (STATE s') = lives (STATE s) - 1"
    "level (STATE s') =
      (if 30000 \<le> shd (clock s) - lastDifficultyMs (STATE s) then level (STATE s) + 1
       else level (STATE s))"
    "length (asteroids (entities s)) \<le> length (asteroids (entities s'))"
proof -
  note t = tick_phasesD [OF assms]
  note f = tick_phases_frame [OF assms]
  show "lives (STATE s') = lives (STATE s) \<or> lives (STATE s') = lives (STATE s) - 1"
    using collide_asteroids_lives [OF t(4)] by (simp add: f)
  show "level (STATE s') =
      (if 30000 \<le> shd (clock s) - lastDifficultyMs (STATE s) then level (STATE s) + 1
       else level (STATE s))"
    using ramp_difficulty_level [OF t(1)] by (simp add: f)
  have "length (asteroids (entities s)) \<le> length (asteroids (entities s1))"
    using ramp_difficulty_length [OF t(1)] by (simp split: if_splits)
  also have "\<dots> = length (asteroids (entities s5))"
    by (simp add: collect_crystals_frame [OF t(5)] collide_asteroids_frame [OF t(4)]
        update_entities_frame [OF t(2)])
  also have "\<dots> \<le> length (asteroids (entities s'))"
    using maintain_asteroids_length [OF t(6)] by (simp split: if_splits)
  finally show "length (asteroids (entities s)) \<le> length (asteroids (entities s'))" .
qed

lemma update_counts:
  assumes "update dt s = Some s'"
  shows "lives (STATE s') = lives (STATE s) \<or> lives (STATE s') = lives (STATE s) - 1"
    "level (STATE s') =
      (if 30000 \<le> shd (clock s) - lastDifficultyMs (STATE s) then level (STATE s) + 1
       else level (STATE s))"
    "length (asteroids (entities s)) \<le> length (asteroids (entities s'))"
  using assms by (auto elim!: update_cases dest: tick_phases_counts)

lemma sum_crystal_points_nonneg:
  "list_all crystal_ok cs \<Longrightarrow> 0 \<le> sum_list (map crystal_points (filter P cs))"
  by (induction cs) (auto dest: crystal_ok_points)

text \<open>The score of a tick: the points of the crystals the updated ship
  touches, among the crystals as they are after their update.\<close>

lemma tick_phases_score:
  assumes "tick_phases s s1 s3 sh s4 s5 s'" "game_ok s3"
  shows "score (STATE s') = score (STATE s) +
      sum_list (map crystal_points (filter (touching (Ship_bounds sh)) (crystals (entities s3))))"
    "crystals (entities s') = filter (\<lambda>c. \<not> touching (Ship_bounds sh) c) (crystals (entities s3))"
proof -
  note t = tick_phasesD [OF assms(1)]
  note f = tick_phases_frame [OF assms(1)]
  have "list_all crystal_ok (crystals (entities s4))"
    using entities_okD(2) [OF game_okD(2) [OF assms(2)]] by (simp add: f)
  from collect_crystals_all(1,2) [OF t(5) this]
  show "score (STATE s') = score (STATE s) +
      sum_list (map crystal_points (filter (touching (Ship_bounds sh)) (crystals (entities s3))))"
    "crystals (entities s') = filter (\<lambda>c. \<not> touching (Ship_bounds sh) c) (crystals (entities s3))"
    by (simp_all add: f)
qed

lemma update_score_mono:
  assumes "update dt s = Some s'" "game_ok s" "running (STATE s)" "\<not> paused (STATE s)"
  shows "score (STATE s) \<le> score (STATE s')"
proof -
  from assms(2-4) obtain s1 s3 sh s4 s5 u where t: "tick_phases s s1 s3 sh s4 s5 u" "game_ok s3"
    by (rule update_trace)
  then have "update dt s = Some u"
    by (simp add: update_of_phases)
  with assms(1) have "u = s'" by simp
  with tick_phases_score(1) [OF t] sum_crystal_points_nonneg [OF entities_okD(2) [OF game_okD(2) [OF t(2)]]]
  show ?thesis by simp
qed

section \<open>The frame callback\<close>

lemma loop_skip:
  "paused (STATE s) \<or> \<not> running (STATE s) \<Longrightarrow> loop now s = render (s\<lparr> lastTime := now \<rparr>)"
  by (auto simp: loop_def Let_def)

lemma loop_tick:
  "\<not> paused (STATE s) \<Longrightarrow> running (STATE s) \<Longrightarrow>
     loop now s = update (now - lastTime s) (s\<lparr> lastTime := now \<rparr>) \<bind> render"
  by (simp add: loop_def Let_def)

lemma loop_cases [consumes 1, case_names skip tick]:
  assumes "loop now s = Some s'"
  obtains "paused (STATE s) \<or> \<not> running (STATE s)" "render (s\<lparr> lastTime := now \<rparr>) = Some s'"
  | u where "\<not> paused (STATE s)" "running (STATE s)"
      "update (now - lastTime s) (s\<lparr> lastTime := now \<rparr>) = Some u" "render u = Some s'"
proof (cases "\<not> paused (STATE s) \<and> running (STATE s)")
  case True
  with assms obtain u where "update (now - lastTime s) (s\<lparr> lastTime := now \<rparr>) = Some u"
    "render u = Some s'"
    by (auto simp: loop_tick bind_Some_iff)
  with True show thesis by (intro that(2)) simp_all
next
  case False
  with assms show thesis by (intro that(1)) (auto simp: loop_skip)
qed

lemma loop_runs:
  assumes "game_ok s"
  shows "\<exists>s'. loop now s = Some s' \<and> game_ok s'"
proof (cases "\<not> paused (STATE s) \<and> running (STATE s)")
  case True
  with assms update_runs [of "s\<lparr> lastTime := now \<rparr>" "now - lastTime s"]
  obtain u where u: "update (now - lastTime s) (s\<lparr> lastTime := now \<rparr>) = Some u" "game_ok u"
    by auto
  from render_total [OF game_okD(2) [OF u(2)]] obtain s' where "render u = Some s'"
    by blast
  with u True render_ok [OF this u(2)] show ?thesis
    by (simp add: loop_tick)
next
  case False
  from assms have ok: "game_ok (s\<lparr> lastTime := now \<rparr>)" by simp
  from render_total [OF game_okD(2) [OF ok]] obtain s' where "render (s\<lparr> lastTime := now \<rparr>) = Some s'"
    by blast
  with False render_ok [OF this ok] show ?thesis
    by (auto simp: loop_skip)
qed

lemma loop_ok [keeps]: "loop now s = Some s' \<Longrightarrow> game_ok s \<Longrightarrow> game_ok s'"
  using loop_runs [of s now] by auto

lemma loop_lastTime: "loop now s = Some s' \<Longrightarrow> lastTime s' = now"
  by (erule loop_cases) (auto simp: render_frame update_frame)

lemma loop_frame [frame]:
  assumes "loop now s = Some s'"
  shows "keys s' = keys s" "paused (STATE s') = paused (STATE s)"
    "menu_visible (ui s') = menu_visible (ui s)" "pause_visible (ui s') = pause_visible (ui s)"
  using assms by (auto elim!: loop_cases simp: render_frame dest: update_frame)

text \<open>A frame of a paused or stopped game draws: it records the time, takes
  ten draws for every asteroid and replaces the calls of the last frame.\<close>

lemma loop_paused:
  assumes "paused (STATE s) \<or> \<not> running (STATE s)" "loop now s = Some s'"
  shows "STATE s' = STATE s" "entities s' = entities s" "ui s' = ui s" "keys s' = keys s"
    "mouse s' = mouse s" "clock s' = clock s" "lastTime s' = now"
    "rnd s' = sdrop (10 * length (asteroids (entities s))) (rnd s)"
proof -
  from assms have r: "render (s\<lparr> lastTime := now \<rparr>) = Some s'"
    by (simp add: loop_skip)
  note f = render_frame [OF r]
  show "STATE s' = STATE s" "entities s' = entities s" "ui s' = ui s" "keys s' = keys s"
    "mouse s' = mouse s" "clock s' = clock s" "lastTime s' = now"
    "rnd s' = sdrop (10 * length (asteroids (entities s))) (rnd s)"
    by (simp_all add: f)
qed

lemma loop_skip_painted:
  assumes "paused (STATE s) \<or> \<not> running (STATE s)" "entities_ok (entities s)"
  shows "loop now s = Some (painted (s\<lparr> lastTime := now \<rparr>))"
  using assms render_painted [of "s\<lparr> lastTime := now \<rparr>"] by (simp add: loop_skip)

lemma loop_tick_painted:
  assumes "\<not> paused (STATE s)" "running (STATE s)"
    "update dt (s\<lparr> lastTime := now \<rparr>) = Some u" "entities_ok (entities u)"
  shows "loop now s = Some (painted u)"
proof -
  have "update (now - lastTime s) (s\<lparr> lastTime := now \<rparr>) = update dt (s\<lparr> lastTime := now \<rparr>)"
    by (simp add: update_def)
  with assms render_painted [OF assms(4)] show ?thesis
    by (simp add: loop_tick)
qed

lemma tick_phases_flags:
  assumes "tick_phases s s1 s3 sh s4 s5 s'"
  shows "(running (STATE s') = running (STATE s) \<and> over (STATE s') = over (STATE s) \<and>
          gameover_visible (ui s') = gameover_visible (ui s) \<and> finalScore (ui s') = finalScore (ui s)) \<or>
         (\<not> running (STATE s') \<and> over (STATE s') \<and> gameover_visible (ui s') \<and>
          finalScore (ui s') = score (STATE s))"
proof -
  note t = tick_phasesD [OF assms]
  note f = maintain_asteroids_frame [OF t(6)] collect_crystals_frame [OF t(5)]
    update_entities_frame [OF t(2)] ramp_difficulty_frame [OF t(1)]
  have "(running (STATE s4) = running (STATE s3) \<and> over (STATE s4) = over (STATE s3) \<and>
          gameover_visible (ui s4) = gameover_visible (ui s3) \<and> finalScore (ui s4) = finalScore (ui s3)) \<or>
         (\<not> running (STATE s4) \<and> over (STATE s4) \<and> gameover_visible (ui s4) \<and>
          finalScore (ui s4) = score (STATE s3))"
    using t(4) by (cases rule: collide_asteroids_cases) (auto dest: Ship_hit_flags)
  then show ?thesis
    by (simp add: f)
qed

lemma tick_phases_ramp:
  assumes "tick_phases s s1 s3 sh s4 s5 s'" "30000 \<le> shd (clock s) - lastDifficultyMs (STATE s)"
  shows "level (STATE s') = level (STATE s) + 1"
    "length (asteroids (entities s)) + nat (1 + min (level (STATE s')) 3) \<le> length (asteroids (entities s'))"
    "lastDifficultyMs (STATE s') = clock s !! 1"
proof -
  note t = tick_phasesD [OF assms(1)]
  show lvl: "level (STATE s') = level (STATE s) + 1"
    using tick_phases_counts(2) [OF assms(1)] assms(2) by simp
  have "length (asteroids (entities s)) + nat (1 + min (level (STATE s) + 1) 3) =
      length (asteroids (entities s1))"
    using ramp_difficulty_length [OF t(1)] assms(2) by simp
  then have "length (asteroids (entities s)) + nat (1 + min (level (STATE s')) 3) =
      length (asteroids (entities s1))"
    unfolding lvl .
  also have "\<dots> = length (asteroids (entities s5))"
    by (simp add: collect_crystals_frame [OF t(5)] collide_asteroids_frame [OF t(4)]
        update_entities_frame [OF t(2)])
  also have "\<dots> \<le> length (asteroids (entities s'))"
    using maintain_asteroids_length [OF t(6)] by (simp split: if_splits)
  finally show "length (asteroids (entities s)) + nat (1 + min (level (STATE s')) 3) \<le> length (asteroids (entities s'))" .
  have "lastDifficultyMs (STATE s1) = clock s !! 1"
    using t(1) assms(2) by (cases rule: ramp_difficulty_cases) (simp_all add: spawnAsteroids_frame)
  then show "lastDifficultyMs (STATE s') = clock s !! 1"
    by (simp add: maintain_asteroids_frame [OF t(6)] collect_crystals_frame [OF t(5)]
        collide_asteroids_frame [OF t(4)] update_entities_frame [OF t(2)])
qed

text \<open>A tick in which an asteroid touches a ship that can be hit.\<close>

lemma tick_phases_hit:
  assumes "tick_phases s s1 s3 sh s4 s5 s'"
    "list_ex (\<lambda>a. hit (Ship_bounds sh) (Asteroid_bounds a)) (asteroids (entities s3))"
    "ship_inv sh \<le> 0"
  shows "lives (STATE s') = lives (STATE s) - 1"
    "1 < lives (STATE s) \<Longrightarrow>
       ship (entities s') = Some (sh\<lparr> ship_inv := 120, ship_x := 400, ship_y := 450 \<rparr>)"
    "lives (STATE s) \<le> 1 \<Longrightarrow> over (STATE s') \<and> \<not> running (STATE s') \<and>
       finalScore (ui s') = score (STATE s) \<and> ship (entities s') = Some sh"
proof -
  note t = tick_phasesD [OF assms(1)]
  note f = tick_phases_frame [OF assms(1)]
  note g = maintain_asteroids_frame [OF t(6)] collect_crystals_frame [OF t(5)]
    update_entities_frame [OF t(2)] ramp_difficulty_frame [OF t(1)]
  from t(4) assms(2) have h: "Ship_hit s3 = Some s4"
    by (simp add: collide_asteroids_eq)
  from h t(3) assms(3) show "lives (STATE s') = lives (STATE s) - 1"
    by (cases rule: Ship_hit_cases) (simp_all add: f g)
  { assume "1 < lives (STATE s)"
    with h t(3) assms(3) show "ship (entities s') = Some (sh\<lparr> ship_inv := 120, ship_x := 400, ship_y := 450 \<rparr>)"
      by (cases rule: Ship_hit_cases) (simp_all add: f g) }
  { assume "lives (STATE s) \<le> 1"
    with h t(3) assms(3) show "over (STATE s') \<and> \<not> running (STATE s') \<and>
       finalScore (ui s') = score (STATE s) \<and> ship (entities s') = Some sh"
      using Ship_hit_flags [OF h]
      by (cases rule: Ship_hit_cases) (simp_all add: f g) }
qed

section \<open>Ticks of an invulnerable ship\<close>

text \<open>A tick that begins with at least two invulnerability frames takes no
  life, whatever the asteroids do: the ship's update leaves at least one
  frame, so \<^verbatim>\<open>Ship.hit\<close> returns at once.\<close>

lemma tick_phases_shielded:
  assumes "tick_phases s s1 s3 sh s4 s5 s'" "ship (entities s) = Some sh0" "2 \<le> ship_inv sh0"
  shows "s4 = s3" "ship_inv sh = ship_inv sh0 - 1" "ship (entities s') = Some sh"
    "lives (STATE s') = lives (STATE s)" "running (STATE s') = running (STATE s)"
    "over (STATE s') = over (STATE s)"
proof -
  note t = tick_phasesD [OF assms(1)]
  have "ship (entities (crystal_timer s1)) = Some sh0"
    using assms(2) by (simp add: ramp_difficulty_frame [OF t(1)])
  with t(2,3) have sh: "sh = Ship_update (keys (crystal_timer s1)) sh0"
    by (cases rule: update_entities_cases) simp
  with assms(3) show inv: "ship_inv sh = ship_inv sh0 - 1"
    by (simp add: Ship_update_inv)
  with assms(3) have "0 < ship_inv sh" by simp
  with t(3) have "Ship_hit s3 = Some s3"
    by (simp add: Ship_hit_invulnerable)
  with t(4) show same: "s4 = s3"
    by (cases rule: collide_asteroids_cases) simp_all
  note f = maintain_asteroids_frame [OF t(6)] collect_crystals_frame [OF t(5)]
    update_entities_frame [OF t(2)] ramp_difficulty_frame [OF t(1)]
  from t(3) same show "ship (entities s') = Some sh"
    by (simp add: f)
  from same show "lives (STATE s') = lives (STATE s)" "running (STATE s') = running (STATE s)"
    "over (STATE s') = over (STATE s)"
    by (simp_all add: f)
qed

lemma update_shielded:
  assumes "update dt s = Some s'" "ship (entities s) = Some sh0" "2 \<le> ship_inv sh0"
  shows "\<exists>sh. ship (entities s') = Some sh \<and> ship_inv sh = ship_inv sh0 - 1"
    "lives (STATE s') = lives (STATE s)" "running (STATE s') = running (STATE s)"
    "paused (STATE s') = paused (STATE s)"
  using assms(1)
  by (cases rule: update_cases;
      use tick_phases_shielded [OF _ assms(2,3)] tick_phases_frame(3) in auto)+

lemma loop_shielded:
  assumes "game_ok s" "running (STATE s)" "\<not> paused (STATE s)"
    "ship (entities s) = Some sh0" "2 \<le> ship_inv sh0"
  shows "\<exists>s' sh. loop now s = Some s' \<and> game_ok s' \<and> running (STATE s') \<and> \<not> paused (STATE s') \<and>
    lives (STATE s') = lives (STATE s) \<and> ship (entities s') = Some sh \<and>
    ship_inv sh = ship_inv sh0 - 1"
proof -
  let ?s = "s\<lparr> lastTime := now \<rparr>"
  from assms(1-3) obtain u where u: "update (now - lastTime s) ?s = Some u" "game_ok u"
    using update_runs [of ?s "now - lastTime s"] by auto
  from assms(4) have "ship (entities ?s) = Some sh0" by simp
  note k = update_shielded [OF u(1) this assms(5)]
  from assms(2,3) u have "loop now s = Some (painted u)"
    by (intro loop_tick_painted [where dt = "now - lastTime s"]) (simp_all add: game_okD)
  with k assms(2,3) painted_ok [OF u(2)] show ?thesis
    by auto
qed

section \<open>How many asteroids a tick adds\<close>

lemma tick_phases_asteroids:
  assumes "tick_phases s s1 s3 sh s4 s5 s'"
  shows "length (asteroids (entities s')) \<le> length (asteroids (entities s)) + 5"
proof -
  note t = tick_phasesD [OF assms]
  have "length (asteroids (entities s1)) \<le> length (asteroids (entities s)) + 4"
    using ramp_difficulty_length [OF t(1)] by (simp split: if_splits)
  moreover have "length (asteroids (entities s5)) = length (asteroids (entities s1))"
    by (simp add: collect_crystals_frame [OF t(5)] collide_asteroids_frame [OF t(4)]
        update_entities_frame [OF t(2)])
  moreover have "length (asteroids (entities s')) \<le> Suc (length (asteroids (entities s5)))"
    using maintain_asteroids_length [OF t(6)] by (simp split: if_splits)
  ultimately show ?thesis by simp
qed

lemma update_asteroids_upper:
  "update dt s = Some s' \<Longrightarrow> length (asteroids (entities s')) \<le> length (asteroids (entities s)) + 5"
  by (auto elim!: update_cases dest: tick_phases_asteroids)

section \<open>The pointer and the canvas\<close>

lemma ramp_difficulty_device [device]:
  assumes "ramp_difficulty s = Some s'"
  shows "mouse s' = mouse s" "canvas s' = canvas s"
  using assms by (erule_tac ramp_difficulty_cases; simp add: spawnAsteroids_device ramped_def)+

lemma crystal_timer_device [simp, device]:
  "mouse (crystal_timer s) = mouse s" "canvas (crystal_timer s) = canvas s"
  by (simp_all add: crystal_timer_def performance_now_def Let_def)

lemma update_entities_device [device]:
  assumes "update_entities s = Some s'"
  shows "mouse s' = mouse s" "canvas s' = canvas s"
  using assms by (auto simp: update_entities_eq)

lemma collide_asteroids_device [device]:
  assumes "collide_asteroids sb as s = Some s'"
  shows "mouse s' = mouse s" "canvas s' = canvas s"
  using assms by (erule_tac collide_asteroids_cases; simp add: Ship_hit_device)+

lemma collect_crystal_device [device]:
  assumes "collect_crystal i c s = Some s'"
  shows "mouse s' = mouse s" "canvas s' = canvas s"
  using assms by (auto simp: collect_crystal_def Let_def split: option.splits)

lemma collect_crystals_device [device]:
  assumes "collect_crystals sb n s = Some s'"
  shows "mouse s' = mouse s" "canvas s' = canvas s"
proof -
  have "mouse s' = mouse s \<and> canvas s' = canvas s"
    by (rule collect_crystals_invariant [where P = "\<lambda>u. mouse u = mouse s \<and> canvas u = canvas s", OF assms])
       (simp_all add: collect_crystal_device)
  then show "mouse s' = mouse s" "canvas s' = canvas s"
    by simp_all
qed

lemma maintain_asteroids_device [device]:
  assumes "maintain_asteroids s = Some s'"
  shows "mouse s' = mouse s" "canvas s' = canvas s"
  using assms by (erule_tac maintain_asteroids_cases; simp add: spawnAsteroid_device)+

lemma tick_phases_device [device]:
  assumes "tick_phases s s1 s3 sh s4 s5 s'"
  shows "mouse s' = mouse s" "canvas s' = canvas s"
proof -
  note t = tick_phasesD [OF assms]
  note f = maintain_asteroids_device [OF t(6)] collect_crystals_device [OF t(5)]
    collide_asteroids_device [OF t(4)] update_entities_device [OF t(2)]
    ramp_difficulty_device [OF t(1)]
  show "mouse s' = mouse s" "canvas s' = canvas s"
    by (simp_all add: f)
qed

lemma update_device [device]:
  assumes "update dt s = Some s'"
  shows "mouse s' = mouse s" "canvas s' = canvas s"
  using assms by (auto elim!: update_cases dest: tick_phases_device)

text \<open>A frame replaces the calls of the canvas and nothing else of it.\<close>

lemma loop_device [device]:
  assumes "loop now s = Some s'"
  shows "mouse s' = mouse s" "canvas_for dpr (canvas s') = canvas_for dpr (canvas s)"
  using assms
  by (auto elim!: loop_cases simp: render_frame render_canvas_for dest: update_device)

section \<open>The crystals of a tick\<close>

text \<open>The crystals after a tick are crystals of the state before it, or the
  one the timer made, each updated once: a tick keeps every crystal on its
  track.\<close>

lemma tick_phases_crystals:
  assumes "tick_phases s s1 s3 sh s4 s5 s'" "game_ok s3"
  shows "crystals (entities s') =
    filter (\<lambda>c. \<not> touching (Ship_bounds sh) c)
      (map Crystal_update
        (if 2000 \<le> shd (clock s1) - lastCrystalMs (STATE s1)
         then crystals (entities s) @ [fst (make_crystal (rnd s1))] else crystals (entities s)))"
proof -
  note t = tick_phasesD [OF assms(1)]
  from t(2) have "crystals (entities s3) = map Crystal_update (crystals (entities (crystal_timer s1)))"
    by (auto simp: update_entities_eq)
  then show ?thesis
    by (simp add: tick_phases_score(2) [OF assms] crystal_timer_crystals ramp_difficulty_frame [OF t(1)])
qed

lemma update_on_track:
  assumes "update dt s = Some s'" "game_ok s" "running (STATE s)" "\<not> paused (STATE s)"
    and "list_all crystal_on_track (crystals (entities s))"
  shows "list_all crystal_on_track (crystals (entities s'))"
proof -
  from assms(2-4) obtain s1 s3 sh s4 s5 u where t: "tick_phases s s1 s3 sh s4 s5 u"
    and ok: "game_ok s1" "game_ok s3"
    by (rule update_trace)
  from t assms(1) have "u = s'"
    by (simp add: update_of_phases [of _ _ _ _ _ _ _ dt])
  with tick_phases_crystals [OF t ok(2)] assms(5) make_crystal_on_track [OF game_okD(4) [OF ok(1)]]
  show ?thesis
    by (auto simp: list_all_iff)
qed

lemma loop_on_track:
  assumes "loop now s = Some s'" "game_ok s" "list_all crystal_on_track (crystals (entities s))"
  shows "list_all crystal_on_track (crystals (entities s'))"
  using assms(1)
proof (cases rule: loop_cases)
  case skip
  with assms(3) show ?thesis
    by (simp add: render_frame)
next
  case (tick u)
  from tick(3) have "list_all crystal_on_track (crystals (entities u))"
    by (rule update_on_track) (use assms(2,3) tick(1,2) in simp_all)
  with tick(4) show ?thesis
    by (simp add: render_frame)
qed

section \<open>A hit and a pickup in one tick\<close>

text \<open>A tick in which neither timer is due: the entities after the update
  phase are the updated entities of the state before the tick.\<close>

lemma tick_phases_quiet:
  assumes "tick_phases s s1 s3 sh s4 s5 s'"
    and "shd (clock s) - lastDifficultyMs (STATE s) < 30000"
    and "clock s !! 1 - lastCrystalMs (STATE s) < 2000"
    and "ship (entities s) = Some sh0"
  shows "sh = Ship_update (keys s) sh0"
    "asteroids (entities s3) = map (Asteroid_update (tick (STATE s) + 1)) (asteroids (entities s))"
    "crystals (entities s3) = map Crystal_update (crystals (entities s))"
proof -
  note t = tick_phasesD [OF assms(1)]
  let ?s0 = "s\<lparr> STATE := (STATE s)\<lparr> tick := tick (STATE s) + 1 \<rparr> \<rparr>"
  from t(1) assms(2) have s1: "s1 = ?s0\<lparr> clock := stl (clock s) \<rparr>"
    by (simp add: ramp_difficulty_idle)
  with assms(3) have "crystal_timer s1 = s1\<lparr> clock := stl (clock s1) \<rparr>"
    by (intro crystal_timer_idle) simp
  with t(2,3) s1 assms(4) show "sh = Ship_update (keys s) sh0"
    "asteroids (entities s3) = map (Asteroid_update (tick (STATE s) + 1)) (asteroids (entities s))"
    "crystals (entities s3) = map Crystal_update (crystals (entities s))"
    by (auto simp: update_entities_eq)
qed

text \<open>The ship is hit and picks up crystals in the same tick: the hit takes
  a life and moves the ship to the start, and the crystals are collected
  where the ship was hit, not where it respawns, because both collision
  phases use the bounds taken before the first.\<close>

lemma update_hit_and_crystals:
  assumes "game_ok s" "running (STATE s)" "\<not> paused (STATE s)" "1 < lives (STATE s)"
    and "shd (clock s) - lastDifficultyMs (STATE s) < 30000"
    and "clock s !! 1 - lastCrystalMs (STATE s) < 2000"
    and "ship (entities s) = Some sh0" "ship_inv sh0 \<le> 1"
    and "a \<in> set (asteroids (entities s))"
    and "hit (Ship_bounds (Ship_update (keys s) sh0))
           (Asteroid_bounds (Asteroid_update (tick (STATE s) + 1) a))"
  shows "\<exists>s'. update dt s = Some s' \<and> lives (STATE s') = lives (STATE s) - 1 \<and>
    ship (entities s') =
      Some ((Ship_update (keys s) sh0)\<lparr> ship_inv := 120, ship_x := 400, ship_y := 450 \<rparr>) \<and>
    crystals (entities s') =
      filter (\<lambda>c. \<not> touching (Ship_bounds (Ship_update (keys s) sh0)) c)
        (map Crystal_update (crystals (entities s))) \<and>
    score (STATE s') = score (STATE s) +
      sum_list (map crystal_points
        (filter (touching (Ship_bounds (Ship_update (keys s) sh0)))
          (map Crystal_update (crystals (entities s)))))"
proof -
  from assms(1-3) obtain s1 s3 sh s4 s5 s' where t: "tick_phases s s1 s3 sh s4 s5 s'"
    and ok: "game_ok s3"
    by (rule update_trace)
  note q = tick_phases_quiet [OF t assms(5-7)]
  from assms(9,10) have "list_ex (\<lambda>a. hit (Ship_bounds sh) (Asteroid_bounds a)) (asteroids (entities s3))"
    unfolding q list_ex_iff by auto
  moreover from assms(8) have "ship_inv sh \<le> 0"
    by (simp add: q(1) Ship_update_inv)
  ultimately have "lives (STATE s') = lives (STATE s) - 1"
    "ship (entities s') = Some (sh\<lparr> ship_inv := 120, ship_x := 400, ship_y := 450 \<rparr>)"
    using tick_phases_hit(1,2) [OF t] assms(4) by simp_all
  with tick_phases_score [OF t ok] update_of_phases [OF t, of dt] show ?thesis
    by (simp add: q)
qed

end
