(* ===== verification/Machine.thy ===== *)
theory Machine
  imports Tick
begin

text \<open>
  The program as a reactive system. The listeners of \<^verbatim>\<open>src/game.js\<close> (key
  down and key up, lines 58 to 64; the mouse, lines 318 to 324; the three
  buttons, lines 412 to 414; the resize of the window, line 516; the frame
  callback, line 418) are the handlers of a datatype of events, \<open>step\<close>
  dispatches an event to its handler, \<open>boot\<close> is the script's top-level code
  (lines 417 and 517 to 522) and \<open>reachable\<close> the states the page can be in.
  The second half is the state machine of the game as the design describes
  it (menu, running, paused, game over) and the conditions under which a
  button can be pressed, with the overlays the page shows. The program
  refines the machine: each allowed step is a transition (\<open>step_refines\<close>)
  and each allowed run a path (\<open>run_refines\<close>).
\<close>

datatype event =
    KeyDown string
  | KeyUp string
  | ClickPlay
  | ClickResume
  | ClickRestart
  | MouseMove real real client_rect
  | Resize "real option"
  | Frame real

definition keydown :: "string \<Rightarrow> game \<Rightarrow> game option" where
  "keydown code s =
    (let s = s\<lparr> keys := insert code (keys s) \<rparr>;
         s = (if code = ''Space'' then togglePause s else s)
     in if code = ''Enter'' \<and> over (STATE s) then restart s else Some s)"

definition keyup :: "string \<Rightarrow> game \<Rightarrow> game" where
  "keyup code s = s\<lparr> keys := keys s - {code} \<rparr>"

definition btnPlay :: "game \<Rightarrow> game option" where
  "btnPlay s = do { s \<leftarrow> reset s; Some (start s) }"

definition btnResume :: "game \<Rightarrow> game" where
  "btnResume s = togglePause s"

definition btnRestart :: "game \<Rightarrow> game option" where
  "btnRestart s = restart s"

fun step :: "event \<Rightarrow> game \<Rightarrow> game option" where
  "step (KeyDown code) s = keydown code s"
| "step (KeyUp code) s = Some (keyup code s)"
| "step ClickPlay s = btnPlay s"
| "step ClickResume s = Some (btnResume s)"
| "step ClickRestart s = btnRestart s"
| "step (MouseMove mx my rect) s = mousemove mx my rect s"
| "step (Resize reading) s = Some (resizeCanvas reading s)"
| "step (Frame now) s = loop now s"

primrec run :: "event list \<Rightarrow> game \<Rightarrow> game option" where
  "run [] s = Some s"
| "run (e # es) s = step e s \<bind> run es"

text \<open>The script's top level: the initial values of \<^verbatim>\<open>STATE\<close>, \<^verbatim>\<open>keys\<close>,
  \<^verbatim>\<open>entities\<close> and \<^verbatim>\<open>mouse\<close>, the first clock reading, the first
  \<^verbatim>\<open>resizeCanvas\<close>, \<^verbatim>\<open>reset\<close>, the menu. The page and the canvas as
  loaded, the pixel ratio of the window, the draws and the clock are the
  parameters.\<close>

definition globals_init :: "game_ui \<Rightarrow> game_canvas \<Rightarrow> rng \<Rightarrow> clock \<Rightarrow> game" where
  "globals_init page cv g c =
    \<lparr> STATE = STATE_init, entities = entities_init, ui = page, keys = {},
      mouse = \<lparr> ptr_x = width CONFIG / 2, ptr_y = height CONFIG / 2 \<rparr>, canvas = cv,
      lastTime = 0, rnd = g, clock = c \<rparr>"

definition boot :: "game_ui \<Rightarrow> game_canvas \<Rightarrow> real option \<Rightarrow> rng \<Rightarrow> clock \<Rightarrow> game option" where
  "boot page cv reading g c =
    (let s = globals_init page cv g c
     in case performance_now s of (now, s) \<Rightarrow>
        let s = s\<lparr> lastTime := now \<rparr>;
            s = resizeCanvas reading s
        in do {
          s \<leftarrow> reset s;
          Some (s\<lparr> ui := (ui s)\<lparr> menu_visible := True \<rparr> \<rparr>)
        })"

inductive reachable :: "game \<Rightarrow> bool" where
  boot: "unit_draws g \<Longrightarrow> boot page cv reading g c = Some s \<Longrightarrow> reachable s"
| step: "reachable s \<Longrightarrow> step e s = Some s' \<Longrightarrow> reachable s'"

text \<open>The state machine of the design: four phases, read off the three
  flags, and the transitions it allows.\<close>

datatype phase = Menu | Running | Paused | GameOver

definition phase_of :: "game \<Rightarrow> phase" where
  "phase_of s =
    (if over (STATE s) then GameOver
     else if \<not> running (STATE s) then Menu
     else if paused (STATE s) then Paused
     else Running)"

definition is_toggle :: "event \<Rightarrow> bool" where
  "is_toggle e \<longleftrightarrow> e = KeyDown ''Space'' \<or> e = ClickResume"

definition is_restart :: "event \<Rightarrow> bool" where
  "is_restart e \<longleftrightarrow> e = KeyDown ''Enter'' \<or> e = ClickRestart"

definition moves :: "phase \<Rightarrow> event \<Rightarrow> bool" where
  "moves p e \<longleftrightarrow>
    (p = Menu \<and> e = ClickPlay) \<or> ((p = Running \<or> p = Paused) \<and> is_toggle e) \<or>
    (p = GameOver \<and> is_restart e)"

definition phase_after :: "phase \<Rightarrow> event \<Rightarrow> phase" where
  "phase_after p e =
    (if moves p e then (case p of Running \<Rightarrow> Paused | _ \<Rightarrow> Running) else p)"

inductive phase_step :: "phase \<Rightarrow> event \<Rightarrow> phase \<Rightarrow> bool" where
  play: "phase_step Menu ClickPlay Running"
| pause: "is_toggle e \<Longrightarrow> phase_step Running e Paused"
| resume: "is_toggle e \<Longrightarrow> phase_step Paused e Running"
| exhausted: "phase_step Running (Frame now) GameOver"
| again: "is_restart e \<Longrightarrow> phase_step GameOver e Running"
| idle: "\<not> moves p e \<Longrightarrow> phase_step p e p"

code_pred phase_step .

text \<open>The page shows a button only inside its overlay: an event can happen
  when its button is visible; the pointer moves over the canvas only where
  the canvas has an area; keys, resizes and frames always can happen. A page
  as loaded shows neither the pause nor the game-over overlay.\<close>

definition deliverable :: "event \<Rightarrow> bool" where
  "deliverable e =
    (case e of
       MouseMove mx my rect \<Rightarrow> rect_width rect \<noteq> 0 \<and> rect_height rect \<noteq> 0
     | _ \<Rightarrow> True)"

definition enabled :: "event \<Rightarrow> game \<Rightarrow> bool" where
  "enabled e s =
    (case e of
       ClickPlay \<Rightarrow> menu_visible (ui s)
     | ClickResume \<Rightarrow> pause_visible (ui s)
     | ClickRestart \<Rightarrow> gameover_visible (ui s)
     | MouseMove mx my rect \<Rightarrow> deliverable e
     | _ \<Rightarrow> True)"

definition page_ok :: "game_ui \<Rightarrow> bool" where
  "page_ok page \<longleftrightarrow> \<not> pause_visible page \<and> \<not> gameover_visible page"

definition ui_ok :: "game \<Rightarrow> bool" where
  "ui_ok s \<longleftrightarrow>
    menu_visible (ui s) = (phase_of s = Menu) \<and>
    pause_visible (ui s) = (phase_of s = Paused) \<and>
    gameover_visible (ui s) = (phase_of s = GameOver)"

inductive played :: "game \<Rightarrow> bool" where
  boot: "unit_draws g \<Longrightarrow> page_ok page \<Longrightarrow> boot page cv reading g c = Some s \<Longrightarrow> played s"
| step: "played s \<Longrightarrow> enabled e s \<Longrightarrow> step e s = Some s' \<Longrightarrow> played s'"

text \<open>Runs: the paths of the abstract machine, and the event sequences the
  page allows from a state (each event enabled where it happens, as far as
  the handlers return).\<close>

inductive phase_path :: "phase \<Rightarrow> event list \<Rightarrow> phase \<Rightarrow> bool" where
  stay: "phase_path p [] p"
| move: "phase_step p e p' \<Longrightarrow> phase_path p' es p'' \<Longrightarrow> phase_path p (e # es) p''"

fun allowed :: "event list \<Rightarrow> game \<Rightarrow> bool" where
  "allowed [] s = True"
| "allowed (e # es) s =
    (enabled e s \<and> (case step e s of None \<Rightarrow> True | Some s' \<Rightarrow> allowed es s'))"

section \<open>The handlers\<close>

lemma keydown_Space:
  "keydown ''Space'' s = Some (togglePause (s\<lparr> keys := insert ''Space'' (keys s) \<rparr>))"
  by (simp add: keydown_def)

lemma keydown_Enter:
  "keydown ''Enter'' s =
    (if over (STATE s) then restart (s\<lparr> keys := insert ''Enter'' (keys s) \<rparr>)
     else Some (s\<lparr> keys := insert ''Enter'' (keys s) \<rparr>))"
  by (simp add: keydown_def)

lemma keydown_other:
  "code \<noteq> ''Space'' \<Longrightarrow> code \<noteq> ''Enter'' \<Longrightarrow>
     keydown code s = Some (s\<lparr> keys := insert code (keys s) \<rparr>)"
  by (simp add: keydown_def)

lemma keydown_held: "keydown code s = Some s' \<Longrightarrow> code \<in> keys s'"
  by (auto simp: keydown_def Let_def reset_frame elim!: restart_cases split: if_splits)

lemma keyup_frame [simp, frame]:
  "STATE (keyup code s) = STATE s" "entities (keyup code s) = entities s"
  "ui (keyup code s) = ui s" "lastTime (keyup code s) = lastTime s"
  "rnd (keyup code s) = rnd s" "clock (keyup code s) = clock s"
  "keys (keyup code s) = keys s - {code}"
  by (simp_all add: keyup_def)

lemma keyup_keydown: "code \<notin> keys s \<Longrightarrow> code \<noteq> ''Space'' \<Longrightarrow> code \<noteq> ''Enter'' \<Longrightarrow>
  map_option (keyup code) (keydown code s) = Some s"
  by (simp add: keydown_other keyup_def)

lemma btnPlay_eq: "btnPlay s = map_option start (reset s)"
  by (simp add: btnPlay_def bind_Some_map)

lemma btnPlay_restart:
  "btnPlay (s\<lparr> ui := (ui s)\<lparr> gameover_visible := False \<rparr> \<rparr>) = restart s"
  by (simp add: btnPlay_eq restart_eq)

lemma keydown_runs:
  assumes "game_ok s"
  shows "\<exists>s'. keydown code s = Some s' \<and> game_ok s'"
proof -
  let ?s = "s\<lparr> keys := insert code (keys s) \<rparr>"
  have ok: "game_ok ?s" "unit_draws (rnd ?s)"
    using assms game_okD(4) [OF assms] by simp_all
  consider "code = ''Space''" | "code = ''Enter''" "over (STATE s)"
    | "code = ''Enter''" "\<not> over (STATE s)" | "code \<noteq> ''Space''" "code \<noteq> ''Enter''"
    by blast
  then show ?thesis
  proof cases
    case 1
    with ok(1) show ?thesis by (simp add: keydown_Space togglePause_ok)
  next
    case 2
    from restart_total [OF ok(2)] obtain u where u: "restart ?s = Some u"
      by blast
    with 2 restart_ok [OF u ok(2)] show ?thesis
      by (simp add: keydown_Enter)
  next
    case 3
    with ok(1) show ?thesis by (simp add: keydown_Enter)
  next
    case 4
    with ok(1) show ?thesis by (simp add: keydown_other)
  qed
qed

lemma btnPlay_runs:
  assumes "unit_draws (rnd s)"
  shows "\<exists>s'. btnPlay s = Some s' \<and> game_ok s'"
proof -
  from reset_total [OF assms] obtain u where u: "reset s = Some u"
    by blast
  from reset_ok [OF u assms] have "game_ok (start u)"
    by (rule start_ok) (simp add: reset_STATE [OF u] STATE_init_def)
  with u show ?thesis by (simp add: btnPlay_eq)
qed

lemma btnRestart_runs:
  assumes "unit_draws (rnd s)"
  shows "\<exists>s'. btnRestart s = Some s' \<and> game_ok s'"
  using restart_total [OF assms] restart_ok [OF _ assms] by (auto simp: btnRestart_def)

section \<open>Steps and runs\<close>

fun_cases step_KeyDownE: "step (KeyDown code) s = Some s'"
fun_cases step_KeyUpE: "step (KeyUp code) s = Some s'"
fun_cases step_FrameE: "step (Frame now) s = Some s'"

lemma step_Frame_lastTime: "step (Frame now) s = Some s' \<Longrightarrow> lastTime s' = now"
  by (erule step_FrameE) (rule loop_lastTime, erule sym)

lemma step_KeyDown_held: "step (KeyDown code) s = Some s' \<Longrightarrow> code \<in> keys s'"
  by (erule step_KeyDownE) (rule keydown_held, erule sym)

lemma step_KeyUp_released: "step (KeyUp code) s = Some s' \<Longrightarrow> code \<notin> keys s'"
  by (erule step_KeyUpE) auto

lemma enabled_deliverable: "enabled e s \<Longrightarrow> deliverable e"
  by (cases e) (simp_all add: enabled_def deliverable_def)

lemma step_deliverable: "step e s = Some s' \<Longrightarrow> deliverable e"
  by (cases e) (auto simp: deliverable_def mousemove_def)

lemma step_runs:
  assumes "game_ok s" "deliverable e"
  shows "\<exists>s'. step e s = Some s' \<and> game_ok s'"
proof (cases e)
  case (KeyDown code)
  with keydown_runs [OF assms(1)] show ?thesis by simp
next
  case (KeyUp code)
  with assms show ?thesis by (simp add: keyup_def)
next
  case ClickPlay
  with btnPlay_runs [OF game_okD(4) [OF assms(1)]] show ?thesis by simp
next
  case ClickResume
  with assms show ?thesis by (simp add: btnResume_def togglePause_ok)
next
  case ClickRestart
  with btnRestart_runs [OF game_okD(4) [OF assms(1)]] show ?thesis by simp
next
  case (MouseMove mx my rect)
  with assms(2) obtain s' where "mousemove mx my rect s = Some s'"
    using mousemove_total [of rect mx my s] by (auto simp: deliverable_def)
  with MouseMove assms(1) mousemove_ok [OF this] show ?thesis by simp
next
  case (Resize reading)
  with assms show ?thesis by simp
next
  case (Frame now)
  with loop_runs [OF assms(1)] show ?thesis by simp
qed

lemma step_ok [keeps]: "step e s = Some s' \<Longrightarrow> game_ok s \<Longrightarrow> game_ok s'"
  using step_runs [of s e] step_deliverable [of e s s'] by auto

lemma run_append: "run (es @ es') s = run es s \<bind> run es'"
  by (induction es arbitrary: s) (simp_all split: bind_split)

lemma run_snoc: "run (es @ [e]) s = run es s \<bind> step e"
  by (cases "run es s") (simp_all add: run_append split: bind_split)

lemma run_runs:
  "game_ok s \<Longrightarrow> list_all deliverable es \<Longrightarrow> \<exists>s'. run es s = Some s' \<and> game_ok s'"
proof (induction es arbitrary: s)
  case Nil
  then show ?case by simp
next
  case (Cons e es)
  from step_runs [of s e] Cons.prems obtain u where "step e s = Some u" "game_ok u"
    by auto
  with Cons.IH [of u] Cons.prems(2) show ?case by simp
qed

section \<open>Boot\<close>

lemma globals_init_fields [simp]:
  "STATE (globals_init page cv g c) = STATE_init" "entities (globals_init page cv g c) = entities_init"
  "ui (globals_init page cv g c) = page" "keys (globals_init page cv g c) = {}"
  "mouse (globals_init page cv g c) = \<lparr> ptr_x = 400, ptr_y = 300 \<rparr>"
  "canvas (globals_init page cv g c) = cv" "lastTime (globals_init page cv g c) = 0"
  "rnd (globals_init page cv g c) = g" "clock (globals_init page cv g c) = c"
  by (simp_all add: globals_init_def)

lemma boot_eq:
  "boot page cv reading g c =
    map_option (\<lambda>s. s\<lparr> ui := (ui s)\<lparr> menu_visible := True \<rparr> \<rparr>)
      (reset (resizeCanvas reading ((globals_init page cv g c)\<lparr> clock := stl c, lastTime := shd c \<rparr>)))"
  by (simp add: boot_def performance_now_def bind_Some_map)

lemma boot_cases [consumes 1, case_names booted]:
  assumes "boot page cv reading g c = Some s"
  obtains u where
    "reset (resizeCanvas reading ((globals_init page cv g c)\<lparr> clock := stl c, lastTime := shd c \<rparr>)) = Some u"
    "s = u\<lparr> ui := (ui u)\<lparr> menu_visible := True \<rparr> \<rparr>"
  using assms by (auto simp: boot_eq)

lemma boot_runs:
  assumes "unit_draws g"
  shows "\<exists>s. boot page cv reading g c = Some s \<and> game_ok s"
proof -
  let ?s = "resizeCanvas reading ((globals_init page cv g c)\<lparr> clock := stl c, lastTime := shd c \<rparr>)"
  from assms have g: "unit_draws (rnd ?s)" by simp
  from reset_total [OF g] obtain u where u: "reset ?s = Some u"
    by blast
  from reset_ok [OF u g] have "game_ok (u\<lparr> ui := (ui u)\<lparr> menu_visible := True \<rparr> \<rparr>)"
    by (simp add: game_ok_def hud_synced_def)
  with u show ?thesis by (simp add: boot_eq)
qed

lemma boot_ok [keeps]: "boot page cv reading g c = Some s \<Longrightarrow> unit_draws g \<Longrightarrow> game_ok s"
  using boot_runs [of g page cv reading c] by auto

lemma boot_state:
  assumes "boot page cv reading g c = Some s"
  shows "STATE s = STATE_init" "keys s = {}" "lastTime s = shd c" "clock s = stl c"
    "rnd s = sdrop 33 g" "menu_visible (ui s)" "pause_visible (ui s) = pause_visible page"
    "gameover_visible (ui s) = gameover_visible page"
    "ship (entities s) = Some (new_Ship 400 450)" "length (asteroids (entities s)) = 3"
    "crystals (entities s) = []" "particles (entities s) = []"
  using assms
  by (erule_tac boot_cases; simp add: reset_STATE reset_frame reset_rnd reset_entities)+

section \<open>Reachable states\<close>

lemma reachable_ok: "reachable s \<Longrightarrow> game_ok s"
  by (induction rule: reachable.induct) (auto intro: boot_ok step_ok)

lemma reachable_run: "reachable s \<Longrightarrow> run es s = Some s' \<Longrightarrow> reachable s'"
  by (induction es arbitrary: s) (auto simp: bind_Some_iff intro: reachable.step)

lemma reachable_iff_run:
  "reachable s \<longleftrightarrow> (\<exists>page cv reading g c es s0. unit_draws g \<and> boot page cv reading g c = Some s0 \<and> run es s0 = Some s)"
proof
  assume "reachable s"
  then show "\<exists>page cv reading g c es s0. unit_draws g \<and> boot page cv reading g c = Some s0 \<and> run es s0 = Some s"
  proof (induction rule: reachable.induct)
    case (boot g page cv reading c s)
    then have "unit_draws g \<and> boot page cv reading g c = Some s \<and> run [] s = Some s" by simp
    then show ?case by blast
  next
    case (step s e s')
    then obtain page cv reading g c es s0 where "unit_draws g" "boot page cv reading g c = Some s0" "run es s0 = Some s"
      by blast
    with step(2) have "unit_draws g \<and> boot page cv reading g c = Some s0 \<and> run (es @ [e]) s0 = Some s'"
      by (simp add: run_snoc)
    then show ?case by blast
  qed
next
  assume "\<exists>page cv reading g c es s0. unit_draws g \<and> boot page cv reading g c = Some s0 \<and> run es s0 = Some s"
  then show "reachable s"
    by (auto intro: reachable_run reachable.boot)
qed

lemma reachable_continues:
  "reachable s \<Longrightarrow> deliverable e \<Longrightarrow> \<exists>s'. step e s = Some s' \<and> reachable s'"
  using step_runs [OF reachable_ok, of s e] by (auto intro: reachable.step)

section \<open>Phases\<close>

lemma phase_of_frame [simp]:
  "phase_of (s\<lparr> keys := ks \<rparr>) = phase_of s" "phase_of (s\<lparr> lastTime := t \<rparr>) = phase_of s"
  "phase_of (s\<lparr> ui := u \<rparr>) = phase_of s" "phase_of (keyup code s) = phase_of s"
  "phase_of (resizeCanvas reading s) = phase_of s"
  by (simp_all add: phase_of_def)

lemma phase_of_cong: "STATE s' = STATE s \<Longrightarrow> phase_of s' = phase_of s"
  by (simp add: phase_of_def)

lemma phase_of_render: "render s = Some s' \<Longrightarrow> phase_of s' = phase_of s"
  by (rule phase_of_cong) (rule render_frame)

lemma phase_of_painted [simp]: "phase_of (painted s) = phase_of s"
  by (simp add: phase_of_def)

lemma phase_of_mousemove: "mousemove mx my rect s = Some s' \<Longrightarrow> phase_of s' = phase_of s"
  by (rule phase_of_cong) (rule mousemove_frame)

lemma phase_of_iff:
  assumes "state_ok (STATE s)"
  shows "phase_of s = Menu \<longleftrightarrow> \<not> running (STATE s) \<and> \<not> over (STATE s)"
    "phase_of s = Running \<longleftrightarrow> running (STATE s) \<and> \<not> paused (STATE s)"
    "phase_of s = Paused \<longleftrightarrow> paused (STATE s)"
    "phase_of s = GameOver \<longleftrightarrow> over (STATE s)"
  using assms by (auto simp: phase_of_def state_ok_def)

lemma phase_of_start [simp]: "phase_of (start s) = Running"
  by (simp add: phase_of_def)

lemma phase_of_reset: "reset s = Some s' \<Longrightarrow> phase_of s' = Menu"
  by (simp add: phase_of_def reset_STATE STATE_init_def)

lemma phase_of_restart: "restart s = Some s' \<Longrightarrow> phase_of s' = Running"
  by (erule restart_cases) simp

lemma phase_of_btnPlay: "btnPlay s = Some s' \<Longrightarrow> phase_of s' = Running"
  by (auto simp: btnPlay_eq)

lemma phase_of_togglePause:
  "state_ok (STATE s) \<Longrightarrow>
     phase_of (togglePause s) =
       (case phase_of s of Running \<Rightarrow> Paused | Paused \<Rightarrow> Running | p \<Rightarrow> p)"
  by (auto simp: phase_of_def togglePause_def state_ok_def Let_def)

lemma phase_of_update:
  assumes "update dt s = Some s'" "phase_of s = Running"
  shows "phase_of s' = Running \<or> phase_of s' = GameOver"
using assms(1) proof (cases rule: update_cases)
  case (ticked s1 s3 sh s4 s5)
  from tick_phases_flags [OF ticked] tick_phases_frame(3) [OF ticked] assms(2) show ?thesis
    by (auto simp: phase_of_def split: if_splits)
qed

lemma phase_of_loop:
  assumes "loop now s = Some s'" "state_ok (STATE s)"
  shows "phase_of s' = phase_of s \<or> (phase_of s = Running \<and> phase_of s' = GameOver)"
  using assms(1)
proof (cases rule: loop_cases)
  case skip
  from phase_of_render [OF skip(2)] show ?thesis by simp
next
  case (tick u)
  then have "phase_of (s\<lparr> lastTime := now \<rparr>) = Running"
    by (simp add: phase_of_iff [OF assms(2)])
  from phase_of_update [OF tick(3) this] phase_of_render [OF tick(4)] this show ?thesis
    by simp
qed

text \<open>The abstract machine, characterised: an event moves the phase as
  \<open>phase_after\<close> says, or a frame ends a running game.\<close>

lemmas phase_defs = phase_after_def moves_def is_toggle_def is_restart_def

inductive_cases phase_step_MenuE [elim]: "phase_step Menu e p'"
inductive_cases phase_step_GameOverE [elim]: "phase_step GameOver e p'"
inductive_simps phase_step_Running: "phase_step Running e p'"
inductive_simps phase_step_Paused: "phase_step Paused e p'"

lemma phase_step_iff:
  "phase_step p e p' \<longleftrightarrow>
     p' = phase_after p e \<or> (\<exists>now. e = Frame now \<and> p = Running \<and> p' = GameOver)"
  by (cases p) (auto simp: phase_step.simps phase_defs)

lemma phase_step_Running_cases:
  "phase_step Running e p' \<Longrightarrow> p' = Running \<or> p' = Paused \<or> p' = GameOver"
  by (auto simp: phase_step_Running)

lemma phase_step_Paused_cases: "phase_step Paused e p' \<Longrightarrow> p' = Paused \<or> p' = Running"
  by (auto simp: phase_step_Paused)

lemma phase_step_total: "\<exists>p'. phase_step p e p'"
  by (auto simp: phase_step_iff)

lemma phase_step_Menu: "phase_step Menu e p' \<longleftrightarrow> p' = (if e = ClickPlay then Running else Menu)"
  by (auto simp: phase_step_iff phase_after_def moves_def)

lemma phase_step_GameOver:
  "phase_step GameOver e p' \<longleftrightarrow> p' = (if is_restart e then Running else GameOver)"
  by (auto simp: phase_step_iff phase_after_def moves_def)

lemma phase_step_toggle_noop:
  "is_toggle e \<Longrightarrow> p = Menu \<or> p = GameOver \<Longrightarrow> phase_step p e p' \<longleftrightarrow> p' = p"
  by (auto simp: phase_step_iff phase_defs)

section \<open>The overlays\<close>

lemma ui_okD:
  assumes "ui_ok s"
  shows "menu_visible (ui s) = (phase_of s = Menu)" "pause_visible (ui s) = (phase_of s = Paused)"
    "gameover_visible (ui s) = (phase_of s = GameOver)"
  using assms by (simp_all add: ui_ok_def)

lemma ui_ok_frame [simp]:
  "ui_ok (s\<lparr> keys := ks \<rparr>) = ui_ok s" "ui_ok (s\<lparr> lastTime := t \<rparr>) = ui_ok s"
  "ui_ok (keyup code s) = ui_ok s"
  by (simp_all add: ui_ok_def)

lemma ui_ok_cong: "STATE s' = STATE s \<Longrightarrow> ui s' = ui s \<Longrightarrow> ui_ok s' = ui_ok s"
  by (simp add: ui_ok_def phase_of_def)

lemma togglePause_ui_ok: "state_ok (STATE s) \<Longrightarrow> ui_ok s \<Longrightarrow> ui_ok (togglePause s)"
  by (auto simp: ui_ok_def phase_of_def togglePause_def state_ok_def Let_def)

lemma restart_ui_ok:
  assumes "restart s = Some s'" "\<not> pause_visible (ui s)"
  shows "ui_ok s'"
  using assms restart_overlays [OF assms(1)] by (simp add: ui_ok_def phase_of_restart)

lemma btnPlay_ui_ok:
  assumes "btnPlay s = Some s'" "\<not> pause_visible (ui s)" "\<not> gameover_visible (ui s)"
  shows "ui_ok s'"
  using assms by (auto simp: btnPlay_eq ui_ok_def reset_frame)

lemma loop_ui_ok:
  assumes "loop now s = Some s'" "state_ok (STATE s)" "ui_ok s"
  shows "ui_ok s'"
  using assms(1)
proof (cases rule: loop_cases)
  case skip
  from ui_ok_cong [OF render_frame(1,3) [OF skip(2)]] assms(3) show ?thesis
    by simp
next
  case (tick u)
  from tick(3) obtain s1 s3 sh s4 s5 where t: "tick_phases (s\<lparr> lastTime := now \<rparr>) s1 s3 sh s4 s5 u"
    by (rule update_cases)
  from tick(1,2) assms(2) have "\<not> over (STATE s)"
    by (simp add: state_ok_def)
  with tick_phases_flags [OF t] tick_phases_frame(3,5,6) [OF t] assms(3) tick(1,2)
  have "ui_ok u"
    by (auto simp: ui_ok_def phase_of_def)
  with ui_ok_cong [OF render_frame(1,3) [OF tick(4)]] show ?thesis
    by simp
qed

section \<open>The program implements the state machine\<close>

lemma keydown_refines:
  assumes "keydown code s = Some s'" "state_ok (STATE s)"
  shows "phase_of s' = phase_after (phase_of s) (KeyDown code)"
proof -
  let ?s = "s\<lparr> keys := insert code (keys s) \<rparr>"
  from assms(2) have ok: "state_ok (STATE ?s)" by simp
  consider "code = ''Space''" | "code = ''Enter''" "over (STATE s)"
    | "code = ''Enter''" "\<not> over (STATE s)" | "code \<noteq> ''Space''" "code \<noteq> ''Enter''"
    by blast
  then show ?thesis
  proof cases
    case 1
    with assms(1) phase_of_togglePause [OF ok] show ?thesis
      by (auto simp: keydown_Space phase_defs
          split: phase.splits)
  next
    case 2
    with assms(2) have "phase_of s = GameOver"
      by (simp add: phase_of_iff)
    with 2 assms(1) show ?thesis
      by (simp add: keydown_Enter phase_of_restart phase_after_def moves_def is_restart_def)
  next
    case 3
    with assms show ?thesis
      by (auto simp: keydown_Enter phase_of_iff phase_defs)
  next
    case 4
    with assms(1) show ?thesis
      by (auto simp: keydown_other phase_defs)
  qed
qed

lemma keydown_ui_ok:
  assumes "keydown code s = Some s'" "state_ok (STATE s)" "ui_ok s"
  shows "ui_ok s'"
proof -
  let ?s = "s\<lparr> keys := insert code (keys s) \<rparr>"
  from assms(2,3) have ok: "state_ok (STATE ?s)" "ui_ok ?s" by simp_all
  consider "code = ''Space''" | "code = ''Enter''" "over (STATE s)"
    | "code = ''Enter''" "\<not> over (STATE s)" | "code \<noteq> ''Space''" "code \<noteq> ''Enter''"
    by blast
  then show ?thesis
  proof cases
    case 1
    with assms(1) togglePause_ui_ok [OF ok] show ?thesis
      by (simp add: keydown_Space)
  next
    case 2
    with assms(2) have "phase_of s = GameOver"
      by (simp add: phase_of_iff)
    with ui_okD(2) [OF assms(3)] have "\<not> pause_visible (ui ?s)"
      by simp
    with 2 assms(1) show ?thesis
      by (auto simp: keydown_Enter intro: restart_ui_ok)
  next
    case 3
    with assms(1) ok(2) show ?thesis by (auto simp: keydown_Enter)
  next
    case 4
    with assms(1) ok(2) show ?thesis by (auto simp: keydown_other)
  qed
qed

lemma step_refines:
  assumes "step e s = Some s'" "state_ok (STATE s)" "ui_ok s" "enabled e s"
  shows "phase_step (phase_of s) e (phase_of s')"
proof (cases e)
  case (KeyDown code)
  with assms keydown_refines [of code s s'] show ?thesis
    by (simp add: phase_step_iff)
next
  case (KeyUp code)
  with assms(1) show ?thesis
    by (auto simp: phase_step_iff phase_defs)
next
  case ClickPlay
  with assms have "phase_of s = Menu" "phase_of s' = Running"
    by (simp_all add: enabled_def ui_okD phase_of_btnPlay)
  with ClickPlay show ?thesis
    by (simp add: phase_step.play)
next
  case ClickResume
  with assms have "phase_of s = Paused" "phase_of s' = Running"
    by (auto simp: enabled_def ui_okD btnResume_def phase_of_togglePause)
  with ClickResume show ?thesis
    by (simp add: phase_step.resume is_toggle_def)
next
  case ClickRestart
  with assms have "phase_of s = GameOver" "phase_of s' = Running"
    by (simp_all add: enabled_def ui_okD btnRestart_def phase_of_restart)
  with ClickRestart show ?thesis
    by (simp add: phase_step.again is_restart_def)
next
  case (MouseMove mx my rect)
  with assms(1) phase_of_mousemove [of mx my rect s s'] show ?thesis
    by (auto simp: phase_step_iff phase_defs)
next
  case (Resize reading)
  with assms(1) show ?thesis
    by (auto simp: phase_step_iff phase_defs)
next
  case (Frame now)
  with assms phase_of_loop [of now s s'] show ?thesis
    by (auto simp: phase_step_iff phase_defs)
qed

lemma step_ui_ok:
  assumes "step e s = Some s'" "state_ok (STATE s)" "ui_ok s" "enabled e s"
  shows "ui_ok s'"
proof (cases e)
  case (KeyDown code)
  with assms keydown_ui_ok [of code s s'] show ?thesis by simp
next
  case (KeyUp code)
  with assms show ?thesis by auto
next
  case ClickPlay
  with assms have "phase_of s = Menu"
    by (simp add: enabled_def ui_okD)
  with ClickPlay assms(1) ui_okD(2,3) [OF assms(3)] show ?thesis
    by (auto intro: btnPlay_ui_ok)
next
  case ClickResume
  with assms show ?thesis
    by (auto simp: btnResume_def togglePause_ui_ok)
next
  case ClickRestart
  with assms have "phase_of s = GameOver"
    by (simp add: enabled_def ui_okD)
  with ClickRestart assms(1) ui_okD(2) [OF assms(3)] show ?thesis
    by (auto simp: btnRestart_def intro: restart_ui_ok)
next
  case (MouseMove mx my rect)
  with assms(1) have m: "mousemove mx my rect s = Some s'" by simp
  from ui_ok_cong [OF mousemove_frame(1,3) [OF m]] assms(3) show ?thesis
    by simp
next
  case (Resize reading)
  with assms(1,3) ui_ok_cong [of "resizeCanvas reading s" s] show ?thesis
    by auto
next
  case (Frame now)
  with assms show ?thesis by (auto intro: loop_ui_ok)
qed

section \<open>Played states\<close>

lemma played_reachable: "played s \<Longrightarrow> reachable s"
  by (induction rule: played.induct) (auto intro: reachable.intros)

lemma played_ok: "played s \<Longrightarrow> game_ok s"
  by (rule reachable_ok, rule played_reachable)

lemma boot_ui_ok:
  assumes "boot page cv reading g c = Some s" "page_ok page"
  shows "ui_ok s"
  using assms boot_state [OF assms(1)]
  by (simp add: ui_ok_def page_ok_def phase_of_def STATE_init_def)

lemma played_ui_ok: "played s \<Longrightarrow> ui_ok s"
proof (induction rule: played.induct)
  case (boot g page cv reading c s)
  then show ?case by (simp add: boot_ui_ok)
next
  case (step s e s')
  from step.hyps(3) game_okD(1) [OF played_ok [OF step.hyps(1)]] step.IH step.hyps(2) show ?case
    by (rule step_ui_ok)
qed

lemma played_refines:
  assumes "played s" "enabled e s" "step e s = Some s'"
  shows "phase_step (phase_of s) e (phase_of s')"
  using assms(3) game_okD(1) [OF played_ok [OF assms(1)]] played_ui_ok [OF assms(1)] assms(2)
  by (rule step_refines)

lemma played_continues: "played s \<Longrightarrow> enabled e s \<Longrightarrow> \<exists>s'. step e s = Some s' \<and> played s'"
  using step_runs [OF played_ok enabled_deliverable, of s e s] by (auto intro: played.step)

section \<open>Runs\<close>

inductive_cases phase_path_NilE [elim!]: "phase_path p [] p'"
inductive_cases phase_path_ConsE [elim!]: "phase_path p (e # es) p'"

lemma phase_path_append:
  "phase_path p es p' \<Longrightarrow> phase_path p' es' p'' \<Longrightarrow> phase_path p (es @ es') p''"
  by (induction rule: phase_path.induct) (auto intro: phase_path.intros)

lemma phase_path_total: "\<exists>p'. phase_path p es p'"
proof (induction es arbitrary: p)
  case Nil
  show ?case by (auto intro: phase_path.stay)
next
  case (Cons e es)
  from phase_step_total obtain q where "phase_step p e q" by blast
  with Cons [of q] show ?case by (auto intro: phase_path.move)
qed

text \<open>A path ends in game over only if the machine started there or a frame
  happened.\<close>

lemma phase_step_GameOver_frame:
  "phase_step p e GameOver \<Longrightarrow> p = GameOver \<or> (\<exists>now. e = Frame now)"
  by (cases p) (auto simp: phase_step_iff phase_defs split: if_splits)

lemma phase_path_GameOver_frame:
  "phase_path p es p' \<Longrightarrow> p' = GameOver \<Longrightarrow> p = GameOver \<or> (\<exists>now. Frame now \<in> set es)"
proof (induction rule: phase_path.induct)
  case (stay p)
  then show ?case by simp
next
  case (move p e p' es p'')
  then have "p' = GameOver \<or> (\<exists>now. Frame now \<in> set es)"
    by simp
  with phase_step_GameOver_frame [of p e] move.hyps(1) show ?case
    by auto
qed

text \<open>A run of allowed events from a well-formed state whose overlays follow
  the phase is a path of the machine, and ends in such a state.\<close>

lemma run_refines:
  assumes "game_ok s" "ui_ok s" "allowed es s" "run es s = Some s'"
  shows "phase_path (phase_of s) es (phase_of s') \<and> game_ok s' \<and> ui_ok s'"
  using assms
proof (induction es arbitrary: s)
  case Nil
  then show ?case by (auto intro: phase_path.stay)
next
  case (Cons e es)
  from Cons.prems(3,4) obtain u where u: "step e s = Some u" "enabled e s" "allowed es u"
    "run es u = Some s'"
    by (cases "step e s") simp_all
  note ok = game_okD(1) [OF Cons.prems(1)]
  from step_refines [OF u(1) ok Cons.prems(2) u(2)]
    Cons.IH [OF step_ok [OF u(1) Cons.prems(1)] step_ui_ok [OF u(1) ok Cons.prems(2) u(2)] u(3,4)]
  show ?case
    by (auto intro: phase_path.move)
qed

lemma allowed_runs:
  assumes "game_ok s" "allowed es s"
  shows "\<exists>s'. run es s = Some s'"
  using assms
proof (induction es arbitrary: s)
  case Nil
  then show ?case by simp
next
  case (Cons e es)
  from Cons.prems(2) have "deliverable e"
    by (auto intro: enabled_deliverable)
  from step_runs [OF Cons.prems(1) this] obtain u where u: "step e s = Some u" "game_ok u"
    by blast
  with Cons.prems(2) have "allowed es u" by simp
  with Cons.IH [OF u(2)] u(1) show ?case
    by simp
qed

lemma played_run:
  "played s \<Longrightarrow> allowed es s \<Longrightarrow> run es s = Some s' \<Longrightarrow> played s'"
proof (induction es arbitrary: s)
  case (Cons e es)
  from Cons.prems(2,3) obtain u where u: "step e s = Some u" "enabled e s" "allowed es u"
    "run es u = Some s'"
    by (cases "step e s") simp_all
  from played.step [OF Cons.prems(1) u(2,1)] u(3,4) show ?case
    by (rule Cons.IH)
qed simp

text \<open>Frames of a paused or stopped game: the state of the game stays, the
  time of the last frame is recorded, and every frame takes ten draws for
  every asteroid it draws.\<close>

lemma frames_paused:
  assumes "paused (STATE s) \<or> \<not> running (STATE s)" "entities_ok (entities s)"
  shows "\<exists>s'. run (map Frame nows) s = Some s' \<and>
    STATE s' = STATE s \<and> entities s' = entities s \<and> ui s' = ui s \<and> keys s' = keys s \<and>
    mouse s' = mouse s \<and> clock s' = clock s \<and> lastTime s' = last (lastTime s # nows) \<and>
    rnd s' = sdrop (10 * length (asteroids (entities s)) * length nows) (rnd s)"
  using assms
proof (induction nows arbitrary: s)
  case Nil
  then show ?case by simp
next
  case (Cons now nows)
  let ?u = "painted (s\<lparr> lastTime := now \<rparr>)"
  let ?n = "10 * length (asteroids (entities s))"
  from Cons.prems have u: "loop now s = Some ?u"
    by (rule loop_skip_painted)
  from Cons.prems(2) have r: "rnd ?u = sdrop ?n (rnd s)"
    by (simp add: painted_rnd)
  from Cons.prems Cons.IH [of ?u] obtain s' where s': "run (map Frame nows) ?u = Some s'"
    "STATE s' = STATE s" "entities s' = entities s" "ui s' = ui s" "keys s' = keys s"
    "mouse s' = mouse s" "clock s' = clock s" "lastTime s' = last (now # nows)"
    "rnd s' = sdrop (?n * length nows) (rnd ?u)"
    by auto
  have "sdrop (?n * length nows) (sdrop ?n (rnd s)) = sdrop (?n * length (now # nows)) (rnd s)"
    by (simp add: sdrop_add)
  with u s' r show ?case
    by simp
qed

section \<open>Round trips\<close>

lemma togglePause_keys: "togglePause (s\<lparr> keys := ks \<rparr>) = (togglePause s)\<lparr> keys := ks \<rparr>"
  by (simp add: togglePause_def Let_def)

lemma press_release_Space:
  assumes "''Space'' \<notin> keys s"
  shows "run [KeyDown ''Space'', KeyUp ''Space''] s = Some (togglePause s)"
proof -
  from assms have "insert ''Space'' (keys s) - {''Space''} = keys (togglePause s)"
    by auto
  then show ?thesis
    by (simp add: keydown_Space keyup_def togglePause_keys)
qed

lemma press_release_key:
  assumes "code \<notin> keys s" "code \<noteq> ''Space''" "code \<noteq> ''Enter''"
  shows "run [KeyDown code, KeyUp code] s = Some s"
proof -
  from assms(1) have "insert code (keys s) - {code} = keys s"
    by auto
  with assms(2,3) show ?thesis
    by (simp add: keydown_other keyup_def)
qed

lemma pause_resume_Space:
  assumes "state_ok (STATE s)" "ui_ok s" "''Space'' \<notin> keys s"
  shows "run [KeyDown ''Space'', KeyUp ''Space'', KeyDown ''Space'', KeyUp ''Space''] s = Some s"
proof -
  from assms(1,2) have "pause_visible (ui s) = paused (STATE s)"
    by (simp add: ui_okD phase_of_iff)
  then have twice: "togglePause (togglePause s) = s"
    by (rule togglePause_twice)
  have "run ([KeyDown ''Space'', KeyUp ''Space''] @ [KeyDown ''Space'', KeyUp ''Space'']) s =
      run [KeyDown ''Space'', KeyUp ''Space''] (togglePause s)"
    unfolding run_append using press_release_Space [OF assms(3)] by simp
  also have "\<dots> = Some (togglePause (togglePause s))"
    using assms(3) by (intro press_release_Space) simp
  finally show ?thesis
    by (simp add: twice)
qed

section \<open>Frames of an invulnerable ship\<close>

text \<open>As many frames as the ship has invulnerability frames left, less one,
  pass without the loss of a life; the counter falls by one a frame.\<close>

lemma frames_shielded:
  assumes "game_ok s" "running (STATE s)" "\<not> paused (STATE s)"
    "ship (entities s) = Some sh0" "int (length nows) < ship_inv sh0"
  shows "\<exists>s' sh. run (map Frame nows) s = Some s' \<and> game_ok s' \<and> running (STATE s') \<and>
    \<not> paused (STATE s') \<and> lives (STATE s') = lives (STATE s) \<and>
    ship (entities s') = Some sh \<and> ship_inv sh = ship_inv sh0 - int (length nows)"
  using assms
proof (induction nows arbitrary: s sh0)
  case Nil
  then show ?case by simp
next
  case (Cons now nows)
  from Cons.prems(5) have "2 \<le> ship_inv sh0" by simp
  from loop_shielded [OF Cons.prems(1-4) this, of now] obtain u sh
    where u: "loop now s = Some u" "game_ok u" "running (STATE u)" "\<not> paused (STATE u)"
      "lives (STATE u) = lives (STATE s)" "ship (entities u) = Some sh"
      "ship_inv sh = ship_inv sh0 - 1"
    by blast
  from Cons.prems(5) u(7) have "int (length nows) < ship_inv sh" by simp
  from Cons.IH [OF u(2-4,6) this] u(1,5,7) show ?case
    by auto
qed

section \<open>The pointer and the canvas\<close>

lemma keydown_device [device]:
  assumes "keydown code s = Some s'"
  shows "mouse s' = mouse s" "canvas s' = canvas s"
  using assms by (auto simp: keydown_def Let_def restart_device split: if_splits)

lemma keyup_device [simp, device]: "mouse (keyup code s) = mouse s" "canvas (keyup code s) = canvas s"
  by (simp_all add: keyup_def)

lemma btnPlay_device [device]:
  assumes "btnPlay s = Some s'"
  shows "mouse s' = mouse s" "canvas s' = canvas s"
  using assms by (auto simp: btnPlay_def bind_eq_Some_conv reset_device)

lemma loop_resized:
  "loop now s = Some s' \<Longrightarrow> resized reading (canvas s') = resized reading (canvas s)"
  by (auto elim!: loop_cases simp: render_resized dest: update_device)

text \<open>Only a resize changes the size and the scale of the canvas, and only a
  move of the mouse changes the pointer.\<close>

lemma step_resized:
  assumes "step e s = Some s'"
  shows "resized reading (canvas s') =
    (case e of Resize r \<Rightarrow> resized reading (canvas (resizeCanvas r s)) | _ \<Rightarrow> resized reading (canvas s))"
  using assms
  by (cases e)
     (auto simp: keydown_device btnPlay_device btnResume_def btnRestart_def restart_device
        mousemove_frame loop_resized)

lemma step_pointer:
  assumes "step e s = Some s'" "\<And>mx my rect. e \<noteq> MouseMove mx my rect"
  shows "mouse s' = mouse s"
  using assms
  by (cases e)
     (auto simp: keydown_device btnPlay_device btnResume_def btnRestart_def restart_device
        loop_device)

lemma boot_resized: "boot page cv reading g c = Some s \<Longrightarrow> resized reading (canvas s)"
  by (erule boot_cases) (simp add: reset_device)

text \<open>In every reachable state the canvas is as a resize left it: the one
  of the boot or a later one.\<close>

lemma reachable_resized: "reachable s \<Longrightarrow> \<exists>reading. resized reading (canvas s)"
proof (induction rule: reachable.induct)
  case (boot g page cv reading c s)
  then show ?case by (blast dest: boot_resized)
next
  case (step s e s')
  then obtain r where "resized r (canvas s)" by blast
  with step_resized [OF step.hyps(2)] show ?case
    by (cases e) (auto intro: resizeCanvas_resized)
qed

section \<open>Crystals in reachable states\<close>

text \<open>Every handler keeps the crystals on their tracks: a reset empties the
  list, a frame updates, adds and removes crystals, and the other handlers
  leave the entities as they are.\<close>

lemma keydown_on_track:
  assumes "keydown code s = Some s'" "list_all crystal_on_track (crystals (entities s))"
  shows "list_all crystal_on_track (crystals (entities s'))"
  using assms by (auto simp: keydown_def Let_def restart_crystals split: if_splits)

lemma btnPlay_crystals: "btnPlay s = Some s' \<Longrightarrow> crystals (entities s') = []"
  by (auto simp: btnPlay_eq reset_entities)

lemma step_on_track:
  assumes "step e s = Some s'" "game_ok s" "list_all crystal_on_track (crystals (entities s))"
  shows "list_all crystal_on_track (crystals (entities s'))"
proof (cases e)
  case (KeyDown code)
  with assms(1,3) show ?thesis by (simp add: keydown_on_track)
next
  case (Frame now)
  with assms show ?thesis by (simp add: loop_on_track)
next
  case (MouseMove mx my rect)
  with assms(1,3) show ?thesis by (simp add: mousemove_frame)
qed (use assms(1,3) in \<open>auto simp: btnPlay_crystals btnResume_def btnRestart_def restart_crystals\<close>)

lemma boot_crystals: "boot page cv reading g c = Some s \<Longrightarrow> crystals (entities s) = []"
  by (erule boot_cases) (simp add: reset_entities)

lemma reachable_on_track: "reachable s \<Longrightarrow> list_all crystal_on_track (crystals (entities s))"
proof (induction rule: reachable.induct)
  case (boot g page cv reading c s)
  then show ?case by (simp add: boot_crystals)
next
  case (step s e s')
  from step.hyps(2) reachable_ok [OF step.hyps(1)] step.IH show ?case
    by (rule step_on_track)
qed

end
