(* ===== verification/Examples.thy ===== *)
theory Examples
  imports Machine
begin

text \<open>
  Concrete states of the game, and the handlers evaluated on them by the
  simplifier: every draw is one half and the clock stands still, at 0 or at
  five seconds, so the states after a boot, a tick, a hit, the making of a
  crystal and the end of a game can be written down. The closed instances of the properties in \<open>Spec2Isabelle\<close> are
  stated on these states.
\<close>

section \<open>Example states\<close>

text \<open>
  A page as loaded, the asteroid that \<^verbatim>\<open>spawnAsteroid(true)\<close> makes at level 1 when every draw is
  one half, the state after boot with these draws and a clock that stands at
  0, and the state one tick after the play button.
\<close>

definition demo_page :: game_ui where
  "demo_page = \<lparr> hudScore = 0, hudLevel = 0, hudLives = [], menu_visible = False,
                  pause_visible = False, gameover_visible = False, finalScore = 0 \<rparr>"

text \<open>The canvas element as the page has it before the script runs (the
  default bitmap of 300 by 150), and as \<^verbatim>\<open>resizeCanvas\<close> leaves it on a
  display with pixel ratio 1.\<close>

definition demo_blank :: game_canvas where
  "demo_blank = \<lparr> cv_width = 300, cv_height = 150, css_width = 300, css_height = 150,
                   cv_transform = (1, 0, 0, 1, 0, 0), ctx_calls = [] \<rparr>"

definition demo_canvas :: game_canvas where
  "demo_canvas = \<lparr> cv_width = 800, cv_height = 600, css_width = 800, css_height = 600,
                    cv_transform = (1, 0, 0, 1, 0, 0), ctx_calls = [] \<rparr>"

definition demo_rock :: Asteroid where
  "demo_rock = \<lparr> ast_x = 400, ast_y = - 65, ast_vx = 0, ast_vy = 8 / 5, ast_size = 45, wave = False,
      phase = pi, hp = 2, ast_rot = pi, ast_spin = 0, hue = Some 40, light = Some 35 \<rparr>"

definition demo_menu :: game where
  "demo_menu =
    \<lparr> STATE = STATE_init,
      entities = \<lparr> ship = Some (new_Ship 400 450), asteroids = [demo_rock, demo_rock, demo_rock],
                   crystals = [], particles = [] \<rparr>,
      ui = \<lparr> hudScore = 0, hudLevel = 1, hudLives = [True, True, True], menu_visible = True,
             pause_visible = False, gameover_visible = False, finalScore = 0 \<rparr>,
      keys = {}, mouse = \<lparr> ptr_x = 400, ptr_y = 300 \<rparr>, canvas = demo_canvas,
      lastTime = 0, rnd = sconst (1 / 2), clock = sconst 0 \<rparr>"

definition demo_ticked :: game where
  "demo_ticked =
    \<lparr> STATE = STATE_init\<lparr> running := True, tick := 1 \<rparr>,
      entities = \<lparr> ship = Some (new_Ship 400 450),
                   asteroids = [demo_rock\<lparr> ast_y := - 317 / 5 \<rparr>, demo_rock\<lparr> ast_y := - 317 / 5 \<rparr>,
                                demo_rock\<lparr> ast_y := - 317 / 5 \<rparr>],
                   crystals = [], particles = [] \<rparr>,
      ui = \<lparr> hudScore = 0, hudLevel = 1, hudLives = [True, True, True], menu_visible = False,
             pause_visible = False, gameover_visible = False, finalScore = 0 \<rparr>,
      keys = {}, mouse = \<lparr> ptr_x = 400, ptr_y = 300 \<rparr>, canvas = demo_canvas,
      lastTime = 0, rnd = sconst (1 / 2), clock = sconst 0 \<rparr>"

definition demo_gem :: Crystal where
  "demo_gem = \<lparr> cry_x = 400, cry_y = 450,
      cry_type = Some \<lparr> ct_color = ''blue'', ct_points = 10, ct_size = 15 \<rparr>,
      cry_t = 0, cry_spin = 0, cry_rot = pi \<rparr>"

definition demo_far :: Crystal where
  "demo_far = \<lparr> cry_x = 100, cry_y = 100,
      cry_type = Some \<lparr> ct_color = ''purple'', ct_points = 20, ct_size = 18 \<rparr>,
      cry_t = 0, cry_spin = 0, cry_rot = pi \<rparr>"

text \<open>A running game in which an asteroid and a ten-point crystal lie on the
  ship, and a second crystal far from it.\<close>

definition demo_clash :: game where
  "demo_clash =
    \<lparr> STATE = STATE_init\<lparr> running := True \<rparr>,
      entities = \<lparr> ship = Some (new_Ship 400 450), asteroids = [demo_rock\<lparr> ast_y := 430 \<rparr>],
                   crystals = [demo_far, demo_gem], particles = [] \<rparr>,
      ui = \<lparr> hudScore = 0, hudLevel = 1, hudLives = [True, True, True], menu_visible = False,
             pause_visible = False, gameover_visible = False, finalScore = 0 \<rparr>,
      keys = {}, mouse = \<lparr> ptr_x = 400, ptr_y = 300 \<rparr>, canvas = demo_canvas,
      lastTime = 0, rnd = sconst (1 / 2), clock = sconst 0 \<rparr>"

text \<open>The particle a burst makes when every draw is one half, and the state
  one tick after \<open>demo_clash\<close>.\<close>

definition demo_spark :: "real \<Rightarrow> real \<Rightarrow> string \<Rightarrow> real \<Rightarrow> real \<Rightarrow> Particle" where
  "demo_spark px py col plife pspeed =
    \<lparr> par_x = px, par_y = py, par_life = plife, par_t = 0, par_color = col,
      par_vx = - pspeed, par_vy = 0, par_size = 2 \<rparr>"

definition demo_after :: game where
  "demo_after =
    \<lparr> STATE = STATE_init\<lparr> running := True, tick := 1, lives := 2, score := 10 \<rparr>,
      entities = \<lparr> ship = Some ((new_Ship 400 450)\<lparr> ship_inv := 120 \<rparr>),
                   asteroids = [demo_rock\<lparr> ast_y := 2158 / 5 \<rparr>, demo_rock],
                   crystals = [Crystal_update demo_far],
                   particles = replicate 30 (demo_spark 400 450 ''#ff5f7a'' 38 (5 / 2)) @
                               replicate 18 (demo_spark 400 (450 + sin (1 / 40) * 0.2) ''#aaf8ff'' 24 (33 / 20)) \<rparr>,
      ui = \<lparr> hudScore = 10, hudLevel = 1, hudLives = [True, True, False], menu_visible = False,
             pause_visible = False, gameover_visible = False, finalScore = 0 \<rparr>,
      keys = {}, mouse = \<lparr> ptr_x = 400, ptr_y = 300 \<rparr>, canvas = demo_canvas,
      lastTime = 0, rnd = sconst (1 / 2), clock = sconst 0 \<rparr>"

text \<open>The scenario with one life left, and the state one tick later.\<close>

definition demo_last :: game where
  "demo_last = updateHUD (demo_clash\<lparr> STATE := (STATE demo_clash)\<lparr> lives := 1 \<rparr> \<rparr>)"

definition demo_over :: game where
  "demo_over =
    \<lparr> STATE = STATE_init\<lparr> over := True, tick := 1, lives := 0, score := 10 \<rparr>,
      entities = \<lparr> ship = Some (new_Ship 400 450),
                   asteroids = [demo_rock\<lparr> ast_y := 2158 / 5 \<rparr>, demo_rock],
                   crystals = [Crystal_update demo_far],
                   particles = replicate 30 (demo_spark 400 450 ''#ff5f7a'' 38 (5 / 2)) @
                               replicate 18 (demo_spark 400 (450 + sin (1 / 40) * 0.2) ''#aaf8ff'' 24 (33 / 20)) \<rparr>,
      ui = \<lparr> hudScore = 10, hudLevel = 1, hudLives = [False, False, False], menu_visible = False,
             pause_visible = False, gameover_visible = True, finalScore = 0 \<rparr>,
      keys = {}, mouse = \<lparr> ptr_x = 400, ptr_y = 300 \<rparr>, canvas = demo_canvas,
      lastTime = 0, rnd = sconst (1 / 2), clock = sconst 0 \<rparr>"

text \<open>A drawing state of the context, and the rectangle of a canvas shown at
  its CSS size in the corner of the window.\<close>

definition demo_ctx :: ctx_state where
  "demo_ctx = \<lparr> st_transform = (1, 0, 0, 1, 0, 0), st_alpha = 1, st_fill = Colour ''#000'',
                 st_stroke = ''#000'', st_line_width = 1, st_shadow_color = ''rgba(0,0,0,0)'',
                 st_shadow_blur = 0, st_font = ''10px sans-serif'', st_align = ''start'' \<rparr>"

definition demo_rect :: client_rect where
  "demo_rect = \<lparr> rect_left = 0, rect_top = 0, rect_width = 800, rect_height = 600 \<rparr>"

text \<open>The scenario with the key \<^verbatim>\<open>D\<close> held.\<close>

definition demo_dodge :: game where
  "demo_dodge = demo_clash\<lparr> keys := {''KeyD''} \<rparr>"

text \<open>The state after a boot five seconds after the page was opened, the
  crystal \<^verbatim>\<open>spawnCrystal\<close> makes when every draw is one half, and the
  state after the first tick of the first game.\<close>

definition demo_late :: game where
  "demo_late = demo_menu\<lparr> lastTime := 5000, clock := sconst 5000 \<rparr>"

definition demo_new :: Crystal where
  "demo_new = \<lparr> cry_x = 400, cry_y = 280,
      cry_type = Some \<lparr> ct_color = ''purple'', ct_points = 20, ct_size = 18 \<rparr>,
      cry_t = 0, cry_spin = 0, cry_rot = pi \<rparr>"

definition demo_gemmed :: game where
  "demo_gemmed =
    demo_ticked\<lparr> STATE := STATE_init\<lparr> running := True, tick := 1, lastCrystalMs := 5000 \<rparr>,
                 entities := (entities demo_ticked)\<lparr> crystals := [Crystal_update demo_new] \<rparr>,
                 lastTime := 5016, clock := sconst 5000 \<rparr>"

lemma demo_rock_fields [simp]:
  "ast_x demo_rock = 400" "ast_y demo_rock = - 65" "ast_size demo_rock = 45"
  by (simp_all add: demo_rock_def)

lemma make_asteroid_example:
  "make_asteroid True 1 (sconst (1 / 2)) = (Some demo_rock, sconst (1 / 2))"
  by (simp add: make_asteroid_def choice_def rand_def Math_random_def offscreen_position_def
      new_Asteroid_def asteroidTypes_CONFIG Math_atan2_def Let_def demo_rock_def)

lemma spawnAsteroid_example:
  "level (STATE s) = 1 \<Longrightarrow> rnd s = sconst (1 / 2) \<Longrightarrow>
   spawnAsteroid True s =
     Some (s\<lparr> entities := (entities s)\<lparr> asteroids := asteroids (entities s) @ [demo_rock] \<rparr>,
             rnd := sconst (1 / 2) \<rparr>)"
  by (simp add: spawnAsteroid_def make_asteroid_example)

lemma resizeCanvas_example:
  "canvas s = demo_blank \<Longrightarrow> resizeCanvas (Some 1) s = s\<lparr> canvas := demo_canvas \<rparr>"
  by (simp add: resizeCanvas_def canvas_dimension_def demo_blank_def demo_canvas_def)

lemma boot_example: "boot demo_page demo_blank (Some 1) (sconst (1 / 2)) (sconst 0) = Some demo_menu"
  by (simp add: boot_eq resizeCanvas_example globals_init_def reset_def spawnAsteroid_example
      numeral_3_eq_3 STATE_init_def entities_init_def updateHUD_def demo_page_def demo_menu_def
      upt_rec)

lemma Asteroid_update_example: "Asteroid_update 1 demo_rock = demo_rock\<lparr> ast_y := - 317 / 5 \<rparr>"
  by (simp add: Asteroid_update_def demo_rock_def Let_def)

lemma update_example: "update 16 (start demo_menu) = Some demo_ticked"
  by (simp add: update_def ramp_difficulty_idle crystal_timer_idle update_entities_eq
      demo_menu_def start_def STATE_init_def Asteroid_update_example Ship_update_idle
      new_Ship_in_field collide_asteroids_eq hit_unfold Asteroid_bounds_def maintain_asteroids_def
      demo_ticked_def Let_def power2_eq_square)

lemma unit_draws_half: "unit_draws (sconst (1 / 2))"
  by (simp add: unit_draws_sconst)

lemma played_demo_menu: "played demo_menu"
  by (rule played.boot [OF unit_draws_half _ boot_example]) (simp add: page_ok_def demo_page_def)

lemma reachable_demo_menu: "reachable demo_menu"
  by (rule played_reachable [OF played_demo_menu])

lemma demo_menu_fields [simp]:
  "STATE demo_menu = STATE_init" "rnd demo_menu = sconst (1 / 2)" "keys demo_menu = {}"
  "menu_visible (ui demo_menu)" "\<not> pause_visible (ui demo_menu)"
  "\<not> gameover_visible (ui demo_menu)" "phase_of demo_menu = Menu"
  "ship (entities demo_menu) = Some (new_Ship 400 450)"
  by (simp_all add: demo_menu_def phase_of_def STATE_init_def)

lemma game_ok_demo_running: "game_ok (start demo_menu)"
  by (rule start_ok [OF reachable_ok [OF reachable_demo_menu]]) (simp add: STATE_init_def)

lemma demo_gems_ok: "crystal_ok demo_gem" "crystal_ok demo_far"
  by (simp_all add: crystal_ok_def demo_gem_def demo_far_def crystalTypes_CONFIG)

lemma demo_gems_touching:
  "touching (Ship_bounds (new_Ship 400 450)) demo_gem"
  "\<not> touching (Ship_bounds (new_Ship 400 450)) demo_far"
  by (simp_all add: touching_def Crystal_bounds_def demo_gem_def demo_far_def hit_unfold
      power2_eq_square)

lemma demo_gems_points [simp]: "crystal_points demo_gem = 10" "crystal_points demo_far = 20"
  by (simp_all add: crystal_points_def demo_gem_def demo_far_def)

lemma demo_clash_fields [simp]:
  "STATE demo_clash = STATE_init\<lparr> running := True \<rparr>" "rnd demo_clash = sconst (1 / 2)"
  "ship (entities demo_clash) = Some (new_Ship 400 450)"
  "crystals (entities demo_clash) = [demo_far, demo_gem]"
  "asteroids (entities demo_clash) = [demo_rock\<lparr> ast_y := 430 \<rparr>]"
  "particles (entities demo_clash) = []" "keys demo_clash = {}" "clock demo_clash = sconst 0"
  by (simp_all add: demo_clash_def)

lemma game_ok_demo_clash: "game_ok demo_clash"
  by (intro game_okI entities_okI [of _ "new_Ship 400 450"])
     (simp_all add: state_ok_def STATE_init_def new_Ship_ok demo_gems_ok unit_draws_half
        asteroid_ok_def asteroid_in_band_def particle_fresh_def,
      simp add: hud_synced_def demo_clash_def STATE_init_def upt_rec)

lemma burst_sconst:
  "burst n px py col lifeR speedR (sconst u) =
     (replicate n (fst (burst_particle px py col lifeR speedR (sconst u))), sconst u)"
  by (induction n) (simp_all add: split_def)

lemma burst_particle_example:
  "fst (burst_particle px py col (lo, hi) (slo, shi) (sconst (1 / 2))) =
     demo_spark px py col ((lo + hi) / 2) ((slo + shi) / 2)"
  by (simp add: burst_particle_eq new_Particle_def rand_def Math_random_def demo_spark_def
      field_simps)

lemma demo_gem_fields [simp]:
  "cry_type demo_gem = Some \<lparr> ct_color = ''blue'', ct_points = 10, ct_size = 15 \<rparr>"
  "cry_x demo_gem = 400" "cry_y demo_gem = 450" "cry_t demo_gem = 0"
  by (simp_all add: demo_gem_def)

lemma Crystal_update_demo:
  "Crystal_bounds (Crystal_update demo_gem) = Some \<lparr> cx = 400, cy = 450 + sin (1 / 40) * 0.2, cr = 9.75 \<rparr>"
  "Crystal_bounds (Crystal_update demo_far) = Some \<lparr> cx = 100, cy = 100 + sin (1 / 40) * 0.2, cr = 11.7 \<rparr>"
  by (simp_all add: Crystal_update_def Crystal_bounds_def demo_gem_def demo_far_def Let_def)

lemma touching_updated_gem:
  "hit (Ship_bounds (new_Ship 400 450)) \<lparr> cx = 400, cy = 450 + sin (1 / 40) / 5, cr = 39 / 4 \<rparr>"
proof -
  have "\<bar>sin (1 / 40 :: real) / 5\<bar> \<le> 1 / 5"
    by simp
  then have "(sin (1 / 40 :: real) / 5)\<^sup>2 \<le> (1 / 5)\<^sup>2"
    unfolding abs_le_square_iff [symmetric] by simp
  then show ?thesis
    by (simp add: hit_unfold power2_eq_square)
qed

lemma not_touching_updated_far:
  "\<not> hit (Ship_bounds (new_Ship 400 450)) \<lparr> cx = 100, cy = 100 + sin (1 / 40) / 5, cr = 117 / 10 \<rparr>"
  by (rule far_apart_no_hit) simp_all

lemma Asteroid_update_clash:
  "Asteroid_update 1 (demo_rock\<lparr> ast_y := 430 \<rparr>) = demo_rock\<lparr> ast_y := 2158 / 5 \<rparr>"
  by (simp add: Asteroid_update_def demo_rock_def Let_def)

lemma hit_demo_rock:
  "hit (Ship_bounds (new_Ship 400 450)) (Asteroid_bounds (demo_rock\<lparr> ast_y := 2158 / 5 \<rparr>))"
  by (simp add: hit_unfold Asteroid_bounds_def power2_eq_square)

text \<open>The tick of the design's scenario, evaluated: the ship is hit once and
  respawns invulnerable, the crystal on it is collected, the far one stays,
  and the asteroid count is topped up by one.\<close>

lemma update_clash: "update 16 demo_clash = Some demo_after"
  by (simp add: update_def ramp_difficulty_idle crystal_timer_idle update_entities_eq
      demo_clash_def STATE_init_def Asteroid_update_clash Ship_update_idle
      new_Ship_in_field collide_asteroids_eq hit_demo_rock
      Ship_hit_respawn spawnExplosion_eq spawnSparkle_eq burst_sconst burst_particle_example
      numeral_2_eq_2 Crystal_update_demo touching_updated_gem
      not_touching_updated_far collect_crystal_def updateHUD_def upt_rec
      maintain_asteroids_def spawnAsteroid_example
      demo_after_def Let_def)

lemma update_last: "update 16 demo_last = Some demo_over"
  by (simp add: update_def ramp_difficulty_idle crystal_timer_idle update_entities_eq
      demo_last_def demo_clash_def STATE_init_def Asteroid_update_clash Ship_update_idle
      new_Ship_in_field collide_asteroids_eq hit_demo_rock
      Ship_hit_last_life spawnExplosion_eq spawnSparkle_eq burst_sconst burst_particle_example
      numeral_2_eq_2 Crystal_update_demo touching_updated_gem
      not_touching_updated_far collect_crystal_def updateHUD_def upt_rec
      maintain_asteroids_def spawnAsteroid_example gameOver_def
      demo_over_def Let_def)

lemma game_ok_demo_last: "game_ok demo_last"
  using game_okD(2,4) [OF game_ok_demo_clash]
  by (intro game_okI) (simp_all add: demo_last_def state_ok_def STATE_init_def)

lemma update_ignores_dt: "update dt s = update dt' s"
  by (simp add: update_def)

lemma game_ok_demo_over: "game_ok demo_over"
proof -
  have "running (STATE demo_last)" "\<not> paused (STATE demo_last)"
    by (simp_all add: demo_last_def STATE_init_def)
  with update_last game_ok_demo_last show ?thesis
    by (rule update_ok)
qed

lemma loop_demo_last: "loop 0 demo_last = Some (painted demo_over)"
proof -
  have flags: "\<not> paused (STATE demo_last)" "running (STATE demo_last)"
    by (simp_all add: demo_last_def STATE_init_def)
  have same: "demo_last\<lparr> lastTime := 0 \<rparr> = demo_last"
    by (simp add: demo_last_def demo_clash_def updateHUD_def)
  from flags show ?thesis
    by (rule loop_tick_painted [where dt = 16])
      (simp_all add: same update_last game_okD(2) [OF game_ok_demo_over])
qed

lemma ui_ok_demo_last: "ui_ok demo_last"
  by (simp add: ui_ok_def phase_of_def demo_last_def demo_clash_def updateHUD_def STATE_init_def)

section \<open>Drawing\<close>

lemma game_ok_demo_menu: "game_ok demo_menu"
  by (rule reachable_ok [OF reachable_demo_menu])

lemma render_demo_menu: "render demo_menu = Some (painted demo_menu)"
  by (rule render_painted [OF game_okD(2) [OF game_ok_demo_menu]])

lemma ui_ok_demo_running: "ui_ok (start demo_menu)"
  by (simp add: ui_ok_def phase_of_def start_def demo_menu_def STATE_init_def)

lemma resize_demo_half:
  "cv_width (canvas (resizeCanvas (Some (1 / 2)) demo_menu)) = 400"
  "cv_height (canvas (resizeCanvas (Some (1 / 2)) demo_menu)) = 300"
  by (simp_all add: resizeCanvas_def canvas_dimension_def Let_def)

lemma mousemove_demo_double:
  "mousemove 400 350 demo_rect (resizeCanvas (Some 2) demo_menu) =
     Some ((resizeCanvas (Some 2) demo_menu)\<lparr> mouse := \<lparr> ptr_x = 800, ptr_y = 700 \<rparr> \<rparr>)"
  by (simp add: mousemove_def resizeCanvas_def canvas_dimension_def demo_rect_def Let_def)

lemma outline_demo_rock:
  "length (fst (asteroid_outline demo_rock 0 (sconst (1 / 2)))) = 10"
  "snd (asteroid_outline demo_rock 0 (sconst (1 / 2))) = sconst (1 / 2)"
  by (simp_all add: asteroid_outline_0 del: upt_Suc)

text \<open>The state after the clash is well formed, being reached by a tick.\<close>

lemma game_ok_demo_after: "game_ok demo_after"
  using update_ok [OF update_clash game_ok_demo_clash]
  by (simp add: demo_clash_def STATE_init_def)

section \<open>A hit while the ship moves\<close>

text \<open>The scenario with the key \<^verbatim>\<open>D\<close> held: the ship moves five to the
  right before the collision tests, is hit at \<open>(405, 450)\<close>, where it also
  picks up the crystal, and respawns at \<open>(400, 450)\<close>.\<close>

lemma game_ok_demo_dodge: "game_ok demo_dodge"
  by (simp add: demo_dodge_def game_ok_demo_clash)

lemma demo_dodge_fields [simp]:
  "STATE demo_dodge = STATE_init\<lparr> running := True \<rparr>" "keys demo_dodge = {''KeyD''}"
  "ship (entities demo_dodge) = Some (new_Ship 400 450)"
  "crystals (entities demo_dodge) = [demo_far, demo_gem]"
  "asteroids (entities demo_dodge) = [demo_rock\<lparr> ast_y := 430 \<rparr>]"
  "clock demo_dodge = sconst 0"
  by (simp_all add: demo_dodge_def)

lemma Ship_update_dodge:
  "Ship_update {''KeyD''} (new_Ship 400 450) = (new_Ship 400 450)\<lparr> ship_x := 405 \<rparr>"
  by (simp add: Ship_update_def key_direction_def Math_hypot_def new_Ship_def clamp_def Let_def)

lemma Ship_bounds_dodge:
  "Ship_bounds ((new_Ship 400 450)\<lparr> ship_x := 405 \<rparr>) = \<lparr> cx = 405, cy = 450, cr = 16 \<rparr>"
  by (simp add: Ship_bounds_def Let_def)

lemma hit_dodge_rock:
  "hit \<lparr> cx = 405, cy = 450, cr = 16 \<rparr> (Asteroid_bounds (Asteroid_update 1 (demo_rock\<lparr> ast_y := 430 \<rparr>)))"
  by (simp add: Asteroid_update_clash hit_unfold Asteroid_bounds_def power2_eq_square)

lemma touching_dodge:
  "touching \<lparr> cx = 405, cy = 450, cr = 16 \<rparr> (Crystal_update demo_gem)"
  "\<not> touching \<lparr> cx = 405, cy = 450, cr = 16 \<rparr> (Crystal_update demo_far)"
proof -
  have "\<bar>sin (1 / 40 :: real) / 5\<bar> \<le> 1 / 5"
    by simp
  then have "(sin (1 / 40 :: real) / 5)\<^sup>2 \<le> (1 / 5)\<^sup>2"
    unfolding abs_le_square_iff [symmetric] by simp
  then show "touching \<lparr> cx = 405, cy = 450, cr = 16 \<rparr> (Crystal_update demo_gem)"
    by (simp add: touching_def Crystal_update_demo hit_unfold power2_eq_square)
  show "\<not> touching \<lparr> cx = 405, cy = 450, cr = 16 \<rparr> (Crystal_update demo_far)"
    unfolding touching_def Crystal_update_demo option.case
    by (rule far_apart_no_hit) simp_all
qed

lemma points_updated_gems [simp]:
  "crystal_points (Crystal_update demo_gem) = 10" "crystal_points (Crystal_update demo_far) = 20"
  by (simp_all add: crystal_points_def demo_gem_def demo_far_def)

section \<open>A crystal in a reachable state\<close>

text \<open>A page opened five seconds before the script runs: the first tick of
  the first game makes a crystal, because the crystal timer starts at 0.\<close>

lemma boot_late: "boot demo_page demo_blank (Some 1) (sconst (1 / 2)) (sconst 5000) = Some demo_late"
  by (simp add: boot_eq resizeCanvas_example globals_init_def reset_def spawnAsteroid_example
      numeral_3_eq_3 STATE_init_def entities_init_def updateHUD_def demo_page_def demo_menu_def
      demo_late_def upt_rec)

lemma reachable_demo_late: "reachable demo_late"
  by (rule reachable.boot [OF unit_draws_half boot_late])

lemma btnPlay_demo_late: "btnPlay demo_late = Some (start demo_late)"
  by (simp add: btnPlay_eq reset_def spawnAsteroid_example numeral_3_eq_3 STATE_init_def
      updateHUD_def demo_menu_def demo_late_def upt_rec)

lemma make_crystal_example: "make_crystal (sconst (1 / 2)) = (demo_new, sconst (1 / 2))"
  by (simp add: make_crystal_def choice_def rand_def Math_random_def new_Crystal_def
      crystalTypes_CONFIG demo_new_def Let_def)

lemma Crystal_update_demo_new:
  "Crystal_bounds (Crystal_update demo_new) = Some \<lparr> cx = 400, cy = 280 + sin (1 / 40) * 0.2, cr = 11.7 \<rparr>"
  by (simp add: Crystal_update_def Crystal_bounds_def demo_new_def Let_def)

lemma not_touching_demo_new:
  "\<not> hit (Ship_bounds (new_Ship 400 450)) \<lparr> cx = 400, cy = 280 + sin (1 / 40) / 5, cr = 117 / 10 \<rparr>"
proof -
  have "16 + 117 / 10 < \<bar>450 - (280 + sin (1 / 40 :: real) / 5)\<bar>"
    using sin_le_one [of "1 / 40 :: real"] by linarith
  then show ?thesis
    by (intro far_apart_no_hit) (simp_all add: Ship_bounds_def Let_def)
qed

lemma miss_demo_rock:
  "\<not> hit (Ship_bounds (new_Ship 400 450)) (Asteroid_bounds (demo_rock\<lparr> ast_y := - (317 / 5) \<rparr>))"
  by (simp add: hit_unfold Asteroid_bounds_def power2_eq_square)

lemma update_demo_late: "update 16 ((start demo_late)\<lparr> lastTime := 5016 \<rparr>) = Some demo_gemmed"
  by (simp add: update_def ramp_difficulty_idle crystal_timer_due spawnCrystal_eq
      make_crystal_example update_entities_eq Crystal_update_demo_new not_touching_demo_new
      demo_late_def demo_menu_def start_def STATE_init_def Asteroid_update_example Ship_update_idle
      new_Ship_in_field collide_asteroids_eq miss_demo_rock maintain_asteroids_def
      demo_gemmed_def demo_ticked_def Let_def)

lemma loop_demo_late: "loop 5016 (start demo_late) = Some (painted demo_gemmed)"
proof -
  have "game_ok (start demo_late)"
    by (rule start_ok [OF reachable_ok [OF reachable_demo_late]])
       (simp add: demo_late_def STATE_init_def)
  then have "game_ok ((start demo_late)\<lparr> lastTime := 5016 \<rparr>)"
    by simp
  moreover have f: "\<not> paused (STATE (start demo_late))" "running (STATE (start demo_late))"
    by (simp_all add: demo_late_def STATE_init_def)
  ultimately have "game_ok demo_gemmed"
    using update_ok [OF update_demo_late] by simp
  with f update_demo_late show ?thesis
    by (intro loop_tick_painted [where dt = 16]) (simp_all add: game_okD)
qed

lemma reachable_demo_gemmed: "reachable (painted demo_gemmed)"
proof -
  have "step ClickPlay demo_late = Some (start demo_late)"
    by (simp add: btnPlay_demo_late)
  with reachable_demo_late have "reachable (start demo_late)"
    by (rule reachable.step)
  moreover have "step (Frame 5016) (start demo_late) = Some (painted demo_gemmed)"
    by (simp add: loop_demo_late)
  ultimately show ?thesis
    by (rule reachable.step)
qed

lemma crystals_demo_gemmed: "crystals (entities demo_gemmed) = [Crystal_update demo_new]"
  by (simp add: demo_gemmed_def)

section \<open>Small facts and their instances\<close>

text \<open>The pause toggle does nothing in the menu and after the game is over.\<close>

lemma pause_toggle_noop:
  assumes "phase_of s = Menu \<or> phase_of s = GameOver"
  shows "togglePause s = s"
  using assms by (intro togglePause_noop) (auto simp: phase_of_def split: if_splits)

lemma pause_toggle_noop_witness:
  "phase_of demo_menu = Menu \<and> togglePause demo_menu = demo_menu \<and>
   phase_of demo_over = GameOver \<and> togglePause demo_over = demo_over"
proof -
  have "phase_of demo_over = GameOver"
    by (simp add: phase_of_def demo_over_def)
  with pause_toggle_noop [of demo_menu] pause_toggle_noop [of demo_over] show ?thesis
    by simp
qed

text \<open>In every reachable state the HUD shows the score and the level, and of the three hearts as many are full as there are lives.\<close>

lemma hud_shows_state:
  assumes "reachable s"
  shows "hudScore (ui s) = score (STATE s) \<and> hudLevel (ui s) = level (STATE s) \<and>
    length (hudLives (ui s)) = 3 \<and> length (filter id (hudLives (ui s))) = nat (lives (STATE s))"
proof -
  note ok = game_okD [OF reachable_ok [OF assms]]
  from ok(1) have "0 \<le> lives (STATE s)" "lives (STATE s) \<le> 3"
    by (simp_all add: state_ok_def)
  with hudLives_full_count [OF ok(3)] hudLives_length [OF ok(3)] ok(3) show ?thesis
    by (simp add: hud_synced_def)
qed

lemma hud_shows_state_witness:
  "reachable demo_menu \<and> hudScore (ui demo_menu) = 0 \<and> hudLevel (ui demo_menu) = 1 \<and>
   length (filter id (hudLives (ui demo_menu))) = 3"
  using hud_shows_state [OF reachable_demo_menu] reachable_demo_menu
  by (simp add: STATE_init_def)

text \<open>On a non-empty array and a unit draw \<^verbatim>\<open>choice\<close> returns an element of the array and consumes one draw.\<close>

lemma choice_picks_member:
  assumes "unit_draws g" "arr \<noteq> []"
  shows "\<exists>v. choice arr g = (Some v, stl g) \<and> v \<in> set arr"
  using choice_defined [OF assms] snd_choice [of arr g] by (cases "choice arr g") auto

lemma choice_picks_member_witness:
  "choice (crystalTypes CONFIG) (sconst (1 / 2)) =
     (Some \<lparr> ct_color = ''purple'', ct_points = 20, ct_size = 18 \<rparr>, sconst (1 / 2))"
  using choice_picks_member [OF unit_draws_half, of "crystalTypes CONFIG"]
  by (simp add: choice_def Math_random_def crystalTypes_CONFIG)

text \<open>After a key-down event the key is held and no other key has been added; after a key-up event the key is not held and no other key has been dropped.\<close>

lemma key_set_follows_events:
  assumes "step e s = Some s'"
  shows "case e of KeyDown code \<Rightarrow> keys s' = insert code (keys s)
    | KeyUp code \<Rightarrow> keys s' = keys s - {code}
    | _ \<Rightarrow> True"
proof (cases e)
  case (KeyDown code)
  with assms have "keydown code s = Some s'" by simp
  then have "keys s' = insert code (keys s)"
    by (auto simp: keydown_def Let_def reset_frame elim!: restart_cases split: if_splits)
  with KeyDown show ?thesis by simp
next
  case (KeyUp code)
  with assms show ?thesis by auto
qed simp_all

lemma key_set_follows_events_witness:
  "step (KeyDown ''KeyW'') demo_menu = Some (demo_menu\<lparr> keys := {''KeyW''} \<rparr>) \<and>
   keys (demo_menu\<lparr> keys := {''KeyW''} \<rparr>) = insert ''KeyW'' (keys demo_menu)"
proof -
  have s: "step (KeyDown ''KeyW'') demo_menu = Some (demo_menu\<lparr> keys := {''KeyW''} \<rparr>)"
    by (simp add: keydown_other)
  from key_set_follows_events [OF s] s show ?thesis
    by simp
qed

end
