(* ===== verification/Spec2Isabelle.thy ===== *)
theory Spec2Isabelle
  imports Examples
begin

text \<open>
  \<^bold>\<open>Cosmic Miner: a verification development for \<^verbatim>\<open>src/game.js\<close>\<close>

  The program is a browser game in one script: a ship collects crystals among
  drifting asteroids. Its simulation core is a global state object, four
  entity classes, three spawners, a circle collision test, a small state
  machine (menu, running, paused, game over) and one tick function that the
  frame callback runs; key and button listeners drive the state machine,
  and every frame is drawn on a canvas. This development models all of it
  from the source, the drawing as the list of the calls it makes on the
  canvas, and proves what makes it correct.

  \<^bold>\<open>Numbers.\<close> A JavaScript number is modelled as a \<open>real\<close> when it is a
  length, a speed, an angle or a time, and as an \<open>int\<close> when the program
  only ever counts with it (score, lives, level, tick, frame counters).
  Rounding of doubles is not modelled. The outcomes of \<^verbatim>\<open>Math.random()\<close>
  and the readings of \<^verbatim>\<open>performance.now()\<close> are inputs: the state holds
  the stream of the values still to come and each call takes its head.
  Theorems that depend on the range of the draws assume \<open>unit_draws\<close>, the
  guarantee of the language that every draw is in \<open>[0, 1)\<close>; nothing is
  assumed of the clock, not even that it is monotone.

  \<^bold>\<open>Failure.\<close> An operation has an \<open>option\<close> result where the script can
  leave the fragment the model describes: reading a field of \<^verbatim>\<open>undefined\<close>
  or \<^verbatim>\<open>null\<close> (a TypeError, which ends the frame loop), computing with
  an undefined coordinate, or dividing by a rectangle without width or
  height in the mouse listener, which gives a pointer position that is not a
  finite number. \<open>None\<close> stands for all of these. In the last two
  cases the script itself does not throw but goes on with a value that is
  not a number (an asteroid at an undefined position, a pointer at
  infinity), and \<^verbatim>\<open>Crystal.draw\<close> has called \<^verbatim>\<open>save\<close>,
  \<^verbatim>\<open>translate\<close> and \<^verbatim>\<open>rotate\<close> before it fails on an undefined
  type: the model is stricter than the script there, and stops. Totality
  lemmas (collection \<open>total\<close>) show that \<open>None\<close> is not reached with
  unit draws, but for a move of the mouse over a canvas without area,
  which the theorems exclude by \<open>deliverable\<close>. No loop of the program
  needs fuel: every loop runs over a list or counts down an index and is a
  structural recursion here, but for the loop over the ten vertices of an
  asteroid's outline, which counts up and is a \<^theory_text>\<open>function\<close> with the
  measure \<open>10 - i\<close>.

  \<^bold>\<open>Theories.\<close>
  \<^item> \<open>Prelude\<close>: lemma collections (\<open>frame\<close>, \<open>draws\<close>, \<open>total\<close>,
    \<open>keeps\<close>), streams of draws, generic facts on lists, options and scaling.
  \<^item> \<open>Utility\<close>: \<^verbatim>\<open>clamp\<close>, \<^verbatim>\<open>rand\<close>, \<^verbatim>\<open>choice\<close> (lines 74 to 77)
    and the built-ins \<^verbatim>\<open>Math.random\<close>, \<^verbatim>\<open>Math.hypot\<close>,
    \<^verbatim>\<open>Math.atan2\<close>, \<^verbatim>\<open>%\<close>; the polar form of \<^verbatim>\<open>atan2\<close> (the
    cosine and sine of the angle it returns); polynomial bounds on the sine
    and the cosine.
  \<^item> \<open>Config\<close>: the table \<^verbatim>\<open>CONFIG\<close> (lines 5 to 24).
  \<^item> \<open>Collision\<close>: \<^verbatim>\<open>hit\<close> (lines 366 to 372) and its agreement with
    the Euclidean distance of the centres.
  \<^item> \<open>Entities\<close>: the classes \<^verbatim>\<open>Ship\<close>, \<^verbatim>\<open>Asteroid\<close>,
    \<^verbatim>\<open>Crystal\<close>, \<^verbatim>\<open>Particle\<close> (lines 99 to 314) without drawing:
    constructors, \<^verbatim>\<open>update\<close>, \<^verbatim>\<open>bounds\<close>, \<^verbatim>\<open>dead\<close>; the ship
    stays in the playfield, an asteroid stays in its wrap band, a particle
    dies, the bob of a crystal in closed form (\<open>bob_offset\<close>) with its
    range; the per-class predicates \<open>ship_ok\<close>, \<open>asteroid_ok\<close>,
    \<open>crystal_ok\<close>, \<open>particle_fresh\<close>.
  \<^item> \<open>World\<close>: the records of \<^verbatim>\<open>STATE\<close>, \<^verbatim>\<open>entities\<close> and the page,
    \<^verbatim>\<open>updateHUD\<close> (lines 374 to 385), and the invariant \<open>game_ok\<close>
    (consistent flags and counters, well-formed entities, HUD in sync, unit
    draws).
  \<^item> \<open>Canvas\<close>: the calls on the 2D context as a datatype, the canvas
    element, and the part of the context's behaviour the drawing code relies
    on: the drawing state, its stack, the transformation, and the device
    points at which \<^verbatim>\<open>moveTo\<close> and \<^verbatim>\<open>lineTo\<close> put the vertices of
    a path (\<open>path_points\<close>).
  \<^item> \<open>Render\<close>: the four \<^verbatim>\<open>draw\<close> methods (lines 127 to 171, 218 to
    240, 258 to 288, 304 to 312), \<^verbatim>\<open>render\<close> (lines 476 to 505),
    \<^verbatim>\<open>resizeCanvas\<close> (lines 508 to 515) and the mouse listener (lines 317
    to 324). A frame is the list of its calls; \<^verbatim>\<open>Asteroid.draw\<close> takes
    ten draws from the random source; \<^verbatim>\<open>render\<close> returns on well-formed
    entities, changes nothing of the game, and its calls leave the drawing
    state as they found it. The tip of the ship is drawn on the ray from the
    ship to the pointer, the vertices of an asteroid at their radii from
    its centre.
  \<^item> \<open>Spawner\<close>: \<^verbatim>\<open>spawnAsteroid\<close>, \<^verbatim>\<open>spawnCrystal\<close>,
    \<^verbatim>\<open>spawnExplosion\<close>, \<^verbatim>\<open>spawnSparkle\<close> (lines 326 to 364): each
    returns, consumes a fixed number of draws (11, 5, 120, 72), and produces
    entities inside the stated ranges; a new asteroid is off the playfield,
    away from the ship, and heads inward; the predicate \<open>spark\<close> says what
    a burst promises of each particle.
  \<^item> \<open>Flow\<close>: \<^verbatim>\<open>reset\<close>, \<^verbatim>\<open>start\<close>, \<^verbatim>\<open>togglePause\<close>,
    \<^verbatim>\<open>gameOver\<close>, \<^verbatim>\<open>restart\<close> (lines 79 to 97 and 387 to 409) and
    \<^verbatim>\<open>Ship.hit\<close> (lines 172 to 185), with a case rule per function and
    the conditions under which each keeps \<open>game_ok\<close>.
  \<^item> \<open>Tick\<close>: \<^verbatim>\<open>update\<close> (lines 426 to 474) as the composition of its
    six phases, and \<^verbatim>\<open>loop\<close> (lines 418 to 424), which runs the tick
    when the game is running and draws in every frame. The asteroid loop is
    shown equal to one test and at most one hit, the crystal loop equal to a
    filter and a sum; \<open>tick_phases\<close> names the states between the phases
    and \<open>update_trace\<close> runs a tick on a well-formed state. A tick of
    a ship with two or more invulnerability frames takes no life, a tick
    adds at most five asteroids, a tick keeps every crystal on its track,
    and a hit and a pickup in one tick are computed from the state before
    the tick.
  \<^item> \<open>Machine\<close>: the listeners (keys, lines 58 to 64; buttons, lines 412
    to 414; mouse and resize) and the frame callback as handlers of the
    datatype \<open>event\<close>, the step function, the top-level code \<open>boot\<close>
    (the initial globals, lines 417 and 517 to 522), the inductive set of
    reachable states with the invariant, the crystals of a reachable state
    on their tracks, that only a resize changes the size
    and the scale of the canvas and only a move of the mouse the pointer
    (the collection \<open>device\<close>), and the state machine of the design (\<open>phase\<close>,
    \<open>phase_step\<close>) with the proof that the program refines it on the
    states reached by events the page allows (\<open>played\<close>), step by step
    and for whole runs (\<open>run\<close>, \<open>allowed\<close>) as paths of the machine
    (\<open>phase_path\<close>).
  \<^item> \<open>Examples\<close>: concrete states and the handlers evaluated on them by
    the simplifier.
  \<^item> this theory: the properties of the program, each stated on the
    definitions above and applied to an example.

  \<^bold>\<open>What the properties show.\<close> C1 to C3: the invariant, and that no handler
  fails, drawing included. C4 and C10: the refinement of the state machine
  and the overlays. C5: the crystal loop against a filter. C6 to C9:
  \<^verbatim>\<open>Ship.hit\<close> on every branch and one hit per tick. C11 to C22: the
  components one by one, with the crystals of every reachable state on the
  playfield (C15) and the round trip of a pause (C20). C23 to C27
  and C29: what modelling showed of the code against its design (timers
  that start in the past, a final score written too early, a wrap that
  forgets the overflow, asteroids that are never removed, buttons without a
  guard, an invulnerability window of 119 frames, stated on runs of frame
  events). C26 is the scenario of the design, a hit and a pickup in one
  tick, for every state it applies to. C28 and C30: a frame is well formed and restores the
  drawing state. C31, C34 and C35: what the spawners promise of a new
  asteroid, crystal and burst. C32 and C33: whole runs of events as paths of
  the state machine, and that only a frame ends a game. C36: frames of a
  paused game keep the game but take draws from the random source. C37 and
  C38: the crystal timer, and the outline loop of an asteroid with the
  distance at which it draws each vertex. C39 and C40: what modelling
  showed of the drawing (a clear that misses the playfield on a zoomed-out
  page, a pointer kept in bitmap pixels, with the point at which the tip of
  the ship is drawn).

  \<^bold>\<open>Plan.\<close> Next: bounds on the number of particles and on the level
  as functions of the number of ticks and of the clock, the crystal timer
  and the ramp under a monotone clock, and the positions at which a frame
  draws the crystals and the particles.

  \<^bold>\<open>Not modelled.\<close> The pixels: a frame is the list of the calls on the
  context, with the drawing state they set, not the bitmap they produce.
  The lookups of the page elements (lines 26 to 41) and the registration of
  the listeners; \<^verbatim>\<open>requestAnimationFrame\<close>, whose callbacks are the frame
  events of the model; \<^verbatim>\<open>preventDefault\<close> in the key listener. The
  default values of parameters (\<^verbatim>\<open>life=40\<close> and \<^verbatim>\<open>speed=rand(1,3)\<close>
  of a particle, \<^verbatim>\<open>wave=false\<close> of an asteroid, \<^verbatim>\<open>offscreen=false\<close>
  of \<^verbatim>\<open>spawnAsteroid\<close>): every call in the script passes these
  arguments, so the definitions take them as required ones. The page
  itself, which is not part of the sources: the model takes the page and
  the canvas as loaded as parameters and assumes of the page only, for the
  overlay properties, that it shows neither the pause nor the game-over
  overlay. Rounding of doubles.
\<close>

section \<open>The reachable states are well formed\<close>

text \<open>
  C1. Every state the page can reach, by booting with unit draws and then
  handling any sequence of key, button, pointer, resize and frame events, is
  well formed: the
  flags \<^verbatim>\<open>running\<close>, \<^verbatim>\<open>paused\<close> and \<^verbatim>\<open>over\<close> are consistent, the lives
  are between 0 and 3 and are 0 exactly when the game is over, the level is at
  least 1 and the score not negative; the ship exists and is inside the
  playfield, every asteroid is inside its wrap band, every crystal has a type of
  the table, no particle is dead; the HUD shows the score, the level and
  the lives of the state; and the canvas has the size and the scale that
  \<^verbatim>\<open>resizeCanvas\<close> gave it for a reading of the window's pixel ratio, at
  the boot or at a later resize.
\<close>

theorem reachable_well_formed:
  assumes "reachable s"
  shows "state_ok (STATE s) \<and> entities_ok (entities s) \<and> hud_synced s \<and> unit_draws (rnd s) \<and>
    (\<exists>reading. resized reading (canvas s))"
  using reachable_ok [OF assms] reachable_resized [OF assms] by (simp add: game_ok_def)

theorem reachable_well_formed_witness:
  "reachable demo_menu \<and> state_ok (STATE demo_menu) \<and> entities_ok (entities demo_menu) \<and>
   hud_synced demo_menu \<and> unit_draws (rnd demo_menu) \<and>
   (\<exists>reading. resized reading (canvas demo_menu))"
  using reachable_well_formed [OF reachable_demo_menu] reachable_demo_menu by simp

text \<open>
  C2. No handler fails in a reachable state: whatever the event, a key, a
  button, a resize, a frame with its drawing, or a move of the pointer over
  a canvas that has an area, the step returns a state (no \<^verbatim>\<open>TypeError\<close>
  from a \<^verbatim>\<open>null\<close> ship, an \<^verbatim>\<open>undefined\<close> crystal or an index outside
  the crystal array, no asteroid with an undefined position), and that state
  is reachable again.
\<close>

theorem step_never_fails:
  assumes "reachable s" "deliverable e"
  shows "\<exists>s'. step e s = Some s' \<and> reachable s'"
  using step_runs [OF reachable_ok [OF assms(1)] assms(2)] assms(1) by (auto intro: reachable.step)

theorem step_never_fails_witness:
  "reachable demo_menu \<and> deliverable (Frame 16) \<and>
   (\<exists>s'. step (Frame 16) demo_menu = Some s' \<and> reachable s')"
  using step_never_fails [OF reachable_demo_menu, of "Frame 16"] reachable_demo_menu
  by (simp add: deliverable_def)

text \<open>
  C3. The tick is total on the states the frame callback runs it in and keeps
  them well formed: from a well-formed state of a running, unpaused game
  \<^verbatim>\<open>update(dt)\<close> returns, and the state it returns is well formed.
\<close>

theorem tick_keeps_well_formed:
  assumes "game_ok s" "running (STATE s)" "\<not> paused (STATE s)"
  shows "\<exists>s'. update dt s = Some s' \<and> game_ok s'"
  using assms by (rule update_runs)

theorem tick_keeps_well_formed_witness:
  "game_ok (start demo_menu) \<and> running (STATE (start demo_menu)) \<and>
   \<not> paused (STATE (start demo_menu)) \<and> update 16 (start demo_menu) = Some demo_ticked \<and>
   game_ok demo_ticked"
  using tick_keeps_well_formed [OF game_ok_demo_running, of 16] game_ok_demo_running
  by (simp add: update_example)

text \<open>
  C4. The program implements the state machine of the design. In a state
  reached by events the page allows (a button only while its overlay is
  shown), every step of the program is a transition of the four-phase
  machine: play leads from the menu to running, space and the resume button
  toggle between running and paused and do nothing in the menu or after the
  game is over, a frame can end a running game, enter and the restart button
  lead from game over to running, and nothing else changes the phase.
\<close>

theorem machine_refinement:
  assumes "played s" "enabled e s" "step e s = Some s'"
  shows "phase_step (phase_of s) e (phase_of s') \<and> played s'"
  using played_refines [OF assms] played.step [OF assms] by simp

theorem machine_refinement_witness:
  "played demo_menu \<and> enabled (Frame 16) demo_menu \<and>
   step (Frame 16) demo_menu = Some (painted (demo_menu\<lparr> lastTime := 16 \<rparr>)) \<and>
   phase_step Menu (Frame 16) Menu \<and> played (painted (demo_menu\<lparr> lastTime := 16 \<rparr>))"
proof -
  have s: "step (Frame 16) demo_menu = Some (painted (demo_menu\<lparr> lastTime := 16 \<rparr>))"
    using game_okD(2) [OF played_ok [OF played_demo_menu]]
    by (simp add: loop_skip_painted STATE_init_def)
  have e: "enabled (Frame 16) demo_menu"
    by (simp add: enabled_def)
  from machine_refinement [OF played_demo_menu e s] played_demo_menu e s show ?thesis
    by simp
qed

text \<open>
  C5. The crystal loop against its reference. On a list of typed crystals
  the loop of lines 460 to 468, which walks the array from the last index to
  the first and splices while it walks, returns; it leaves exactly the
  crystals the ship does not touch, in their order, and it adds to the score
  the points of each crystal the ship touches, once.
\<close>

theorem crystal_loop_collects:
  assumes "list_all crystal_ok (crystals (entities s))"
  shows "\<exists>s'. collect_crystals sb (length (crystals (entities s))) s = Some s' \<and>
    crystals (entities s') = filter (\<lambda>c. \<not> touching sb c) (crystals (entities s)) \<and>
    score (STATE s') =
      score (STATE s) + sum_list (map crystal_points (filter (touching sb) (crystals (entities s))))"
proof -
  from collect_crystals_total [OF assms] obtain s'
    where "collect_crystals sb (length (crystals (entities s))) s = Some s'"
    by blast
  with collect_crystals_all(1,2) [OF this assms] show ?thesis
    by simp
qed

theorem crystal_loop_collects_witness:
  "list_all crystal_ok (crystals (entities demo_clash)) \<and>
   (\<exists>s'. collect_crystals (Ship_bounds (new_Ship 400 450))
           (length (crystals (entities demo_clash))) demo_clash = Some s' \<and>
      crystals (entities s') = [demo_far] \<and> score (STATE s') = 10)"
proof -
  have ok: "list_all crystal_ok (crystals (entities demo_clash))"
    by (simp add: demo_gems_ok)
  from crystal_loop_collects [OF ok, of "Ship_bounds (new_Ship 400 450)"] ok show ?thesis
    by (simp add: demo_gems_touching STATE_init_def)
qed

section \<open>A hit\<close>

text \<open>
  C6. A hit on the last life ends the game. When the ship is not
  invulnerable and one life is left, \<^verbatim>\<open>Ship.hit\<close> returns a state with no
  life, \<^verbatim>\<open>over\<close> set and \<^verbatim>\<open>running\<close> cleared, the game-over overlay
  shown with the score of that moment as the final score, the HUD refreshed,
  and the ship where it was.
\<close>

theorem hit_last_life_ends_game:
  assumes "ship (entities s) = Some sh" "ship_inv sh \<le> 0" "lives (STATE s) = 1"
  shows "\<exists>s'. Ship_hit s = Some s' \<and> lives (STATE s') = 0 \<and> over (STATE s') \<and>
    \<not> running (STATE s') \<and> gameover_visible (ui s') \<and> finalScore (ui s') = score (STATE s) \<and>
    hud_synced s' \<and> ship (entities s') = Some sh"
  using assms by (simp add: Ship_hit_last_life)

theorem hit_last_life_ends_game_witness:
  "ship (entities (demo_clash\<lparr> STATE := (STATE demo_clash)\<lparr> lives := 1 \<rparr> \<rparr>)) = Some (new_Ship 400 450) \<and>
   ship_inv (new_Ship 400 450) \<le> 0 \<and>
   (\<exists>s'. Ship_hit (demo_clash\<lparr> STATE := (STATE demo_clash)\<lparr> lives := 1 \<rparr> \<rparr>) = Some s' \<and>
      lives (STATE s') = 0 \<and> over (STATE s') \<and> \<not> running (STATE s') \<and>
      gameover_visible (ui s') \<and> finalScore (ui s') = 0)"
  using hit_last_life_ends_game
    [of "demo_clash\<lparr> STATE := (STATE demo_clash)\<lparr> lives := 1 \<rparr> \<rparr>" "new_Ship 400 450"]
  by (auto simp: STATE_init_def)

text \<open>
  C7. A hit with lives to spare respawns the ship. When the ship is not
  invulnerable and more than one life is left, \<^verbatim>\<open>Ship.hit\<close> takes exactly
  one life, puts the ship at the start position (400, 450) with 120 frames of
  invulnerability, adds the 30 particles of an explosion, leaves the flags
  as they are and refreshes the HUD.
\<close>

theorem hit_respawns:
  assumes "ship (entities s) = Some sh" "ship_inv sh \<le> 0" "1 < lives (STATE s)"
  shows "\<exists>s'. Ship_hit s = Some s' \<and> lives (STATE s') = lives (STATE s) - 1 \<and>
    ship (entities s') = Some (sh\<lparr> ship_inv := 120, ship_x := 400, ship_y := 450 \<rparr>) \<and>
    running (STATE s') = running (STATE s) \<and> over (STATE s') = over (STATE s) \<and>
    length (particles (entities s')) = length (particles (entities s)) + 30 \<and> hud_synced s'"
  using assms by (simp add: Ship_hit_respawn)

theorem hit_respawns_witness:
  "ship (entities demo_clash) = Some (new_Ship 400 450) \<and> ship_inv (new_Ship 400 450) \<le> 0 \<and>
   1 < lives (STATE demo_clash) \<and>
   (\<exists>s'. Ship_hit demo_clash = Some s' \<and> lives (STATE s') = 2 \<and>
      ship (entities s') = Some ((new_Ship 400 450)\<lparr> ship_inv := 120 \<rparr>) \<and>
      running (STATE s') \<and> length (particles (entities s')) = 30)"
  using hit_respawns [of demo_clash "new_Ship 400 450"]
  by (auto simp: STATE_init_def new_Ship_def)

text \<open>
  C8. A hit on an invulnerable ship does nothing: while the invulnerability
  counter is positive \<^verbatim>\<open>Ship.hit\<close> returns the state unchanged, so no life
  is taken and the ship is not moved.
\<close>

theorem hit_invulnerable_noop:
  assumes "ship (entities s) = Some sh" "0 < ship_inv sh"
  shows "Ship_hit s = Some s"
  using assms by (rule Ship_hit_invulnerable)

theorem hit_invulnerable_noop_witness:
  "Ship_hit (demo_clash\<lparr> entities := (entities demo_clash)
      \<lparr> ship := Some ((new_Ship 400 450)\<lparr> ship_inv := 120 \<rparr>) \<rparr> \<rparr>) =
   Some (demo_clash\<lparr> entities := (entities demo_clash)
      \<lparr> ship := Some ((new_Ship 400 450)\<lparr> ship_inv := 120 \<rparr>) \<rparr> \<rparr>)"
  using hit_invulnerable_noop [of "demo_clash\<lparr> entities := (entities demo_clash)
      \<lparr> ship := Some ((new_Ship 400 450)\<lparr> ship_inv := 120 \<rparr>) \<rparr> \<rparr>"
      "(new_Ship 400 450)\<lparr> ship_inv := 120 \<rparr>"]
  by simp

text \<open>
  C9. At most one hit per tick. Whatever the number of asteroids that
  overlap the ship, a tick takes at most one life, and it counts itself: the
  tick counter grows by exactly one.
\<close>

theorem one_hit_per_tick:
  assumes "update dt s = Some s'"
  shows "(lives (STATE s') = lives (STATE s) \<or> lives (STATE s') = lives (STATE s) - 1) \<and>
    tick (STATE s') = tick (STATE s) + 1"
  using update_counts(1) [OF assms] update_frame(4) [OF assms] by simp

theorem one_hit_per_tick_witness:
  "update 16 (start demo_menu) = Some demo_ticked \<and>
   lives (STATE demo_ticked) = lives (STATE (start demo_menu)) \<and>
   tick (STATE demo_ticked) = tick (STATE (start demo_menu)) + 1"
  using one_hit_per_tick [OF update_example] update_example
  by (simp add: demo_ticked_def STATE_init_def)

section \<open>The overlays\<close>

text \<open>
  C10. The overlays follow the phase. In every state reached by events the
  page allows, the menu overlay is shown exactly in the menu phase, the pause
  overlay exactly while the game is paused and the game-over overlay exactly
  when the game is over.
\<close>

theorem overlays_follow_phase:
  assumes "played s"
  shows "menu_visible (ui s) = (phase_of s = Menu) \<and>
    pause_visible (ui s) = (phase_of s = Paused) \<and>
    gameover_visible (ui s) = (phase_of s = GameOver)"
  using played_ui_ok [OF assms] by (simp add: ui_ok_def)

theorem overlays_follow_phase_witness:
  "played demo_menu \<and> menu_visible (ui demo_menu) \<and> phase_of demo_menu = Menu \<and>
   \<not> pause_visible (ui demo_menu) \<and> \<not> gameover_visible (ui demo_menu)"
  using overlays_follow_phase [OF played_demo_menu] played_demo_menu by simp

section \<open>The ship\<close>

text \<open>
  C11. The ship stays inside the playfield. Whatever keys are held and
  wherever the ship was, after \<^verbatim>\<open>Ship.update\<close> its position is within
  \<open>[size, width - size] \<times> [size, height - size]\<close>, for every size that fits the
  field.
\<close>

theorem ship_stays_in_field:
  assumes "0 \<le> ship_size sh" "ship_size sh \<le> 300"
  shows "ship_in_field (Ship_update ks sh)"
  using assms by (intro Ship_update_in_field) simp_all

theorem ship_stays_in_field_witness:
  "ship_in_field (Ship_update {''ArrowLeft'', ''KeyW''} ((new_Ship 400 450)\<lparr> ship_x := 21 \<rparr>))"
  using ship_stays_in_field [of "(new_Ship 400 450)\<lparr> ship_x := 21 \<rparr>" "{''ArrowLeft'', ''KeyW''}"]
  by simp

section \<open>The difficulty ramp\<close>

text \<open>
  C12. The difficulty ramp. When 30 seconds have passed since the last ramp,
  the ramp raises the level by exactly one, spawns \<open>1 + min(level, 3)\<close>
  asteroids for the new level, sets the ramp timer to the second clock
  reading of the phase and refreshes the HUD; before that it changes nothing
  but the clock.
\<close>

theorem ramp_raises_level:
  assumes "ramp_difficulty s = Some s'"
  shows "if 30000 \<le> shd (clock s) - lastDifficultyMs (STATE s)
    then level (STATE s') = level (STATE s) + 1 \<and>
      length (asteroids (entities s')) =
        length (asteroids (entities s)) + nat (1 + min (level (STATE s')) 3) \<and>
      lastDifficultyMs (STATE s') = clock s !! 1 \<and> hud_synced s'
    else s' = s\<lparr> clock := stl (clock s) \<rparr>"
  using assms
  by (cases rule: ramp_difficulty_cases)
     (simp_all add: spawnAsteroids_frame spawnAsteroids_length)

theorem ramp_raises_level_witness:
  "\<exists>s'. ramp_difficulty (demo_clash\<lparr> clock := sconst 30000 \<rparr>) = Some s' \<and>
     level (STATE s') = 2 \<and> length (asteroids (entities s')) = 4 \<and>
     lastDifficultyMs (STATE s') = 30000 \<and> hud_synced s'"
proof -
  obtain s' where s': "ramp_difficulty (demo_clash\<lparr> clock := sconst 30000 \<rparr>) = Some s'"
    using ramp_difficulty_total [of "demo_clash\<lparr> clock := sconst 30000 \<rparr>"] unit_draws_half
    by auto
  from ramp_raises_level [OF s'] s' show ?thesis
    by (auto simp: STATE_init_def)
qed

section \<open>Spawning\<close>

text \<open>
  C13. An asteroid that \<^verbatim>\<open>spawnAsteroid(true)\<close> creates does not overlap a
  ship that is inside the playfield: with draws from the unit interval the
  collision test of the new asteroid against the ship's bounds is false,
  whatever the level and wherever the ship is.
\<close>

theorem spawned_asteroid_misses_ship:
  assumes "unit_draws g" and "make_asteroid True lvl g = (Some a, g')"
    and "ship_in_field sh" and "ship_size sh = 20"
  shows "\<not> hit (Ship_bounds sh) (Asteroid_bounds a)"
proof -
  from assms(1,2) obtain t where t: "t \<in> set (asteroidTypes CONFIG)"
    and sz: "ast_size a = at_size t" and edge: "spawned_at_edge t (ast_x a, ast_y a)"
    using make_asteroid_position [of g True lvl a g'] by auto
  from t have big: "30 \<le> at_size t"
    using asteroidTypes_ok by (auto simp: tier_ok_def)
  let ?reach = "cr (Ship_bounds sh) + cr (Asteroid_bounds a)"
  have reach: "?reach = 16 + at_size t * 0.8" "0 \<le> ?reach"
    using big by (simp_all add: Asteroid_bounds_def assms(4) sz)
  from assms(3,4) have ship: "20 \<le> ship_x sh" "ship_x sh \<le> 780" "20 \<le> ship_y sh" "ship_y sh \<le> 580"
    by (simp_all add: ship_in_field_def)
  from edge ship big have "?reach < \<bar>cx (Ship_bounds sh) - cx (Asteroid_bounds a)\<bar>
      \<or> ?reach < \<bar>cy (Ship_bounds sh) - cy (Asteroid_bounds a)\<bar>"
    unfolding reach(1) by (auto simp: spawned_at_edge_def Asteroid_bounds_def)
  with reach(2) show ?thesis
    by (intro far_apart_no_hit)
qed


theorem spawned_asteroid_misses_ship_witness:
  "unit_draws (sconst (1 / 2)) \<and> make_asteroid True 1 (sconst (1 / 2)) = (Some demo_rock, sconst (1 / 2)) \<and>
   ship_in_field (new_Ship 400 450) \<and>
   \<not> hit (Ship_bounds (new_Ship 400 450)) (Asteroid_bounds demo_rock)"
proof -
  have f: "ship_in_field (new_Ship 400 450)"
    by (simp add: new_Ship_in_field)
  from spawned_asteroid_misses_ship [OF unit_draws_half make_asteroid_example f]
    unit_draws_half make_asteroid_example f show ?thesis
    by simp
qed

text \<open>
  C14. \<^verbatim>\<open>spawnAsteroid\<close> returns. With unit draws it appends exactly one
  asteroid, of one of the three sizes and inside its wrap band, consumes
  exactly eleven draws and changes nothing else of the state.
\<close>

theorem spawn_asteroid_returns:
  assumes "unit_draws (rnd s)"
  shows "\<exists>s' a. spawnAsteroid off s = Some s' \<and>
    asteroids (entities s') = asteroids (entities s) @ [a] \<and> asteroid_ok a \<and>
    rnd s' = sdrop 11 (rnd s) \<and> STATE s' = STATE s \<and> ui s' = ui s \<and>
    ship (entities s') = ship (entities s) \<and> crystals (entities s') = crystals (entities s)"
proof -
  from spawnAsteroid_total [OF assms] obtain s' where s': "spawnAsteroid off s = Some s'"
    by blast
  then obtain a where a: "make_asteroid off (level (STATE s)) (rnd s) = (Some a, sdrop 11 (rnd s))"
    "asteroids (entities s') = asteroids (entities s) @ [a]"
    by (cases rule: spawnAsteroid_cases) simp
  from make_asteroid_ok [OF assms a(1)] a(2) s' show ?thesis
    by (simp add: spawnAsteroid_frame [OF s'] spawnAsteroid_rnd [OF s'])
qed

theorem spawn_asteroid_returns_witness:
  "unit_draws (rnd demo_menu) \<and>
   (\<exists>s' a. spawnAsteroid True demo_menu = Some s' \<and>
      asteroids (entities s') = [demo_rock, demo_rock, demo_rock, a] \<and> asteroid_ok a \<and>
      rnd s' = sconst (1 / 2))"
  using spawn_asteroid_returns [of demo_menu True] unit_draws_half
  by (auto simp: demo_menu_def)

section \<open>Crystals\<close>

text \<open>
  C15. Crystals stay on the playfield. In every state the page can reach,
  every crystal is where \<^verbatim>\<open>spawnCrystal\<close> put it, inside the margins,
  moved down by the bob of its age: the steps \<open>sin (t / 40) * 0.2\<close> of
  \<^verbatim>\<open>Crystal.update\<close> add up to an offset between 0 and 16, up to a
  thousandth, however long the crystal lives. So a crystal never leaves
  the playfield, and never drifts out of the ship's reach.
\<close>

theorem crystals_stay_on_playfield:
  assumes "reachable s" "c \<in> set (crystals (entities s))"
  shows "40 \<le> cry_x c \<and> cry_x c \<le> 760 \<and>
    40 \<le> cry_y c - bob_offset (cry_t c) \<and> cry_y c - bob_offset (cry_t c) \<le> 520 \<and>
    - (1 / 1000) \<le> bob_offset (cry_t c) \<and> bob_offset (cry_t c) \<le> 16001 / 1000 \<and>
    39 \<le> cry_y c \<and> cry_y c \<le> 537"
proof -
  from reachable_on_track [OF assms(1)] assms(2) have t: "crystal_on_track c"
    by (simp add: list_all_iff)
  with crystal_on_track_field [OF t] bob_offset_range [of "cry_t c"] show ?thesis
    by (simp add: crystal_on_track_def)
qed

theorem crystals_stay_on_playfield_witness:
  "reachable (painted demo_gemmed) \<and>
   Crystal_update demo_new \<in> set (crystals (entities (painted demo_gemmed))) \<and>
   cry_x (Crystal_update demo_new) = 400 \<and> cry_t (Crystal_update demo_new) = 1 \<and>
   cry_y (Crystal_update demo_new) - bob_offset 1 = 280 \<and>
   39 \<le> cry_y (Crystal_update demo_new) \<and> cry_y (Crystal_update demo_new) \<le> 537"
proof -
  have m: "Crystal_update demo_new \<in> set (crystals (entities (painted demo_gemmed)))"
    by (simp add: crystals_demo_gemmed)
  have "cry_x (Crystal_update demo_new) = 400" "cry_t (Crystal_update demo_new) = 1"
    "cry_y (Crystal_update demo_new) - bob_offset 1 = 280"
    using bob_offset_step [of 0] by (simp_all add: demo_new_def)
  with crystals_stay_on_playfield [OF reachable_demo_gemmed m] reachable_demo_gemmed m
  show ?thesis
    by simp
qed

section \<open>Asteroids\<close>

text \<open>
  C16. The wrap of an asteroid. After \<^verbatim>\<open>Asteroid.update\<close> the asteroid is
  inside its band, the playfield widened by \<open>size + 20\<close> on every side; an
  asteroid that steps beyond the right edge of the band re-enters at exactly
  the left edge, whatever the distance it overshot by.
\<close>

theorem asteroid_wraps_to_edge:
  assumes "0 \<le> ast_size a"
    and "width CONFIG + ast_size a + 20 < ast_x a + fst (asteroid_step tk a)"
  shows "ast_x (Asteroid_update tk a) = - ast_size a - 20 \<and> asteroid_in_band (Asteroid_update tk a)"
  using assms by (simp add: Asteroid_update_x wrap_axis_above Asteroid_update_in_band)

theorem asteroid_wraps_to_edge_witness:
  "ast_x (Asteroid_update 1 (demo_rock\<lparr> ast_x := 864, ast_vx := 5 \<rparr>)) = - 65 \<and>
   asteroid_in_band (Asteroid_update 1 (demo_rock\<lparr> ast_x := 864, ast_vx := 5 \<rparr>))"
  using asteroid_wraps_to_edge [of "demo_rock\<lparr> ast_x := 864, ast_vx := 5 \<rparr>" 1]
  by (simp add: asteroid_step_def demo_rock_def)

section \<open>Collision\<close>

text \<open>
  C17. The collision test is the overlap of two circles: for radii whose sum
  is not negative, \<^verbatim>\<open>hit(a, b)\<close>, which compares squares, holds exactly
  when the Euclidean distance of the centres is at most the sum of the radii.
\<close>

theorem hit_is_overlap:
  assumes "0 \<le> cr a + cr b"
  shows "hit a b \<longleftrightarrow> centre_distance a b \<le> cr a + cr b"
  using hit_overlaps [OF assms] by (simp add: overlaps_def)

theorem hit_is_overlap_witness:
  "hit (Ship_bounds (new_Ship 400 450)) (Asteroid_bounds (demo_rock\<lparr> ast_y := 2158 / 5 \<rparr>)) \<and>
   centre_distance (Ship_bounds (new_Ship 400 450)) (Asteroid_bounds (demo_rock\<lparr> ast_y := 2158 / 5 \<rparr>))
     \<le> 52"
  using hit_is_overlap [of "Ship_bounds (new_Ship 400 450)"
      "Asteroid_bounds (demo_rock\<lparr> ast_y := 2158 / 5 \<rparr>)"] hit_demo_rock
  by (simp add: Asteroid_bounds_def)

section \<open>Movement\<close>

text \<open>
  C18. A diagonal is not faster. When a direction is held and the clamp does
  not cut the move, \<^verbatim>\<open>Ship.update\<close> moves the ship by exactly its speed,
  whether one key is held or two: the direction is normalised.
\<close>

theorem diagonal_speed_is_speed:
  assumes "key_direction ks \<noteq> (0, 0)"
    and "ship_in_field (sh\<lparr> ship_x := ship_x sh + fst (unit_direction ks) * ship_speed sh,
                            ship_y := ship_y sh + snd (unit_direction ks) * ship_speed sh \<rparr>)"
  shows "(ship_x (Ship_update ks sh) - ship_x sh)\<^sup>2 + (ship_y (Ship_update ks sh) - ship_y sh)\<^sup>2
           = (ship_speed sh)\<^sup>2"
  using assms by (rule Ship_update_free_move)

theorem diagonal_speed_is_speed_witness:
  "key_direction {''KeyW'', ''KeyD''} = (1, - 1) \<and>
   (ship_x (Ship_update {''KeyW'', ''KeyD''} (new_Ship 400 450)) - 400)\<^sup>2 +
   (ship_y (Ship_update {''KeyW'', ''KeyD''} (new_Ship 400 450)) - 450)\<^sup>2 = 25"
proof -
  let ?ks = "{''KeyW'', ''KeyD''}"
  have k: "key_direction ?ks = (1, - 1)"
    by (simp add: key_direction_def)
  have "(fst (unit_direction ?ks))\<^sup>2 \<le> 1" "(snd (unit_direction ?ks))\<^sup>2 \<le> 1"
    using unit_direction_le_1 [of ?ks]
      zero_le_power2 [of "fst (unit_direction ?ks)"] zero_le_power2 [of "snd (unit_direction ?ks)"]
    by linarith+
  then have "\<bar>fst (unit_direction ?ks)\<bar> \<le> 1" "\<bar>snd (unit_direction ?ks)\<bar> \<le> 1"
    by (simp_all add: abs_square_le_1)
  then have "ship_in_field ((new_Ship 400 450)
      \<lparr> ship_x := ship_x (new_Ship 400 450) + fst (unit_direction ?ks) * ship_speed (new_Ship 400 450),
        ship_y := ship_y (new_Ship 400 450) + snd (unit_direction ?ks) * ship_speed (new_Ship 400 450) \<rparr>)"
    by (simp add: ship_in_field_def abs_le_iff)
  from diagonal_speed_is_speed [OF _ this] k show ?thesis
    by simp
qed

section \<open>Score, pause, particles, reset\<close>

text \<open>
  C19. The score never falls during a run: a tick of a well-formed running
  game returns a state whose score is at least the score before.
\<close>

theorem score_never_falls:
  assumes "update dt s = Some s'" "game_ok s" "running (STATE s)" "\<not> paused (STATE s)"
  shows "score (STATE s) \<le> score (STATE s')"
  using assms by (rule update_score_mono)

theorem score_never_falls_witness:
  "update 16 demo_clash = Some demo_after \<and> game_ok demo_clash \<and> running (STATE demo_clash) \<and>
   \<not> paused (STATE demo_clash) \<and> score (STATE demo_clash) = 0 \<and> score (STATE demo_after) = 10"
  using score_never_falls [OF update_clash game_ok_demo_clash] update_clash game_ok_demo_clash
  by (simp add: STATE_init_def demo_after_def)

text \<open>
  C20. Pause and resume is a round trip. In a well-formed state whose
  overlays follow the phase and in which the space key is not held,
  pressing and releasing the space key twice returns the very state it
  started from: nothing of the game, the page or
  the sources of draws and time is lost or changed by a pause.
\<close>

theorem pause_resume_roundtrip:
  assumes "game_ok s" "ui_ok s" "''Space'' \<notin> keys s"
  shows "run [KeyDown ''Space'', KeyUp ''Space'', KeyDown ''Space'', KeyUp ''Space''] s = Some s"
  using game_okD(1) [OF assms(1)] assms(2,3) by (rule pause_resume_Space)

theorem pause_resume_roundtrip_witness:
  "game_ok (start demo_menu) \<and> ui_ok (start demo_menu) \<and> ''Space'' \<notin> keys (start demo_menu) \<and>
   run [KeyDown ''Space'', KeyUp ''Space'', KeyDown ''Space'', KeyUp ''Space''] (start demo_menu) =
     Some (start demo_menu)"
proof -
  have k: "''Space'' \<notin> keys (start demo_menu)"
    by (simp add: start_def)
  from pause_resume_roundtrip [OF game_ok_demo_running ui_ok_demo_running k]
    game_ok_demo_running ui_ok_demo_running k
  show ?thesis by simp
qed

text \<open>
  C21. Particles die. A particle the tick keeps has a life of at most 48
  ticks, so 48 applications of \<^verbatim>\<open>Particle.update\<close> make \<^verbatim>\<open>dead()\<close> true
  and the cleaning step removes it: the particle list cannot grow without
  bound from old particles.
\<close>

theorem particle_dies_within_48:
  assumes "particle_fresh p"
  shows "Particle_dead ((Particle_update ^^ 48) p)"
  using assms by (simp add: Particle_dead_after particle_fresh_def)

theorem particle_dies_within_48_witness:
  "particle_fresh (demo_spark 400 450 ''#ff5f7a'' 38 (5 / 2)) \<and>
   Particle_dead ((Particle_update ^^ 48) (demo_spark 400 450 ''#ff5f7a'' 38 (5 / 2)))"
proof -
  have "particle_fresh (demo_spark 400 450 ''#ff5f7a'' 38 (5 / 2))"
    by (simp add: particle_fresh_def demo_spark_def)
  with particle_dies_within_48 [OF this] show ?thesis
    by simp
qed

text \<open>
  C22. \<^verbatim>\<open>reset\<close> establishes the initial game from any state: with unit
  draws it returns, the state is the initial \<^verbatim>\<open>STATE\<close>, the ship is new at
  (400, 450), there are exactly three asteroids and no crystal or particle,
  33 draws are consumed, and the result is well formed.
\<close>

theorem reset_establishes:
  assumes "unit_draws (rnd s)"
  shows "\<exists>s'. reset s = Some s' \<and> STATE s' = STATE_init \<and>
    ship (entities s') = Some (new_Ship 400 450) \<and> length (asteroids (entities s')) = 3 \<and>
    crystals (entities s') = [] \<and> particles (entities s') = [] \<and>
    rnd s' = sdrop 33 (rnd s) \<and> game_ok s'"
proof -
  from reset_total [OF assms] obtain s' where s': "reset s = Some s'"
    by blast
  with reset_entities [OF s'] reset_STATE [OF s'] reset_rnd [OF s'] reset_ok [OF s' assms]
  show ?thesis by simp
qed

theorem reset_establishes_witness:
  "unit_draws (rnd demo_over) \<and>
   (\<exists>s'. reset demo_over = Some s' \<and> STATE s' = STATE_init \<and>
      length (asteroids (entities s')) = 3 \<and> particles (entities s') = [] \<and> game_ok s')"
  using reset_establishes [of demo_over] unit_draws_half
  by (auto simp: demo_over_def)

section \<open>What modelling showed\<close>

text \<open>
  C23. The timers start in the past. \<^verbatim>\<open>reset\<close> sets
  \<^verbatim>\<open>lastDifficultyMs\<close> to 0, but the clock the tick compares it with is the
  time since the page was loaded. When the first tick after \<^verbatim>\<open>reset\<close> and
  \<^verbatim>\<open>start\<close> reads a clock of 30 seconds or more, it raises the level: the
  game begins at level 2 with at least six asteroids.
\<close>

theorem ramp_on_first_tick:
  assumes "reset s = Some s0" "30000 \<le> shd (clock s0)" "update dt (start s0) = Some s'"
  shows "level (STATE s') = 2 \<and> 6 \<le> length (asteroids (entities s'))"
proof -
  from assms(3) obtain s1 s3 sh s4 s5 where t: "tick_phases (start s0) s1 s3 sh s4 s5 s'"
    by (rule update_cases)
  have "30000 \<le> shd (clock (start s0)) - lastDifficultyMs (STATE (start s0))"
    using assms(2) by (simp add: reset_STATE [OF assms(1)] STATE_init_def)
  from tick_phases_ramp(1,2) [OF t this] show ?thesis
    by (simp add: reset_STATE [OF assms(1)] reset_entities [OF assms(1)] STATE_init_def)
qed

theorem ramp_on_first_tick_witness:
  "\<exists>s0 s'. reset (demo_menu\<lparr> clock := sconst 30000 \<rparr>) = Some s0 \<and> 30000 \<le> shd (clock s0) \<and>
     update 16 (start s0) = Some s' \<and> level (STATE s') = 2 \<and> 6 \<le> length (asteroids (entities s'))"
proof -
  let ?s = "demo_menu\<lparr> clock := sconst 30000 \<rparr>"
  have u: "unit_draws (rnd ?s)"
    by (simp add: unit_draws_half)
  from reset_total [OF u] obtain s0 where s0: "reset ?s = Some s0"
    by blast
  have c: "30000 \<le> shd (clock s0)"
    by (simp add: reset_frame [OF s0])
  have "game_ok (start s0)"
    by (rule start_ok [OF reset_ok [OF s0 u]]) (simp add: reset_STATE [OF s0] STATE_init_def)
  then obtain s' where s': "update 16 (start s0) = Some s'"
    using update_runs [of "start s0" 16] by auto
  from ramp_on_first_tick [OF s0 c s'] s0 c s' show ?thesis
    by blast
qed

text \<open>
  C24. The final score can miss points. \<^verbatim>\<open>gameOver\<close> writes the final
  score when the ship is hit, but the crystal loop of the same tick runs
  after it. In a tick that ends the game the overlay shows the score the
  tick began with, whatever the tick collects afterwards; in the example the
  overlay says 0 and the score is 10.
\<close>

theorem final_score_is_score_before_tick:
  assumes "update dt s = Some s'" "game_ok s" "running (STATE s)" "\<not> paused (STATE s)"
    and "over (STATE s')"
  shows "finalScore (ui s') = score (STATE s) \<and> score (STATE s) \<le> score (STATE s')"
proof -
  from assms(1) obtain s1 s3 sh s4 s5 where t: "tick_phases s s1 s3 sh s4 s5 s'"
    by (rule update_cases)
  from assms(2,3) have "\<not> over (STATE s)"
    using state_ok_running [OF game_okD(1)] by simp
  with tick_phases_flags [OF t] assms(5) update_score_mono [OF assms(1-4)] show ?thesis
    by auto
qed

theorem final_score_is_score_before_tick_witness:
  "update 16 demo_last = Some demo_over \<and> game_ok demo_last \<and> running (STATE demo_last) \<and>
   \<not> paused (STATE demo_last) \<and> over (STATE demo_over) \<and>
   finalScore (ui demo_over) = 0 \<and> score (STATE demo_over) = 10"
proof -
  have r: "running (STATE demo_last)" "\<not> paused (STATE demo_last)" "over (STATE demo_over)"
    "score (STATE demo_last) = 0" "score (STATE demo_over) = 10"
    by (simp_all add: demo_last_def demo_over_def STATE_init_def)
  from final_score_is_score_before_tick [OF update_last game_ok_demo_last r(1-3)] r
    update_last game_ok_demo_last show ?thesis
    by simp
qed

text \<open>
  C25. Asteroids are never removed. A tick never shortens the asteroid list:
  nothing reads \<^verbatim>\<open>hp\<close>, the ramp adds asteroids whatever the target of the
  top-up is, and the top-up only adds. The population is not capped; a tick
  adds at most five, four by the ramp and one by the top-up.
\<close>

theorem asteroids_never_removed:
  assumes "update dt s = Some s'"
  shows "length (asteroids (entities s)) \<le> length (asteroids (entities s')) \<and>
    length (asteroids (entities s')) \<le> length (asteroids (entities s)) + 5"
  using update_counts(3) [OF assms] update_asteroids_upper [OF assms] ..

theorem asteroids_never_removed_witness:
  "update 16 demo_clash = Some demo_after \<and> length (asteroids (entities demo_clash)) = 1 \<and>
   length (asteroids (entities demo_after)) = 2"
  using asteroids_never_removed [OF update_clash] update_clash
  by (simp add: demo_after_def)

text \<open>
  C26. A hit and a pickup in one tick, the scenario of the design. In a
  running game with lives to spare, a ship that can be hit (at most one
  frame of invulnerability at the start of the tick) and that an asteroid
  touches after the updates of the tick loses one life and respawns at the
  start position with 120 frames of invulnerability, whatever keys are held;
  and the crystals it touched where it was hit are collected in the same
  tick, not those at the start position, because both collision loops use
  the bounds taken before the first. The timers are assumed not to be due,
  so that the tick adds no asteroid before the test and no crystal.
\<close>

theorem hit_and_pickup_in_one_tick:
  assumes "game_ok s" "running (STATE s)" "\<not> paused (STATE s)" "1 < lives (STATE s)"
    and "shd (clock s) - lastDifficultyMs (STATE s) < 30000"
    and "clock s !! 1 - lastCrystalMs (STATE s) < 2000"
    and "ship (entities s) = Some sh0" "ship_inv sh0 \<le> 1"
    and "a \<in> set (asteroids (entities s))"
    and "hit (Ship_bounds (Ship_update (keys s) sh0))
           (Asteroid_bounds (Asteroid_update (tick (STATE s) + 1) a))"
  shows "\<exists>s'. update dt s = Some s' \<and> lives (STATE s') = lives (STATE s) - 1 \<and>
    ship (entities s') =
      Some ((Ship_update (keys s) sh0)\<lparr> ship_inv := 120, ship_x := 400, ship_y := 450 \<rparr>) \<and>
    crystals (entities s') =
      filter (\<lambda>c. \<not> touching (Ship_bounds (Ship_update (keys s) sh0)) c)
        (map Crystal_update (crystals (entities s))) \<and>
    score (STATE s') = score (STATE s) +
      sum_list (map crystal_points
        (filter (touching (Ship_bounds (Ship_update (keys s) sh0)))
          (map Crystal_update (crystals (entities s)))))"
  using assms by (rule update_hit_and_crystals)

theorem hit_and_pickup_in_one_tick_witness:
  "game_ok demo_dodge \<and> keys demo_dodge = {''KeyD''} \<and>
   ship (entities demo_dodge) = Some (new_Ship 400 450) \<and>
   Ship_update {''KeyD''} (new_Ship 400 450) = (new_Ship 400 450)\<lparr> ship_x := 405 \<rparr> \<and>
   (\<exists>s'. update 16 demo_dodge = Some s' \<and> lives (STATE s') = 2 \<and>
      ship (entities s') = Some ((new_Ship 400 450)\<lparr> ship_inv := 120 \<rparr>) \<and>
      crystals (entities s') = [Crystal_update demo_far] \<and> score (STATE s') = 10)"
proof -
  have s: "running (STATE demo_dodge)" "\<not> paused (STATE demo_dodge)" "1 < lives (STATE demo_dodge)"
    "shd (clock demo_dodge) - lastDifficultyMs (STATE demo_dodge) < 30000"
    "clock demo_dodge !! 1 - lastCrystalMs (STATE demo_dodge) < 2000"
    "ship (entities demo_dodge) = Some (new_Ship 400 450)" "ship_inv (new_Ship 400 450) \<le> 1"
    "demo_rock\<lparr> ast_y := 430 \<rparr> \<in> set (asteroids (entities demo_dodge))"
    "hit (Ship_bounds (Ship_update (keys demo_dodge) (new_Ship 400 450)))
       (Asteroid_bounds (Asteroid_update (tick (STATE demo_dodge) + 1) (demo_rock\<lparr> ast_y := 430 \<rparr>)))"
    by (simp_all add: STATE_init_def Ship_update_dodge Ship_bounds_dodge hit_dodge_rock)
  have "(new_Ship 400 450)\<lparr> ship_inv := 120, ship_x := 400, ship_y := 450 \<rparr> =
      (new_Ship 400 450)\<lparr> ship_inv := 120 \<rparr>"
    by (simp add: new_Ship_def)
  with hit_and_pickup_in_one_tick [OF game_ok_demo_dodge s, of 16] game_ok_demo_dodge
  show ?thesis
    by (simp add: Ship_update_dodge Ship_bounds_dodge touching_dodge STATE_init_def)
qed

text \<open>
  C27. The play button has no guard of its own. Its handler resets and
  starts the game in whatever phase it is pressed: the score and the lives of
  a running game are lost, and the pause and game-over overlays stay as they
  were. Only the page, by hiding the button, keeps the state machine of the
  design.
\<close>

theorem play_button_unguarded:
  assumes "unit_draws (rnd s)"
  shows "\<exists>s'. step ClickPlay s = Some s' \<and> phase_of s' = Running \<and> score (STATE s') = 0 \<and>
    lives (STATE s') = 3 \<and> gameover_visible (ui s') = gameover_visible (ui s) \<and>
    pause_visible (ui s') = pause_visible (ui s)"
proof -
  from reset_total [OF assms] obtain u where u: "reset s = Some u"
    by blast
  then show ?thesis
    by (simp add: btnPlay_eq reset_STATE [OF u] reset_frame [OF u] STATE_init_def)
qed

theorem play_button_unguarded_witness:
  "phase_of demo_over = GameOver \<and>
   (\<exists>s'. step ClickPlay demo_over = Some s' \<and> phase_of s' = Running \<and> gameover_visible (ui s'))"
proof -
  have "phase_of demo_over = GameOver" "gameover_visible (ui demo_over)" "unit_draws (rnd demo_over)"
    by (simp_all add: phase_of_def demo_over_def unit_draws_half)
  with play_button_unguarded [of demo_over] show ?thesis
    by auto
qed

section \<open>Frames and invulnerability\<close>

text \<open>
  C28. A frame is well formed. In a well-formed state \<^verbatim>\<open>render\<close> returns:
  the ship exists and every crystal has a type, so no \<^verbatim>\<open>draw\<close> method
  fails. It leaves the game state, the entities and the page as they are
  and keeps the state well formed. What it draws is the backdrop followed
  by calls in which every \<^verbatim>\<open>restore\<close> has its \<^verbatim>\<open>save\<close>, every
  \<^verbatim>\<open>save\<close> its \<^verbatim>\<open>restore\<close> and nothing outside such a pair changes the
  drawing state; every opacity it sets lies in \<open>(0, 1]\<close>.
\<close>

theorem frame_is_well_formed:
  assumes "game_ok s"
  shows "\<exists>s'. render s = Some s' \<and> game_ok s' \<and> STATE s' = STATE s \<and> entities s' = entities s \<and>
    ui s' = ui s \<and> frame_ok s (ctx_calls (canvas s'))"
proof -
  note e = game_okD(2) [OF assms]
  from render_total [OF e] obtain s' where r: "render s = Some s'"
    by blast
  with render_ok [OF r assms] render_frame(1-3) [OF r] render_frame_ok [OF r e] show ?thesis
    by simp
qed

theorem frame_is_well_formed_witness:
  "game_ok demo_menu \<and>
   (\<exists>s'. render demo_menu = Some s' \<and> entities s' = entities demo_menu \<and>
      frame_ok demo_menu (ctx_calls (canvas s')))"
  using frame_is_well_formed [OF game_ok_demo_menu] game_ok_demo_menu by auto

text \<open>
  C29. The invulnerability window. While the game runs, a ship with \<open>n\<close>
  frames of invulnerability comes through any \<open>k < n\<close> frames with every
  life it had, whatever asteroids it touches, and with \<open>n - k\<close> frames of
  invulnerability left: each tick updates the ship, which counts one frame
  down, before it tests the collision, and \<^verbatim>\<open>Ship.hit\<close> returns at once
  while the counter is positive. After a respawn, which sets 120, the hits of
  the next 119 frames are ignored.
\<close>

theorem invulnerability_window:
  assumes "game_ok s" "running (STATE s)" "\<not> paused (STATE s)"
    "ship (entities s) = Some sh0" "int (length nows) < ship_inv sh0"
  shows "\<exists>s' sh. run (map Frame nows) s = Some s' \<and> running (STATE s') \<and>
    lives (STATE s') = lives (STATE s) \<and> ship (entities s') = Some sh \<and>
    ship_inv sh = ship_inv sh0 - int (length nows)"
  using frames_shielded [OF assms] by blast

theorem invulnerability_window_witness:
  "game_ok demo_after \<and> running (STATE demo_after) \<and> \<not> paused (STATE demo_after) \<and>
   (\<exists>s' sh. run (map Frame [16, 32]) demo_after = Some s' \<and> lives (STATE s') = 2 \<and>
      ship (entities s') = Some sh \<and> ship_inv sh = 118)"
proof -
  have d: "ship (entities demo_after) = Some ((new_Ship 400 450)\<lparr> ship_inv := 120 \<rparr>)"
    "running (STATE demo_after)" "\<not> paused (STATE demo_after)" "lives (STATE demo_after) = 2"
    by (simp_all add: demo_after_def STATE_init_def)
  from invulnerability_window [OF game_ok_demo_after d(2,3,1), of "[16, 32]"] d(2-4)
    game_ok_demo_after show ?thesis
    by auto
qed

text \<open>
  C30. Drawing restores the context. Run on any drawing state and any stack
  of saved states, the calls of a frame end in the state they began in, but
  for the fill style, which the backdrop sets to the vignette outside any
  \<^verbatim>\<open>save\<close>; the stack is as it was. In particular the scale that
  \<^verbatim>\<open>resizeCanvas\<close> sets on the context holds in every later frame.
\<close>

theorem drawing_restores_context:
  assumes "render s = Some s'"
  shows "run_calls (ctx_calls (canvas s')) (st, stk) = (st\<lparr> st_fill := vignette \<rparr>, stk)"
  using assms by (rule render_restores)

theorem drawing_restores_context_witness:
  "render demo_menu = Some (painted demo_menu) \<and>
   run_calls (ctx_calls (canvas (painted demo_menu))) (demo_ctx, []) =
     (demo_ctx\<lparr> st_fill := vignette \<rparr>, []) \<and>
   st_transform (demo_ctx\<lparr> st_fill := vignette \<rparr>) = (1, 0, 0, 1, 0, 0)"
  using drawing_restores_context [OF render_demo_menu, of demo_ctx "[]"] render_demo_menu
  by (simp add: demo_ctx_def)

section \<open>Runs, spawns and the rest of the handlers\<close>

text \<open>
  C31. A new asteroid heads inward. The velocity \<^verbatim>\<open>spawnAsteroid(true)\<close>
  gives an asteroid makes an angle of at most 0.7 with the direction from its
  position to the centre of the playfield and has a positive speed: its
  component towards the centre is positive, at every level from 0 on.
\<close>

theorem spawned_asteroid_heads_inward:
  assumes "unit_draws g" "make_asteroid True lvl g = (Some a, g')" "0 \<le> lvl"
  shows "0 < (width CONFIG / 2 - ast_x a) * ast_vx a + (height CONFIG / 2 - ast_y a) * ast_vy a"
  using assms by (rule make_asteroid_inward)

theorem spawned_asteroid_heads_inward_witness:
  "make_asteroid True 1 (sconst (1 / 2)) = (Some demo_rock, sconst (1 / 2)) \<and>
   (0::real) < (400 - 400) * 0 + (300 - (- 65)) * (8 / 5)"
  using spawned_asteroid_heads_inward [OF unit_draws_half make_asteroid_example]
    make_asteroid_example
  by (simp add: demo_rock_def)

text \<open>
  C32. Runs refine paths. From a well-formed state whose overlays follow the
  phase, every sequence of events the page allows is handled without
  failure to the end of a path of the state machine that starts in the
  phase of the first state and ends in the phase of the last, and the last
  state is again well formed with overlays that follow the phase.
\<close>

theorem runs_are_machine_paths:
  assumes "game_ok s" "ui_ok s" "allowed es s"
  shows "\<exists>s'. run es s = Some s' \<and> phase_path (phase_of s) es (phase_of s') \<and>
    game_ok s' \<and> ui_ok s'"
proof -
  from allowed_runs [OF assms(1,3)] obtain s' where "run es s = Some s'"
    by blast
  with run_refines [OF assms this] show ?thesis
    by simp
qed

theorem runs_are_machine_paths_witness:
  "game_ok demo_last \<and> ui_ok demo_last \<and> allowed [KeyUp ''KeyW'', Frame 0] demo_last \<and>
   (\<exists>s'. run [KeyUp ''KeyW'', Frame 0] demo_last = Some s' \<and>
      phase_path Running [KeyUp ''KeyW'', Frame 0] GameOver \<and> game_ok s' \<and> ui_ok s')"
proof -
  have k: "keyup ''KeyW'' demo_last = demo_last"
    by (simp add: keyup_def demo_last_def demo_clash_def updateHUD_def)
  have a: "allowed [KeyUp ''KeyW'', Frame 0] demo_last"
    by (simp add: enabled_def k loop_demo_last)
  have "phase_of demo_last = Running" "phase_of (painted demo_over) = GameOver"
    by (simp_all add: phase_of_def demo_last_def demo_over_def STATE_init_def)
  with runs_are_machine_paths [OF game_ok_demo_last ui_ok_demo_last a] a
    game_ok_demo_last ui_ok_demo_last show ?thesis
    by (simp add: k loop_demo_last)
qed

text \<open>
  C33. A game ends only on a frame. If a sequence of allowed events leads
  from a state in which the game is not over to one in which it is, one of
  the events is a frame: no key and no button ends a game.
\<close>

theorem game_ends_only_on_frame:
  assumes "game_ok s" "ui_ok s" "allowed es s" "run es s = Some s'"
    and "phase_of s \<noteq> GameOver" "phase_of s' = GameOver"
  shows "\<exists>now. Frame now \<in> set es"
  using run_refines [OF assms(1-4)] phase_path_GameOver_frame [of "phase_of s" es "phase_of s'"]
    assms(5,6)
  by auto

theorem game_ends_only_on_frame_witness:
  "run [KeyUp ''KeyW'', Frame 0] demo_last = Some (painted demo_over) \<and>
   phase_of demo_last = Running \<and> phase_of (painted demo_over) = GameOver \<and>
   Frame 0 \<in> set [KeyUp ''KeyW'', Frame 0]"
proof -
  have k: "keyup ''KeyW'' demo_last = demo_last"
    by (simp add: keyup_def demo_last_def demo_clash_def updateHUD_def)
  have r: "run [KeyUp ''KeyW'', Frame 0] demo_last = Some (painted demo_over)"
    by (simp add: k loop_demo_last)
  have a: "allowed [KeyUp ''KeyW'', Frame 0] demo_last"
    by (simp add: enabled_def k loop_demo_last)
  have p: "phase_of demo_last = Running" "phase_of (painted demo_over) = GameOver"
    by (simp_all add: phase_of_def demo_last_def demo_over_def STATE_init_def)
  from game_ends_only_on_frame [OF game_ok_demo_last ui_ok_demo_last a r] r p show ?thesis
    by simp
qed

text \<open>
  C34. \<^verbatim>\<open>spawnCrystal\<close> places a crystal inside the margins. With unit draws
  it appends exactly one crystal, of a type of the table and of age 0, at a
  position in \<open>[40, 760] \<times> [40, 520]\<close>, consumes five draws and changes no
  other entity.
\<close>

theorem spawn_crystal_in_margins:
  assumes "unit_draws (rnd s)"
  shows "\<exists>c. crystals (entities (spawnCrystal s)) = crystals (entities s) @ [c] \<and>
    crystal_ok c \<and> cry_t c = 0 \<and> 40 \<le> cry_x c \<and> cry_x c \<le> 760 \<and> 40 \<le> cry_y c \<and> cry_y c \<le> 520 \<and>
    rnd (spawnCrystal s) = sdrop 5 (rnd s) \<and>
    asteroids (entities (spawnCrystal s)) = asteroids (entities s) \<and>
    ship (entities (spawnCrystal s)) = ship (entities s)"
  using make_crystal_spawned [OF assms] by simp

theorem spawn_crystal_in_margins_witness:
  "unit_draws (rnd demo_menu) \<and>
   (\<exists>c. crystals (entities (spawnCrystal demo_menu)) = [c] \<and> crystal_ok c \<and>
      40 \<le> cry_x c \<and> cry_x c \<le> 760 \<and> 40 \<le> cry_y c \<and> cry_y c \<le> 520)"
  using spawn_crystal_in_margins [of demo_menu] unit_draws_half
  by (auto simp: demo_menu_def)

text \<open>
  C35. The bursts. With unit draws \<^verbatim>\<open>spawnExplosion\<close> appends exactly 30
  particles and \<^verbatim>\<open>spawnSparkle\<close> exactly 18; each particle is at the
  position and of the colour asked for, of age 0, with a life in \<open>[28, 48]\<close>
  (\<open>[18, 30]\<close> for a sparkle) and a speed in \<open>[1, 4]\<close> (\<open>[0.8, 2.5]\<close>); 120
  and 72 draws are consumed.
\<close>

theorem bursts_are_as_configured:
  assumes "unit_draws (rnd s)"
  shows "\<exists>ps qs.
    particles (entities (spawnExplosion px py col s)) = particles (entities s) @ ps \<and>
    length ps = 30 \<and> list_all (spark px py col (28, 48) (1, 4)) ps \<and>
    rnd (spawnExplosion px py col s) = sdrop 120 (rnd s) \<and>
    particles (entities (spawnSparkle px py col s)) = particles (entities s) @ qs \<and>
    length qs = 18 \<and> list_all (spark px py col (18, 30) (0.8, 2.5)) qs \<and>
    rnd (spawnSparkle px py col s) = sdrop 72 (rnd s)"
  using burst_sparks [OF assms, of "(28, 48)" "(1, 4)" px py col 30]
    burst_sparks [OF assms, of "(18, 30)" "(0.8, 2.5)" px py col 18]
  by (simp add: spawnExplosion_eq spawnSparkle_eq)

theorem bursts_are_as_configured_witness:
  "particles (entities (spawnExplosion 400 450 ''#ff5f7a'' demo_menu)) =
     replicate 30 (demo_spark 400 450 ''#ff5f7a'' 38 (5 / 2)) \<and>
   spark 400 450 ''#ff5f7a'' (28, 48) (1, 4) (demo_spark 400 450 ''#ff5f7a'' 38 (5 / 2))"
proof -
  have e: "particles (entities (spawnExplosion 400 450 ''#ff5f7a'' demo_menu)) =
      replicate 30 (demo_spark 400 450 ''#ff5f7a'' 38 (5 / 2))"
    by (simp add: spawnExplosion_eq burst_sconst burst_particle_example demo_menu_def)
  from bursts_are_as_configured [of demo_menu 400 450 "''#ff5f7a''"] unit_draws_half
  have "list_all (spark 400 450 ''#ff5f7a'' (28, 48) (1, 4))
      (particles (entities (spawnExplosion 400 450 ''#ff5f7a'' demo_menu)))"
    by (auto simp: demo_menu_def)
  with e show ?thesis
    by (simp add: list_all_iff)
qed

text \<open>
  C36. Frames of a paused or stopped game. When the game is paused or not
  running, any number of frames in a row is handled without failure; the
  game state, the entities, the page, the keys and the clock stay as they
  are and the time of the last frame is recorded. The frames are not
  without effect, though: \<^verbatim>\<open>render\<close> runs in every frame and
  \<^verbatim>\<open>Asteroid.draw\<close> calls \<^verbatim>\<open>Math.random\<close>, so each frame takes ten
  draws for every asteroid from the source the spawners draw from.
\<close>

theorem paused_frames_keep_the_game:
  assumes "paused (STATE s) \<or> \<not> running (STATE s)" "entities_ok (entities s)"
  shows "\<exists>s'. run (map Frame nows) s = Some s' \<and>
    STATE s' = STATE s \<and> entities s' = entities s \<and> ui s' = ui s \<and> keys s' = keys s \<and>
    mouse s' = mouse s \<and> clock s' = clock s \<and> lastTime s' = last (lastTime s # nows) \<and>
    rnd s' = sdrop (10 * length (asteroids (entities s)) * length nows) (rnd s)"
  using assms by (rule frames_paused)

theorem paused_frames_keep_the_game_witness:
  "\<not> running (STATE demo_menu) \<and> entities_ok (entities demo_menu) \<and>
   (\<exists>s'. run (map Frame [16, 33, 50]) demo_menu = Some s' \<and> entities s' = entities demo_menu \<and>
      lastTime s' = 50 \<and> rnd s' = sdrop 90 (rnd demo_menu))"
proof -
  have n: "length (asteroids (entities demo_menu)) = 3" "lastTime demo_menu = 0"
    by (simp_all add: demo_menu_def)
  note ok = game_okD(2) [OF played_ok [OF played_demo_menu]]
  have "\<not> running (STATE demo_menu)"
    by (simp add: STATE_init_def)
  with paused_frames_keep_the_game [of demo_menu "[16, 33, 50]"] ok n
  obtain s' where "run (map Frame [16, 33, 50]) demo_menu = Some s'"
    "entities s' = entities demo_menu" "lastTime s' = 50" "rnd s' = sdrop 90 (rnd demo_menu)"
    by auto
  with ok show ?thesis
    by (auto simp: STATE_init_def)
qed

text \<open>
  C37. The crystal timer. When 2000 ms have passed since the last crystal,
  the timer phase appends one crystal, sets the timer to the second clock
  reading and consumes five draws; otherwise it only reads the clock once.
\<close>

theorem crystal_timer_spawns:
  assumes "unit_draws (rnd s)"
  shows "if 2000 \<le> shd (clock s) - lastCrystalMs (STATE s)
    then (\<exists>c. crystals (entities (crystal_timer s)) = crystals (entities s) @ [c] \<and> crystal_ok c) \<and>
      lastCrystalMs (STATE (crystal_timer s)) = clock s !! 1 \<and>
      rnd (crystal_timer s) = sdrop 5 (rnd s) \<and> clock (crystal_timer s) = sdrop 2 (clock s)
    else crystal_timer s = s\<lparr> clock := stl (clock s) \<rparr>"
  using make_crystal_ok [OF assms]
  by (simp add: crystal_timer_idle crystal_timer_due sdrop_2)

theorem crystal_timer_spawns_witness:
  "unit_draws (rnd demo_menu) \<and>
   length (crystals (entities (crystal_timer (demo_menu\<lparr> clock := sconst 2000 \<rparr>)))) = 1 \<and>
   lastCrystalMs (STATE (crystal_timer (demo_menu\<lparr> clock := sconst 2000 \<rparr>))) = 2000 \<and>
   crystal_timer demo_menu = demo_menu"
proof -
  have "demo_menu\<lparr> clock := stl (clock demo_menu) \<rparr> = demo_menu"
    by (simp add: demo_menu_def)
  with crystal_timer_spawns [of "demo_menu\<lparr> clock := sconst 2000 \<rparr>"]
    crystal_timer_spawns [of demo_menu] unit_draws_half show ?thesis
    by (auto simp: STATE_init_def demo_menu_def)
qed

text \<open>
  C38. The outline of an asteroid. The loop of \<^verbatim>\<open>Asteroid.draw\<close> ends
  after ten vertices, one for each index from 0 to 9, and takes one draw for
  each; with unit draws every vertex has a radius between 0.52 and 0.94
  times the size, and on a context scaled by the pixel ratio it is drawn at
  that radius, scaled, from the centre of the asteroid, whatever the
  rotation: the drawn outline reaches beyond the circle of 0.8 times the
  size that the collision test uses, and falls short of it.
\<close>

theorem asteroid_outline_drawn:
  assumes "unit_draws g" "0 < ast_size a" "st_transform st = (dpr, 0, 0, dpr, 0, 0)"
  shows "asteroid_outline a 0 g = (map (\<lambda>k. asteroid_vertex a k (g !! k)) [0 ..< 10], sdrop 10 g) \<and>
    (\<forall>k < 10. ast_size a * 0.52 \<le> asteroid_radius a k (g !! k) \<and>
       asteroid_radius a k (g !! k) < ast_size a * 0.94 \<and>
       (fst (path_points (fst (Asteroid_draw a g)) (st, stk) ! k) - dpr * ast_x a)\<^sup>2 +
       (snd (path_points (fst (Asteroid_draw a g)) (st, stk) ! k) - dpr * ast_y a)\<^sup>2 =
       (dpr * asteroid_radius a k (g !! k))\<^sup>2)"
  using asteroid_radius_range [OF conjunct1 [OF unit_draws_snth [OF assms(1)]]
      conjunct2 [OF unit_draws_snth [OF assms(1)]] assms(2)]
    asteroid_vertex_distance [OF assms(3)]
  by (simp add: asteroid_outline_0 del: upt_Suc)

theorem asteroid_outline_drawn_witness:
  "unit_draws (sconst (1 / 2)) \<and> 0 < ast_size demo_rock \<and>
   length (fst (asteroid_outline demo_rock 0 (sconst (1 / 2)))) = 10 \<and>
   snd (asteroid_outline demo_rock 0 (sconst (1 / 2))) = sconst (1 / 2) \<and>
   asteroid_radius demo_rock 3 (1 / 2) < 45 * 0.94 \<and>
   (fst (path_points (fst (Asteroid_draw demo_rock (sconst (1 / 2)))) (demo_ctx, []) ! 3) - 400)\<^sup>2 +
   (snd (path_points (fst (Asteroid_draw demo_rock (sconst (1 / 2)))) (demo_ctx, []) ! 3) + 65)\<^sup>2 =
   (asteroid_radius demo_rock 3 (1 / 2))\<^sup>2"
proof -
  have t: "st_transform demo_ctx = (1, 0, 0, 1, 0, 0)"
    by (simp add: demo_ctx_def)
  from asteroid_outline_drawn [OF unit_draws_half _ t, of demo_rock "[]"] unit_draws_half
  show ?thesis
    by (simp add: outline_demo_rock)
qed

section \<open>The canvas and the pointer\<close>

text \<open>
  C39. The frame clears the playfield only on a display with a pixel ratio
  of at least 1. \<^verbatim>\<open>resizeCanvas\<close> sets the bitmap to the playfield scaled
  by the ratio, which it caps at 2, and scales the context by it.
  \<^verbatim>\<open>render\<close> clears the rectangle \<open>(0, 0, canvas.width, canvas.height)\<close>
  in the scaled coordinates; it covers the playfield exactly when the ratio
  is at least 1. On a zoomed-out page (a ratio below 1) a frame leaves most
  of the frame before it on the canvas.
\<close>

theorem clear_covers_playfield:
  assumes "0 \<le> pixel_ratio reading"
  shows "canvas_for (pixel_ratio reading) (canvas (resizeCanvas reading s)) \<and>
    pixel_ratio reading \<le> 2 \<and>
    (clears_playfield (resizeCanvas reading s) \<longleftrightarrow> 1 \<le> pixel_ratio reading)"
  using resizeCanvas_for [OF assms] resizeCanvas_clears [OF assms] pixel_ratio_le_2
  by simp

theorem clear_covers_playfield_witness:
  "0 \<le> pixel_ratio (Some (1 / 2)) \<and>
   cv_width (canvas (resizeCanvas (Some (1 / 2)) demo_menu)) = 400 \<and>
   cv_height (canvas (resizeCanvas (Some (1 / 2)) demo_menu)) = 300 \<and>
   \<not> clears_playfield (resizeCanvas (Some (1 / 2)) demo_menu)"
  using clear_covers_playfield [of "Some (1 / 2)" demo_menu]
  by (simp add: resize_demo_half)

text \<open>
  C40. The pointer is kept in bitmap pixels. On a canvas shown at its CSS
  size the mouse listener multiplies the pointer's offset by the ratio of
  the bitmap to the playfield, while the ship's position, which
  \<^verbatim>\<open>Ship.draw\<close> compares it with, is in playfield coordinates. The tip of
  the ship is drawn on the ray from the ship to the stored pointer, at the
  distance of the ship's size: on a display with pixel ratio 2 a pointer
  straight above the ship turns the tip to the lower right.
\<close>

theorem pointer_in_bitmap_pixels:
  assumes "mousemove mx my rect s = Some s'" "canvas_for dpr (canvas s)"
    "rect_width rect = css_width (canvas s)" "rect_height rect = css_height (canvas s)"
    "st_transform st = cv_transform (canvas s')"
    "ptr_x (mouse s') \<noteq> ship_x sh \<or> ptr_y (mouse s') \<noteq> ship_y sh"
  shows "ptr_x (mouse s') = (mx - rect_left rect) * (real_of_int \<lfloor>800 * dpr\<rfloor> / 800) \<and>
    ptr_y (mouse s') = (my - rect_top rect) * (real_of_int \<lfloor>600 * dpr\<rfloor> / 600) \<and>
    hd (path_points (Ship_draw s' sh) (st, stk)) =
      (dpr * (ship_x sh + ship_size sh * ((ptr_x (mouse s') - ship_x sh) /
          Math_hypot (ptr_x (mouse s') - ship_x sh) (ptr_y (mouse s') - ship_y sh))),
       dpr * (ship_y sh + ship_size sh * ((ptr_y (mouse s') - ship_y sh) /
          Math_hypot (ptr_x (mouse s') - ship_x sh) (ptr_y (mouse s') - ship_y sh))))"
proof -
  from assms(2,5) have "st_transform st = (dpr, 0, 0, dpr, 0, 0)"
    by (simp add: mousemove_frame [OF assms(1)] canvas_for_def)
  note tip = ship_tip [OF this assms(6), of stk] and ptr = mousemove_scaled [OF assms(1-4)]
  show ?thesis
    by (rule conjI [OF ptr(1) conjI [OF ptr(2) tip]])
qed

theorem pointer_in_bitmap_pixels_witness:
  "mousemove 400 350 demo_rect (resizeCanvas (Some 2) demo_menu) =
     Some ((resizeCanvas (Some 2) demo_menu)\<lparr> mouse := \<lparr> ptr_x = 800, ptr_y = 700 \<rparr> \<rparr>) \<and>
   canvas_for 2 (canvas (resizeCanvas (Some 2) demo_menu)) \<and>
   hd (path_points (Ship_draw ((resizeCanvas (Some 2) demo_menu)\<lparr> mouse := \<lparr> ptr_x = 800, ptr_y = 700 \<rparr> \<rparr>)
         (new_Ship 400 450)) (demo_ctx\<lparr> st_transform := (2, 0, 0, 2, 0, 0) \<rparr>, [])) =
     (2 * (400 + 20 * (400 / Math_hypot 400 250)), 2 * (450 + 20 * (250 / Math_hypot 400 250))) \<and>
   heading \<lparr> ptr_x = 800, ptr_y = 700 \<rparr> (new_Ship 400 450) = arctan (5 / 8) + pi / 2 \<and>
   heading \<lparr> ptr_x = 400, ptr_y = 350 \<rparr> (new_Ship 400 450) = 0"
proof -
  let ?s = "resizeCanvas (Some 2) demo_menu"
  have c: "canvas_for 2 (canvas ?s)"
    using resizeCanvas_for [of "Some 2" demo_menu] by simp
  then have t: "st_transform (demo_ctx\<lparr> st_transform := (2, 0, 0, 2, 0, 0) \<rparr>) =
      cv_transform (canvas (?s\<lparr> mouse := \<lparr> ptr_x = 800, ptr_y = 700 \<rparr> \<rparr>))"
    by (simp add: canvas_for_def)
  have r: "rect_width demo_rect = css_width (canvas ?s)" "rect_height demo_rect = css_height (canvas ?s)"
    using c by (simp_all add: canvas_for_def demo_rect_def)
  have n: "ship_x (new_Ship 400 450) = 400" "ship_y (new_Ship 400 450) = 450"
    "ship_size (new_Ship 400 450) = 20"
    by (simp_all add: new_Ship_def)
  from pointer_in_bitmap_pixels [OF mousemove_demo_double c r t, of "new_Ship 400 450" "[]"]
    mousemove_demo_double c n
  show ?thesis
    by (simp add: heading_example)
qed

end
